(* ===== verification/GoPrelude.thy ===== *)
theory GoPrelude
  imports Main "HOL-Library.Multiset" "HOL-Library.Sublist"
begin

text \<open>
  Shared vocabulary of the development: the result of a Go function, the part of the Go
  standard library (packages \<^verbatim>\<open>strings\<close>, \<^verbatim>\<open>strconv\<close>, \<^verbatim>\<open>fmt\<close>, \<^verbatim>\<open>time\<close>) that several
  components call, and the lemmas about them that the component proofs rest on.

  A Go string is a sequence of bytes and is modelled by \<^typ>\<open>string\<close>, whose characters are
  the 256 byte values.  \<^verbatim>\<open>strings.ToLower\<close> and \<^verbatim>\<open>strings.EqualFold\<close> are modelled on ASCII
  letters; bytes from 128 on are left as they are.
\<close>

named_theorems go_res "inversion of results of Go functions"
named_theorems go_defs "definitions unfolded when a function is analysed branch by branch"

section \<open>Results of Go functions\<close>

text \<open>
  A Go function with results \<open>(T, error)\<close> returns a value with a nil error (\<open>Ok\<close>), returns a
  non-nil error (\<open>Err\<close>), or panics (\<open>Panic\<close>: an explicit \<^verbatim>\<open>panic\<close>, a nil dereference, an index
  out of range or a write to a nil map).
\<close>

datatype ('e, 'a) res = Ok 'a | Err 'e | Panic string

fun and_then :: "('e, 'a) res \<Rightarrow> ('a \<Rightarrow> ('e, 'b) res) \<Rightarrow> ('e, 'b) res" where
  "and_then (Ok a) f = f a"
| "and_then (Err e) f = Err e"
| "and_then (Panic p) f = Panic p"

fun map_err :: "('e \<Rightarrow> 'f) \<Rightarrow> ('e, 'a) res \<Rightarrow> ('f, 'a) res" where
  "map_err g (Ok a) = Ok a"
| "map_err g (Err e) = Err (g e)"
| "map_err g (Panic p) = Panic p"

fun panics :: "('e, 'a) res \<Rightarrow> bool" where
  "panics (Panic p) = True"
| "panics (Ok a) = False"
| "panics (Err e) = False"

definition nil_deref :: string where
  "nil_deref = ''invalid memory address or nil pointer dereference''"

definition index_out_of_range :: string where
  "index_out_of_range = ''index out of range''"

definition nil_map_write :: string where
  "nil_map_write = ''assignment to entry in nil map''"

text \<open>Reading through a pointer: a nil pointer panics.\<close>

definition deref :: "'a option \<Rightarrow> ('e, 'a) res" where
  "deref p = (case p of None \<Rightarrow> Panic nil_deref | Some v \<Rightarrow> Ok v)"

lemma and_then_eq_Ok [go_res]:
  "and_then x f = Ok b \<longleftrightarrow> (\<exists>a. x = Ok a \<and> f a = Ok b)"
  by (cases x) auto

lemma and_then_eq_Err [go_res]:
  "and_then x f = Err e \<longleftrightarrow> x = Err e \<or> (\<exists>a. x = Ok a \<and> f a = Err e)"
  by (cases x) auto

lemma and_then_eq_Panic [go_res]:
  "and_then x f = Panic p \<longleftrightarrow> x = Panic p \<or> (\<exists>a. x = Ok a \<and> f a = Panic p)"
  by (cases x) auto

lemma map_err_eq_Ok [simp]: "map_err g x = Ok a \<longleftrightarrow> x = Ok a"
  by (cases x) auto

lemma map_err_eq_Panic [simp]: "map_err g x = Panic p \<longleftrightarrow> x = Panic p"
  by (cases x) auto

lemma map_err_eq_Err [go_res]: "map_err g x = Err e \<longleftrightarrow> (\<exists>e'. x = Err e' \<and> e = g e')"
  by (cases x) auto

lemma panics_map_err [simp]: "panics (map_err g x) = panics x"
  by (cases x) auto

lemma panics_iff: "panics x \<longleftrightarrow> (\<exists>p. x = Panic p)"
  by (cases x) auto

lemma panics_and_then: "panics (and_then x f) \<longleftrightarrow> panics x \<or> (\<exists>a. x = Ok a \<and> panics (f a))"
  by (cases x) auto

lemma not_panics_cases:
  assumes "\<not> panics x"
  obtains (Ok) a where "x = Ok a" | (Err) e where "x = Err e"
  using assms by (cases x) auto

lemma not_panics_and_then:
  assumes "\<not> panics x" and "\<And>a. x = Ok a \<Longrightarrow> \<not> panics (f a)"
  shows "\<not> panics (and_then x f)"
  using assms by (cases x) auto

lemma and_then_assoc: "and_then (and_then x f) g = and_then x (\<lambda>a. and_then (f a) g)"
  by (cases x) simp_all

lemma and_then_if: "and_then (if b then x else y) g = (if b then and_then x g else and_then y g)"
  by simp

lemma deref_Some [simp]: "deref (Some v) = Ok v"
  and deref_None [simp]: "deref None = Panic nil_deref"
  by (simp_all add: deref_def)

lemma deref_eq_Ok [simp]: "deref p = Ok v \<longleftrightarrow> p = Some v"
  by (cases p) auto

section \<open>Package strings\<close>

definition lower_byte :: "char \<Rightarrow> char" where
  "lower_byte c =
     (let n = (of_char c :: nat) in if 65 \<le> n \<and> n \<le> 90 then char_of (n + 32) else c)"

definition upper_byte :: "char \<Rightarrow> char" where
  "upper_byte c =
     (let n = (of_char c :: nat) in if 97 \<le> n \<and> n \<le> 122 then char_of (n - 32) else c)"

definition ToLower :: "string \<Rightarrow> string" where
  "ToLower s = map lower_byte s"

definition EqualFold :: "string \<Rightarrow> string \<Rightarrow> bool" where
  "EqualFold s t = (ToLower s = ToLower t)"

fun split_on :: "char \<Rightarrow> string \<Rightarrow> string list" where
  "split_on c [] = [[]]"
| "split_on c (x # xs) =
     (if x = c then [] # split_on c xs
      else (case split_on c xs of [] \<Rightarrow> [[x]] | y # ys \<Rightarrow> (x # y) # ys))"

fun join_with :: "string \<Rightarrow> string list \<Rightarrow> string" where
  "join_with sep [] = []"
| "join_with sep [x] = x"
| "join_with sep (x # y # ys) = x @ sep @ join_with sep (y # ys)"

fun contains_str :: "string \<Rightarrow> string \<Rightarrow> bool" where
  "contains_str [] t = (t = [])"
| "contains_str (x # xs) t = (prefix t (x # xs) \<or> contains_str xs t)"

definition has_suffix :: "string \<Rightarrow> string \<Rightarrow> bool" where
  "has_suffix s t = prefix (rev t) (rev s)"

lemma lower_byte_idem [simp]: "lower_byte (lower_byte c) = lower_byte c"
  by (simp add: lower_byte_def Let_def)

lemma ToLower_idem [simp]: "ToLower (ToLower s) = ToLower s"
  by (simp add: ToLower_def)

lemma length_ToLower [simp]: "length (ToLower s) = length s"
  by (simp add: ToLower_def)

lemma ToLower_Nil [simp]: "ToLower [] = []"
  and ToLower_Cons: "ToLower (c # s) = lower_byte c # ToLower s"
  by (simp_all add: ToLower_def)

lemma ToLower_eq_Nil [simp]: "ToLower s = [] \<longleftrightarrow> s = []" "[] = ToLower s \<longleftrightarrow> s = []"
  by (auto simp: ToLower_def)

lemma EqualFold_refl [simp]: "EqualFold s s"
  by (simp add: EqualFold_def)

lemma split_on_not_Nil [simp]: "split_on c s \<noteq> []"
  by (induction s) (auto split: list.splits)

lemma join_split [simp]: "join_with [c] (split_on c s) = s"
proof (induction s)
  case Nil
  then show ?case by simp
next
  case (Cons x s)
  obtain y ys where ys: "split_on c s = y # ys"
    using split_on_not_Nil by (meson neq_Nil_conv)
  with Cons show ?case by (cases ys) auto
qed

lemma split_on_free: "c \<notin> set s \<Longrightarrow> split_on c s = [s]"
  by (induction s) auto

lemma split_on_append:
  "c \<notin> set s \<Longrightarrow> split_on c (s @ c # t) = s # split_on c t"
  by (induction s) auto

lemma split_on_parts_free: "w \<in> set (split_on c s) \<Longrightarrow> c \<notin> set w"
  by (induction s arbitrary: w) (auto split: if_splits list.splits)

lemma split_on_one: "split_on c s = [a] \<longleftrightarrow> c \<notin> set s \<and> a = s"
proof
  assume a: "split_on c s = [a]"
  then have "s = a" using join_split [of c s] by simp
  with a show "c \<notin> set s \<and> a = s" using split_on_parts_free [of a c s] by simp
qed (simp add: split_on_free)

lemma split_on_two: "split_on c s = [a, b] \<longleftrightarrow> c \<notin> set a \<and> c \<notin> set b \<and> s = a @ c # b"
proof
  assume ab: "split_on c s = [a, b]"
  then show "c \<notin> set a \<and> c \<notin> set b \<and> s = a @ c # b"
    using join_split [of c s] split_on_parts_free [of a c s] split_on_parts_free [of b c s] by simp
qed (simp add: split_on_append split_on_free)

lemma split_join:
  assumes "ws \<noteq> []" and "\<And>w. w \<in> set ws \<Longrightarrow> c \<notin> set w"
  shows "split_on c (join_with [c] ws) = ws"
  using assms
proof (induction "[c]" ws rule: join_with.induct)
  case 1
  then show ?case by simp
next
  case (2 w)
  then show ?case by (simp add: split_on_free)
next
  case (3 w v vs)
  then show ?case by (simp add: split_on_append)
qed

lemma contains_str_iff: "contains_str s t \<longleftrightarrow> (\<exists>u v. s = u @ t @ v)"
proof (induction s)
  case Nil
  then show ?case by auto
next
  case (Cons x s)
  show ?case
  proof
    assume "contains_str (x # s) t"
    then show "\<exists>u v. x # s = u @ t @ v"
      using Cons by (auto simp: prefix_def) (metis append_Cons append_Nil)+
  next
    assume "\<exists>u v. x # s = u @ t @ v"
    then obtain u v where uv: "x # s = u @ t @ v" by blast
    show "contains_str (x # s) t"
    proof (cases u)
      case Nil
      with uv have "prefix t (x # s)" by (simp add: prefix_def)
      then show ?thesis by simp
    next
      case (Cons a u')
      with uv have "s = u' @ t @ v" by simp
      with Cons.IH show ?thesis by auto
    qed
  qed
qed

section \<open>Association lists as Go maps\<close>

text \<open>
  A Go map that the code ranges over is an association list with distinct keys, in the order
  in which the runtime happens to enumerate it; theorems quantify over the list and so hold
  for every enumeration.
\<close>

fun put_assoc :: "'k \<Rightarrow> 'v \<Rightarrow> ('k \<times> 'v) list \<Rightarrow> ('k \<times> 'v) list" where
  "put_assoc k v [] = [(k, v)]"
| "put_assoc k v ((k', v') # m) = (if k = k' then (k, v) # m else (k', v') # put_assoc k v m)"

lemma map_of_put_assoc [simp]: "map_of (put_assoc k v m) = (map_of m)(k \<mapsto> v)"
  by (induction m) auto

lemma keys_put_assoc [simp]: "fst ` set (put_assoc k v m) = insert k (fst ` set m)"
  by (induction k v m rule: put_assoc.induct) auto

lemma distinct_put_assoc [simp]:
  "distinct (map fst m) \<Longrightarrow> distinct (map fst (put_assoc k v m))"
proof (induction k v m rule: put_assoc.induct)
  case (2 k v k' v' m)
  then show ?case
    using keys_put_assoc [of k v m] by (auto simp flip: set_map simp del: keys_put_assoc)
qed simp

section \<open>Printing numbers and the clock\<close>

text \<open>\<^verbatim>\<open>strconv.Itoa\<close>, also the \<^verbatim>\<open>%d\<close> of \<^verbatim>\<open>fmt\<close>.\<close>

fun show_nat :: "nat \<Rightarrow> string" where
  "show_nat n =
     (if n < 10 then [char_of (48 + n)] else show_nat (n div 10) @ [char_of (48 + n mod 10)])"

declare show_nat.simps [simp del]

definition show_int :: "int \<Rightarrow> string" where
  "show_int i = (if i < 0 then ''-'' @ show_nat (nat (- i)) else show_nat (nat i))"

text \<open>
  Instants are nanoseconds relative to the Unix epoch, as integers; \<open>zero_time\<close> is Go's zero
  \<^verbatim>\<open>time.Time\<close> (1 January of year 1).  A \<^verbatim>\<open>time.Duration\<close> is a signed 64-bit number of
  nanoseconds, and \<^verbatim>\<open>time.Since\<close> saturates at its ends.
\<close>

definition max_duration :: int where
  "max_duration = 2 ^ 63 - 1"

definition min_duration :: int where
  "min_duration = - (2 ^ 63)"

definition zero_time :: int where
  "zero_time = - 62135596800 * 10 ^ 9"

definition Since :: "int \<Rightarrow> int \<Rightarrow> int" where
  "Since now t = max min_duration (min max_duration (now - t))"

lemma Since_le_iff: "d < max_duration \<Longrightarrow> min_duration \<le> d \<Longrightarrow> Since now t \<le> d \<longleftrightarrow> now - t \<le> d"
  by (auto simp: Since_def max_duration_def min_duration_def)

lemma Since_zero_time: "0 \<le> now \<Longrightarrow> Since now zero_time = max_duration"
  by (simp add: Since_def max_duration_def min_duration_def zero_time_def)

end
