(* ===== verification/Authexpr.thy ===== *)
theory Authexpr
  imports GoPrelude
begin

text \<open>
  Package \<^verbatim>\<open>authexpr\<close>: authorization expressions (\<^verbatim>\<open>all(...)\<close>, \<^verbatim>\<open>any(...)\<close>, \<^verbatim>\<open>not(...)\<close> over
  \<^verbatim>\<open>jwtHasScope("...")\<close>), their validation, evaluation and printing, and the standard scope test
  on a claims object.  The grammar is run by the third-party parser participle, a parameter of
  \<open>CompileExpression\<close>; a parsed slice of pointers holds no nil pointer, so its elements are
  modelled by value.
\<close>

section \<open>Errors (authexpr/errors.go)\<close>

text \<open>The type variable \<open>'c\<close> is the type of the foreign error kept as cause.\<close>

datatype 'c Error = Error (Msg: string) (Cause: "'c option")

fun WithCause :: "'c Error \<Rightarrow> 'd \<Rightarrow> 'd Error" where
  "WithCause e c = Error (Msg e) (Some c)"

definition Error_string :: "('c \<Rightarrow> string) \<Rightarrow> 'c Error \<Rightarrow> string" where
  "Error_string show_cause e =
     (case Cause e of
        Some c \<Rightarrow> ''auth expression error: '' @ Msg e @ ''; cause: '' @ show_cause c
      | None \<Rightarrow> ''auth expression error: '' @ Msg e)"

definition ConfigFailed :: "string \<Rightarrow> 'c Error" where
  "ConfigFailed m = Error (''configuration failure: '' @ m) None"

definition ParseFailed :: "string \<Rightarrow> 'c Error" where
  "ParseFailed m = Error (''expression parse error: '' @ m) None"

definition ValidationFailed :: "string \<Rightarrow> 'c Error" where
  "ValidationFailed m = Error (''expression is invalid: '' @ m) None"

definition EvalFailed :: "string \<Rightarrow> 'c Error" where
  "EvalFailed m = Error (''evaluation failure: '' @ m) None"

section \<open>Syntax trees (authexpr/expr.go)\<close>

datatype Literal = Literal "string option"

datatype Atom = Atom (AtomName: string) (AtomArgs: "Literal list")

datatype Expr = Expr (OpExpr_of: "OpExpr option") (AtomExpr_of: "Atom option")
  and OpExpr = OpExpr (OpName: string) (OpArgs: "Expr list")

definition invariant_violated :: string where
  "invariant_violated =
     ''authexpr invariant violated: Expr must be either OpExpr or AtomExpr''"

definition Literal_Validate :: "Literal \<Rightarrow> ('c Error, unit) res" where
  "Literal_Validate l = Ok ()"

text \<open>The loops \<^verbatim>\<open>for _, arg := range e.Args\<close> stop at the first error.\<close>

fun validate_literals :: "Literal list \<Rightarrow> ('c Error, unit) res" where
  "validate_literals [] = Ok ()"
| "validate_literals (l # ls) = and_then (Literal_Validate l) (\<lambda>_. validate_literals ls)"

definition Atom_Validate :: "Atom \<Rightarrow> ('c Error, unit) res" where
  "Atom_Validate a =
     (if AtomName a = ''jwtHasScope'' then
        (if length (AtomArgs a) \<noteq> 1 \<or> AtomArgs a ! 0 = Literal None
         then Err (ValidationFailed
           ''jwtHasScope(...) Atom must be called with exactly one string literal argument'')
         else validate_literals (AtomArgs a))
      else Err (ValidationFailed (''undefined Atom for name: '' @ AtomName a)))"

fun Expr_Validate :: "Expr \<Rightarrow> ('c Error, unit) res"
  and OpExpr_Validate :: "OpExpr \<Rightarrow> ('c Error, unit) res"
  and validate_args :: "Expr list \<Rightarrow> ('c Error, unit) res" where
  "Expr_Validate (Expr (Some o') None) = OpExpr_Validate o'"
| "Expr_Validate (Expr None (Some a)) = Atom_Validate a"
| "Expr_Validate (Expr (Some o') (Some a)) = Panic invariant_violated"
| "Expr_Validate (Expr None None) = Panic invariant_violated"
| "OpExpr_Validate (OpExpr nm args) =
     (if nm = ''not'' \<and> length args \<noteq> 1
      then Err (ValidationFailed ''not(...) OpExpr must be called with exactly one argument'')
      else if nm = ''not'' \<or> nm = ''all'' \<or> nm = ''any'' then validate_args args
      else Err (ValidationFailed (''undefined OpExpr for name: '' @ nm)))"
| "validate_args [] = Ok ()"
| "validate_args (e # es) = and_then (Expr_Validate e) (\<lambda>_. validate_args es)"

section \<open>Evaluation\<close>

text \<open>
  An error of an evaluation comes from the scope test (\<open>ScopeError\<close>) or from an unknown name.
  The context's function may be nil.
\<close>

datatype 'e EvalError = ScopeError 'e | ExprError "'e Error"

record 'e EvaluationContext =
  JWTHasScope :: "(string \<Rightarrow> ('e, bool) res) option"

definition Atom_Evaluate :: "Atom \<Rightarrow> 'e EvaluationContext \<Rightarrow> ('e EvalError, bool) res" where
  "Atom_Evaluate a evalCtx =
     (if AtomName a = ''jwtHasScope'' then
        (case AtomArgs a of
           [] \<Rightarrow> Panic index_out_of_range
         | Literal None # _ \<Rightarrow> Panic nil_deref
         | Literal (Some s) # _ \<Rightarrow>
             (case JWTHasScope evalCtx of
                None \<Rightarrow> Panic nil_deref
              | Some f \<Rightarrow> map_err ScopeError (f s)))
      else Err (ExprError (ValidationFailed (''undefined Atom for name: '' @ AtomName a))))"

text \<open>All the arguments are evaluated, in order, before the operator looks at their values.\<close>

definition apply_op :: "string \<Rightarrow> bool list \<Rightarrow> ('e EvalError, bool) res" where
  "apply_op nm values =
     (if nm = ''not'' then
        (case values of [] \<Rightarrow> Panic index_out_of_range | v # _ \<Rightarrow> Ok (\<not> v))
      else if nm = ''any'' then Ok (list_ex (\<lambda>v. v) values)
      else if nm = ''all'' then Ok (list_all (\<lambda>v. v) values)
      else Err (ExprError (ValidationFailed (''undefined OpExpr for name: '' @ nm))))"

fun Expr_Evaluate :: "Expr \<Rightarrow> 'e EvaluationContext \<Rightarrow> ('e EvalError, bool) res"
  and OpExpr_Evaluate :: "OpExpr \<Rightarrow> 'e EvaluationContext \<Rightarrow> ('e EvalError, bool) res"
  and evaluate_args :: "Expr list \<Rightarrow> 'e EvaluationContext \<Rightarrow> ('e EvalError, bool list) res" where
  "Expr_Evaluate (Expr (Some o') a) evalCtx = OpExpr_Evaluate o' evalCtx"
| "Expr_Evaluate (Expr None (Some a)) evalCtx = Atom_Evaluate a evalCtx"
| "Expr_Evaluate (Expr None None) evalCtx = Panic nil_deref"
| "OpExpr_Evaluate (OpExpr nm args) evalCtx =
     and_then (evaluate_args args evalCtx) (apply_op nm)"
| "evaluate_args [] evalCtx = Ok []"
| "evaluate_args (e # es) evalCtx =
     and_then (Expr_Evaluate e evalCtx) (\<lambda>v.
     and_then (evaluate_args es evalCtx) (\<lambda>vs. Ok (v # vs)))"

section \<open>Compilation\<close>

definition CompileExpression :: "(string \<Rightarrow> 'p + Expr) \<Rightarrow> string \<Rightarrow> ('p Error, Expr) res" where
  "CompileExpression parseString expression =
     (case parseString expression of
        Inl err \<Rightarrow> Err (WithCause (ParseFailed ''failed to parse auth expression'' :: 'p Error) err)
      | Inr root \<Rightarrow> and_then (Expr_Validate root) (\<lambda>_. Ok root))"

section \<open>Printing\<close>

text \<open>\<^verbatim>\<open>strconv.Quote\<close> is the argument \<open>quote\<close>.\<close>

fun Literal_Repr :: "(string \<Rightarrow> string) \<Rightarrow> Literal \<Rightarrow> (unit, string) res" where
  "Literal_Repr quote (Literal None) = Panic nil_deref"
| "Literal_Repr quote (Literal (Some s)) = Ok (quote s)"

fun repr_literals :: "(string \<Rightarrow> string) \<Rightarrow> Literal list \<Rightarrow> (unit, string list) res" where
  "repr_literals quote [] = Ok []"
| "repr_literals quote (l # ls) =
     and_then (Literal_Repr quote l) (\<lambda>r. and_then (repr_literals quote ls) (\<lambda>rs. Ok (r # rs)))"

definition call_repr :: "string \<Rightarrow> string list \<Rightarrow> string" where
  "call_repr nm reprArgs = nm @ ''('' @ join_with '','' reprArgs @ '')''"

definition Atom_Repr :: "(string \<Rightarrow> string) \<Rightarrow> Atom \<Rightarrow> (unit, string) res" where
  "Atom_Repr quote a =
     and_then (repr_literals quote (AtomArgs a)) (\<lambda>rs. Ok (call_repr (AtomName a) rs))"

fun Expr_Repr :: "(string \<Rightarrow> string) \<Rightarrow> Expr \<Rightarrow> (unit, string) res"
  and OpExpr_Repr :: "(string \<Rightarrow> string) \<Rightarrow> OpExpr \<Rightarrow> (unit, string) res"
  and repr_args :: "(string \<Rightarrow> string) \<Rightarrow> Expr list \<Rightarrow> (unit, string list) res" where
  "Expr_Repr quote (Expr (Some o') None) = OpExpr_Repr quote o'"
| "Expr_Repr quote (Expr None (Some a)) = Atom_Repr quote a"
| "Expr_Repr quote (Expr (Some o') (Some a)) = Panic invariant_violated"
| "Expr_Repr quote (Expr None None) = Panic invariant_violated"
| "OpExpr_Repr quote (OpExpr nm args) =
     and_then (repr_args quote args) (\<lambda>rs. Ok (call_repr nm rs))"
| "repr_args quote [] = Ok []"
| "repr_args quote (e # es) =
     and_then (Expr_Repr quote e) (\<lambda>r. and_then (repr_args quote es) (\<lambda>rs. Ok (r # rs)))"

section \<open>The standard scope test (authexpr/eval_context.go)\<close>

text \<open>
  A claims object is the decoded JSON object of a token.  \<open>GNum\<close> keeps the number's text;
  \<open>GOpaque\<close> stands for a Go value that is not JSON (a channel, a function).
\<close>

datatype goval =
  GNull | GBool bool | GNum string | GStr string | GArr "goval list"
| GObj "(string \<times> goval) list" | GOpaque nat

type_synonym claims = "(string \<times> goval) list"

definition MakeStandardJWTHasScope :: "claims \<Rightarrow> string \<Rightarrow> ('e, bool) res" where
  "MakeStandardJWTHasScope claims queryScope =
     (case map_of claims ''scope'' of
        Some (GStr scopeString) \<Rightarrow> Ok (list_ex (\<lambda>s. s = queryScope) (split_on (CHR '' '') scopeString))
      | _ \<Rightarrow> Ok False)"

section \<open>Specification: boolean formulas over scopes\<close>

text \<open>
  What an expression means: a formula over scope names.  \<open>formula_of\<close> abstracts a syntax tree,
  and is undefined on trees that validation rejects.
\<close>

datatype formula = Scope string | Neg formula | Conj "formula list" | Disj "formula list"

fun holds :: "(string \<Rightarrow> bool) \<Rightarrow> formula \<Rightarrow> bool" where
  "holds has (Scope s) = has s"
| "holds has (Neg f) = (\<not> holds has f)"
| "holds has (Conj fs) = list_all (holds has) fs"
| "holds has (Disj fs) = list_ex (holds has) fs"

fun atom_formula :: "Atom \<Rightarrow> formula option" where
  "atom_formula (Atom nm args) =
     (case args of [Literal (Some s)] \<Rightarrow> if nm = ''jwtHasScope'' then Some (Scope s) else None
      | _ \<Rightarrow> None)"

definition op_formula :: "string \<Rightarrow> formula list \<Rightarrow> formula option" where
  "op_formula nm fs =
     (if nm = ''not'' then (case fs of [f] \<Rightarrow> Some (Neg f) | _ \<Rightarrow> None)
      else if nm = ''all'' then Some (Conj fs)
      else if nm = ''any'' then Some (Disj fs) else None)"

fun formula_of :: "Expr \<Rightarrow> formula option"
  and formula_of_op :: "OpExpr \<Rightarrow> formula option"
  and formulas_of :: "Expr list \<Rightarrow> formula list option" where
  "formula_of (Expr (Some o') None) = formula_of_op o'"
| "formula_of (Expr None (Some a)) = atom_formula a"
| "formula_of (Expr (Some o') (Some a)) = None"
| "formula_of (Expr None None) = None"
| "formula_of_op (OpExpr nm args) = Option.bind (formulas_of args) (op_formula nm)"
| "formulas_of [] = Some []"
| "formulas_of (e # es) =
     Option.bind (formula_of e) (\<lambda>f. Option.bind (formulas_of es) (\<lambda>fs. Some (f # fs)))"

text \<open>The scope names of a formula in the order in which the arguments are evaluated.\<close>

fun scopes :: "formula \<Rightarrow> string list" where
  "scopes (Scope s) = [s]"
| "scopes (Neg f) = scopes f"
| "scopes (Conj fs) = concat (map scopes fs)"
| "scopes (Disj fs) = concat (map scopes fs)"

fun first_error :: "(string \<Rightarrow> ('e, bool) res) \<Rightarrow> string list \<Rightarrow> 'e option" where
  "first_error test [] = None"
| "first_error test (s # ss) = (case test s of Err e \<Rightarrow> Some e | _ \<Rightarrow> first_error test ss)"

definition scope_tokens :: "claims \<Rightarrow> string set" where
  "scope_tokens claims =
     (case map_of claims ''scope'' of
        Some (GStr s) \<Rightarrow> set (split_on (CHR '' '') s) | _ \<Rightarrow> {})"

section \<open>Validation accepts exactly the trees with a meaning\<close>

lemma validate_literals_Ok [simp]: "validate_literals ls = Ok ()"
  by (induction ls) (auto simp: Literal_Validate_def)

lemma Atom_Validate_iff: "Atom_Validate a = Ok () \<longleftrightarrow> atom_formula a \<noteq> None"
proof (cases a)
  case (Atom nm args)
  show ?thesis
  proof (cases args)
    case Nil
    with Atom show ?thesis by (simp add: Atom_Validate_def)
  next
    case (Cons l ls)
    then show ?thesis using Atom
      by (cases l; cases ls) (auto simp: Atom_Validate_def split: option.splits)
  qed
qed

lemma Atom_Validate_total: "\<not> panics (Atom_Validate a)"
  by (auto simp: Atom_Validate_def)

lemma op_formula_defined:
  "op_formula nm fs \<noteq> None \<longleftrightarrow>
     (nm = ''not'' \<and> length fs = 1) \<or> nm = ''all'' \<or> nm = ''any''"
  by (auto simp: op_formula_def length_Suc_conv split: list.splits)

lemma formulas_of_length: "formulas_of es = Some fs \<Longrightarrow> length fs = length es"
  by (induction es arbitrary: fs) (auto split: Option.bind_splits)

lemma validates_iff:
  "(Expr_Validate e :: ('c Error, unit) res) = Ok () \<longleftrightarrow> formula_of e \<noteq> None"
  "(OpExpr_Validate p :: ('c Error, unit) res) = Ok () \<longleftrightarrow> formula_of_op p \<noteq> None"
  "(validate_args es :: ('c Error, unit) res) = Ok () \<longleftrightarrow> formulas_of es \<noteq> None"
proof (induction e and p and es rule: Expr_Validate_OpExpr_Validate_validate_args.induct)
  case (5 nm args)
  show ?case
  proof (cases "(nm = ''not'' \<and> length args = 1) \<or> nm = ''all'' \<or> nm = ''any''")
    case True
    then have "(OpExpr_Validate (OpExpr nm args) :: ('c Error, unit) res) = validate_args args"
      by auto
    with True 5 show ?thesis
      by (cases "formulas_of args") (auto simp: op_formula_defined formulas_of_length simp del: not_None_eq)
  next
    case False
    then have "(OpExpr_Validate (OpExpr nm args) :: ('c Error, unit) res) \<noteq> Ok ()"
      by auto
    moreover have "formula_of_op (OpExpr nm args) = None"
    proof (cases "formulas_of args")
      case (Some fs)
      with False have "op_formula nm fs = None"
        using op_formula_defined [of nm fs] formulas_of_length [OF Some] by auto
      with Some show ?thesis by simp
    qed simp
    ultimately show ?thesis by simp
  qed
next
  case (7 e es)
  then show ?case
    by (cases "formula_of e"; cases "formulas_of es") (auto simp: go_res)
qed (auto simp: Atom_Validate_iff)

section \<open>Evaluation computes the meaning\<close>

lemma first_error_append:
  "first_error test (ss @ ts) =
     (case first_error test ss of Some e \<Rightarrow> Some e | None \<Rightarrow> first_error test ts)"
  by (induction ss) (auto split: res.splits)

text \<open>
  The interface between expressions and the scope test of the application: the test returns a
  truth value or an error, and does not panic.
\<close>

locale scope_test =
  fixes test :: "string \<Rightarrow> ('e, bool) res"
  assumes test_no_panic: "\<not> panics (test s)"
begin

definition verdict :: "formula \<Rightarrow> ('e EvalError, bool) res" where
  "verdict f =
     (case first_error test (scopes f) of
        Some e \<Rightarrow> Err (ScopeError e)
      | None \<Rightarrow> Ok (holds (\<lambda>s. test s = Ok True) f))"

definition verdicts :: "formula list \<Rightarrow> ('e EvalError, bool list) res" where
  "verdicts fs =
     (case first_error test (concat (map scopes fs)) of
        Some e \<Rightarrow> Err (ScopeError e)
      | None \<Rightarrow> Ok (map (holds (\<lambda>s. test s = Ok True)) fs))"

lemma verdicts_Cons:
  "verdicts (f # fs) = and_then (verdict f) (\<lambda>v. and_then (verdicts fs) (\<lambda>vs. Ok (v # vs)))"
  by (simp add: verdicts_def verdict_def first_error_append split: option.splits)

lemma atom_verdict:
  assumes "atom_formula a = Some f"
  shows "Atom_Evaluate a \<lparr>JWTHasScope = Some test\<rparr> = verdict f"
proof -
  obtain s where s: "a = Atom ''jwtHasScope'' [Literal (Some s)]" "f = Scope s"
    using assms by (cases a) (auto split: list.splits Literal.splits option.splits if_splits)
  then show ?thesis
    using test_no_panic [of s] by (cases "test s") (auto simp: Atom_Evaluate_def verdict_def)
qed

lemma op_verdict:
  assumes "op_formula nm fs = Some f"
  shows "and_then (verdicts fs) (apply_op nm) = verdict f"
  using assms
  by (auto simp: op_formula_def apply_op_def verdict_def verdicts_def list_all_iff list_ex_iff
      split: if_splits list.splits option.splits)

lemma evaluates_to_verdict:
  "formula_of e = Some f \<Longrightarrow> Expr_Evaluate e \<lparr>JWTHasScope = Some test\<rparr> = verdict f"
  "formula_of_op p = Some f \<Longrightarrow> OpExpr_Evaluate p \<lparr>JWTHasScope = Some test\<rparr> = verdict f"
  "formulas_of es = Some fs \<Longrightarrow> evaluate_args es \<lparr>JWTHasScope = Some test\<rparr> = verdicts fs"
proof (induction e and p and es arbitrary: f and f and fs
    rule: formula_of_formula_of_op_formulas_of.induct)
  case (5 nm args)
  then obtain fs where "formulas_of args = Some fs" "op_formula nm fs = Some f"
    by (auto simp: bind_eq_Some_conv)
  with 5(1) show ?case by (simp add: op_verdict)
next
  case 6
  then show ?case by (simp add: verdicts_def)
next
  case (7 e es)
  then obtain f fs' where fs': "formula_of e = Some f" "formulas_of es = Some fs'" "fs = f # fs'"
    by (auto simp: bind_eq_Some_conv)
  with 7(1) 7(2) show ?case by (simp add: verdicts_Cons)
qed (auto simp: atom_verdict)

end

text \<open>A scope test that never fails decides the formula.\<close>

locale total_scope_test = scope_test test for test :: "string \<Rightarrow> ('e, bool) res" +
  fixes has :: "string \<Rightarrow> bool"
  assumes test_total: "test s = Ok (has s)"
begin

lemma no_first_error: "first_error test ss = None"
  by (induction ss) (auto simp: test_total)

lemma evaluates_to_holds:
  assumes "formula_of e = Some f"
  shows "Expr_Evaluate e \<lparr>JWTHasScope = Some test\<rparr> = Ok (holds has f)"
  using evaluates_to_verdict(1) [OF assms] by (simp add: verdict_def no_first_error test_total)

end

lemma standard_scope_value:
  "MakeStandardJWTHasScope claims s = Ok (s \<in> scope_tokens claims)"
  by (auto simp: MakeStandardJWTHasScope_def scope_tokens_def list_ex_iff
      split: option.splits goval.splits)

interpretation std_scope: total_scope_test "MakeStandardJWTHasScope claims"
  "\<lambda>s. s \<in> scope_tokens claims" for claims
  by unfold_locales (simp_all add: standard_scope_value)

section \<open>Printing of a validated tree\<close>

lemma Atom_Repr_total: "atom_formula a \<noteq> None \<Longrightarrow> \<exists>r. Atom_Repr quote a = Ok r"
  by (cases a) (auto simp: Atom_Repr_def split: list.splits Literal.splits option.splits if_splits)

lemma Repr_total:
  "formula_of e \<noteq> None \<Longrightarrow> \<exists>r. Expr_Repr quote e = Ok r"
  "formula_of_op p \<noteq> None \<Longrightarrow> \<exists>r. OpExpr_Repr quote p = Ok r"
  "formulas_of es \<noteq> None \<Longrightarrow> \<exists>rs. repr_args quote es = Ok rs"
proof (induction e and p and es rule: formula_of_formula_of_op_formulas_of.induct)
  case (5 nm args)
  then show ?case by (cases "formulas_of args") (auto simp: go_res)
next
  case (7 e es)
  then show ?case
    by (cases "formula_of e"; cases "formulas_of es") (auto simp: go_res)
qed (auto simp: Atom_Repr_total)

section \<open>Properties\<close>

lemma compile_Ok_iff:
  "CompileExpression parseString s = Ok e \<longleftrightarrow> parseString s = Inr e \<and> formula_of e \<noteq> None"
  by (auto simp: CompileExpression_def go_res validates_iff(1) split: sum.splits)

text \<open>
  C1.  A compiled expression has a meaning, and evaluating it against the standard scope test
  of any claims object returns (no error, no panic) exactly the truth value of that meaning
  over the space-separated scope tokens of the claims.
\<close>

theorem compiled_expression_decides:
  assumes "CompileExpression parseString s = Ok e"
  shows "\<exists>f. formula_of e = Some f \<and>
     (\<forall>claims. Expr_Evaluate e \<lparr>JWTHasScope = Some (MakeStandardJWTHasScope claims)\<rparr> =
        (Ok (holds (\<lambda>t. t \<in> scope_tokens claims) f) :: ('e EvalError, bool) res))"
  using assms std_scope.evaluates_to_holds by (auto simp: compile_Ok_iff)

definition sample_expr :: Expr where
  "sample_expr =
     Expr (Some (OpExpr ''all''
       [Expr None (Some (Atom ''jwtHasScope'' [Literal (Some ''read'')])),
        Expr (Some (OpExpr ''not''
          [Expr None (Some (Atom ''jwtHasScope'' [Literal (Some ''guest'')]))])) None])) None"

lemma sample_expr_compiles: "CompileExpression (\<lambda>_. Inr sample_expr) ''e'' = Ok sample_expr"
  by (simp add: compile_Ok_iff sample_expr_def op_formula_def)

theorem compiled_expression_decides_witness:
  "Expr_Evaluate sample_expr
     \<lparr>JWTHasScope = Some (MakeStandardJWTHasScope [(''scope'', GStr ''write read'')])\<rparr> =
   (Ok True :: (unit EvalError, bool) res)"
  using compiled_expression_decides [where 'e = unit, OF sample_expr_compiles]
  by (auto simp: sample_expr_def op_formula_def scope_tokens_def)

text \<open>
  C17.  With an application-supplied scope test that may fail but does not panic, a compiled
  expression is evaluated strictly from left to right: the result is the error of the first
  failing test in the order of the arguments, with no short-circuit past it, and otherwise the
  truth value of the formula.
\<close>

theorem evaluation_is_strict:
  assumes "CompileExpression parseString s = Ok e"
    and "\<And>t. \<not> panics (test t)"
  shows "\<exists>f. formula_of e = Some f \<and>
     Expr_Evaluate e \<lparr>JWTHasScope = Some test\<rparr> =
       (case first_error test (scopes f) of
          Some x \<Rightarrow> Err (ScopeError x)
        | None \<Rightarrow> Ok (holds (\<lambda>t. test t = Ok True) f))"
proof -
  have st: "scope_test test" by unfold_locales (rule assms(2))
  from assms(1) obtain f where "formula_of e = Some f" by (auto simp: compile_Ok_iff)
  then show ?thesis
    using scope_test.evaluates_to_verdict(1) [OF st] by (auto simp: scope_test.verdict_def [OF st])
qed

definition failing_test :: "string \<Rightarrow> (string, bool) res" where
  "failing_test t = (if t = ''guest'' then Err ''no scope service'' else Ok False)"

theorem evaluation_is_strict_witness:
  "Expr_Evaluate sample_expr \<lparr>JWTHasScope = Some failing_test\<rparr> =
     Err (ScopeError ''no scope service'')"
proof -
  have "\<not> panics (failing_test t)" for t by (simp add: failing_test_def)
  from evaluation_is_strict [where test = failing_test, OF sample_expr_compiles this]
  obtain f where "formula_of sample_expr = Some f"
    and "Expr_Evaluate sample_expr \<lparr>JWTHasScope = Some failing_test\<rparr> =
       (case first_error failing_test (scopes f) of
          Some x \<Rightarrow> Err (ScopeError x)
        | None \<Rightarrow> Ok (holds (\<lambda>t. failing_test t = Ok True) f))"
    by blast
  then show ?thesis
    by (auto simp: sample_expr_def op_formula_def failing_test_def)
qed

text \<open>
  C18.  Compilation returns an expression exactly when the parser returns a tree and that tree
  is a well-typed formula (known names, \<^verbatim>\<open>not\<close> with one argument, \<^verbatim>\<open>jwtHasScope\<close> with one string
  literal); a parse error is kept as the cause of the returned error.
\<close>

theorem compile_accepts_exactly_formulas:
  "(CompileExpression parseString s = Ok e \<longleftrightarrow> parseString s = Inr e \<and> formula_of e \<noteq> None) \<and>
   (parseString s = Inl x \<longrightarrow>
      CompileExpression parseString s =
        Err (Error ''expression parse error: failed to parse auth expression'' (Some x)))"
  by (auto simp: compile_Ok_iff) (simp add: CompileExpression_def ParseFailed_def)

theorem compile_accepts_exactly_formulas_witness:
  "CompileExpression (\<lambda>_. Inl ''eof'' :: string + Expr) ''all('' =
     Err (Error ''expression parse error: failed to parse auth expression'' (Some ''eof''))"
  using compile_accepts_exactly_formulas [of "\<lambda>_. Inl ''eof''" "''all(''" sample_expr "''eof''"]
  by simp

end
