(* ===== verification/GoJson.thy ===== *)
theory GoJson
  imports Authexpr
begin

text \<open>
  What the components use of \<^verbatim>\<open>encoding/json\<close> and \<^verbatim>\<open>strconv\<close>: the text \<^verbatim>\<open>json.Marshal\<close> writes
  for a value, and \<^verbatim>\<open>strconv.Atoi\<close>.  A Go struct is given as an object with its fields in
  declaration order (\<open>json_struct\<close>), a Go map as an object whose keys are sorted.  Strings are
  valid UTF-8; the two line separators U+2028 and U+2029, which Go escapes, are not treated.
\<close>

section \<open>json.Marshal\<close>

definition hex_digit :: "nat \<Rightarrow> char" where
  "hex_digit n = (if n < 10 then char_of (48 + n) else char_of (87 + n))"

definition json_escape_byte :: "char \<Rightarrow> string" where
  "json_escape_byte c =
     (let n = (of_char c :: nat)
      in if n = 34 then [CHR 0x5C, CHR 0x22]
         else if n = 92 then [CHR 0x5C, CHR 0x5C]
         else if n = 8 then [CHR 0x5C, CHR ''b'']
         else if n = 12 then [CHR 0x5C, CHR ''f'']
         else if n = 10 then [CHR 0x5C, CHR ''n'']
         else if n = 13 then [CHR 0x5C, CHR ''r'']
         else if n = 9 then [CHR 0x5C, CHR ''t'']
         else if n < 32 \<or> n = 60 \<or> n = 62 \<or> n = 38
         then CHR 0x5C # ''u00'' @ [hex_digit (n div 16), hex_digit (n mod 16)]
         else [c])"

definition json_string :: "string \<Rightarrow> string" where
  "json_string s = CHR 0x22 # concat (map json_escape_byte s) @ [CHR 0x22]"

fun str_le :: "string \<Rightarrow> string \<Rightarrow> bool" where
  "str_le [] t = True"
| "str_le (c # s) [] = False"
| "str_le (c # s) (d # t) =
     ((of_char c :: nat) < of_char d \<or> (c = d \<and> str_le s t))"

fun insert_key :: "string \<times> 'a \<Rightarrow> (string \<times> 'a) list \<Rightarrow> (string \<times> 'a) list" where
  "insert_key kv [] = [kv]"
| "insert_key kv (kv' # m) = (if str_le (fst kv) (fst kv') then kv # kv' # m else kv' # insert_key kv m)"

definition sort_keys :: "(string \<times> 'a) list \<Rightarrow> (string \<times> 'a) list" where
  "sort_keys m = foldr insert_key m []"

lemma mset_sort_keys: "mset (sort_keys m) = mset m"
proof -
  have "mset (insert_key kv m) = add_mset kv (mset m)" for kv :: "string \<times> 'a" and m
    by (induction m) auto
  then show ?thesis by (induction m) (simp_all add: sort_keys_def)
qed

lemma set_sort_keys: "set (sort_keys m) = set m"
  using mset_sort_keys by (rule mset_eq_setD)

definition json_members :: "(string \<times> string) list \<Rightarrow> string" where
  "json_members ms = ''{'' @ join_with '','' (map (\<lambda>(k, t). json_string k @ '':'' @ t) ms) @ ''}''"

fun json_encode :: "goval \<Rightarrow> string option"
  and json_encodes :: "goval list \<Rightarrow> string list option"
  and json_encode_fields :: "(string \<times> goval) list \<Rightarrow> (string \<times> string) list option" where
  "json_encode GNull = Some ''null''"
| "json_encode (GBool b) = Some (if b then ''true'' else ''false'')"
| "json_encode (GNum t) = Some t"
| "json_encode (GStr s) = Some (json_string s)"
| "json_encode (GArr vs) =
     map_option (\<lambda>ts. ''['' @ join_with '','' ts @ '']'') (json_encodes vs)"
| "json_encode (GObj fs) = map_option (\<lambda>ms. json_members (sort_keys ms)) (json_encode_fields fs)"
| "json_encode (GOpaque n) = None"
| "json_encodes [] = Some []"
| "json_encodes (v # vs) =
     Option.bind (json_encode v) (\<lambda>t. map_option (\<lambda>ts. t # ts) (json_encodes vs))"
| "json_encode_fields [] = Some []"
| "json_encode_fields ((k, v) # fs) =
     Option.bind (json_encode v) (\<lambda>t. map_option (\<lambda>ms. (k, t) # ms) (json_encode_fields fs))"

text \<open>A struct with the given members, already encoded, in declaration order.\<close>

definition json_struct :: "(string \<times> string option) list \<Rightarrow> string option" where
  "json_struct ms =
     (if list_all (\<lambda>(k, t). t \<noteq> None) ms then Some (json_members (map (\<lambda>(k, t). (k, the t)) ms))
      else None)"

text \<open>Marshalling fails exactly on a value that is not JSON.\<close>

fun json_safe :: "goval \<Rightarrow> bool" where
  "json_safe (GArr vs) = list_all json_safe vs"
| "json_safe (GObj fs) = list_all (\<lambda>(k, v). json_safe v) fs"
| "json_safe (GOpaque n) = False"
| "json_safe v = True"

definition safe_fields :: "(string \<times> goval) list \<Rightarrow> bool" where
  "safe_fields fs = list_all (\<lambda>(k, v). json_safe v) fs"

lemma safe_fields_simps [simp]:
  "safe_fields []" "safe_fields (kv # fs) \<longleftrightarrow> json_safe (snd kv) \<and> safe_fields fs"
  by (auto simp: safe_fields_def case_prod_beta)

lemma safe_fields_put_assoc [simp]:
  "safe_fields m \<Longrightarrow> json_safe v \<Longrightarrow> safe_fields (put_assoc k v m)"
  by (induction k v m rule: put_assoc.induct) auto

lemma json_encode_defined:
  "json_encode v \<noteq> None \<longleftrightarrow> json_safe v"
  "json_encodes vs \<noteq> None \<longleftrightarrow> list_all json_safe vs"
  "json_encode_fields fs \<noteq> None \<longleftrightarrow> list_all (\<lambda>(k, v). json_safe v) fs"
  by (induction v and vs and fs rule: json_encode_json_encodes_json_encode_fields.induct)
     (auto simp: bind_eq_Some_conv)

section \<open>strconv.Atoi\<close>

definition is_digit :: "char \<Rightarrow> bool" where
  "is_digit c = (48 \<le> (of_char c :: nat) \<and> (of_char c :: nat) \<le> 57)"

definition digits_value :: "string \<Rightarrow> int" where
  "digits_value ds = foldl (\<lambda>n c. 10 * n + (int (of_char c) - 48)) 0 ds"

definition Atoi :: "string \<Rightarrow> int option" where
  "Atoi s =
     (let (neg, ds) = (case s of [] \<Rightarrow> (False, [])
                       | c # cs \<Rightarrow> if c = CHR ''-'' then (True, cs)
                                   else if c = CHR ''+'' then (False, cs) else (False, s));
          n = (if neg then - digits_value ds else digits_value ds)
      in if ds = [] \<or> \<not> list_all is_digit ds then None
         else if - (2 ^ 63) \<le> n \<and> n < 2 ^ 63 then Some n else None)"

end
