(* ===== verification/GoHttp.thy ===== *)
theory GoHttp
  imports GoJson
begin

text \<open>
  What the components use of \<^verbatim>\<open>net/http\<close> and \<^verbatim>\<open>context\<close>: header maps with canonical keys,
  response writers, and the values a request context carries.

  A context is immutable, so \<^verbatim>\<open>context.WithValue\<close> is a record update; there is one field for each
  key the library stores under.  A key whose value is a pointer to a mutable object holds an
  address into the \<open>heap\<close>.
\<close>

section \<open>Header maps\<close>

type_synonym header = "(string \<times> string list) list"

definition token_byte :: "char \<Rightarrow> bool" where
  "token_byte c =
     (let n = (of_char c :: nat)
      in (48 \<le> n \<and> n \<le> 57) \<or> (65 \<le> n \<and> n \<le> 90) \<or> (97 \<le> n \<and> n \<le> 122) \<or>
         n \<in> set [33, 35, 36, 37, 38, 39, 42, 43, 45, 46, 94, 95, 96, 124, 126])"

fun canon_bytes :: "bool \<Rightarrow> string \<Rightarrow> string" where
  "canon_bytes up [] = []"
| "canon_bytes up (c # cs) =
     (if up then upper_byte c else lower_byte c) # canon_bytes (c = CHR ''-'') cs"

definition CanonicalHeaderKey :: "string \<Rightarrow> string" where
  "CanonicalHeaderKey k = (if list_all token_byte k then canon_bytes True k else k)"

definition header_values :: "header \<Rightarrow> string \<Rightarrow> string list" where
  "header_values h k = (case map_of h (CanonicalHeaderKey k) of Some vs \<Rightarrow> vs | None \<Rightarrow> [])"

text \<open>\<^verbatim>\<open>Header.Get\<close>: the first value, or the empty string; a nil map reads as empty.\<close>

definition header_get :: "header option \<Rightarrow> string \<Rightarrow> string" where
  "header_get h k =
     (case h of None \<Rightarrow> [] | Some h' \<Rightarrow> (case header_values h' k of [] \<Rightarrow> [] | v # _ \<Rightarrow> v))"

definition header_add :: "header \<Rightarrow> string \<Rightarrow> string \<Rightarrow> header" where
  "header_add h k v = put_assoc (CanonicalHeaderKey k) (header_values h k @ [v]) h"

definition header_set :: "header \<Rightarrow> string \<Rightarrow> string \<Rightarrow> header" where
  "header_set h k v = put_assoc (CanonicalHeaderKey k) [v] h"

lemma byte_eq_iff: "c = d \<longleftrightarrow> (of_char c :: nat) = of_char d"
  by simp

lemma nat_upper_byte:
  "(of_char (upper_byte c) :: nat) =
     (if 97 \<le> (of_char c :: nat) \<and> (of_char c :: nat) \<le> 122 then of_char c - 32 else of_char c)"
  by (auto simp: upper_byte_def Let_def)

lemma nat_lower_byte:
  "(of_char (lower_byte c) :: nat) =
     (if 65 \<le> (of_char c :: nat) \<and> (of_char c :: nat) \<le> 90 then of_char c + 32 else of_char c)"
  by (auto simp: lower_byte_def Let_def)

lemma case_bytes [simp]:
  "upper_byte (upper_byte c) = upper_byte c" "upper_byte (lower_byte c) = upper_byte c"
  "lower_byte (upper_byte c) = lower_byte c"
  by (auto simp del: of_char_eq_iff simp: byte_eq_iff nat_upper_byte nat_lower_byte)

lemma hyphen_case [simp]:
  "upper_byte c = CHR ''-'' \<longleftrightarrow> c = CHR ''-''" "lower_byte c = CHR ''-'' \<longleftrightarrow> c = CHR ''-''"
  by (auto simp del: of_char_eq_iff simp: byte_eq_iff nat_upper_byte nat_lower_byte)

lemma token_byte_upper [simp]: "token_byte (upper_byte c) = token_byte c"
proof (cases "97 \<le> (of_char c :: nat) \<and> (of_char c :: nat) \<le> 122")
  case True
  then have "token_byte c" unfolding token_byte_def Let_def by blast
  moreover from True have "65 \<le> (of_char (upper_byte c) :: nat) \<and> (of_char (upper_byte c) :: nat) \<le> 90"
    unfolding nat_upper_byte by auto
  then have "token_byte (upper_byte c)" unfolding token_byte_def Let_def by blast
  ultimately show ?thesis by simp
next
  case False
  then have "upper_byte c = c" unfolding upper_byte_def Let_def by (rule if_not_P)
  then show ?thesis by simp
qed

lemma token_byte_lower [simp]: "token_byte (lower_byte c) = token_byte c"
  using token_byte_upper [of c] token_byte_upper [of "lower_byte c"] by simp

lemma canon_bytes_idem: "canon_bytes up (canon_bytes up k) = canon_bytes up k"
  by (induction up k rule: canon_bytes.induct) auto

lemma token_canon_bytes [simp]:
  "list_all token_byte (canon_bytes up k) = list_all token_byte k"
  by (induction up k rule: canon_bytes.induct) auto

lemma CanonicalHeaderKey_idem [simp]:
  "CanonicalHeaderKey (CanonicalHeaderKey k) = CanonicalHeaderKey k"
  by (simp add: CanonicalHeaderKey_def canon_bytes_idem)

lemma canon_bytes_fold: "ToLower k = ToLower k' \<Longrightarrow> canon_bytes up k = canon_bytes up k'"
proof (induction k arbitrary: up k')
  case (Cons c k)
  then obtain c' l where k': "k' = c' # l" "lower_byte c = lower_byte c'" "ToLower k = ToLower l"
    by (cases k') (auto simp: ToLower_Cons)
  then have "upper_byte c = upper_byte c'" "c = CHR ''-'' \<longleftrightarrow> c' = CHR ''-''"
    using case_bytes(2) hyphen_case(2) by metis+
  with Cons.IH k' show ?case by simp
qed simp

lemma token_fold: "ToLower k = ToLower k' \<Longrightarrow> list_all token_byte k = list_all token_byte k'"
proof (induction k arbitrary: k')
  case (Cons c k)
  then obtain c' l where "k' = c' # l" "lower_byte c = lower_byte c'" "ToLower k = ToLower l"
    by (cases k') (auto simp: ToLower_Cons)
  moreover from this(2) have "token_byte c = token_byte c'" using token_byte_lower by metis
  ultimately show ?case using Cons.IH by simp
qed simp

text \<open>Token keys that differ only in case name the same header.\<close>

lemma CanonicalHeaderKey_fold:
  assumes "EqualFold k k'" and "list_all token_byte k"
  shows "CanonicalHeaderKey k = CanonicalHeaderKey k'"
  using assms canon_bytes_fold token_fold
  unfolding CanonicalHeaderKey_def EqualFold_def by metis

lemma canon_content_type: "CanonicalHeaderKey ''Content-Type'' = ''Content-Type''"
  by code_simp

lemma canon_authorization: "CanonicalHeaderKey ''Authorization'' = ''Authorization''"
  by code_simp

text \<open>The contract of a header map as its clients use it.\<close>

locale header_map =
  fixes vals :: "'h \<Rightarrow> string \<Rightarrow> string list"
    and add :: "'h \<Rightarrow> string \<Rightarrow> string \<Rightarrow> 'h"
    and same :: "string \<Rightarrow> string \<Rightarrow> bool"
  assumes vals_add: "vals (add h k v) k' = (if same k k' then vals h k' @ [v] else vals h k')"
begin

lemma vals_add_list:
  "vals (fold (\<lambda>v h. add h k v) vs h) k' = (if same k k' then vals h k' @ vs else vals h k')"
  by (induction vs arbitrary: h) (auto simp: vals_add)

lemma vals_add_all:
  "vals (fold (\<lambda>(k, vs) h. fold (\<lambda>v h. add h k v) vs h) kvs h) k' =
     vals h k' @ concat (map snd (filter (\<lambda>(k, vs). same k k') kvs))"
  by (induction kvs arbitrary: h) (auto simp: vals_add_list)

end

interpretation hdr: header_map header_values header_add
  "\<lambda>k k'. CanonicalHeaderKey k = CanonicalHeaderKey k'"
  by unfold_locales (auto simp: header_values_def header_add_def)

section \<open>Response writers\<close>

text \<open>
  The state of an \<^verbatim>\<open>http.ResponseWriter\<close>: its mutable header map, the status line once sent
  with the headers sent along, and the body bytes.  \<^verbatim>\<open>WriteHeader\<close> sends once; an informational
  status does not count, and a status that is not three digits panics.
\<close>

record response_writer =
  rw_header :: header
  rw_code :: "int option"
  rw_sent :: header
  rw_body :: string

definition new_writer :: response_writer where
  "new_writer = \<lparr>rw_header = [], rw_code = None, rw_sent = [], rw_body = []\<rparr>"

definition WriteHeader :: "response_writer \<Rightarrow> int \<Rightarrow> (unit, response_writer) res" where
  "WriteHeader w code =
     (if rw_code w \<noteq> None then Ok w
      else if code < 100 \<or> code > 999 then Panic ''invalid WriteHeader code''
      else if code \<le> 199 \<and> code \<noteq> 101 then Ok w
      else Ok (w\<lparr>rw_code := Some code, rw_sent := rw_header w\<rparr>))"

definition Write :: "response_writer \<Rightarrow> string \<Rightarrow> response_writer" where
  "Write w b =
     (let w' = (if rw_code w = None then w\<lparr>rw_code := Some 200, rw_sent := rw_header w\<rparr> else w)
      in w'\<lparr>rw_body := rw_body w' @ b\<rparr>)"

section \<open>Request contexts\<close>

datatype ctx_err = Canceled | DeadlineExceeded

type_synonym addr = nat

text \<open>The type variable \<open>'cfg\<close> is the type of the default configuration.\<close>

record 'cfg ctx =
  ctx_Err :: "ctx_err option"
  ctx_claims :: "claims option"
  ctx_reqHeader :: "header option option"
  ctx_respHeader :: "addr option"
  ctx_restResult :: "addr option"
  ctx_traceID :: "(string \<times> bool) option"
  ctx_config :: "'cfg option"
  ctx_metadata :: "(string \<times> string list) list option"

definition Background :: "'cfg ctx" where
  "Background = \<lparr>ctx_Err = None, ctx_claims = None, ctx_reqHeader = None, ctx_respHeader = None,
     ctx_restResult = None, ctx_traceID = None, ctx_config = None, ctx_metadata = None\<rparr>"

lemmas go_http_defs = header_get_def header_values_def header_add_def header_set_def
  WriteHeader_def Write_def new_writer_def

end
