(* ===== verification/CommonErrors.thy ===== *)
theory CommonErrors
  imports GoHttp
begin

text \<open>
  The error half of package \<^verbatim>\<open>common\<close>: kinds of errors, the error types, the construction of an
  error from a cause (\<^verbatim>\<open>CreateError\<close>, \<^verbatim>\<open>CreateDownstreamError\<close>), the mapping of an error to an
  HTTP error and its response (\<^verbatim>\<open>HandleError\<close>, \<^verbatim>\<open>MapError\<close>, \<^verbatim>\<open>HTTPError.WriteError\<close>), custom errors
  and the default callback.

  An error is a value of \<open>cerr\<close>; errors of other packages are \<open>OtherErr x\<close>, and the arguments
  \<open>kinder\<close> and \<open>writer\<close> say which of them implement \<^verbatim>\<open>ErrorKinder\<close> and \<^verbatim>\<open>ErrorWriter\<close>.  A mapper
  returns an \<^verbatim>\<open>HTTPError\<close> that is not shared, so the fields added to it are a new value here.
  Log calls are left out.
\<close>

section \<open>Kinds (common/errors.go)\<close>

text \<open>\<open>KindOther\<close> is any integer outside the declared constants.\<close>

datatype Kind =
  UnknownError | BadRequestError | InternalError | UnauthorizedError | DownstreamUnavailableError
| DownstreamTimeoutError | DownstreamUnauthorizedError | DownstreamUnexpectedResponseError
| DownstreamResponseError | KindOther int

fun Kind_String :: "Kind \<Rightarrow> string" where
  "Kind_String BadRequestError = ''Missing one or more of the required parameters''"
| "Kind_String InternalError = ''Internal Server Error''"
| "Kind_String UnauthorizedError = ''Unauthorized error''"
| "Kind_String DownstreamUnavailableError = ''Downstream system is unavailable''"
| "Kind_String DownstreamTimeoutError = ''Time out from down stream services''"
| "Kind_String DownstreamUnauthorizedError = ''Unauthorized error from downstream services''"
| "Kind_String DownstreamUnexpectedResponseError = ''Unexpected response from downstream services''"
| "Kind_String DownstreamResponseError = ''Error response from downstream services''"
| "Kind_String k = ''Internal Server Error''"

section \<open>Error types\<close>

text \<open>An \<^verbatim>\<open>http.Response\<close> with the method and URL of its request.\<close>

record http_response =
  resp_Method :: string
  resp_URL :: string
  resp_StatusCode :: int
  resp_Header :: header
  resp_ContentLength :: int

type_synonym KV = "string \<times> goval"

datatype 'x cerr =
  ServerError Kind string "'x cerr option"
| DownstreamError Kind http_response string "'x cerr option"
| CustomError "(string \<times> string) list"
| wrappedError "'x cerr" "KV list"
| ZeroHeaderLengthError string
| InvalidHeaderError string "'x cerr option"
| OtherErr 'x

text \<open>
  \<^verbatim>\<open>Error()\<close>; a nil cause prints as \<^verbatim>\<open>%!s(<nil>)\<close>.  The arguments print foreign errors, and the
  Go-syntax forms of a custom error and of a list of fields.
\<close>

definition cause_text :: "string option \<Rightarrow> string" where
  "cause_text cause = (case cause of None \<Rightarrow> ''%!s(<nil>)'' | Some t \<Rightarrow> t)"

definition ServerError_Error :: "Kind \<Rightarrow> string \<Rightarrow> string option \<Rightarrow> string" where
  "ServerError_Error k m cause =
     ''ServerError(Kind='' @ Kind_String k @ '', Message='' @ m @ '', Cause='' @ cause_text cause @ '')''"

definition DownstreamError_Error :: "Kind \<Rightarrow> http_response \<Rightarrow> string \<Rightarrow> string option \<Rightarrow> string" where
  "DownstreamError_Error k r body cause =
     ''DownstreamError(Kind='' @ Kind_String k @ '', Method='' @ resp_Method r @ '', URL='' @ resp_URL r @
       '', StatusCode='' @ show_int (resp_StatusCode r) @
       '', ContentType='' @ header_get (Some (resp_Header r)) ''Content-Type'' @
       '', ContentLength='' @ show_int (resp_ContentLength r) @ '', Snippet='' @ body @ '', Cause='' @
       cause_text cause @ '')''"

definition CustomError_Error :: "((string \<times> string) list \<Rightarrow> string) \<Rightarrow> (string \<times> string) list \<Rightarrow> string" where
  "CustomError_Error sc m = (case map_of m ''name'' of None \<Rightarrow> [] | Some n \<Rightarrow> n) @ ''('' @ sc m @ '')''"

definition wrappedError_Error :: "(KV list \<Rightarrow> string) \<Rightarrow> string \<Rightarrow> KV list \<Rightarrow> string" where
  "wrappedError_Error sf e fs = e @ '' --- '' @ sf fs"

definition ZeroHeaderLengthError_Error :: "string \<Rightarrow> string" where
  "ZeroHeaderLengthError_Error p = p @ '' header length is zero''"

definition InvalidHeaderError_Error :: "string \<Rightarrow> string" where
  "InvalidHeaderError_Error p = p @ '' header is invalid according to the spec''"

fun cerr_Error ::
  "('x \<Rightarrow> string) \<Rightarrow> ((string \<times> string) list \<Rightarrow> string) \<Rightarrow> (KV list \<Rightarrow> string) \<Rightarrow> 'x cerr \<Rightarrow> string"
where
  "cerr_Error sx sc sf (ServerError k m cause) = ServerError_Error k m (map_option (cerr_Error sx sc sf) cause)"
| "cerr_Error sx sc sf (DownstreamError k r body cause) =
     DownstreamError_Error k r body (map_option (cerr_Error sx sc sf) cause)"
| "cerr_Error sx sc sf (CustomError m) = CustomError_Error sc m"
| "cerr_Error sx sc sf (wrappedError e fs) = wrappedError_Error sf (cerr_Error sx sc sf e) fs"
| "cerr_Error sx sc sf (ZeroHeaderLengthError p) = ZeroHeaderLengthError_Error p"
| "cerr_Error sx sc sf (InvalidHeaderError p cause) = InvalidHeaderError_Error p"
| "cerr_Error sx sc sf (OtherErr x) = sx x"

text \<open>The type switch on \<^verbatim>\<open>ErrorKinder\<close>.\<close>

fun ErrorKind :: "('x \<Rightarrow> Kind option) \<Rightarrow> 'x cerr \<Rightarrow> Kind option" where
  "ErrorKind kinder (ServerError k m c) = Some k"
| "ErrorKind kinder (DownstreamError k r b c) = Some k"
| "ErrorKind kinder (OtherErr x) = kinder x"
| "ErrorKind kinder e = None"

fun Unwrap :: "'x cerr \<Rightarrow> 'x cerr option" where
  "Unwrap (ServerError k m c) = c"
| "Unwrap (DownstreamError k r b c) = c"
| "Unwrap e = None"

definition CheckContextTimeout ::
  "'cfg ctx \<Rightarrow> string \<Rightarrow> 'x cerr option \<Rightarrow> 'x cerr option" where
  "CheckContextTimeout cx message cause =
     (if ctx_Err cx = Some DeadlineExceeded
      then Some (ServerError DownstreamTimeoutError message cause) else None)"

text \<open>The causes that \<^verbatim>\<open>CreateError\<close> returns as they are.\<close>

definition passes_through :: "('x \<Rightarrow> Kind option) \<Rightarrow> 'x cerr \<Rightarrow> bool" where
  "passes_through kinder e =
     (ErrorKind kinder e \<noteq> None \<or>
      (case e of CustomError _ \<Rightarrow> True | wrappedError _ _ \<Rightarrow> True | _ \<Rightarrow> False))"

definition CreateError ::
  "('x \<Rightarrow> Kind option) \<Rightarrow> 'cfg ctx \<Rightarrow> Kind \<Rightarrow> string \<Rightarrow> 'x cerr option \<Rightarrow> 'x cerr" where
  "CreateError kinder cx kind message cause =
     (case CheckContextTimeout cx message cause of
        Some e \<Rightarrow> e
      | None \<Rightarrow>
          (case cause of
             Some c \<Rightarrow> if passes_through kinder c then c else ServerError kind message cause
           | None \<Rightarrow> ServerError kind message cause))"

definition downstreamResponseSnippetMaxLength :: nat where
  "downstreamResponseSnippetMaxLength = 128"

definition CreateDownstreamError ::
  "'cfg ctx \<Rightarrow> Kind \<Rightarrow> http_response \<Rightarrow> string \<Rightarrow> 'x cerr option \<Rightarrow> 'x cerr" where
  "CreateDownstreamError cx kind response body cause =
     (case CheckContextTimeout cx (resp_Method response @ '' '' @ resp_URL response) cause of
        Some e \<Rightarrow> e
      | None \<Rightarrow>
          DownstreamError kind response
            (if length body = 0 then []
             else if length body > downstreamResponseSnippetMaxLength
             then take downstreamResponseSnippetMaxLength body
             else body) cause)"

definition NewZeroHeaderLengthError :: "string \<Rightarrow> 'x cerr" where
  "NewZeroHeaderLengthError param = ZeroHeaderLengthError (CanonicalHeaderKey param)"

definition NewInvalidHeaderError :: "string \<Rightarrow> 'x cerr option \<Rightarrow> 'x cerr" where
  "NewInvalidHeaderError param cause = InvalidHeaderError (CanonicalHeaderKey param) cause"

fun CausedByParam :: "'x cerr \<Rightarrow> string \<Rightarrow> bool" where
  "CausedByParam (ZeroHeaderLengthError p) param = (p = CanonicalHeaderKey param)"
| "CausedByParam (InvalidHeaderError p c) param = (p = CanonicalHeaderKey param)"
| "CausedByParam e param = False"

fun GetCause :: "'x cerr \<Rightarrow> 'x cerr option" where
  "GetCause (InvalidHeaderError p c) = c"
| "GetCause e = None"

section \<open>HTTP errors (common/http\_error\_response\_writer.go, common/custom\_error.go)\<close>

record HTTPError =
  HTTPCode :: int
  Code :: string
  Description :: string
  extraFields :: "KV list option"

definition AddField :: "HTTPError \<Rightarrow> string \<Rightarrow> goval \<Rightarrow> HTTPError" where
  "AddField h key val =
     h\<lparr>extraFields := Some (put_assoc key val (case extraFields h of None \<Rightarrow> [] | Some m \<Rightarrow> m))\<rparr>"

definition GetField :: "HTTPError \<Rightarrow> string \<Rightarrow> goval" where
  "GetField h key =
     (case extraFields h of
        None \<Rightarrow> GNull
      | Some m \<Rightarrow> (case map_of m key of None \<Rightarrow> GNull | Some v \<Rightarrow> v))"

definition WrappedError :: "'x cerr \<Rightarrow> KV list \<Rightarrow> 'x cerr" where
  "WrappedError e fs = wrappedError e fs"

text \<open>The value under \<^verbatim>\<open>"status"\<close>: the two named fields, or the extra fields with them put in.\<close>

definition status_fields :: "HTTPError \<Rightarrow> KV list" where
  "status_fields h =
     (let named = filter (\<lambda>(k, v). v \<noteq> GStr [])
                    [(''code'', GStr (Code h)), (''description'', GStr (Description h))]
      in case extraFields h of
           Some (f # fs) \<Rightarrow> fold (\<lambda>(k, v) m. put_assoc k v m) named (f # fs)
         | _ \<Rightarrow> named)"

definition marshal_fallback :: string where
  "marshal_fallback =
     ''{'' @ json_string ''status'' @ '':{'' @ json_string ''code'' @ '': '' @ json_string ''1234'' @ '', '' @
     json_string ''description'' @ '': '' @ json_string ''Unknown Error'' @ ''}}''"

definition HTTPError_WriteError ::
  "HTTPError \<Rightarrow> response_writer \<Rightarrow> (unit, response_writer) res" where
  "HTTPError_WriteError h w =
     (let (b, code) = (case json_encode (GObj [(''status'', GObj (status_fields h))]) of
                         Some t \<Rightarrow> (t, HTTPCode h)
                       | None \<Rightarrow> (marshal_fallback, 500));
          w1 = w\<lparr>rw_header := header_set (rw_header w) ''Content-Type'' ''application/json;charset=UTF-8''\<rparr>
      in and_then (WriteHeader w1 code) (\<lambda>w2. Ok (Write w2 b)))"

definition getOrDefault :: "(string \<times> string) list \<Rightarrow> string \<Rightarrow> string \<Rightarrow> string" where
  "getOrDefault m key dflt = (case map_of m key of Some v \<Rightarrow> v | None \<Rightarrow> dflt)"

definition CustomError_HTTPError :: "(string \<times> string) list \<Rightarrow> HTTPError" where
  "CustomError_HTTPError e =
     (let httpStatus = (case Atoi (getOrDefault e ''http_status'' ''500'') of
                          Some n \<Rightarrow> n | None \<Rightarrow> 500)
      in \<lparr>HTTPCode = httpStatus, Code = getOrDefault e ''http_code'' [],
          Description = getOrDefault e ''http_message'' [], extraFields = None\<rparr>)"

section \<open>Handling an error (common/error\_handler.go)\<close>

fun kind_response :: "Kind \<Rightarrow> int \<times> string \<times> string" where
  "kind_response BadRequestError =
     (400, ''1001'', ''Missing one or more of the required parameters'')"
| "kind_response InternalError = (500, ''9998'', ''Internal Server Error'')"
| "kind_response UnauthorizedError = (401, ''1003'', ''Unauthorized error'')"
| "kind_response DownstreamUnavailableError =
     (503, ''1013'', ''Downstream system is unavailable'')"
| "kind_response DownstreamTimeoutError =
     (504, ''1005'', ''Time out from down stream services'')"
| "kind_response k = (500, ''9999'', ''Unknown Error'')"

definition http_error_of :: "int \<times> string \<times> string \<Rightarrow> HTTPError" where
  "http_error_of t =
     (case t of (c, ec, d) \<Rightarrow>
        \<lparr>HTTPCode = c, Code = ec, Description = d, extraFields = None\<rparr>)"

definition MapError :: "('x \<Rightarrow> Kind option) \<Rightarrow> 'cfg ctx \<Rightarrow> 'x cerr \<Rightarrow> HTTPError" where
  "MapError kinder cx e =
     http_error_of
       (case ErrorKind kinder e of
          Some k \<Rightarrow> kind_response k
        | None \<Rightarrow> if ctx_Err cx = Some DeadlineExceeded
                then kind_response DownstreamTimeoutError else kind_response UnknownError)"

definition resolveErrorAsHTTPError ::
  "('x \<Rightarrow> Kind option) \<Rightarrow> 'cfg ctx \<Rightarrow> ('cfg ctx \<Rightarrow> 'x cerr \<Rightarrow> HTTPError option) option \<Rightarrow> 'x cerr \<Rightarrow>
     HTTPError" where
  "resolveErrorAsHTTPError kinder cx mapper e =
     (case (case mapper of Some f \<Rightarrow> f cx e | None \<Rightarrow> None) of
        Some h \<Rightarrow> h
      | None \<Rightarrow> (case e of CustomError m \<Rightarrow> CustomError_HTTPError m | _ \<Rightarrow> MapError kinder cx e))"

text \<open>
  \<open>writer x\<close> is the method \<^verbatim>\<open>WriteError\<close> of a foreign error, if it has one: it may write, and says
  whether the error is thereby handled.
\<close>

type_synonym ('x, 'cfg) err_writer =
  "'x \<Rightarrow> ('cfg ctx \<Rightarrow> response_writer \<Rightarrow> bool \<times> response_writer) option"

definition error_writer ::
  "('x, 'cfg) err_writer \<Rightarrow> 'x cerr option \<Rightarrow>
     ('cfg ctx \<Rightarrow> response_writer \<Rightarrow> bool \<times> response_writer) option" where
  "error_writer writer cause = (case cause of Some (OtherErr x) \<Rightarrow> writer x | _ \<Rightarrow> None)"

definition HandleError ::
  "('x \<Rightarrow> Kind option) \<Rightarrow> ('x, 'cfg) err_writer \<Rightarrow> 'cfg ctx \<Rightarrow> response_writer \<Rightarrow> Kind \<Rightarrow> string \<Rightarrow>
     'x cerr option \<Rightarrow> ('cfg ctx \<Rightarrow> 'x cerr \<Rightarrow> HTTPError option) option \<Rightarrow>
     ('cfg ctx \<Rightarrow> response_writer \<Rightarrow> HTTPError \<Rightarrow> (unit, response_writer) res) option \<Rightarrow>
     (unit, response_writer) res" where
  "HandleError kinder writer cx w kind message cause mapper httpErrorWriter =
     (let (handled, w1) = (case error_writer writer cause of
                             Some f \<Rightarrow> f cx w | None \<Rightarrow> (False, w))
      in if handled then Ok w1
         else
           (let (e, kvs) = (case cause of
                    Some (wrappedError e' fs) \<Rightarrow> (CreateError kinder cx kind message (Some e'), fs)
                  | _ \<Rightarrow> (CreateError kinder cx kind message cause, []));
                h = fold (\<lambda>(k, v) h. AddField h k v) kvs (resolveErrorAsHTTPError kinder cx mapper e)
            in case httpErrorWriter of
                 Some f \<Rightarrow> f cx w1 h
               | None \<Rightarrow> HTTPError_WriteError h w1))"

section \<open>The default callback (common/defaultcallback.go)\<close>

text \<open>The type variables are those of the router and of the upstream configuration.\<close>

record ('x, 'cfg, 'up, 'router) Callback =
  DownstreamTimeout :: int
  RouterBasePath :: string
  UpstreamConfig :: 'up
  MapErrorFunc :: "('cfg ctx \<Rightarrow> 'x cerr \<Rightarrow> HTTPError option) option"
  WriteErrorFunc :: "('cfg ctx \<Rightarrow> response_writer \<Rightarrow> HTTPError \<Rightarrow> (unit, response_writer) res) option"
  AddMiddlewareFunc :: "('cfg ctx \<Rightarrow> 'router \<Rightarrow> 'router) option"

definition Config_Validate :: "unit \<Rightarrow> 'e option" where
  "Config_Validate c = None"

definition Callback_BasePath :: "('x, 'cfg, 'up, 'router) Callback \<Rightarrow> string" where
  "Callback_BasePath g = RouterBasePath g"

definition Callback_Config :: "('x, 'cfg, 'up, 'router) Callback \<Rightarrow> 'up" where
  "Callback_Config g = UpstreamConfig g"

text \<open>\<open>with_timeout\<close> is \<^verbatim>\<open>context.WithTimeout\<close>.\<close>

definition DownstreamTimeoutContext ::
  "('cfg ctx \<Rightarrow> int \<Rightarrow> 'cfg ctx) \<Rightarrow> ('x, 'cfg, 'up, 'router) Callback \<Rightarrow> 'cfg ctx \<Rightarrow> 'cfg ctx" where
  "DownstreamTimeoutContext with_timeout g cx = with_timeout cx (DownstreamTimeout g)"

definition DefaultCallback :: "'up \<Rightarrow> ('x, 'cfg, 'up, 'router) Callback" where
  "DefaultCallback emptyConfig =
     \<lparr>DownstreamTimeout = 120 * 1000000000, RouterBasePath = ''/'', UpstreamConfig = emptyConfig,
      MapErrorFunc = None, WriteErrorFunc = None, AddMiddlewareFunc = None\<rparr>"

definition Callback_AddMiddleware ::
  "('x, 'cfg, 'up, 'router) Callback \<Rightarrow> 'cfg ctx \<Rightarrow> 'router \<Rightarrow> 'router" where
  "Callback_AddMiddleware g cx r = (case AddMiddlewareFunc g of Some f \<Rightarrow> f cx r | None \<Rightarrow> r)"

definition Callback_MapError ::
  "('x, 'cfg, 'up, 'router) Callback \<Rightarrow> 'cfg ctx \<Rightarrow> 'x cerr \<Rightarrow> HTTPError option" where
  "Callback_MapError g cx e = (case MapErrorFunc g of None \<Rightarrow> None | Some f \<Rightarrow> f cx e)"

definition Callback_WriteError ::
  "('x, 'cfg, 'up, 'router) Callback \<Rightarrow> 'cfg ctx \<Rightarrow> response_writer \<Rightarrow> HTTPError \<Rightarrow>
     (unit, response_writer) res" where
  "Callback_WriteError g cx w h =
     (case WriteErrorFunc g of None \<Rightarrow> HTTPError_WriteError h w | Some f \<Rightarrow> f cx w h)"

definition Callback_HandleError ::
  "('x \<Rightarrow> Kind option) \<Rightarrow> ('x, 'cfg, 'up, 'router) Callback \<Rightarrow> 'cfg ctx \<Rightarrow> response_writer \<Rightarrow> Kind \<Rightarrow>
     string \<Rightarrow> 'x cerr option \<Rightarrow> (unit, response_writer) res" where
  "Callback_HandleError kinder g cx w kind message cause =
     and_then (deref (Callback_MapError g cx (CreateError kinder cx kind message cause)))
       (\<lambda>h. HTTPError_WriteError h w)"

text \<open>\<open>basePath\<close> and \<open>upstream\<close> are the fields of the generated-code configuration that are read.\<close>

definition NewCallbackV3 where
  "NewCallbackV3 basePath upstream downstreamTimeOut mapError writeError addMiddleware =
     \<lparr>DownstreamTimeout = downstreamTimeOut, RouterBasePath = basePath, UpstreamConfig = upstream,
      MapErrorFunc = mapError, WriteErrorFunc = writeError, AddMiddlewareFunc = addMiddleware\<rparr>"

definition NewCallbackV2 where
  "NewCallbackV2 basePath upstream downstreamTimeOut mapError addMiddleware =
     \<lparr>DownstreamTimeout = downstreamTimeOut, RouterBasePath = basePath, UpstreamConfig = upstream,
      MapErrorFunc = mapError, WriteErrorFunc = None, AddMiddlewareFunc = addMiddleware\<rparr>"

definition NewCallback where
  "NewCallback basePath upstream downstreamTimeOut mapError =
     NewCallbackV2 basePath upstream downstreamTimeOut mapError None"

section \<open>Lemmas on responses\<close>

lemma status_fields_safe:
  "safe_fields (case extraFields h of None \<Rightarrow> [] | Some m \<Rightarrow> m) \<Longrightarrow>
     safe_fields (status_fields h)"
  by (auto simp: status_fields_def Let_def split: option.splits list.splits)

text \<open>The complete effect of writing an HTTP error to a writer that has sent nothing yet.\<close>

definition error_body :: "HTTPError \<Rightarrow> string" where
  "error_body h =
     (case json_encode (GObj [(''status'', GObj (status_fields h))]) of
        Some t \<Rightarrow> t | None \<Rightarrow> marshal_fallback)"

definition marshals :: "HTTPError \<Rightarrow> bool" where
  "marshals h = safe_fields (status_fields h)"

definition error_header :: "response_writer \<Rightarrow> header" where
  "error_header w = header_set (rw_header w) ''Content-Type'' ''application/json;charset=UTF-8''"

lemma encode_status_iff:
  "(json_encode (GObj [(''status'', GObj (status_fields h))]) = None) = (\<not> marshals h)"
  using json_encode_defined(1) [of "GObj [(''status'', GObj (status_fields h))]"]
  by (auto simp: marshals_def safe_fields_def)

lemma WriteError_unfold:
  "HTTPError_WriteError h w =
     and_then (WriteHeader (w\<lparr>rw_header := error_header w\<rparr>) (if marshals h then HTTPCode h else 500))
       (\<lambda>w2. Ok (Write w2 (error_body h)))"
  unfolding HTTPError_WriteError_def error_body_def error_header_def
  using encode_status_iff [of h]
  by (cases "json_encode (GObj [(''status'', GObj (status_fields h))])")
     (simp_all only: Let_def option.simps prod.case if_True if_False not_not simp_thms)

lemma WriteError_fresh:
  assumes "rw_code w = None" and "code = (if marshals h then HTTPCode h else 500)"
    and "200 \<le> code \<or> code = 101" and "code \<le> 999"
  shows "HTTPError_WriteError h w =
    Ok (w\<lparr>rw_header := error_header w, rw_code := Some code, rw_sent := error_header w,
          rw_body := rw_body w @ error_body h\<rparr>)"
  unfolding WriteError_unfold using assms by (auto simp: WriteHeader_def Write_def)

lemma WriteError_bad_code:
  assumes "rw_code w = None" and "marshals h" and "HTTPCode h < 100 \<or> 999 < HTTPCode h"
  shows "HTTPError_WriteError h w = Panic ''invalid WriteHeader code''"
  unfolding WriteError_unfold using assms by (auto simp: WriteHeader_def)

lemma WriteError_informational:
  assumes "rw_code w = None" and "marshals h"
    and "100 \<le> HTTPCode h" "HTTPCode h \<le> 199" "HTTPCode h \<noteq> 101"
  shows "HTTPError_WriteError h w =
    Ok (w\<lparr>rw_header := error_header w, rw_code := Some 200, rw_sent := error_header w,
          rw_body := rw_body w @ error_body h\<rparr>)"
  unfolding WriteError_unfold using assms by (auto simp: WriteHeader_def Write_def)

lemma marshals_plain [simp]: "extraFields h = None \<Longrightarrow> marshals h"
  by (simp add: marshals_def status_fields_safe)

lemma kind_response_code: "200 \<le> fst (kind_response k) \<and> fst (kind_response k) \<le> 999"
  by (cases k) auto

lemma http_error_of_fields [simp]:
  "HTTPCode (http_error_of t) = fst t" "extraFields (http_error_of t) = None"
  "Code (http_error_of t) = fst (snd t)" "Description (http_error_of t) = snd (snd t)"
  by (auto simp: http_error_of_def split: prod.splits)

lemma MapError_code: "200 \<le> HTTPCode (MapError kinder cx e) \<and> HTTPCode (MapError kinder cx e) \<le> 999"
  using kind_response_code by (auto simp: MapError_def split: option.splits)

lemma fold_AddField_named [simp]:
  "HTTPCode (fold (\<lambda>(k, v) h. AddField h k v) kvs h) = HTTPCode h"
  "Code (fold (\<lambda>(k, v) h. AddField h k v) kvs h) = Code h"
  "Description (fold (\<lambda>(k, v) h. AddField h k v) kvs h) = Description h"
  by (induction kvs arbitrary: h) (auto simp: AddField_def)

lemma GetField_fold:
  "GetField (fold (\<lambda>(k, v) h. AddField h k v) kvs h) key =
     (case map_of (rev kvs) key of Some v \<Rightarrow> v | None \<Rightarrow> GetField h key)"
  by (induction kvs arbitrary: h)
     (auto simp: AddField_def GetField_def map_add_def split: option.splits)

lemma fold_AddField_safe:
  "safe_fields kvs \<Longrightarrow>
   safe_fields (case extraFields h of None \<Rightarrow> [] | Some m \<Rightarrow> m) \<Longrightarrow>
   safe_fields (case extraFields (fold (\<lambda>(k, v) h. AddField h k v) kvs h) of None \<Rightarrow> [] | Some m \<Rightarrow> m)"
proof (induction kvs arbitrary: h)
  case (Cons kv kvs)
  have "safe_fields 
      (case extraFields (AddField h (fst kv) (snd kv)) of None \<Rightarrow> [] | Some m \<Rightarrow> m)"
    using Cons.prems by (simp add: AddField_def)
  with Cons show ?case by (simp add: case_prod_beta)
qed simp

text \<open>
  The kind the response is derived from: the timeout kind once the deadline has passed, else the
  cause's own kind, else the kind the caller gave.
\<close>

definition effective_kind ::
  "('x \<Rightarrow> Kind option) \<Rightarrow> 'cfg ctx \<Rightarrow> Kind \<Rightarrow> 'x cerr option \<Rightarrow> Kind" where
  "effective_kind kinder cx kind cause =
     (if ctx_Err cx = Some DeadlineExceeded then DownstreamTimeoutError
      else case Option.bind cause (ErrorKind kinder) of Some k \<Rightarrow> k | None \<Rightarrow> kind)"

fun plain_cause :: "'x cerr option \<Rightarrow> bool" where
  "plain_cause (Some (CustomError m)) = False"
| "plain_cause (Some (wrappedError e fs)) = False"
| "plain_cause c = True"

lemma CreateError_kind:
  assumes "plain_cause cause"
  shows "ErrorKind kinder (CreateError kinder cx kind message cause) =
           Some (effective_kind kinder cx kind cause)"
  using assms
  by (cases cause rule: plain_cause.cases)
     (auto simp: CreateError_def CheckContextTimeout_def passes_through_def effective_kind_def
       split: option.splits)

lemma resolve_kinder:
  assumes "ErrorKind kinder e = Some k"
  shows "resolveErrorAsHTTPError kinder cx None e = http_error_of (kind_response k)"
  using assms by (cases e) (auto simp: resolveErrorAsHTTPError_def MapError_def)

lemma CreateError_deadline:
  "ctx_Err cx = Some DeadlineExceeded \<Longrightarrow>
     CreateError kinder cx kind message cause = ServerError DownstreamTimeoutError message cause"
  by (simp add: CreateError_def CheckContextTimeout_def)

lemma GetField_http_error_of [simp]: "GetField (http_error_of t) k = GNull"
  by (simp add: GetField_def)

lemma handle_wrapped:
  assumes "rw_code w = None" and "safe_fields fs"
    and "resolveErrorAsHTTPError kinder cx None (CreateError kinder cx kind message (Some d)) =
      http_error_of t"
    and "200 \<le> fst t" "fst t \<le> 999"
  shows "\<exists>w' h. HandleError kinder writer cx w kind message (Some (WrappedError d fs)) None None = Ok w' \<and>
      rw_code w' = Some (fst t) \<and> rw_body w' = rw_body w @ error_body h \<and> Code h = fst (snd t) \<and>
      (\<forall>k. GetField h k = (case map_of (rev fs) k of Some v \<Rightarrow> v | None \<Rightarrow> GNull))"
proof -
  let ?h = "fold (\<lambda>(k, v) h. AddField h k v) fs (http_error_of t)"
  have "marshals ?h"
    unfolding marshals_def using assms(2) by (intro status_fields_safe fold_AddField_safe) auto
  moreover have "HandleError kinder writer cx w kind message (Some (WrappedError d fs)) None None =
      HTTPError_WriteError ?h w"
    by (simp add: HandleError_def WrappedError_def error_writer_def assms(3))
  ultimately show ?thesis
    using assms(4,5)
    by (auto simp: WriteError_fresh [OF assms(1) refl] GetField_fold split: option.split
        intro!: exI [of _ ?h])
qed

section \<open>Properties\<close>



text \<open>
  Once the deadline of the request has passed, every error without its own writer (custom and
  wrapped errors included, whatever kind the caller gives) is answered with 504 and error code
  1005, provided the wrapped fields are JSON values.
\<close>

theorem deadline_gives_504:
  assumes "rw_code w = None" and "ctx_Err cx = Some DeadlineExceeded"
    and "error_writer writer cause = None"
    and "\<And>e fs. cause = Some (wrappedError e fs) \<Longrightarrow> safe_fields fs"
  shows "\<exists>w' h. HandleError kinder writer cx w kind message cause None None = Ok w' \<and>
    rw_code w' = Some 504 \<and> rw_body w' = rw_body w @ error_body h \<and> Code h = ''1005''"
proof -
  define kvs where "kvs = (case cause of Some (wrappedError e fs) \<Rightarrow> fs | _ \<Rightarrow> [])"
  let ?base = "http_error_of (kind_response DownstreamTimeoutError)"
  let ?h = "fold (\<lambda>(k, v) h. AddField h k v) kvs ?base"
  have "safe_fields kvs"
    using assms(4) by (auto simp: kvs_def split: option.splits cerr.splits)
  then have "marshals ?h"
    unfolding marshals_def by (intro status_fields_safe fold_AddField_safe) auto
  moreover have "HandleError kinder writer cx w kind message cause None None =
      HTTPError_WriteError ?h w"
    using assms(2,3)
    by (auto simp: HandleError_def CreateError_deadline kvs_def resolve_kinder
        split: option.splits cerr.splits)
  ultimately show ?thesis
    by (auto simp: WriteError_fresh [OF assms(1) refl] intro!: exI [of _ ?h])
qed

definition late_ctx :: "unit ctx" where
  "late_ctx = Background\<lparr>ctx_Err := Some DeadlineExceeded\<rparr>"

theorem deadline_gives_504_witness:
  "\<exists>w'. HandleError (\<lambda>_. None) (\<lambda>_. None) late_ctx new_writer BadRequestError ''m''
         (Some (CustomError [(''http_status'', ''418'')]) :: unit cerr option) None None = Ok w' \<and>
        rw_code w' = Some 504"
  using deadline_gives_504 [of new_writer late_ctx "\<lambda>_. None"
    "Some (CustomError [(''http_status'', ''418'')]) :: unit cerr option" "\<lambda>_. None" BadRequestError "''m''"]
  by (auto simp: new_writer_def late_ctx_def error_writer_def)

text \<open>
  Wrapping an error once keeps its kind and adds the fields to the response; wrapping it
  twice loses the kind: whatever the inner error is, the response is 500 with error code 9999,
  and only the outer fields are reported.
\<close>

theorem wrapping_and_kinds:
  assumes "rw_code w = None" and "ctx_Err cx \<noteq> Some DeadlineExceeded" and "safe_fields fs"
    and "plain_cause (Some e)"
  shows "(\<exists>w' h. HandleError kinder writer cx w kind message (Some (WrappedError e fs)) None None = Ok w' \<and>
            rw_code w' = Some (fst (kind_response (effective_kind kinder cx kind (Some e)))) \<and>
            rw_body w' = rw_body w @ error_body h \<and>
            (\<forall>k. GetField h k = (case map_of (rev fs) k of Some v \<Rightarrow> v | None \<Rightarrow> GNull))) \<and>
         (\<exists>w' h. HandleError kinder writer cx w kind message
              (Some (WrappedError (WrappedError e fs') fs)) None None = Ok w' \<and>
            rw_code w' = Some 500 \<and> rw_body w' = rw_body w @ error_body h \<and> Code h = ''9999'' \<and>
            (\<forall>k. GetField h k = (case map_of (rev fs) k of Some v \<Rightarrow> v | None \<Rightarrow> GNull)))"
proof -
  note gen = handle_wrapped [OF assms(1,3)]
  have "CreateError kinder cx kind message (Some (WrappedError e fs')) = WrappedError e fs'"
    using assms(2) by (simp add: CreateError_def CheckContextTimeout_def passes_through_def WrappedError_def)
  then have twice: "resolveErrorAsHTTPError kinder cx None
      (CreateError kinder cx kind message (Some (WrappedError e fs'))) = http_error_of (kind_response UnknownError)"
    using assms(2) by (simp add: resolveErrorAsHTTPError_def MapError_def WrappedError_def)
  show ?thesis
    using gen [OF resolve_kinder [OF CreateError_kind [OF assms(4)]]] gen [OF twice] kind_response_code
    by fastforce
qed

theorem wrapping_and_kinds_witness:
  "\<exists>w'. HandleError (\<lambda>_. None) (\<lambda>_. None) (Background :: unit ctx) new_writer InternalError ''m''
         (Some (WrappedError (WrappedError (ServerError UnauthorizedError ''no'' None :: unit cerr) [])
           [(''a'', GBool True)])) None None = Ok w' \<and> rw_code w' = Some 500"
  using wrapping_and_kinds [of new_writer "Background :: unit ctx" "[(''a'', GBool True)]"
    "ServerError UnauthorizedError ''no'' None :: unit cerr" "\<lambda>_. None" "\<lambda>_. None" InternalError "''m''" "[]"]
  by (auto simp: new_writer_def Background_def)

text \<open>
  The status of a custom error is taken from its \<^verbatim>\<open>http_status\<close> entry (500 if it is absent or
  not a number) and is not checked: outside 100 to 999 the response writer panics, and an
  informational status other than 101 is answered as 200.
\<close>

theorem custom_error_status:
  assumes "rw_code w = None" and "ctx_Err cx \<noteq> Some DeadlineExceeded"
    and "n = (case Atoi (getOrDefault m ''http_status'' ''500'') of Some n \<Rightarrow> n | None \<Rightarrow> 500)"
  shows "HandleError kinder writer cx w kind message (Some (CustomError m)) None None =
    (if n < 100 \<or> 999 < n then Panic ''invalid WriteHeader code''
     else Ok (w\<lparr>rw_header := error_header w,
                 rw_code := Some (if n \<le> 199 \<and> n \<noteq> 101 then 200 else n),
                 rw_sent := error_header w,
                 rw_body := rw_body w @ error_body (CustomError_HTTPError m)\<rparr>))"
proof -
  have h: "HTTPCode (CustomError_HTTPError m) = n" "extraFields (CustomError_HTTPError m) = None"
    by (simp_all add: CustomError_HTTPError_def assms(3) Let_def)
  have "HandleError kinder writer cx w kind message (Some (CustomError m)) None None =
      HTTPError_WriteError (CustomError_HTTPError m) w"
    using assms(2)
    by (simp add: HandleError_def error_writer_def CreateError_def CheckContextTimeout_def
        passes_through_def resolveErrorAsHTTPError_def)
  then show ?thesis
    using h by (auto simp: WriteError_unfold WriteHeader_def Write_def assms(1))
qed

theorem custom_error_status_witness:
  "HandleError (\<lambda>_. None) (\<lambda>_. None) (Background :: unit ctx) new_writer InternalError ''m''
     (Some (CustomError [(''http_status'', ''1000'')]) :: unit cerr option) None None =
   Panic ''invalid WriteHeader code''"
proof -
  have "(1000 :: int) =
      (case Atoi (getOrDefault [(''http_status'', ''1000'')] ''http_status'' ''500'') of
         Some n \<Rightarrow> n | None \<Rightarrow> 500)"
    by code_simp
  then show ?thesis
    using custom_error_status [of new_writer "Background :: unit ctx" 1000
      "[(''http_status'', ''1000'')]"]
    by (simp add: new_writer_def Background_def)
qed

text \<open>
  A downstream error keeps at most the first 128 bytes of the response body, and all of a
  shorter one; past the deadline the result is a timeout error naming the request instead.
\<close>

theorem downstream_error_snippet:
  "CreateDownstreamError cx kind r body cause =
     (if ctx_Err cx = Some DeadlineExceeded
      then ServerError DownstreamTimeoutError (resp_Method r @ '' '' @ resp_URL r) cause
      else DownstreamError kind r (take 128 body) cause)"
  by (simp add: CreateDownstreamError_def CheckContextTimeout_def
      downstreamResponseSnippetMaxLength_def)

text \<open>
  A callback whose error mapper is left nil, or whose mapper returns nil to ask for the
  default mapping, panics in its own \<^verbatim>\<open>HandleError\<close>; a mapper that returns an error writes it.
\<close>

theorem callback_handle_error:
  "Callback_HandleError kinder g cx w kind message cause =
     (case Callback_MapError g cx (CreateError kinder cx kind message cause) of
        None \<Rightarrow> Panic nil_deref
      | Some h \<Rightarrow> HTTPError_WriteError h w) \<and>
   Callback_HandleError kinder (DefaultCallback up) cx w kind message cause = Panic nil_deref"
  by (simp add: Callback_HandleError_def Callback_MapError_def DefaultCallback_def deref_def
      split: option.split)

end
