(* ===== verification/JwtAuth.thy ===== *)
theory JwtAuth
  imports GoHttp
begin

text \<open>
  Package \<^verbatim>\<open>jwtauth\<close>: errors with their HTTP status, claims in a request context, the remote
  key-set issuer with its cache, the standard and the insecure authenticator, and their
  construction from configuration.

  The token library go-jose is the parameter record \<open>jose\<close>.  A nil claims map reads as an empty
  one.  Calls of the package logger are left out.
\<close>

section \<open>Errors (jwtauth/errors.go)\<close>

text \<open>
  The errors that flow through the authorization code: \<^verbatim>\<open>errors.New\<close> and \<^verbatim>\<open>fmt.Errorf\<close>
  (\<open>ErrNew\<close>), \<^verbatim>\<open>errors.Wrap\<close> (\<open>ErrWrap\<close>), \<^verbatim>\<open>jwtauth.AuthError\<close>, a gRPC status, an expression
  error, and errors of foreign code.  A foreign error may define a method \<^verbatim>\<open>HTTPStatus\<close>; then
  \<open>LibErr\<close> carries its value.
\<close>

datatype grpc_code = Unauthenticated | PermissionDenied

datatype 'x autherr =
  ErrNew string
| ErrWrap string "'x autherr"
| AuthError int "'x autherr option"
| GrpcStatus grpc_code string
| ExprErr "'x Error"
| LibErr "int option" 'x

definition AuthErrCodeUnknown :: int where "AuthErrCodeUnknown = 0"
definition AuthErrCodeInvalidJWT :: int where "AuthErrCodeInvalidJWT = 1"
definition AuthErrCodeUntrustedSource :: int where "AuthErrCodeUntrustedSource = 2"
definition AuthErrCodeBadSignature :: int where "AuthErrCodeBadSignature = 3"
definition AuthErrCodeInsufficientPermissions :: int where
  "AuthErrCodeInsufficientPermissions = 4"

lemmas auth_codes = AuthErrCodeUnknown_def AuthErrCodeInvalidJWT_def
  AuthErrCodeUntrustedSource_def AuthErrCodeBadSignature_def
  AuthErrCodeInsufficientPermissions_def

definition errHTTPCodeMap :: "int \<rightharpoonup> int" where
  "errHTTPCodeMap =
     [AuthErrCodeUnknown \<mapsto> 500, AuthErrCodeInvalidJWT \<mapsto> 401, AuthErrCodeUntrustedSource \<mapsto> 403,
      AuthErrCodeBadSignature \<mapsto> 403, AuthErrCodeInsufficientPermissions \<mapsto> 403]"

definition AuthError_HTTPStatus :: "int \<Rightarrow> int" where
  "AuthError_HTTPStatus code = (case errHTTPCodeMap code of None \<Rightarrow> 500 | Some c \<Rightarrow> c)"

fun AuthError_Unwrap :: "'x autherr \<Rightarrow> 'x autherr option" where
  "AuthError_Unwrap (AuthError code cause) = cause"
| "AuthError_Unwrap e = None"

text \<open>The type assertion \<^verbatim>\<open>err.(interface{ HTTPStatus() int })\<close>; it does not unwrap.\<close>

fun http_status_of :: "'x autherr \<Rightarrow> int option" where
  "http_status_of (AuthError code cause) = Some (AuthError_HTTPStatus code)"
| "http_status_of (LibErr st x) = st"
| "http_status_of e = None"

section \<open>Claims in a context (jwtauth/claims.go)\<close>

text \<open>
  \<^verbatim>\<open>clone\<close> copies through JSON.  Marshalling fails exactly on a value that is not JSON; numbers
  are modelled by their JSON text and strings are valid UTF-8, so decoding gives the same value
  back.
\<close>

fun json_copy :: "goval \<Rightarrow> goval option"
  and json_copies :: "goval list \<Rightarrow> goval list option"
  and json_fields :: "(string \<times> goval) list \<Rightarrow> (string \<times> goval) list option" where
  "json_copy GNull = Some GNull"
| "json_copy (GBool b) = Some (GBool b)"
| "json_copy (GNum t) = Some (GNum t)"
| "json_copy (GStr s) = Some (GStr s)"
| "json_copy (GArr vs) = map_option GArr (json_copies vs)"
| "json_copy (GObj fs) = map_option GObj (json_fields fs)"
| "json_copy (GOpaque n) = None"
| "json_copies [] = Some []"
| "json_copies (v # vs) =
     Option.bind (json_copy v) (\<lambda>v'. map_option (\<lambda>vs'. v' # vs') (json_copies vs))"
| "json_fields [] = Some []"
| "json_fields ((k, v) # fs) =
     Option.bind (json_copy v) (\<lambda>v'. map_option (\<lambda>fs'. (k, v') # fs') (json_fields fs))"

definition clone :: "claims \<Rightarrow> ('e, claims) res" where
  "clone c =
     (case json_fields c of None \<Rightarrow> Panic ''cannot copy Claims'' | Some c' \<Rightarrow> Ok c')"

definition AddClaimsToContext :: "'cfg ctx \<Rightarrow> claims \<Rightarrow> ('e, 'cfg ctx) res" where
  "AddClaimsToContext cx c = and_then (clone c) (\<lambda>c'. Ok (cx\<lparr>ctx_claims := Some c'\<rparr>))"

definition GetClaimsFromContext :: "'cfg ctx \<Rightarrow> ('e, claims \<times> bool) res" where
  "GetClaimsFromContext cx =
     (case ctx_claims cx of
        None \<Rightarrow> Ok ([], False)
      | Some c \<Rightarrow> and_then (clone c) (\<lambda>c'. Ok (c', True)))"

definition claims_safe :: "claims \<Rightarrow> bool" where
  "claims_safe c = list_all (\<lambda>(k, v). json_safe v) c"

lemma json_copy_iff:
  "json_copy v = Some v' \<longleftrightarrow> json_safe v \<and> v' = v"
  "json_copies vs = Some vs' \<longleftrightarrow> list_all json_safe vs \<and> vs' = vs"
  "json_fields fs = Some fs' \<longleftrightarrow> list_all (\<lambda>(k, v). json_safe v) fs \<and> fs' = fs"
  by (induction v and vs and fs arbitrary: v' and vs' and fs'
      rule: json_copy_json_copies_json_fields.induct) (auto simp: bind_eq_Some_conv)

lemma clone_Ok_iff: "clone c = Ok c' \<longleftrightarrow> claims_safe c \<and> c' = c"
proof -
  have "clone c = Ok c' \<longleftrightarrow> json_fields c = Some c'" by (auto simp: clone_def split: option.splits)
  then show ?thesis by (simp add: json_copy_iff(3) claims_safe_def)
qed

lemma clone_safe [simp]: "claims_safe c \<Longrightarrow> clone c = Ok c"
  by (simp add: clone_Ok_iff)

lemma clone_unsafe: "\<not> claims_safe c \<Longrightarrow> clone c = Panic ''cannot copy Claims''"
  using json_copy_iff(3) [of c] by (auto simp: clone_def claims_safe_def split: option.splits)

lemma Get_Add_claims:
  assumes "AddClaimsToContext cx c = Ok cx'"
  shows "GetClaimsFromContext cx' = Ok (c, True)"
  using assms by (auto simp: AddClaimsToContext_def GetClaimsFromContext_def go_res clone_Ok_iff)

lemma Add_claims_cases:
  "AddClaimsToContext cx c =
     (if claims_safe c then Ok (cx\<lparr>ctx_claims := Some c\<rparr>) else Panic ''cannot copy Claims'')"
  by (simp add: AddClaimsToContext_def clone_unsafe)

section \<open>The token library\<close>

record ('tok, 'jc, 'k, 'ks, 'x) jose =
  ParseSigned :: "string \<Rightarrow> 'x + 'tok"
  TokenKeyIDs :: "'tok \<Rightarrow> string list"
  UnsafeStdClaims :: "'tok \<Rightarrow> 'x + 'jc"
  UnsafeClaims :: "'tok \<Rightarrow> 'x + claims"
  StdIssuer :: "'jc \<Rightarrow> string"
  ValidateWithLeeway :: "'jc \<Rightarrow> int \<Rightarrow> int \<Rightarrow> 'x option"
  TokenClaims :: "'tok \<Rightarrow> 'k \<Rightarrow> 'x + claims"
  KeySetKey :: "'ks \<Rightarrow> string \<Rightarrow> 'k list"
  UnmarshalKeySet :: "string \<Rightarrow> 'x + 'ks"

section \<open>The remote key-set issuer (jwtauth/remote.go)\<close>

text \<open>What \<^verbatim>\<open>client.Get\<close> gives: an error, or a status with the outcome of reading the body.\<close>

datatype 'x http_get = GetErr 'x | GetResp int "'x + string"

text \<open>
  What the surroundings answer during one call: the three readings of the clock (in
  \<^verbatim>\<open>Authenticate\<close>, in \<^verbatim>\<open>getKey\<close> and in \<^verbatim>\<open>Put\<close>) and the HTTP client.
\<close>

record ('client, 'x) env =
  now_validate :: int
  now_since :: int
  now_put :: int
  client_Get :: "'client \<Rightarrow> string \<Rightarrow> 'x http_get"

record 'ks jwksCache =
  cached :: "'ks option"
  ttl :: int
  setTime :: int

text \<open>\<open>refresh_loop\<close> is the cycle time of the background goroutine, if one was started.\<close>

record ('client, 'ks) RemoteJWKSIssuer =
  issuer_url :: string
  issuer_client :: 'client
  issuer_cache :: "'ks jwksCache"
  refresh_loop :: "int option"

definition jwksCache_getKey ::
  "('tok, 'jc, 'k, 'ks, 'x) jose \<Rightarrow> int \<Rightarrow> 'ks jwksCache \<Rightarrow> string \<Rightarrow> ('x autherr, 'k list) res" where
  "jwksCache_getKey J now c kid =
     (if ttl c < Since now (setTime c) then Err (ErrNew ''Cache expired'')
      else and_then (deref (cached c)) (\<lambda>ks. Ok (KeySetKey J ks kid)))"

definition jwksCache_Put :: "int \<Rightarrow> 'ks jwksCache \<Rightarrow> 'ks \<Rightarrow> 'ks jwksCache" where
  "jwksCache_Put now c jwks = c\<lparr>cached := Some jwks, setTime := now\<rparr>"

text \<open>The part of \<^verbatim>\<open>refreshCache\<close> before the store: fetch, check the status, read, decode.\<close>

definition fetch_jwks ::
  "('tok, 'jc, 'k, 'ks, 'x) jose \<Rightarrow> 'x http_get \<Rightarrow> ('x autherr, 'ks) res" where
  "fetch_jwks J resp =
     (case resp of
        GetErr x \<Rightarrow> Err (LibErr None x)
      | GetResp status body \<Rightarrow>
          if status \<noteq> 200 then
            Err (ErrNew (''jwks fetch error: Received status '' @ show_int status @ '' from issuer''))
          else (case body of
            Inl x \<Rightarrow> Err (ErrWrap ''Error reading jwks response'' (LibErr None x))
          | Inr b \<Rightarrow> (case UnmarshalKeySet J b of
              Inl x \<Rightarrow> Err (LibErr None x)
            | Inr newjwks \<Rightarrow> Ok newjwks)))"

definition RemoteJWKSIssuer_refreshCache ::
  "('tok, 'jc, 'k, 'ks, 'x) jose \<Rightarrow> ('client, 'x) env \<Rightarrow> ('client, 'ks) RemoteJWKSIssuer \<Rightarrow>
     ('x autherr, 'ks) res \<times> ('client, 'ks) RemoteJWKSIssuer" where
  "RemoteJWKSIssuer_refreshCache J E r =
     (let res = fetch_jwks J (client_Get E (issuer_client r) (issuer_url r))
      in case res of
           Ok newjwks \<Rightarrow> (res, r\<lparr>issuer_cache := jwksCache_Put (now_put E) (issuer_cache r) newjwks\<rparr>)
         | _ \<Rightarrow> (res, r))"

definition verify_with_keys ::
  "('tok, 'jc, 'k, 'ks, 'x) jose \<Rightarrow> 'tok \<Rightarrow> 'k list \<Rightarrow> ('x autherr, claims) res" where
  "verify_with_keys J tok keys =
     (case keys of
        [] \<Rightarrow> Err (AuthError AuthErrCodeUntrustedSource
               (Some (ErrNew ''No mathing key id for incoming jwt'')))
      | k # _ \<Rightarrow> (case TokenClaims J tok k of
          Inl x \<Rightarrow> Err (AuthError AuthErrCodeBadSignature
                 (Some (ErrWrap ''jwt verify error'' (LibErr None x))))
        | Inr c \<Rightarrow> Ok c))"

definition RemoteJWKSIssuer_Verify ::
  "('tok, 'jc, 'k, 'ks, 'x) jose \<Rightarrow> ('client, 'x) env \<Rightarrow> ('client, 'ks) RemoteJWKSIssuer \<Rightarrow> 'tok \<Rightarrow>
     ('x autherr, claims) res \<times> ('client, 'ks) RemoteJWKSIssuer" where
  "RemoteJWKSIssuer_Verify J E r tok =
     (case TokenKeyIDs J tok of
        [kid] \<Rightarrow>
          (case jwksCache_getKey J (now_since E) (issuer_cache r) kid of
             Ok keys \<Rightarrow> (verify_with_keys J tok keys, r)
           | Panic p \<Rightarrow> (Panic p, r)
           | Err _ \<Rightarrow>
               (case RemoteJWKSIssuer_refreshCache J E r of
                  (Ok jwks, r') \<Rightarrow> (verify_with_keys J tok (KeySetKey J jwks kid), r')
                | (Err e, r') \<Rightarrow> (Err (AuthError AuthErrCodeUnknown
                                (Some (ErrWrap ''Unable to refresh jwks'' e))), r')
                | (Panic p, r') \<Rightarrow> (Panic p, r')))
      | _ \<Rightarrow> (Err (AuthError AuthErrCodeInvalidJWT
               (Some (ErrNew ''Token must have one header''))), r))"

text \<open>\<^verbatim>\<open>url.Parse\<close> is the argument \<open>url_Parse\<close>: the error of a text that is not a URL.\<close>

definition NewRemoteJWKSIssuer ::
  "('tok, 'jc, 'k, 'ks, 'x) jose \<Rightarrow> ('client, 'x) env \<Rightarrow> (string \<Rightarrow> 'x option) \<Rightarrow>
     string \<Rightarrow> 'client \<Rightarrow> int \<Rightarrow> int \<Rightarrow> ('x autherr, ('client, 'ks) RemoteJWKSIssuer) res" where
  "NewRemoteJWKSIssuer J E url_Parse issuerURL cl cacheTTL cacheRefresh =
     (case url_Parse issuerURL of
        Some x \<Rightarrow> Err (LibErr None x)
      | None \<Rightarrow>
          if cacheTTL = 0 then Err (ErrNew ''Must have a non-zero cache ttl'')
          else
            (let r = \<lparr>issuer_url = issuerURL, issuer_client = cl,
                      issuer_cache = \<lparr>cached = None, ttl = cacheTTL, setTime = zero_time\<rparr>,
                      refresh_loop = (if cacheRefresh > 0 then Some cacheRefresh else None)\<rparr>
             in Ok (snd (RemoteJWKSIssuer_refreshCache J E r))))"

section \<open>Authenticators (jwtauth/authenticate.go)\<close>

text \<open>
  The verifiers are reached through their interface: \<open>verify\<close> is the dispatched method, and a
  call may change the verifier's own state.
\<close>

definition StdAuthenticator_Authenticate ::
  "('tok, 'jc, 'k, 'ks, 'x) jose \<Rightarrow> ('v \<Rightarrow> 'tok \<Rightarrow> ('x autherr, claims) res \<times> 'v) \<Rightarrow> int \<Rightarrow>
     (string \<rightharpoonup> 'v) \<Rightarrow> string \<Rightarrow> ('x autherr, claims) res \<times> (string \<rightharpoonup> 'v)" where
  "StdAuthenticator_Authenticate J verify now verifiers raw =
     (case ParseSigned J raw of
        Inl x \<Rightarrow> (Err (AuthError AuthErrCodeInvalidJWT
                  (Some (ErrWrap ''jwt parse error'' (LibErr None x)))), verifiers)
      | Inr tok \<Rightarrow>
        (case UnsafeStdClaims J tok of
           Inl x \<Rightarrow> (Err (AuthError AuthErrCodeUnknown
                     (Some (ErrWrap ''jwt verify error'' (LibErr None x)))), verifiers)
         | Inr insecure \<Rightarrow>
           (case ValidateWithLeeway J insecure now 1000000000 of
              Some x \<Rightarrow> (Err (AuthError AuthErrCodeInvalidJWT (Some (LibErr None x))), verifiers)
            | None \<Rightarrow>
              (case verifiers (StdIssuer J insecure) of
                 None \<Rightarrow> (Err (AuthError AuthErrCodeUntrustedSource
                   (Some (ErrNew (''issuer not registered: '' @ StdIssuer J insecure)))), verifiers)
               | Some v \<Rightarrow>
                 (let (res, v') = verify v tok
                  in (res, verifiers(StdIssuer J insecure \<mapsto> v')))))))"

definition InsecureAuthenticator_Authenticate ::
  "('tok, 'jc, 'k, 'ks, 'x) jose \<Rightarrow> string \<Rightarrow> ('x autherr, claims) res" where
  "InsecureAuthenticator_Authenticate J raw =
     (case ParseSigned J raw of
        Inl x \<Rightarrow> Err (AuthError AuthErrCodeInvalidJWT
                  (Some (ErrWrap ''jwt parse error'' (LibErr None x))))
      | Inr tok \<Rightarrow>
        (case UnsafeClaims J tok of
           Inl x \<Rightarrow> Err (AuthError AuthErrCodeUnknown
                     (Some (ErrWrap ''jwt verify error'' (LibErr None x))))
         | Inr c \<Rightarrow> Ok c))"

section \<open>Configuration (jwtauth/config.go)\<close>

record IssuerConfig =
  ic_Name :: string
  ic_JWKSURL :: string
  ic_CacheTTL :: int
  ic_CacheRefresh :: int

type_synonym AuthConfig = "IssuerConfig list"

definition VerifierFromIssuerConfig ::
  "('tok, 'jc, 'k, 'ks, 'x) jose \<Rightarrow> ('client, 'x) env \<Rightarrow> (string \<Rightarrow> 'x option) \<Rightarrow> IssuerConfig \<Rightarrow>
     'client \<Rightarrow> ('x autherr, ('client, 'ks) RemoteJWKSIssuer) res" where
  "VerifierFromIssuerConfig J E url_Parse i cl =
     (if ic_JWKSURL i \<noteq> [] then
        NewRemoteJWKSIssuer J E url_Parse (ic_JWKSURL i) cl (ic_CacheTTL i) (ic_CacheRefresh i)
      else Err (ErrNew
        ''jwtauth.Config: Can only have one of SharedSecret, PublicKey or JWKSURL set''))"

text \<open>The loop of \<^verbatim>\<open>AuthFromConfig\<close>; each issuer is created in its own surroundings \<open>E ic\<close>.\<close>

fun add_issuers ::
  "(IssuerConfig \<Rightarrow> ('x autherr, 'v) res) \<Rightarrow> AuthConfig \<Rightarrow> (string \<rightharpoonup> 'v) \<Rightarrow> ('x autherr, string \<rightharpoonup> 'v) res"
where
  "add_issuers mk [] verifiers = Ok verifiers"
| "add_issuers mk (ic # ics) verifiers =
     (if ic_Name ic = [] then Err (ErrNew ''AuthConfig: Issuer must have a name'')
      else if verifiers (ic_Name ic) \<noteq> None
      then Err (ErrNew ''AuthConfig: Issuer names are not unique'')
      else and_then
        (map_err (ErrWrap (''AuthConfig: Error creating verifier for issuer '' @ ic_Name ic)) (mk ic))
        (\<lambda>v. add_issuers mk ics (verifiers(ic_Name ic \<mapsto> v))))"

definition AuthFromConfig ::
  "('tok, 'jc, 'k, 'ks, 'x) jose \<Rightarrow> (IssuerConfig \<Rightarrow> ('client, 'x) env) \<Rightarrow> (string \<Rightarrow> 'x option) \<Rightarrow>
     (string \<Rightarrow> 'client) \<Rightarrow> AuthConfig option \<Rightarrow>
     ('x autherr, string \<rightharpoonup> ('client, 'ks) RemoteJWKSIssuer) res" where
  "AuthFromConfig J E url_Parse client c =
     (case c of
        None \<Rightarrow> Err (ErrNew ''AuthConfig: Config must not be nil'')
      | Some ics \<Rightarrow>
          add_issuers (\<lambda>ic. VerifierFromIssuerConfig J (E ic) url_Parse ic (client (ic_Name ic)))
            ics Map.empty)"

section \<open>Verification of tokens\<close>

text \<open>
  The interface between the authenticator and its verifiers: a verifier accepts a token only
  with claims it vouches for.
\<close>

locale token_verifier =
  fixes verify :: "'v \<Rightarrow> 'tok \<Rightarrow> ('x autherr, claims) res \<times> 'v"
    and vouches :: "'v \<Rightarrow> 'tok \<Rightarrow> claims \<Rightarrow> bool"
  assumes verify_iff: "fst (verify v tok) = Ok c \<longleftrightarrow> vouches v tok c"
begin

lemma authenticated_iff:
  "fst (StdAuthenticator_Authenticate J verify now verifiers raw) = Ok c \<longleftrightarrow>
     (\<exists>tok insecure v. ParseSigned J raw = Inr tok \<and> UnsafeStdClaims J tok = Inr insecure \<and>
        ValidateWithLeeway J insecure now 1000000000 = None \<and>
        verifiers (StdIssuer J insecure) = Some v \<and> vouches v tok c)"
  unfolding StdAuthenticator_Authenticate_def
  by (auto simp: Let_def case_prod_beta verify_iff split: sum.splits option.splits)

end

text \<open>
  The key set a remote issuer verifies against: the cached one while it is fresh, otherwise the
  one it fetches now.
\<close>

definition current_jwks ::
  "('tok, 'jc, 'k, 'ks, 'x) jose \<Rightarrow> ('client, 'x) env \<Rightarrow> ('client, 'ks) RemoteJWKSIssuer \<Rightarrow> 'ks option"
where
  "current_jwks J E r =
     (if Since (now_since E) (setTime (issuer_cache r)) \<le> ttl (issuer_cache r)
      then cached (issuer_cache r)
      else (case fetch_jwks J (client_Get E (issuer_client r) (issuer_url r)) of
              Ok ks \<Rightarrow> Some ks | _ \<Rightarrow> None))"

definition remote_vouches ::
  "('tok, 'jc, 'k, 'ks, 'x) jose \<Rightarrow> ('client, 'x) env \<Rightarrow> ('client, 'ks) RemoteJWKSIssuer \<Rightarrow>
     'tok \<Rightarrow> claims \<Rightarrow> bool" where
  "remote_vouches J E r tok c \<longleftrightarrow>
     (\<exists>kid ks k more. TokenKeyIDs J tok = [kid] \<and> current_jwks J E r = Some ks \<and>
        KeySetKey J ks kid = k # more \<and> TokenClaims J tok k = Inr c)"

lemma verify_with_keys_Ok:
  "verify_with_keys J tok keys = Ok c \<longleftrightarrow> (\<exists>k more. keys = k # more \<and> TokenClaims J tok k = Inr c)"
  by (auto simp: verify_with_keys_def split: list.splits sum.splits)

lemma verify_with_keys_total: "\<not> panics (verify_with_keys J tok keys)"
  by (auto simp: verify_with_keys_def split: list.splits sum.splits)

lemma fetch_jwks_total: "\<not> panics (fetch_jwks J resp)"
  by (auto simp: fetch_jwks_def split: http_get.splits sum.splits)

lemma Verify_one_header:
  assumes "TokenKeyIDs J tok = [kid]"
  shows "RemoteJWKSIssuer_Verify J E r tok =
    (if Since (now_since E) (setTime (issuer_cache r)) \<le> ttl (issuer_cache r)
     then (and_then (deref (cached (issuer_cache r)))
             (\<lambda>ks. verify_with_keys J tok (KeySetKey J ks kid)), r)
     else (case fetch_jwks J (client_Get E (issuer_client r) (issuer_url r)) of
             Ok ks \<Rightarrow> (verify_with_keys J tok (KeySetKey J ks kid),
                 r\<lparr>issuer_cache := jwksCache_Put (now_put E) (issuer_cache r) ks\<rparr>)
           | Err e \<Rightarrow> (Err (AuthError AuthErrCodeUnknown
                 (Some (ErrWrap ''Unable to refresh jwks'' e))), r)
           | Panic p \<Rightarrow> (Panic p, r)))"
  using assms
  by (auto simp: RemoteJWKSIssuer_Verify_def jwksCache_getKey_def
      RemoteJWKSIssuer_refreshCache_def deref_def Let_def split: res.splits option.splits)

lemma Verify_headers:
  "length (TokenKeyIDs J tok) \<noteq> 1 \<Longrightarrow> RemoteJWKSIssuer_Verify J E r tok =
     (Err (AuthError AuthErrCodeInvalidJWT (Some (ErrNew ''Token must have one header''))), r)"
  by (auto simp: RemoteJWKSIssuer_Verify_def length_Suc_conv split: list.splits)

lemma Verify_accepts_iff:
  "fst (RemoteJWKSIssuer_Verify J E r tok) = Ok c \<longleftrightarrow> remote_vouches J E r tok c"
proof (cases "length (TokenKeyIDs J tok) = 1")
  case True
  then obtain kid where "TokenKeyIDs J tok = [kid]" by (auto simp: length_Suc_conv)
  then show ?thesis
    by (auto simp: Verify_one_header remote_vouches_def current_jwks_def go_res
        verify_with_keys_Ok split: res.splits)
next
  case False
  then show ?thesis by (auto simp: Verify_headers remote_vouches_def)
qed

interpretation remote: token_verifier "RemoteJWKSIssuer_Verify J E" "remote_vouches J E" for J E
  by unfold_locales (rule Verify_accepts_iff)

section \<open>The cache under concurrent refreshes\<close>

text \<open>
  Requests and the background goroutine refresh the cache independently: each fetches the key
  set over HTTP and later stores it under the lock, so a fetched set is in flight between the
  two.  \<open>served t\<close> is what the key-set URL answers at time \<open>t\<close>.  Reads of the cache change nothing.
\<close>

record 'ks cache_sys =
  sys_clock :: int
  sys_cache :: "'ks jwksCache"
  sys_inflight :: "(int \<times> 'ks) list"

inductive cache_step ::
  "('tok, 'jc, 'k, 'ks, 'x) jose \<Rightarrow> (int \<Rightarrow> 'x http_get) \<Rightarrow> 'ks cache_sys \<Rightarrow> 'ks cache_sys \<Rightarrow> bool"
  for J served where
  tick: "sys_clock s \<le> t \<Longrightarrow> cache_step J served s (s\<lparr>sys_clock := t\<rparr>)"
| fetch: "fetch_jwks J (served (sys_clock s)) = Ok ks \<Longrightarrow>
    cache_step J served s (s\<lparr>sys_inflight := (sys_clock s, ks) # sys_inflight s\<rparr>)"
| store: "(tf, ks) \<in> set (sys_inflight s) \<Longrightarrow>
    cache_step J served s
      (s\<lparr>sys_cache := jwksCache_Put (sys_clock s) (sys_cache s) ks,
         sys_inflight := remove1 (tf, ks) (sys_inflight s)\<rparr>)"

inductive cache_reach ::
  "('tok, 'jc, 'k, 'ks, 'x) jose \<Rightarrow> (int \<Rightarrow> 'x http_get) \<Rightarrow> int \<Rightarrow> int \<Rightarrow> 'ks cache_sys \<Rightarrow> bool"
  for J served T start where
  created: "cache_reach J served T start
    \<lparr>sys_clock = start, sys_cache = \<lparr>cached = None, ttl = T, setTime = zero_time\<rparr>,
     sys_inflight = []\<rparr>"
| step: "cache_reach J served T start s \<Longrightarrow> cache_step J served s s' \<Longrightarrow>
    cache_reach J served T start s'"

definition served_keys ::
  "('tok, 'jc, 'k, 'ks, 'x) jose \<Rightarrow> (int \<Rightarrow> 'x http_get) \<Rightarrow> int \<Rightarrow> 'ks \<Rightarrow> bool" where
  "served_keys J served tf ks \<longleftrightarrow> fetch_jwks J (served tf) = Ok ks"

definition cache_inv ::
  "('tok, 'jc, 'k, 'ks, 'x) jose \<Rightarrow> (int \<Rightarrow> 'x http_get) \<Rightarrow> int \<Rightarrow> int \<Rightarrow> 'ks cache_sys \<Rightarrow> bool" where
  "cache_inv J served T start s \<longleftrightarrow>
     ttl (sys_cache s) = T \<and> start \<le> sys_clock s \<and>
     (\<forall>(tf, ks) \<in> set (sys_inflight s). tf \<le> sys_clock s \<and> served_keys J served tf ks) \<and>
     (case cached (sys_cache s) of
        None \<Rightarrow> setTime (sys_cache s) = zero_time
      | Some ks \<Rightarrow> setTime (sys_cache s) \<le> sys_clock s \<and>
          (\<exists>tf \<le> setTime (sys_cache s). served_keys J served tf ks))"

lemma cache_inv_step:
  assumes "cache_inv J served T start s" and "cache_step J served s s'"
  shows "cache_inv J served T start s'"
  using assms(2)
proof cases
  case (tick t)
  with assms(1) show ?thesis
    by (fastforce simp: cache_inv_def split: option.splits)
next
  case (fetch ks)
  with assms(1) show ?thesis
    by (auto simp: cache_inv_def served_keys_def split: option.splits)
next
  case (store tf ks)
  with assms(1) have "tf \<le> sys_clock s" "served_keys J served tf ks"
    by (auto simp: cache_inv_def)
  with store assms(1) show ?thesis
    using set_remove1_subset [of "(tf, ks)" "sys_inflight s"]
    by (auto simp: cache_inv_def jwksCache_Put_def)
qed

lemma cache_reach_inv: "cache_reach J served T start s \<Longrightarrow> cache_inv J served T start s"
proof (induction rule: cache_reach.induct)
  case created
  then show ?case by (simp add: cache_inv_def)
next
  case (step s s')
  then show ?case by (blast intro: cache_inv_step)
qed

text \<open>A read of a reachable cache does not panic and returns keys stored within the ttl.\<close>

lemma fresh_cache_filled:
  assumes "cache_reach J served T start s" "0 \<le> start" "T < max_duration" "min_duration \<le> T"
    and "Since (sys_clock s) (setTime (sys_cache s)) \<le> ttl (sys_cache s)"
  obtains ks tf where "cached (sys_cache s) = Some ks" "served_keys J served tf ks"
    "tf \<le> setTime (sys_cache s)" "setTime (sys_cache s) \<le> sys_clock s"
    "sys_clock s - setTime (sys_cache s) \<le> T"
proof -
  have inv: "cache_inv J served T start s" by (rule cache_reach_inv [OF assms(1)])
  then have T: "ttl (sys_cache s) = T" and clk: "0 \<le> sys_clock s"
    using assms(2) by (auto simp: cache_inv_def)
  show thesis
  proof (cases "cached (sys_cache s)")
    case None
    with inv have "setTime (sys_cache s) = zero_time" by (simp add: cache_inv_def)
    with assms(3,5) T clk show thesis by (simp add: Since_zero_time)
  next
    case (Some ks)
    with inv obtain tf where "tf \<le> setTime (sys_cache s)" "served_keys J served tf ks"
      "setTime (sys_cache s) \<le> sys_clock s"
      by (auto simp: cache_inv_def)
    moreover have "sys_clock s - setTime (sys_cache s) \<le> T"
      using assms(3-5) T by (simp add: Since_le_iff)
    ultimately show thesis using that Some by blast
  qed
qed

lemma Verify_no_panic:
  assumes "Since (now_since E) (setTime (issuer_cache r)) \<le> ttl (issuer_cache r) \<Longrightarrow>
    cached (issuer_cache r) \<noteq> None"
  shows "\<not> panics (fst (RemoteJWKSIssuer_Verify J E r tok))"
proof (cases "length (TokenKeyIDs J tok) = 1")
  case True
  then obtain kid where "TokenKeyIDs J tok = [kid]" by (auto simp: length_Suc_conv)
  then show ?thesis
    using assms fetch_jwks_total [of J "client_Get E (issuer_client r) (issuer_url r)"]
    by (auto simp: Verify_one_header verify_with_keys_total split: res.splits)
qed (simp add: Verify_headers)

lemma current_jwks_served:
  assumes "cache_reach J served T start s" "0 \<le> start" "T < max_duration" "min_duration \<le> T"
    and "issuer_cache r = sys_cache s" "now_since E = sys_clock s"
    and "client_Get E (issuer_client r) (issuer_url r) = served (sys_clock s)"
    and "current_jwks J E r = Some ks"
  obtains tf where "fetch_jwks J (served tf) = Ok ks" "tf \<le> sys_clock s"
    "tf = sys_clock s \<or>
       (tf \<le> setTime (sys_cache s) \<and> sys_clock s - setTime (sys_cache s) \<le> T)"
proof (cases "Since (sys_clock s) (setTime (sys_cache s)) \<le> ttl (sys_cache s)")
  case True
  then obtain ks' tf where "cached (sys_cache s) = Some ks'" "served_keys J served tf ks'"
      "tf \<le> setTime (sys_cache s)" "setTime (sys_cache s) \<le> sys_clock s"
      "sys_clock s - setTime (sys_cache s) \<le> T"
    using fresh_cache_filled [OF assms(1-4)] by blast
  with True assms(5,6,8) show thesis
    by (intro that [of tf]) (auto simp: current_jwks_def served_keys_def)
next
  case False
  with assms(5-8) have "fetch_jwks J (served (sys_clock s)) = Ok ks"
    by (simp add: current_jwks_def split: res.splits)
  then show thesis by (intro that [of "sys_clock s"]) auto
qed

section \<open>Construction from configuration\<close>

definition issuer_config_ok :: "(string \<Rightarrow> 'x option) \<Rightarrow> IssuerConfig \<Rightarrow> bool" where
  "issuer_config_ok url_Parse ic \<longleftrightarrow>
     ic_Name ic \<noteq> [] \<and> ic_JWKSURL ic \<noteq> [] \<and> url_Parse (ic_JWKSURL ic) = None \<and> ic_CacheTTL ic \<noteq> 0"

lemma Verifier_Ok_iff:
  "(\<exists>v. VerifierFromIssuerConfig J E url_Parse ic cl = Ok v) \<longleftrightarrow>
     ic_JWKSURL ic \<noteq> [] \<and> url_Parse (ic_JWKSURL ic) = None \<and> ic_CacheTTL ic \<noteq> 0"
  by (auto simp: VerifierFromIssuerConfig_def NewRemoteJWKSIssuer_def Let_def split: option.splits)

lemma Verifier_total: "\<not> panics (VerifierFromIssuerConfig J E url_Parse ic cl)"
  by (auto simp: VerifierFromIssuerConfig_def NewRemoteJWKSIssuer_def Let_def split: option.splits)

lemma add_issuers_Ok_iff:
  "(\<exists>vs'. add_issuers mk ics vs = Ok vs') \<longleftrightarrow>
     distinct (map ic_Name ics) \<and> set (map ic_Name ics) \<inter> dom vs = {} \<and>
     list_all (\<lambda>ic. ic_Name ic \<noteq> [] \<and> (\<exists>v. mk ic = Ok v)) ics"
proof (induction ics arbitrary: vs)
  case (Cons ic ics)
  show ?case
  proof (cases "\<exists>v. mk ic = Ok v")
    case True
    then obtain v where v: "mk ic = Ok v" by blast
    have "(\<exists>vs'. add_issuers mk (ic # ics) vs = Ok vs') \<longleftrightarrow>
      ic_Name ic \<noteq> [] \<and> ic_Name ic \<notin> dom vs \<and>
      (\<exists>vs'. add_issuers mk ics (vs(ic_Name ic \<mapsto> v)) = Ok vs')"
      by (simp add: v domIff)
    then show ?thesis unfolding Cons.IH by (auto simp add: v)
  next
    case False
    then show ?thesis by (cases "mk ic") auto
  qed
qed simp

lemma add_issuers_result:
  assumes "add_issuers mk ics vs = Ok vs'"
  shows "vs' = (\<lambda>n. case find (\<lambda>ic. ic_Name ic = n) ics of
                      None \<Rightarrow> vs n
                    | Some ic \<Rightarrow> (case mk ic of Ok v \<Rightarrow> Some v | _ \<Rightarrow> None))"
  using assms
proof (induction ics arbitrary: vs)
  case (Cons ic ics)
  then obtain v where v: "mk ic = Ok v" "add_issuers mk ics (vs(ic_Name ic \<mapsto> v)) = Ok vs'"
    by (auto simp: go_res split: if_splits)
  have "set (map ic_Name ics) \<inter> dom (vs(ic_Name ic \<mapsto> v)) = {}"
    using add_issuers_Ok_iff [of mk ics "vs(ic_Name ic \<mapsto> v)"] v(2) by simp
  then have "find (\<lambda>i. ic_Name i = ic_Name ic) ics = None"
    by (simp add: find_None_iff) (metis imageI)
  then show ?case
    unfolding Cons.IH [OF v(2)] by (intro ext) (auto simp: v(1) split: option.split)
qed simp

lemma add_issuers_total:
  assumes "\<And>ic. \<not> panics (mk ic)"
  shows "\<not> panics (add_issuers mk ics vs)"
proof (induction ics arbitrary: vs)
  case (Cons ic ics)
  then show ?case using assms by (simp add: not_panics_and_then)
qed simp

section \<open>Properties\<close>

text \<open>
  C2.  The standard authenticator over remote issuers returns claims exactly when the token
  parses, its time claims are valid now (one second of leeway), its issuer is registered, and
  the first key with the token's key id in that issuer's current key set (the cached set while
  it is fresh, otherwise the set just fetched) verifies the signature and yields those claims.
\<close>

theorem authenticate_accepts_iff:
  "fst (StdAuthenticator_Authenticate J (RemoteJWKSIssuer_Verify J E) (now_validate E) verifiers raw)
     = Ok c \<longleftrightarrow>
   (\<exists>tok insecure r kid ks k more.
      ParseSigned J raw = Inr tok \<and> UnsafeStdClaims J tok = Inr insecure \<and>
      ValidateWithLeeway J insecure (now_validate E) 1000000000 = None \<and>
      verifiers (StdIssuer J insecure) = Some r \<and>
      TokenKeyIDs J tok = [kid] \<and> current_jwks J E r = Some ks \<and>
      KeySetKey J ks kid = k # more \<and> TokenClaims J tok k = Inr c)"
  unfolding remote.authenticated_iff remote_vouches_def by blast

text \<open>
  C3.  Staleness of keys.  In every interleaving of fetches, stores and time, a token that
  \<^verbatim>\<open>Verify\<close> accepts was verified with a key set that the issuer's URL served with status 200
  at some earlier time and that either is fetched now or was stored no longer than the cache's
  ttl ago; and \<^verbatim>\<open>Verify\<close> does not panic.
\<close>

theorem verified_with_fresh_keys:
  assumes "cache_reach J served T start s" and "0 \<le> start"
    and "min_duration \<le> T" and "T < max_duration"
    and "issuer_cache r = sys_cache s" and "now_since E = sys_clock s"
    and "client_Get E (issuer_client r) (issuer_url r) = served (sys_clock s)"
  shows "\<not> panics (fst (RemoteJWKSIssuer_Verify J E r tok)) \<and>
    (\<forall>c. fst (RemoteJWKSIssuer_Verify J E r tok) = Ok c \<longrightarrow>
       (\<exists>kid ks k more tf.
          TokenKeyIDs J tok = [kid] \<and> KeySetKey J ks kid = k # more \<and>
          TokenClaims J tok k = Inr c \<and>
          fetch_jwks J (served tf) = Ok ks \<and> tf \<le> sys_clock s \<and>
          (tf = sys_clock s \<or>
           (tf \<le> setTime (sys_cache s) \<and> sys_clock s - setTime (sys_cache s) \<le> T))))"
proof (intro conjI allI impI)
  show "\<not> panics (fst (RemoteJWKSIssuer_Verify J E r tok))"
    by (rule Verify_no_panic, unfold assms(5,6))
       (metis fresh_cache_filled [OF assms(1,2,4,3)] option.distinct(1))
next
  fix c
  assume "fst (RemoteJWKSIssuer_Verify J E r tok) = Ok c"
  then obtain kid ks k more where "TokenKeyIDs J tok = [kid]" "KeySetKey J ks kid = k # more"
      "TokenClaims J tok k = Inr c" and ks: "current_jwks J E r = Some ks"
    by (auto simp: Verify_accepts_iff remote_vouches_def)
  moreover obtain tf where "fetch_jwks J (served tf) = Ok ks" "tf \<le> sys_clock s"
      "tf = sys_clock s \<or>
       (tf \<le> setTime (sys_cache s) \<and> sys_clock s - setTime (sys_cache s) \<le> T)"
    by (rule current_jwks_served [OF assms(1,2,4,3,5-7) ks])
  ultimately show "\<exists>kid ks k more tf.
      TokenKeyIDs J tok = [kid] \<and> KeySetKey J ks kid = k # more \<and> TokenClaims J tok k = Inr c \<and>
      fetch_jwks J (served tf) = Ok ks \<and> tf \<le> sys_clock s \<and>
      (tf = sys_clock s \<or>
       (tf \<le> setTime (sys_cache s) \<and> sys_clock s - setTime (sys_cache s) \<le> T))"
    by blast
qed

text \<open>A small instance of the token library: a token is its key id and its claims.\<close>

definition toy_jose :: "(string \<times> claims, claims, string, string list, string) jose" where
  "toy_jose =
     \<lparr>ParseSigned = (\<lambda>raw. if raw = [] then Inl ''empty'' else Inr (raw, [(''iss'', GStr ''idp'')])),
      TokenKeyIDs = (\<lambda>tok. [fst tok]), UnsafeStdClaims = (\<lambda>tok. Inr (snd tok)),
      UnsafeClaims = (\<lambda>tok. Inr (snd tok)),
      StdIssuer = (\<lambda>c. case map_of c ''iss'' of Some (GStr s) \<Rightarrow> s | _ \<Rightarrow> []),
      ValidateWithLeeway = (\<lambda>_ _ _. None),
      TokenClaims = (\<lambda>tok k. if k = fst tok then Inr (snd tok) else Inl ''bad signature''),
      KeySetKey = (\<lambda>ks kid. filter (\<lambda>k. k = kid) ks),
      UnmarshalKeySet = (\<lambda>b. Inr [b])\<rparr>"

definition toy_env :: "int \<Rightarrow> ('client, string) env" where
  "toy_env t = \<lparr>now_validate = t, now_since = t, now_put = t,
     client_Get = (\<lambda>_ _. GetResp 200 (Inr ''k1''))\<rparr>"

definition toy_sys :: "string list cache_sys" where
  "toy_sys = \<lparr>sys_clock = 7, sys_cache = \<lparr>cached = None, ttl = 5, setTime = zero_time\<rparr>,
     sys_inflight = []\<rparr>"

definition toy_issuer :: "(unit, string list) RemoteJWKSIssuer" where
  "toy_issuer = \<lparr>issuer_url = ''u'', issuer_client = (), issuer_cache = sys_cache toy_sys,
     refresh_loop = None\<rparr>"

lemmas toy_defs = toy_jose_def toy_env_def toy_sys_def toy_issuer_def

theorem verified_with_fresh_keys_witness:
  "\<not> panics (fst (RemoteJWKSIssuer_Verify toy_jose (toy_env 7) toy_issuer (''k1'', [])))"
proof -
  have reach: "cache_reach toy_jose (\<lambda>_. GetResp 200 (Inr ''k1'')) 5 7 toy_sys"
    unfolding toy_sys_def by (rule cache_reach.created)
  show ?thesis
    using verified_with_fresh_keys [where r = toy_issuer and E = "toy_env 7" and tok = "(''k1'', [])",
      OF reach]
    by (simp add: toy_issuer_def toy_env_def toy_sys_def min_duration_def max_duration_def)
qed

text \<open>
  A cache created with the largest duration as its ttl and never filled is not seen as
  expired, since \<^verbatim>\<open>time.Since\<close> of the zero time saturates at that same duration; verifying any
  token with one header then dereferences the nil key set and panics.
\<close>

theorem unfilled_cache_panics:
  assumes "NewRemoteJWKSIssuer J E url_Parse u cl max_duration refresh = Ok r"
    and "fetch_jwks J (client_Get E cl u) = Err e"
    and "TokenKeyIDs J tok = [kid]"
  shows "fst (RemoteJWKSIssuer_Verify J E' r tok) = Panic nil_deref"
proof -
  have "issuer_cache r = \<lparr>cached = None, ttl = max_duration, setTime = zero_time\<rparr>"
    using assms(1,2)
    by (auto simp: NewRemoteJWKSIssuer_def RemoteJWKSIssuer_refreshCache_def Let_def
        split: option.splits if_splits)
  moreover have "Since now zero_time \<le> max_duration" for now
    by (simp add: Since_def max_duration_def min_duration_def)
  ultimately show ?thesis by (simp add: Verify_one_header [OF assms(3)])
qed

definition down_env :: "(unit, string) env" where
  "down_env = toy_env 7 \<lparr>client_Get := (\<lambda>_ _. GetErr ''refused'')\<rparr>"

theorem unfilled_cache_panics_witness:
  "\<exists>r. NewRemoteJWKSIssuer toy_jose down_env (\<lambda>_. None) ''u'' () max_duration 0 = Ok r \<and>
       fst (RemoteJWKSIssuer_Verify toy_jose down_env r (''k1'', [])) = Panic nil_deref"
proof -
  obtain r where r: "NewRemoteJWKSIssuer toy_jose down_env (\<lambda>_. None) ''u'' () max_duration 0 = Ok r"
    by (simp add: NewRemoteJWKSIssuer_def max_duration_def Let_def)
  then have "fst (RemoteJWKSIssuer_Verify toy_jose down_env r (''k1'', [])) = Panic nil_deref"
    by (rule unfilled_cache_panics [where e = "LibErr None ''refused''" and kid = "''k1''"])
       (simp_all add: fetch_jwks_def down_env_def toy_defs)
  with r show ?thesis by blast
qed

text \<open>
  C19.  Building the authenticator from configuration never panics; it succeeds exactly when the
  configuration is present, every issuer has a name, a key-set URL that parses and a non-zero
  cache ttl, and the names are distinct; and the authenticator then has exactly the named
  issuers.
\<close>

theorem auth_from_config_iff:
  "\<not> panics (AuthFromConfig J E url_Parse client c) \<and>
   ((\<exists>vs. AuthFromConfig J E url_Parse client c = Ok vs) \<longleftrightarrow>
      (\<exists>ics. c = Some ics \<and> distinct (map ic_Name ics) \<and>
             list_all (issuer_config_ok url_Parse) ics)) \<and>
   (AuthFromConfig J E url_Parse client (Some ics) = Ok vs \<longrightarrow>
      dom vs = set (map ic_Name ics))"
proof (intro conjI impI)
  show "\<not> panics (AuthFromConfig J E url_Parse client c)"
    by (auto simp: AuthFromConfig_def intro!: add_issuers_total Verifier_total split: option.splits)
  show "(\<exists>vs. AuthFromConfig J E url_Parse client c = Ok vs) \<longleftrightarrow>
      (\<exists>ics. c = Some ics \<and> distinct (map ic_Name ics) \<and>
             list_all (issuer_config_ok url_Parse) ics)"
    by (cases c)
      (auto simp: AuthFromConfig_def add_issuers_Ok_iff Verifier_Ok_iff issuer_config_ok_def
        list_all_iff)
  assume "AuthFromConfig J E url_Parse client (Some ics) = Ok vs"
  then have ok: "add_issuers (\<lambda>ic. VerifierFromIssuerConfig J (E ic) url_Parse ic (client (ic_Name ic)))
      ics Map.empty = Ok vs" by (simp add: AuthFromConfig_def)
  let ?mk = "\<lambda>ic. VerifierFromIssuerConfig J (E ic) url_Parse ic (client (ic_Name ic))"
  have all: "list_all (\<lambda>ic. \<exists>v. ?mk ic = Ok v) ics"
    using add_issuers_Ok_iff [of ?mk ics Map.empty] ok by (auto simp: list_all_iff)
  show "dom vs = set (map ic_Name ics)"
  proof (intro set_eqI iffI)
    fix n
    assume "n \<in> dom vs"
    then show "n \<in> set (map ic_Name ics)"
      unfolding add_issuers_result [OF ok]
      by (auto simp: find_Some_iff split: option.splits)
  next
    fix n
    assume "n \<in> set (map ic_Name ics)"
    then obtain ic where "find (\<lambda>ic. ic_Name ic = n) ics = Some ic"
      by (cases "find (\<lambda>ic. ic_Name ic = n) ics") (auto simp: find_None_iff)
    moreover from this have "ic \<in> set ics" by (auto simp: find_Some_iff)
    then obtain v where "?mk ic = Ok v" using all by (auto simp: list_all_iff)
    ultimately show "n \<in> dom vs"
      unfolding add_issuers_result [OF ok] by (auto simp: domIff)
  qed
qed

definition toy_config :: AuthConfig where
  "toy_config = [\<lparr>ic_Name = ''idp'', ic_JWKSURL = ''u'', ic_CacheTTL = 5, ic_CacheRefresh = 0\<rparr>]"

theorem auth_from_config_iff_witness:
  "\<exists>vs. AuthFromConfig toy_jose (\<lambda>_. toy_env 7) (\<lambda>_. None) (\<lambda>_. ()) (Some toy_config) = Ok vs \<and>
        dom vs = {''idp''}"
  using auth_from_config_iff [of toy_jose "\<lambda>_. toy_env 7" "\<lambda>_. None" "\<lambda>_. ()" "Some toy_config" toy_config]
  by (simp add: toy_config_def issuer_config_ok_def) blast

end
