(* ===== verification/SecretConfig.thy ===== *)
theory SecretConfig
  imports GoJson
begin

text \<open>
  Sensitive values of the configuration: \<^verbatim>\<open>config/sensitivestring.go\<close> (strings that print as a
  replacement text) and \<^verbatim>\<open>config/secret_key.go\<close> (keys given in base64), with the decoder of
  \<^verbatim>\<open>base64.StdEncoding\<close> they call.
\<close>

section \<open>Errors of the configuration packages\<close>

text \<open>
  \<open>CfgErr\<close> is an error made by \<^verbatim>\<open>fmt.Errorf\<close>, \<open>Base64Err\<close> a \<^verbatim>\<open>base64.CorruptInputError\<close>, \<open>LibE\<close> an
  error of the operating system or of a library.
\<close>

datatype 'x cfgerr = CfgErr string | Base64Err | LibE 'x

section \<open>base64.StdEncoding\<close>

definition b64_val :: "char \<Rightarrow> nat option" where
  "b64_val c =
     (let n = (of_char c :: nat)
      in if 65 \<le> n \<and> n \<le> 90 then Some (n - 65)
         else if 97 \<le> n \<and> n \<le> 122 then Some (n - 71)
         else if 48 \<le> n \<and> n \<le> 57 then Some (n + 4)
         else if n = 43 then Some 62 else if n = 47 then Some 63 else None)"

definition b64_chr :: "nat \<Rightarrow> char" where
  "b64_chr i =
     (if i < 26 then char_of (i + 65) else if i < 52 then char_of (i + 71)
      else if i < 62 then char_of (i - 4) else if i = 62 then CHR ''+'' else CHR ''/'')"

definition quantum :: "nat \<Rightarrow> string" where
  "quantum v = [char_of (v div 65536), char_of (v div 256 mod 256), char_of (v mod 256)]"

text \<open>
  Groups of four characters; padding is required and allowed only at the end of the input; the
  unused low bits of a padded group are not checked.
\<close>

fun b64_groups :: "string \<Rightarrow> string option" where
  "b64_groups [] = Some []"
| "b64_groups (a # b # c # d # rest) =
     (case (b64_val a, b64_val b) of
        (Some x, Some y) \<Rightarrow>
          if d = CHR ''='' then
            (if rest \<noteq> [] then None
             else if c = CHR ''='' then Some (take 1 (quantum (x * 262144 + y * 4096)))
             else (case b64_val c of
                     None \<Rightarrow> None
                   | Some z \<Rightarrow> Some (take 2 (quantum (x * 262144 + y * 4096 + z * 64)))))
          else (case (b64_val c, b64_val d) of
                  (Some z, Some u) \<Rightarrow>
                    map_option (\<lambda>r. quantum (x * 262144 + y * 4096 + z * 64 + u) @ r) (b64_groups rest)
                | _ \<Rightarrow> None)
      | _ \<Rightarrow> None)"
| "b64_groups s = None"

definition b64_DecodeString :: "string \<Rightarrow> string option" where
  "b64_DecodeString s = b64_groups (filter (\<lambda>c. c \<noteq> CHR 0x0A \<and> c \<noteq> CHR 0x0D) s)"

text \<open>The reference encoder.\<close>

definition b64_quad :: "nat \<Rightarrow> string" where
  "b64_quad v =
     [b64_chr (v div 262144), b64_chr (v div 4096 mod 64), b64_chr (v div 64 mod 64), b64_chr (v mod 64)]"

fun b64_encode :: "string \<Rightarrow> string" where
  "b64_encode [] = []"
| "b64_encode [a] = take 2 (b64_quad (of_char a * 65536)) @ ''==''"
| "b64_encode [a, b] = take 3 (b64_quad (of_char a * 65536 + of_char b * 256)) @ ''=''"
| "b64_encode (a # b # c # rest) =
     b64_quad (of_char a * 65536 + of_char b * 256 + of_char c) @ b64_encode rest"

section \<open>Sensitive strings (config/sensitivestring.go)\<close>

definition DefaultReplacementText :: string where
  "DefaultReplacementText = ''****************''"

record SensitiveString =
  ss_s :: string
  ss_replacement :: "string option"

definition NewSensitiveString :: "string \<Rightarrow> SensitiveString" where
  "NewSensitiveString from = \<lparr>ss_s = from, ss_replacement = Some DefaultReplacementText\<rparr>"

definition SensitiveString_String :: "SensitiveString \<Rightarrow> string" where
  "SensitiveString_String s =
     (case ss_replacement s of None \<Rightarrow> DefaultReplacementText | Some r \<Rightarrow> r)"

text \<open>\<^verbatim>\<open>Value\<close> has a pointer receiver and reads the field; a nil pointer panics.\<close>

definition SensitiveString_Value :: "SensitiveString option \<Rightarrow> ('e, string) res" where
  "SensitiveString_Value s = and_then (deref s) (\<lambda>v. Ok (ss_s v))"

text \<open>\<open>unmarshal\<close> is the callback of the YAML decoder, or \<^verbatim>\<open>json.Unmarshal\<close> into a string.\<close>

definition SensitiveString_UnmarshalYAML ::
  "('x + string) \<Rightarrow> SensitiveString \<Rightarrow> ('x cfgerr, SensitiveString) res" where
  "SensitiveString_UnmarshalYAML unmarshal s =
     (case unmarshal of Inl x \<Rightarrow> Err (LibE x) | Inr val \<Rightarrow> Ok (s\<lparr>ss_s := val\<rparr>))"

definition SensitiveString_UnmarshalJSON ::
  "(string \<Rightarrow> 'x + string) \<Rightarrow> string \<Rightarrow> SensitiveString \<Rightarrow> ('x cfgerr, SensitiveString) res" where
  "SensitiveString_UnmarshalJSON json_Unmarshal data s =
     (case json_Unmarshal data of Inl x \<Rightarrow> Err (LibE x) | Inr val \<Rightarrow> Ok (s\<lparr>ss_s := val\<rparr>))"

definition SensitiveString_MarshalYAML :: "SensitiveString \<Rightarrow> string" where
  "SensitiveString_MarshalYAML s = SensitiveString_String s"

definition SensitiveString_MarshalJSON :: "SensitiveString \<Rightarrow> string" where
  "SensitiveString_MarshalJSON s = json_string (SensitiveString_String s)"

section \<open>Secret keys (config/secret\_key.go)\<close>

record SecretKeyConfig =
  sk_Encoding :: "string option"
  sk_Alias :: "string option"
  sk_KeyStore :: "string option"
  sk_KeyStorePassword :: "SensitiveString option"
  sk_Value :: "SensitiveString option"

definition validateBase64Value :: "SecretKeyConfig \<Rightarrow> ('x cfgerr, unit) res" where
  "validateBase64Value cfg =
     (case sk_Value cfg of
        None \<Rightarrow> Err (CfgErr ''value config missing'')
      | Some v \<Rightarrow> (case b64_DecodeString (ss_s v) of
                   None \<Rightarrow> Err (CfgErr ''value config is invalid'') | Some _ \<Rightarrow> Ok ()))"

definition SecretKeyEncodingBase64 :: string where
  "SecretKeyEncodingBase64 = ''base64''"

definition SecretKeyValidators :: "(string \<times> (SecretKeyConfig \<Rightarrow> ('x cfgerr, unit) res)) list" where
  "SecretKeyValidators = [(SecretKeyEncodingBase64, validateBase64Value)]"

text \<open>The list of the valid encodings as \<^verbatim>\<open>%+q\<close> prints it.\<close>

definition quoted_list :: "string list \<Rightarrow> string" where
  "quoted_list ss = ''['' @ join_with '' '' (map json_string ss) @ '']''"

definition SecretKeyConfig_Validate :: "SecretKeyConfig option \<Rightarrow> ('x cfgerr, unit) res" where
  "SecretKeyConfig_Validate s =
     (case s of
        None \<Rightarrow> Ok ()
      | Some c \<Rightarrow>
        (case sk_Encoding c of
           None \<Rightarrow> Err (CfgErr ''encoding config missing'')
         | Some e \<Rightarrow>
           (case map_of SecretKeyValidators (ToLower e) of
              Some validateFn \<Rightarrow> validateFn c
            | None \<Rightarrow> Err (CfgErr (''encoding `'' @ e @ ''` is invalid, must be one of '' @
                quoted_list (map fst (SecretKeyValidators ::
                  (string \<times> (SecretKeyConfig \<Rightarrow> ('x cfgerr, unit) res)) list)))))))"

definition readBase64Value :: "SecretKeyConfig \<Rightarrow> ('x cfgerr, string) res" where
  "readBase64Value cfg =
     and_then (SensitiveString_Value (sk_Value cfg)) (\<lambda>v.
       case b64_DecodeString v of None \<Rightarrow> Err Base64Err | Some b \<Rightarrow> Ok b)"

definition SecretKeyReader :: "(string \<times> (SecretKeyConfig \<Rightarrow> ('x cfgerr, string) res)) list" where
  "SecretKeyReader = [(SecretKeyEncodingBase64, readBase64Value)]"

definition MakeSecretKey :: "SecretKeyConfig option \<Rightarrow> ('x cfgerr, SensitiveString) res" where
  "MakeSecretKey cfg =
     (case cfg of
        None \<Rightarrow> Err (CfgErr ''secret key load error, config is nil'')
      | Some c \<Rightarrow>
        and_then (SecretKeyConfig_Validate cfg) (\<lambda>_.
        and_then (deref (sk_Encoding c)) (\<lambda>e.
          case map_of SecretKeyReader (ToLower e) of
            None \<Rightarrow> Err (CfgErr (''secret key load error, encoding `'' @ e @
              ''` is invalid, must be one of '' @ quoted_list (map fst (SecretKeyReader ::
                  (string \<times> (SecretKeyConfig \<Rightarrow> ('x cfgerr, string) res)) list))))
          | Some readFn \<Rightarrow> and_then (readFn c) (\<lambda>key. Ok (NewSensitiveString key)))))"

section \<open>Round trip of base64\<close>

lemma b64_val_chr: "i < 64 \<Longrightarrow> b64_val (b64_chr i) = Some i"
  by (auto simp: b64_val_def b64_chr_def Let_def)

lemma b64_val_Some_plain:
  "b64_val c \<noteq> None \<Longrightarrow> c \<noteq> CHR ''='' \<and> c \<noteq> CHR 0x0A \<and> c \<noteq> CHR 0x0D"
  by (auto simp: b64_val_def)

lemma sextet_sum:
  fixes v a b c r s t :: nat
  assumes "a * 64 + r = v" "b * 64 + s = a" "c * 64 + t = b"
  shows "c * 262144 + t * 4096 + s * 64 + r = v"
  using assms by simp

lemma sextets:
  "(v :: nat) div 262144 * 262144 + v div 4096 mod 64 * 4096 + v div 64 mod 64 * 64 + v mod 64 = v"
proof -
  have "v div 4096 = v div 64 div 64" "v div 262144 = v div 64 div 64 div 64"
    by (simp_all add: div_mult2_eq [symmetric])
  then show ?thesis
    by (simp only:) (rule sextet_sum [OF div_mult_mod_eq div_mult_mod_eq div_mult_mod_eq])
qed

lemma padded_group_zero:
  "(x * 65536 :: nat) mod 64 = 0" "(x * 65536 :: nat) div 64 mod 64 = 0"
  "(x * 65536 + y * 256 :: nat) mod 64 = 0"
proof -
  have e: "x * 65536 = (x * 16 * 64) * 64" "x * 65536 + y * 256 = (x * 1024 + y * 4) * 64" by simp_all
  show "x * 65536 mod 64 = 0" unfolding e(1) by (rule mod_mult_self2_is_0)
  show "x * 65536 div 64 mod 64 = 0"
    unfolding e(1) by (simp only: nonzero_mult_div_cancel_right mod_mult_self2_is_0)
  show "(x * 65536 + y * 256) mod 64 = 0" unfolding e(2) by (rule mod_mult_self2_is_0)
qed

lemma sextet_bounds:
  "v < 16777216 \<Longrightarrow> (v :: nat) div 262144 < 64" "v div 4096 mod 64 < 64" "v div 64 mod 64 < 64"
  "v mod 64 < 64"
  by (simp_all add: less_mult_imp_div_less)

lemma byte_parts:
  fixes a b c :: nat
  assumes "b < 256" "c < 256"
  shows "(a * 65536 + b * 256 + c) div 65536 = a" "(a * 65536 + b * 256 + c) div 256 mod 256 = b"
    "(a * 65536 + b * 256 + c) mod 256 = c"
proof -
  have "a * 65536 + b * 256 + c = (a * 256 + b) * 256 + c" by simp
  then have d: "(a * 65536 + b * 256 + c) div 256 = a * 256 + b"
    and m: "(a * 65536 + b * 256 + c) mod 256 = c"
    using assms(2) by (simp_all only: div_mult_self3 div_less mod_mult_self3 mod_less)
  show "(a * 65536 + b * 256 + c) mod 256 = c" by (rule m)
  show "(a * 65536 + b * 256 + c) div 256 mod 256 = b" using d assms(1) by simp
  have "(a * 65536 + b * 256 + c) div 65536 = (a * 65536 + b * 256 + c) div 256 div 256"
    by (simp add: div_mult2_eq [symmetric])
  then show "(a * 65536 + b * 256 + c) div 65536 = a" using d assms(1) by simp
qed

lemma quantum_bytes:
  "quantum (of_char a * 65536 + of_char b * 256 + of_char c) = [a, b, c]"
  by (simp add: quantum_def byte_parts)

lemma quad_bound: "(of_char a * 65536 + of_char b * 256 + of_char c :: nat) < 16777216"
  using nat_of_char_less_256 [of a] nat_of_char_less_256 [of b] nat_of_char_less_256 [of c] by linarith

lemma decode_quad:
  assumes "v < 16777216"
  shows "b64_groups (b64_quad v @ rest) = map_option (\<lambda>r. quantum v @ r) (b64_groups rest)"
proof -
  have "b64_chr (v mod 64) \<noteq> CHR ''=''"
    using b64_val_Some_plain [of "b64_chr (v mod 64)"] by (simp add: b64_val_chr)
  then show ?thesis
    using sextets [of v] by (simp add: b64_quad_def b64_val_chr sextet_bounds assms)
qed

lemma decode_pair:
  assumes "v < 16777216" "v mod 64 = 0"
  shows "b64_groups (take 3 (b64_quad v) @ ''='') = Some (take 2 (quantum v))"
proof -
  have "b64_chr (v div 64 mod 64) \<noteq> CHR ''=''"
    using b64_val_Some_plain [of "b64_chr (v div 64 mod 64)"] by (simp add: b64_val_chr)
  then show ?thesis
    using sextets [of v] assms(2) by (simp add: b64_quad_def b64_val_chr sextet_bounds assms(1))
qed

lemma decode_single:
  assumes "v < 16777216" "v mod 64 = 0" "v div 64 mod 64 = 0"
  shows "b64_groups (take 2 (b64_quad v) @ ''=='') = Some (take 1 (quantum v))"
  using sextets [of v] assms(2,3) by (simp add: b64_quad_def b64_val_chr sextet_bounds assms(1))

lemma b64_groups_encode: "b64_groups (b64_encode bs) = Some bs"
proof (induction bs rule: b64_encode.induct)
  case (2 a)
  have "(of_char a * 65536 :: nat) < 16777216" using quad_bound [of a "CHR 0x00" "CHR 0x00"] by simp
  then show ?case
    using decode_single [of "of_char a * 65536", OF _ padded_group_zero(1,2)] quantum_bytes [of a "CHR 0x00" "CHR 0x00"] by simp
next
  case (3 a b)
  have "(of_char a * 65536 + of_char b * 256 :: nat) < 16777216"
    using quad_bound [of a b "CHR 0x00"] by simp
  then show ?case
    using decode_pair [of "of_char a * 65536 + of_char b * 256", OF _ padded_group_zero(3)] quantum_bytes [of a b "CHR 0x00"]
    by simp
next
  case (4 a b c rest)
  then show ?case by (simp add: decode_quad quad_bound quantum_bytes)
qed simp

lemma encode_no_newline: "set (b64_encode bs) \<inter> {CHR 0x0A, CHR 0x0D} = {}"
proof -
  have q: "set (b64_quad v) \<inter> {CHR 0x0A, CHR 0x0D} = {}" if "v < 16777216" for v
    using that b64_val_Some_plain by (auto simp: b64_quad_def b64_val_chr sextet_bounds)
  have t: "set (take n (b64_quad v)) \<inter> {CHR 0x0A, CHR 0x0D} = {}" if "v < 16777216" for n v
    using q [OF that] set_take_subset [of n "b64_quad v"] by blast
  show ?thesis
  proof (induction bs rule: b64_encode.induct)
    case (2 a)
    then show ?case using t [of "of_char a * 65536" 2] quad_bound [of a "CHR 0x00" "CHR 0x00"] by auto
  next
    case (3 a b)
    then show ?case
      using t [of "of_char a * 65536 + of_char b * 256" 3] quad_bound [of a b "CHR 0x00"] by auto
  next
    case (4 a b c rest)
    then show ?case using q [OF quad_bound [of a b c]] by auto
  qed simp
qed

lemma b64_round_trip: "b64_DecodeString (b64_encode bs) = Some bs"
proof -
  have "filter (\<lambda>c. c \<noteq> CHR 0x0A \<and> c \<noteq> CHR 0x0D) (b64_encode bs) = b64_encode bs"
    using encode_no_newline [of bs] by (auto simp: filter_id_conv)
  then show ?thesis by (simp add: b64_DecodeString_def b64_groups_encode)
qed

section \<open>Properties\<close>

lemma lower_base64: "ToLower SecretKeyEncodingBase64 = SecretKeyEncodingBase64"
  by code_simp

lemma Validate_Ok_iff:
  "SecretKeyConfig_Validate (Some c) = Ok () \<longleftrightarrow>
     (\<exists>e v b. sk_Encoding c = Some e \<and> EqualFold e SecretKeyEncodingBase64 \<and>
        sk_Value c = Some v \<and> b64_DecodeString (ss_s v) = Some b)"
  by (auto simp: SecretKeyConfig_Validate_def SecretKeyValidators_def validateBase64Value_def
      EqualFold_def lower_base64 split: option.splits)

lemma Validate_secret_total: "\<not> panics (SecretKeyConfig_Validate s)"
  by (auto simp: SecretKeyConfig_Validate_def SecretKeyValidators_def validateBase64Value_def
      split: option.splits)

lemma MakeSecretKey_valid:
  assumes "sk_Encoding c = Some e" "EqualFold e SecretKeyEncodingBase64" "sk_Value c = Some v"
    "b64_DecodeString (ss_s v) = Some b"
  shows "(MakeSecretKey (Some c) :: ('x cfgerr, SensitiveString) res) = Ok (NewSensitiveString b)"
proof -
  have "(SecretKeyConfig_Validate (Some c) :: ('x cfgerr, unit) res) = Ok ()" using assms Validate_Ok_iff by blast
  then show ?thesis
    using assms
    by (simp add: MakeSecretKey_def SecretKeyReader_def readBase64Value_def
        SensitiveString_Value_def EqualFold_def lower_base64)
qed

lemma MakeSecretKey_cases:
  obtains (valid) e v b where "sk_Encoding c = Some e" "EqualFold e SecretKeyEncodingBase64"
    "sk_Value c = Some v" "b64_DecodeString (ss_s v) = Some b"
    "(MakeSecretKey (Some c) :: ('x cfgerr, SensitiveString) res) = Ok (NewSensitiveString b)"
  | (invalid) x where "(MakeSecretKey (Some c) :: ('x cfgerr, SensitiveString) res) = Err x"
proof (cases "(SecretKeyConfig_Validate (Some c) :: ('x cfgerr, unit) res) = Ok ()")
  case True
  then show thesis using MakeSecretKey_valid valid unfolding Validate_Ok_iff by metis
next
  case False
  then show thesis
    using Validate_secret_total [of "Some c", where 'a = 'x] invalid
    by (cases "SecretKeyConfig_Validate (Some c) :: ('x cfgerr, unit) res") (auto simp: MakeSecretKey_def)
qed

text \<open>
  C21.  Loading a secret key never panics, and succeeds exactly on a configuration whose encoding
  is base64 in any case and whose value is present and decodes; the key is then the decoded
  value.  Every byte string is the key of the configuration that holds its encoding.
\<close>

theorem make_secret_key_iff:
  "\<not> panics (MakeSecretKey cfg :: ('x cfgerr, SensitiveString) res) \<and>
   ((MakeSecretKey cfg :: ('x cfgerr, SensitiveString) res) = Ok k \<longleftrightarrow>
      (\<exists>c e v b. cfg = Some c \<and> sk_Encoding c = Some e \<and> EqualFold e ''base64'' \<and>
         sk_Value c = Some v \<and> b64_DecodeString (ss_s v) = Some b \<and> k = NewSensitiveString b)) \<and>
   (MakeSecretKey (Some (c\<lparr>sk_Encoding := Some ''BASE64'',
      sk_Value := Some (NewSensitiveString (b64_encode bs))\<rparr>)) :: ('x cfgerr, SensitiveString) res)
     = Ok (NewSensitiveString bs)"
proof (intro conjI)
  show "\<not> panics (MakeSecretKey cfg :: ('x cfgerr, SensitiveString) res)"
  proof (cases cfg)
    case (Some c)
    then show ?thesis by (cases c rule: MakeSecretKey_cases [where 'x = 'x]) auto
  qed (simp add: MakeSecretKey_def)
  show "(MakeSecretKey cfg :: ('x cfgerr, SensitiveString) res) = Ok k \<longleftrightarrow>
      (\<exists>c e v b. cfg = Some c \<and> sk_Encoding c = Some e \<and> EqualFold e ''base64'' \<and>
         sk_Value c = Some v \<and> b64_DecodeString (ss_s v) = Some b \<and> k = NewSensitiveString b)"
    (is "_ \<longleftrightarrow> ?R")
  proof
    assume k: "(MakeSecretKey cfg :: ('x cfgerr, SensitiveString) res) = Ok k"
    then obtain c where c: "cfg = Some c" by (cases cfg) (auto simp: MakeSecretKey_def)
    with k show ?R by (cases c rule: MakeSecretKey_cases [where 'x = 'x]) (auto simp: SecretKeyEncodingBase64_def)
  next
    assume ?R
    then show "(MakeSecretKey cfg :: ('x cfgerr, SensitiveString) res) = Ok k"
      using MakeSecretKey_valid by (auto simp: SecretKeyEncodingBase64_def)
  qed
  show "(MakeSecretKey (Some (c\<lparr>sk_Encoding := Some ''BASE64'',
      sk_Value := Some (NewSensitiveString (b64_encode bs))\<rparr>)) :: ('x cfgerr, SensitiveString) res) = Ok (NewSensitiveString bs)"
  proof (rule MakeSecretKey_valid)
    show "EqualFold ''BASE64'' SecretKeyEncodingBase64" by code_simp
    show "b64_DecodeString (ss_s (NewSensitiveString (b64_encode bs))) = Some bs"
      by (simp add: NewSensitiveString_def b64_round_trip)
  qed simp_all
qed

text \<open>
  C22.  What a sensitive string prints as, in a format string, in YAML and in JSON, does not
  depend on the secret; unmarshalling into a zero value gives a string that prints as the
  default replacement; and the errors of validating a secret key do not depend on the secret
  either.
\<close>

theorem secrets_are_not_printed:
  "SensitiveString_String (s\<lparr>ss_s := v\<rparr>) = SensitiveString_String s \<and>
   SensitiveString_MarshalYAML (s\<lparr>ss_s := v\<rparr>) = SensitiveString_MarshalYAML s \<and>
   SensitiveString_MarshalJSON (s\<lparr>ss_s := v\<rparr>) = SensitiveString_MarshalJSON s \<and>
   (SensitiveString_UnmarshalJSON unmarshal data \<lparr>ss_s = [], ss_replacement = None\<rparr> = Ok s' \<longrightarrow>
      unmarshal data = Inr (ss_s s') \<and> SensitiveString_String s' = DefaultReplacementText) \<and>
   (SecretKeyConfig_Validate (Some (c\<lparr>sk_Value := Some (s\<lparr>ss_s := v\<rparr>)\<rparr>)) = Err e \<and>
    SecretKeyConfig_Validate (Some (c\<lparr>sk_Value := Some (s\<lparr>ss_s := v'\<rparr>)\<rparr>)) = Err e' \<longrightarrow> e = e')"
  by (auto simp: SensitiveString_String_def SensitiveString_MarshalYAML_def
      SensitiveString_MarshalJSON_def SensitiveString_UnmarshalJSON_def SecretKeyConfig_Validate_def
      SecretKeyValidators_def validateBase64Value_def split: option.splits sum.splits if_splits)

definition sample_secret :: SensitiveString where
  "sample_secret = \<lparr>ss_s = ''hunter2'', ss_replacement = None\<rparr>"

theorem secrets_are_not_printed_witness:
  "SensitiveString_UnmarshalJSON (\<lambda>_. Inr ''hunter2'' :: unit + string) ''d''
     \<lparr>ss_s = [], ss_replacement = None\<rparr> = Ok sample_secret \<and>
   SensitiveString_String sample_secret = DefaultReplacementText"
proof -
  have eq: "SensitiveString_UnmarshalJSON (\<lambda>_. Inr ''hunter2'' :: unit + string) ''d''
      \<lparr>ss_s = [], ss_replacement = None\<rparr> = Ok sample_secret"
    by (simp add: SensitiveString_UnmarshalJSON_def sample_secret_def)
  with secrets_are_not_printed [where unmarshal = "\<lambda>_. Inr ''hunter2'' :: unit + string" and data = "''d''" and s' = sample_secret]
  show ?thesis by blast
qed

end
