(* ===== verification/TlsConfig.thy ===== *)
theory TlsConfig
  imports SecretConfig "HOL-Library.Word"
begin

text \<open>
  \<^verbatim>\<open>config/tls.go\<close>: the TLS section of a configuration, its validation, and the construction of a
  \<^verbatim>\<open>tls.Config\<close> from it.  Pointers are options, and reading a nil one panics.  The file system,
  the platform, X.509 parsing and the PKCS12 decoder are the parameter record \<open>tls_env\<close>.  A nil
  slice and an empty one are both the empty list.
\<close>

section \<open>Tables\<close>

type_synonym uint16 = "16 word"

definition cipherSuites :: "(string \<times> uint16) list" where
  "cipherSuites =
    [(''TLS_RSA_WITH_RC4_128_SHA'', 0x0005), (''TLS_RSA_WITH_3DES_EDE_CBC_SHA'', 0x000a),
     (''TLS_RSA_WITH_AES_128_CBC_SHA'', 0x002f), (''TLS_RSA_WITH_AES_256_CBC_SHA'', 0x0035),
     (''TLS_RSA_WITH_AES_128_CBC_SHA256'', 0x003c), (''TLS_RSA_WITH_AES_128_GCM_SHA256'', 0x009c),
     (''TLS_RSA_WITH_AES_256_GCM_SHA384'', 0x009d), (''TLS_ECDHE_ECDSA_WITH_RC4_128_SHA'', 0xc007),
     (''TLS_ECDHE_ECDSA_WITH_AES_128_CBC_SHA'', 0xc009),
     (''TLS_ECDHE_ECDSA_WITH_AES_256_CBC_SHA'', 0xc00a),
     (''TLS_ECDHE_RSA_WITH_RC4_128_SHA'', 0xc011), (''TLS_ECDHE_RSA_WITH_3DES_EDE_CBC_SHA'', 0xc012),
     (''TLS_ECDHE_RSA_WITH_AES_128_CBC_SHA'', 0xc013),
     (''TLS_ECDHE_RSA_WITH_AES_256_CBC_SHA'', 0xc014),
     (''TLS_ECDHE_ECDSA_WITH_AES_128_CBC_SHA256'', 0xc023),
     (''TLS_ECDHE_RSA_WITH_AES_128_CBC_SHA256'', 0xc027),
     (''TLS_ECDHE_RSA_WITH_AES_128_GCM_SHA256'', 0xc02f),
     (''TLS_ECDHE_ECDSA_WITH_AES_128_GCM_SHA256'', 0xc02b),
     (''TLS_ECDHE_RSA_WITH_AES_256_GCM_SHA384'', 0xc030),
     (''TLS_ECDHE_ECDSA_WITH_AES_256_GCM_SHA384'', 0xc02c),
     (''TLS_ECDHE_RSA_WITH_CHACHA20_POLY1305'', 0xcca8),
     (''TLS_ECDHE_ECDSA_WITH_CHACHA20_POLY1305'', 0xcca9),
     (''TLS_AES_128_GCM_SHA256'', 0x1301), (''TLS_AES_256_GCM_SHA384'', 0x1302),
     (''TLS_CHACHA20_POLY1305_SHA256'', 0x1303), (''TLS_FALLBACK_SCSV'', 0x5600)]"

definition tlsVersions :: "(string \<times> uint16) list" where
  "tlsVersions = [(''1.0'', 0x0301), (''1.1'', 0x0302), (''1.2'', 0x0303), (''1.3'', 0x0304)]"

datatype ClientAuthType =
  NoClientCert | RequestClientCert | RequireAnyClientCert | VerifyClientCertIfGiven
| RequireAndVerifyClientCert

definition clientAuthTypes :: "(string \<times> ClientAuthType) list" where
  "clientAuthTypes =
    [(''NoClientCert'', NoClientCert), (''RequestClientCert'', RequestClientCert),
     (''RequireAnyClientCert'', RequireAnyClientCert),
     (''VerifyClientCertIfGiven'', VerifyClientCertIfGiven),
     (''RequireAndVerifyClientCert'', RequireAndVerifyClientCert)]"

datatype RenegotiationSupport =
  RenegotiateNever | RenegotiateOnceAsClient | RenegotiateFreelyAsClient

definition renegotiationSupportTypes :: "(string \<times> RenegotiationSupport) list" where
  "renegotiationSupportTypes =
    [(''renegotiatenever'', RenegotiateNever), (''renegotiateonceasclient'', RenegotiateOnceAsClient),
     (''renegotiatefreelyasclient'', RenegotiateFreelyAsClient)]"

section \<open>The configuration\<close>

record TrustedCertPoolConfig =
  tp_Mode :: "string option"
  tp_Encoding :: "string option"
  tp_Path :: "string option"
  tp_Password :: "SensitiveString option"

record CertKeyPair =
  ck_CertPath :: "string option"
  ck_KeyPath :: "string option"

record Pkcs12Store =
  p12_Path :: "string option"
  p12_Password :: "SensitiveString option"

record ServerIdentityConfig =
  si_CertKeyPair :: "CertKeyPair option"
  si_PKCS12Store :: "Pkcs12Store option"

record TLSConfig =
  t_MinVersion :: "string option"
  t_MaxVersion :: "string option"
  t_ClientAuth :: "string option"
  t_Ciphers :: "string list"
  t_ServerIdentities :: "ServerIdentityConfig option list"
  t_TrustedCertPool :: "TrustedCertPoolConfig option"
  t_InsecureSkipVerify :: bool
  t_SelfSigned :: bool
  t_Renegotiation :: "string option"

definition emptyCfg :: TLSConfig where
  "emptyCfg = \<lparr>t_MinVersion = None, t_MaxVersion = None, t_ClientAuth = None, t_Ciphers = [],
     t_ServerIdentities = [], t_TrustedCertPool = None, t_InsecureSkipVerify = False,
     t_SelfSigned = False, t_Renegotiation = None\<rparr>"

text \<open>
  \<open>'c\<close> is the type of parsed certificates, \<open>'key\<close> that of private keys, \<open>'x\<close> that of library
  errors.  \<open>PEM_certs\<close> gives the certificates that parse in a PEM text.
\<close>

record ('key, 'c) Certificate =
  crt_chain :: "string list"
  crt_key :: 'key
  crt_leaf :: "'c option"

record ('key, 'c, 'x) tls_env =
  ReadFile :: "string \<Rightarrow> 'x + string"
  ReadDir :: "string \<Rightarrow> 'x + (string \<times> bool) list"
  JoinPath :: "string \<Rightarrow> string \<Rightarrow> string"
  LoadX509KeyPair :: "string \<Rightarrow> string \<Rightarrow> 'x + ('key, 'c) Certificate"
  DecodeChain :: "string \<Rightarrow> string \<Rightarrow> 'x + 'key \<times> 'c \<times> 'c list"
  RawCert :: "'c \<Rightarrow> string"
  PEM_certs :: "string \<Rightarrow> 'c list"
  SystemCertPool :: "'x + 'c list"
  GOOS :: string

record ('key, 'c) tls_Config =
  tc_MinVersion :: uint16
  tc_MaxVersion :: uint16
  tc_CipherSuites :: "uint16 list"
  tc_PreferServerCipherSuites :: bool
  tc_Certificates :: "('key, 'c) Certificate list"
  tc_ClientCAs :: "'c list option"
  tc_ClientAuth :: ClientAuthType
  tc_RootCAs :: "'c list option"
  tc_InsecureSkipVerify :: bool
  tc_Renegotiation :: RenegotiationSupport

definition zero_tls_Config :: "('key, 'c) tls_Config" where
  "zero_tls_Config = \<lparr>tc_MinVersion = 0, tc_MaxVersion = 0, tc_CipherSuites = [],
     tc_PreferServerCipherSuites = False, tc_Certificates = [], tc_ClientCAs = None,
     tc_ClientAuth = NoClientCert, tc_RootCAs = None, tc_InsecureSkipVerify = False,
     tc_Renegotiation = RenegotiateNever\<rparr>"

text \<open>A slice of strings as \<^verbatim>\<open>%v\<close> and \<^verbatim>\<open>%s\<close> print it.\<close>

definition show_slice :: "string list \<Rightarrow> string" where
  "show_slice ss = ''['' @ join_with '' '' ss @ '']''"

section \<open>Versions, ciphers and policies\<close>

definition version_of :: "string \<Rightarrow> string option \<Rightarrow> ('x cfgerr, uint16) res" where
  "version_of what v =
     (case v of
        None \<Rightarrow> Ok 0
      | Some s \<Rightarrow> (case map_of tlsVersions s of
                   None \<Rightarrow> Err (CfgErr (''invalid '' @ what @ '' config: '' @ s))
                 | Some n \<Rightarrow> Ok n))"

definition TLSVersions :: "TLSConfig \<Rightarrow> ('x cfgerr, uint16 \<times> uint16) res" where
  "TLSVersions cfg =
     and_then (version_of ''TLSMin'' (t_MinVersion cfg)) (\<lambda>mn.
     and_then (version_of ''TLSMax'' (t_MaxVersion cfg)) (\<lambda>mx.
       if mn > mx then Err (CfgErr ''invalid TLS version config'') else Ok (mn, mx)))"

fun cipher_ids :: "string list \<Rightarrow> ('x cfgerr, uint16 list) res" where
  "cipher_ids [] = Ok []"
| "cipher_ids (c # cs) =
     (case map_of cipherSuites c of
        None \<Rightarrow> Err (CfgErr (''unknown TLS cipher suite: '' @ c))
      | Some n \<Rightarrow> and_then (cipher_ids cs) (\<lambda>ns. Ok (n # ns)))"

definition TLSCiphers :: "TLSConfig \<Rightarrow> ('x cfgerr, uint16 list) res" where
  "TLSCiphers cfg =
     (if length (t_Ciphers cfg) > length cipherSuites
      then Err (CfgErr
        ''TLS cipher suite configuration contains more ciphers than the number of known ciphers'')
      else cipher_ids (t_Ciphers cfg))"

definition TLSClientAuth :: "TLSConfig \<Rightarrow> ('x cfgerr, ClientAuthType) res" where
  "TLSClientAuth cfg =
     and_then (deref (t_ClientAuth cfg)) (\<lambda>a.
       case map_of clientAuthTypes a of
         None \<Rightarrow> Err (CfgErr (''invalid client authentication policy: '' @ a))
       | Some p \<Rightarrow> Ok p)"

definition TLSRenegotiationSupport :: "TLSConfig \<Rightarrow> ('x cfgerr, RenegotiationSupport) res" where
  "TLSRenegotiationSupport cfg =
     and_then (deref (t_Renegotiation cfg)) (\<lambda>r.
       case map_of renegotiationSupportTypes (ToLower r) of
         Some p \<Rightarrow> Ok p
       | None \<Rightarrow> Err (CfgErr (
           ''renegotiation policy is invalid, expected value is one item in '' @
           show_slice (map fst (sort_keys renegotiationSupportTypes)) @ '', but got: '' @ r)))"

section \<open>Certificates\<close>

text \<open>One identity: nothing for a nil one or one with neither form.\<close>

definition identity_certificate ::
  "('key, 'c, 'x) tls_env \<Rightarrow> ServerIdentityConfig option \<Rightarrow>
     ('x cfgerr, ('key, 'c) Certificate list) res" where
  "identity_certificate E identity =
     (case identity of
        None \<Rightarrow> Ok []
      | Some si \<Rightarrow>
        (case si_CertKeyPair si of
           Some pair \<Rightarrow>
             and_then (deref (ck_CertPath pair)) (\<lambda>cp.
             and_then (deref (ck_KeyPath pair)) (\<lambda>kp.
               case LoadX509KeyPair E cp kp of Inl x \<Rightarrow> Err (LibE x) | Inr cert \<Rightarrow> Ok [cert]))
         | None \<Rightarrow>
           (case si_PKCS12Store si of
              None \<Rightarrow> Ok []
            | Some st \<Rightarrow>
              and_then (SensitiveString_Value (p12_Password st)) (\<lambda>pw.
                case b64_DecodeString pw of
                  None \<Rightarrow> Err Base64Err
                | Some pass \<Rightarrow>
                  and_then (deref (p12_Path st)) (\<lambda>path.
                    case ReadFile E path of
                      Inl x \<Rightarrow> Err (LibE x)
                    | Inr p12bytes \<Rightarrow>
                      (case DecodeChain E p12bytes pass of
                         Inl x \<Rightarrow> Err (LibE x)
                       | Inr (privKey, cert, caCerts) \<Rightarrow>
                           Ok [\<lparr>crt_chain = RawCert E cert # map (RawCert E) caCerts,
                                crt_key = privKey, crt_leaf = Some cert\<rparr>])))))) "

fun identity_certificates ::
  "('key, 'c, 'x) tls_env \<Rightarrow> ServerIdentityConfig option list \<Rightarrow>
     ('x cfgerr, ('key, 'c) Certificate list) res" where
  "identity_certificates E [] = Ok []"
| "identity_certificates E (i # ids) =
     and_then (identity_certificate E i) (\<lambda>c.
     and_then (identity_certificates E ids) (\<lambda>cs. Ok (c @ cs)))"

definition OurIdentityCertificates ::
  "('key, 'c, 'x) tls_env \<Rightarrow> TLSConfig \<Rightarrow> ('x cfgerr, ('key, 'c) Certificate list) res" where
  "OurIdentityCertificates E cfg = identity_certificates E (t_ServerIdentities cfg)"

section \<open>Trusted certificates\<close>

definition DIRMODE :: string where "DIRMODE = ''directory''"
definition FILEMODE :: string where "FILEMODE = ''file''"
definition SYSMODE :: string where "SYSMODE = ''system''"

definition findCertsFromPath ::
  "('key, 'c, 'x) tls_env \<Rightarrow> TrustedCertPoolConfig \<Rightarrow> ('x cfgerr, string list) res" where
  "findCertsFromPath E cfg =
     and_then (deref (tp_Mode cfg)) (\<lambda>mode.
       if ToLower mode = DIRMODE then
         and_then (deref (tp_Path cfg)) (\<lambda>p.
           case ReadDir E p of
             Inl x \<Rightarrow> Err (LibE x)
           | Inr entries \<Rightarrow> Ok (map (\<lambda>(n, _). JoinPath E p n) (filter (\<lambda>(_, isDir). \<not> isDir) entries)))
       else if ToLower mode = FILEMODE then
         and_then (deref (tp_Path cfg)) (\<lambda>p. Ok [p])
       else Err (CfgErr (''unknown or missing mode: '' @ mode @ ''. Valid modes are '' @
              DIRMODE @ '' & '' @ FILEMODE)))"

text \<open>\<^verbatim>\<open>CertPool.AddCert\<close> keeps a certificate once.\<close>

definition AddCert :: "'c list \<Rightarrow> 'c \<Rightarrow> 'c list" where
  "AddCert pool c = (if c \<in> set pool then pool else pool @ [c])"

text \<open>
  The loop of both pool builders: \<open>load\<close> gives the certificates of one file, or nothing when the
  file cannot be read or decoded; its state is the pool, the failed files and whether any file
  succeeded.
\<close>

fun load_files ::
  "(string \<Rightarrow> 'c list option) \<Rightarrow> string list \<Rightarrow> 'c list \<times> string list \<times> bool \<Rightarrow>
     'c list \<times> string list \<times> bool" where
  "load_files load [] st = st"
| "load_files load (file # files) (pool, failed, added) =
     (case load file of
        None \<Rightarrow> load_files load files (pool, failed @ [file], added)
      | Some certs \<Rightarrow> load_files load files (foldl AddCert pool certs, failed, True))"

definition finish_pool :: "'c list \<times> string list \<times> bool \<Rightarrow> ('x cfgerr, 'c list) res" where
  "finish_pool st =
     (case st of (pool, failed, added) \<Rightarrow>
        if failed \<noteq> [] \<and> \<not> added then
          Err (CfgErr (''failed to append any certificates to the RootCA. The following certs failed: ''
            @ show_slice failed))
        else Ok pool)"

definition load_pem :: "('key, 'c, 'x) tls_env \<Rightarrow> string \<Rightarrow> 'c list option" where
  "load_pem E file =
     (case ReadFile E file of
        Inl _ \<Rightarrow> None
      | Inr cert \<Rightarrow> if PEM_certs E cert = [] then None else Some (PEM_certs E cert))"

definition buildPoolFromPEM ::
  "('key, 'c, 'x) tls_env \<Rightarrow> TrustedCertPoolConfig \<Rightarrow> ('x cfgerr, 'c list) res" where
  "buildPoolFromPEM E cfg =
     and_then (findCertsFromPath E cfg) (\<lambda>files.
       finish_pool (load_files (load_pem E) files ([], [], False)))"

definition load_pkcs12 :: "('key, 'c, 'x) tls_env \<Rightarrow> string \<Rightarrow> string \<Rightarrow> 'c list option" where
  "load_pkcs12 E pass file =
     (case ReadFile E file of
        Inl _ \<Rightarrow> None
      | Inr p12bytes \<Rightarrow> (case DecodeChain E p12bytes pass of
          Inl _ \<Rightarrow> None
        | Inr (_, cert, caCerts) \<Rightarrow> Some (cert # caCerts)))"

definition buildPoolFromPKCS12 ::
  "('key, 'c, 'x) tls_env \<Rightarrow> TrustedCertPoolConfig \<Rightarrow> ('x cfgerr, 'c list) res" where
  "buildPoolFromPKCS12 E cfg =
     and_then (SensitiveString_Value (tp_Password cfg)) (\<lambda>pw.
       case b64_DecodeString pw of
         None \<Rightarrow> Err Base64Err
       | Some pass \<Rightarrow>
         and_then (findCertsFromPath E cfg) (\<lambda>files.
           finish_pool (load_files (load_pkcs12 E pass) files ([], [], False))))"

definition PEM :: string where "PEM = ''pem''"
definition PKCS12 :: string where "PKCS12 = ''pkcs12''"

definition CertPoolEncodingTypes ::
  "(string \<times> (('key, 'c, 'x) tls_env \<Rightarrow> TrustedCertPoolConfig \<Rightarrow> ('x cfgerr, 'c list) res)) list" where
  "CertPoolEncodingTypes = [(PEM, buildPoolFromPEM), (PKCS12, buildPoolFromPKCS12)]"

definition buildPool ::
  "('key, 'c, 'x) tls_env \<Rightarrow> TrustedCertPoolConfig \<Rightarrow> ('x cfgerr, 'c list) res" where
  "buildPool E cfg =
     and_then (deref (tp_Encoding cfg)) (\<lambda>enc.
       case map_of CertPoolEncodingTypes (ToLower enc) of
         None \<Rightarrow> Err (CfgErr (''unrecognised certificate encoding: '' @ enc @ ''. Valid encodings are: ''
             @ show_slice [[], [], PEM, PKCS12] @ '' in either upper or lower case''))
       | Some build \<Rightarrow> build E cfg)"

definition system_pool :: "('key, 'c, 'x) tls_env \<Rightarrow> ('x cfgerr, 'c list option) res" where
  "system_pool E =
     (if GOOS E = ''windows'' then Ok None
      else (case SystemCertPool E of Inl x \<Rightarrow> Err (LibE x) | Inr pool \<Rightarrow> Ok (Some pool)))"

definition GetTrustedCAs ::
  "('key, 'c, 'x) tls_env \<Rightarrow> TLSConfig \<Rightarrow> ('x cfgerr, 'c list option) res" where
  "GetTrustedCAs E cfg =
     (case t_TrustedCertPool cfg of
        None \<Rightarrow> system_pool E
      | Some tp \<Rightarrow>
          and_then (deref (tp_Mode tp)) (\<lambda>mode.
            if mode \<noteq> SYSMODE then and_then (buildPool E tp) (\<lambda>pool. Ok (Some pool))
            else system_pool E))"

section \<open>Building the TLS settings\<close>

definition makeSelfSignedTLSConfig ::
  "('key, 'c, 'x) tls_env \<Rightarrow> TLSConfig \<Rightarrow> ('x cfgerr, ('key, 'c) tls_Config) res" where
  "makeSelfSignedTLSConfig E cfg =
     and_then (TLSVersions cfg) (\<lambda>(tlsMin, tlsMax).
     and_then (OurIdentityCertificates E cfg) (\<lambda>certs.
       Ok (zero_tls_Config\<lparr>tc_MinVersion := tlsMin, tc_MaxVersion := tlsMax,
            tc_Certificates := certs, tc_ClientAuth := NoClientCert\<rparr>)))"

definition MakeTLSConfig ::
  "('key, 'c, 'x) tls_env \<Rightarrow> TLSConfig option \<Rightarrow> ('x cfgerr, ('key, 'c) tls_Config option) res" where
  "MakeTLSConfig E c =
     (case c of
        None \<Rightarrow> Ok None
      | Some cfg \<Rightarrow>
        if t_InsecureSkipVerify cfg then Ok (Some (zero_tls_Config\<lparr>tc_InsecureSkipVerify := True\<rparr>))
        else if t_SelfSigned cfg then and_then (makeSelfSignedTLSConfig E cfg) (\<lambda>s. Ok (Some s))
        else
          and_then (GetTrustedCAs E cfg) (\<lambda>trustedCAs.
          and_then (TLSVersions cfg) (\<lambda>(tlsMin, tlsMax).
          and_then (TLSCiphers cfg) (\<lambda>ciphers.
          and_then (TLSClientAuth cfg) (\<lambda>policy.
          and_then (OurIdentityCertificates E cfg) (\<lambda>certs.
          and_then (TLSRenegotiationSupport cfg) (\<lambda>renegotiation.
            Ok (Some \<lparr>tc_MinVersion = tlsMin, tc_MaxVersion = tlsMax, tc_CipherSuites = ciphers,
              tc_PreferServerCipherSuites = True, tc_Certificates = certs,
              tc_ClientCAs = trustedCAs, tc_ClientAuth = policy, tc_RootCAs = trustedCAs,
              tc_InsecureSkipVerify = t_InsecureSkipVerify cfg,
              tc_Renegotiation = renegotiation\<rparr>))))))))"

section \<open>Validation\<close>

text \<open>An error with its text, where the code formats it into another one.\<close>

type_synonym check = "(string, unit) res"

definition CertKeyPair_validate :: "CertKeyPair \<Rightarrow> check" where
  "CertKeyPair_validate c =
     (if ck_KeyPath c = None then Err ''keyPath must be set''
      else if ck_CertPath c = None then Err ''certPath must be set'' else Ok ())"

definition Pkcs12Store_validate :: "Pkcs12Store \<Rightarrow> check" where
  "Pkcs12Store_validate p =
     (if p12_Path p = None then Err ''path must be set''
      else if p12_Password p = None then Err ''password must be set'' else Ok ())"

definition ServerIdentityConfig_validate :: "ServerIdentityConfig \<Rightarrow> check" where
  "ServerIdentityConfig_validate b =
     (if (si_PKCS12Store b \<noteq> None) = (si_CertKeyPair b \<noteq> None)
      then Err ''p12Store/certKeyPair: only one may be configured''
      else and_then
        (case si_CertKeyPair b of None \<Rightarrow> Ok ()
         | Some c \<Rightarrow> map_err (\<lambda>e. ''certKeyPair.'' @ e) (CertKeyPair_validate c)) (\<lambda>_.
        (case si_PKCS12Store b of None \<Rightarrow> Ok ()
         | Some p \<Rightarrow> map_err (\<lambda>e. ''p12Store.'' @ e) (Pkcs12Store_validate p))))"

text \<open>
  The validation of the pool rewrites its mode and encoding to lower case; the result is paired
  with the rewritten configuration.
\<close>

definition TrustedCertPoolConfig_validate :: "TrustedCertPoolConfig \<Rightarrow> check \<times> TrustedCertPoolConfig" where
  "TrustedCertPoolConfig_validate t =
     (case tp_Mode t of
        None \<Rightarrow> (Err ''mode config missing'', t)
      | Some m \<Rightarrow>
        (let t1 = t\<lparr>tp_Mode := Some (ToLower m)\<rparr>
         in if ToLower m = SYSMODE then (Ok (), t1)
            else if tp_Path t = None then (Err ''path config missing'', t1)
            else (case tp_Encoding t of
                None \<Rightarrow> (Err ''encoding missing'', t1)
              | Some e \<Rightarrow>
                (let t2 = t1\<lparr>tp_Encoding := Some (ToLower e)\<rparr>
                 in if ToLower e = PKCS12 \<and> tp_Password t = None
                    then (Err (''password config missing. Must be provided if the encoding config provided is type of '' @ PKCS12), t2)
                    else if ToLower e \<notin> {PEM, PKCS12}
                    then (Err (''encoding '' @ CHR 0x22 # ToLower e @ CHR 0x22 # '' is not of valid encoding types: ''
                        @ show_slice [PEM, PKCS12]), t2)
                    else (Ok (), t2)))))"

fun validate_identities :: "nat \<Rightarrow> ServerIdentityConfig option list \<Rightarrow> check" where
  "validate_identities i [] = Ok ()"
| "validate_identities i (None # ids) =
     Err (''serverIdentities['' @ show_nat i @ ''] config missing'')"
| "validate_identities i (Some b # ids) =
     and_then (map_err (\<lambda>e. ''serverIdentity['' @ show_nat i @ ''].'' @ e) (ServerIdentityConfig_validate b))
       (\<lambda>_. validate_identities (Suc i) ids)"

text \<open>The checks before the trusted pool, in order.\<close>

definition TLSConfig_checks :: "TLSConfig \<Rightarrow> check" where
  "TLSConfig_checks t =
     (if t = emptyCfg then Err ''config missing''
      else case t_ClientAuth t of None \<Rightarrow> Err ''clientAuth config missing''
      | Some a \<Rightarrow>
      if map_of clientAuthTypes a = None
      then Err ''clientAuth: client authentication policy must be set if TLS is in use''
      else case t_MinVersion t of None \<Rightarrow> Err ''min config missing''
      | Some mn \<Rightarrow>
      if map_of tlsVersions mn = None then Err ''min: TLS version not recognized''
      else case t_MaxVersion t of None \<Rightarrow> Err ''max config missing''
      | Some mx \<Rightarrow>
      if map_of tlsVersions mx = None then Err ''max: TLS version not recognized''
      else
        (let failedCiphers = filter (\<lambda>c. map_of cipherSuites c = None) (t_Ciphers t)
         in if failedCiphers \<noteq> []
            then Err (''ciphers: '' @ show_slice failedCiphers @ '' are not valid'')
            else case t_Renegotiation t of None \<Rightarrow> Err ''renegotiation config missing''
            | Some r \<Rightarrow>
              if map_of renegotiationSupportTypes (ToLower r) = None
              then Err (''renegotiation policy is invalid, expected policy is `RenegotiateNever`, `RenegotiateOnceAsClient` or `RenegotiateFreelyAsClient`, but got: '' @ r)
              else if t_ServerIdentities t = [] then Err ''serverIdentities config missing''
              else validate_identities 0 (t_ServerIdentities t)))"

definition TLSConfig_Validate :: "TLSConfig option \<Rightarrow> check \<times> TLSConfig option" where
  "TLSConfig_Validate c =
     (case c of
        None \<Rightarrow> (Ok (), None)
      | Some t \<Rightarrow>
        (case TLSConfig_checks t of
           Ok _ \<Rightarrow>
             (case t_TrustedCertPool t of
                None \<Rightarrow> (Err ''trustedCertPool config missing'', Some t)
              | Some tp \<Rightarrow>
                  (let (r, tp') = TrustedCertPoolConfig_validate tp
                   in (map_err (\<lambda>e. ''trustedCertPool.'' @ e) r, Some (t\<lparr>t_TrustedCertPool := Some tp'\<rparr>))))
         | other \<Rightarrow> (other, Some t)))"

section \<open>Loading a pool of certificates\<close>

definition certs_of :: "(string \<Rightarrow> 'c list option) \<Rightarrow> string list \<Rightarrow> 'c list" where
  "certs_of load files = concat (map (\<lambda>f. case load f of None \<Rightarrow> [] | Some cs \<Rightarrow> cs) files)"

text \<open>
  What the pool builders need of a loader: a file that loads contributes a certificate.
\<close>

locale cert_loader =
  fixes load :: "string \<Rightarrow> 'c list option"
  assumes load_some: "load f = Some cs \<Longrightarrow> cs \<noteq> []"
begin

lemma load_files_eq:
  "load_files load files (pool, failed, added) =
     (foldl AddCert pool (certs_of load files), failed @ filter (\<lambda>f. load f = None) files,
      added \<or> list_ex (\<lambda>f. load f \<noteq> None) files)"
  by (induction files arbitrary: pool failed added) (auto simp: certs_of_def split: option.splits)

lemma set_foldl_AddCert: "set (foldl AddCert pool cs) = set pool \<union> set cs"
  by (induction cs arbitrary: pool) (auto simp: AddCert_def)

lemma distinct_foldl_AddCert: "distinct pool \<Longrightarrow> distinct (foldl AddCert pool cs)"
  by (induction cs arbitrary: pool) (auto simp: AddCert_def)

lemma certs_of_Nil: "certs_of load files = [] \<longleftrightarrow> \<not> list_ex (\<lambda>f. load f \<noteq> None) files"
  using load_some by (auto simp: certs_of_def list_ex_iff split: option.splits)

lemma built_pool:
  "finish_pool (load_files load files ([], [], False)) = Ok pool \<longleftrightarrow>
     pool = foldl AddCert [] (certs_of load files) \<and> (files = [] \<or> pool \<noteq> [])"
proof -
  have "foldl AddCert [] (certs_of load files) = [] \<longleftrightarrow> certs_of load files = []"
    using set_foldl_AddCert [of "[]" "certs_of load files"] by (metis set_empty sup_bot_left list.set(1))
  moreover have "filter (\<lambda>f. load f = None) files = [] \<and> \<not> list_ex (\<lambda>f. load f \<noteq> None) files \<longleftrightarrow> files = []"
    by (cases files) (auto simp: filter_empty_conv list_ex_iff)
  ultimately show ?thesis
    by (auto simp: finish_pool_def load_files_eq certs_of_Nil)
qed

lemma built_pool_contents:
  assumes "finish_pool (load_files load files ([], [], False)) = Ok pool"
  shows "distinct pool \<and> set pool = set (certs_of load files) \<and> (files = [] \<or> pool \<noteq> [])"
  using assms set_foldl_AddCert [of "[]" "certs_of load files"] distinct_foldl_AddCert [of "[]" "certs_of load files"]
  unfolding built_pool by (elim conjE) simp

lemma finish_total: "\<not> panics (finish_pool st)"
  by (auto simp: finish_pool_def split: prod.splits)

end

interpretation pem: cert_loader "load_pem E" for E
  by unfold_locales (auto simp: load_pem_def split: sum.splits if_splits)

interpretation p12: cert_loader "load_pkcs12 E pass" for E pass
  by unfold_locales (auto simp: load_pkcs12_def split: sum.splits prod.splits)

section \<open>Panics\<close>

lemma version_of_total: "\<not> panics (version_of what v)"
  by (auto simp: version_of_def split: option.splits)

lemma TLSVersions_total: "\<not> panics (TLSVersions cfg)"
  by (simp add: TLSVersions_def version_of_total not_panics_and_then)

lemma cipher_ids_total: "\<not> panics (cipher_ids cs)"
  by (induction cs) (auto simp: panics_and_then split: option.splits)

lemma TLSCiphers_total: "\<not> panics (TLSCiphers cfg)"
  by (simp add: TLSCiphers_def cipher_ids_total)

lemma TLSClientAuth_total: "t_ClientAuth cfg \<noteq> None \<Longrightarrow> \<not> panics (TLSClientAuth cfg)"
  by (auto simp: TLSClientAuth_def split: option.splits)

lemma TLSRenegotiation_total: "t_Renegotiation cfg \<noteq> None \<Longrightarrow> \<not> panics (TLSRenegotiationSupport cfg)"
  by (auto simp: TLSRenegotiationSupport_def split: option.splits)

definition identity_ok :: "ServerIdentityConfig option \<Rightarrow> bool" where
  "identity_ok i \<longleftrightarrow> (\<exists>b. i = Some b \<and> ServerIdentityConfig_validate b = Ok ())"

lemma identity_validate_paths:
  assumes "ServerIdentityConfig_validate b = Ok ()"
  shows "(\<exists>p cp kp. si_CertKeyPair b = Some p \<and> ck_CertPath p = Some cp \<and> ck_KeyPath p = Some kp) \<or>
    (\<exists>st p pw. si_CertKeyPair b = None \<and> si_PKCS12Store b = Some st \<and> p12_Path st = Some p \<and>
       p12_Password st = Some pw)"
  using assms
  by (auto simp: ServerIdentityConfig_validate_def CertKeyPair_validate_def Pkcs12Store_validate_def
      go_res split: option.splits if_splits)

lemma identity_certificate_total:
  assumes "identity_ok i"
  shows "\<not> panics (identity_certificate E i)"
proof -
  from assms obtain b where b: "i = Some b" "ServerIdentityConfig_validate b = Ok ()"
    by (auto simp: identity_ok_def)
  from identity_validate_paths [OF b(2)] b(1) show ?thesis
    by (auto simp: identity_certificate_def SensitiveString_Value_def split: sum.splits option.splits)
qed

lemma identity_certificates_total:
  "list_all identity_ok ids \<Longrightarrow> \<not> panics (identity_certificates E ids)"
  by (induction ids) (auto simp: panics_and_then identity_certificate_total)

definition pool_config_ok :: "TrustedCertPoolConfig \<Rightarrow> bool" where
  "pool_config_ok tp \<longleftrightarrow>
     (\<exists>m. tp_Mode tp = Some m \<and> ToLower m = m \<and>
       (m = SYSMODE \<or>
        (\<exists>p e. tp_Path tp = Some p \<and> tp_Encoding tp = Some e \<and> ToLower e = e \<and>
           (e = PEM \<or> (e = PKCS12 \<and> tp_Password tp \<noteq> None)))))"

lemma lower_constants [simp]:
  "ToLower SYSMODE = SYSMODE" "ToLower PEM = PEM" "ToLower PKCS12 = PKCS12"
  by code_simp+

lemma pool_validated:
  assumes "TrustedCertPoolConfig_validate tp = (Ok (), tp')"
  shows "pool_config_ok tp'"
  using assms
  by (auto simp: TrustedCertPoolConfig_validate_def pool_config_ok_def Let_def
      split: option.splits if_splits)

lemma findCerts_total:
  "tp_Mode tp = Some m \<Longrightarrow> tp_Path tp = Some p \<Longrightarrow> \<not> panics (findCertsFromPath E tp)"
  by (auto simp: findCertsFromPath_def split: sum.splits)

lemma encodings_distinct: "PEM \<noteq> PKCS12"
  by (simp add: PEM_def PKCS12_def)

lemma buildPool_total:
  assumes "pool_config_ok tp" "tp_Mode tp \<noteq> Some SYSMODE"
  shows "\<not> panics (buildPool E tp)"
proof -
  obtain m p e where mpe: "tp_Mode tp = Some m" "tp_Path tp = Some p" "tp_Encoding tp = Some e"
      "ToLower e = e" "e = PEM \<or> (e = PKCS12 \<and> tp_Password tp \<noteq> None)"
    using assms by (auto simp: pool_config_ok_def)
  note find = findCerts_total [OF mpe(1,2), of E]
  from mpe(5) show ?thesis
  proof
    assume "e = PEM"
    with mpe find show ?thesis
      by (auto simp: buildPool_def CertPoolEncodingTypes_def buildPoolFromPEM_def pem.finish_total
          panics_and_then)
  next
    assume "e = PKCS12 \<and> tp_Password tp \<noteq> None"
    with mpe find encodings_distinct show ?thesis
      by (auto simp: buildPool_def CertPoolEncodingTypes_def buildPoolFromPKCS12_def
          SensitiveString_Value_def pem.finish_total panics_and_then
          split: option.splits)
  qed
qed

lemma GetTrustedCAs_total:
  assumes "t_TrustedCertPool cfg = Some tp" "pool_config_ok tp"
  shows "\<not> panics (GetTrustedCAs E cfg)"
proof -
  obtain m where "tp_Mode tp = Some m" using assms(2) by (auto simp: pool_config_ok_def)
  then show ?thesis
    using assms buildPool_total [OF assms(2), of E]
    by (auto simp: GetTrustedCAs_def system_pool_def panics_and_then split: sum.splits)
qed

section \<open>Validated configurations\<close>

lemma validate_identities_ok: "validate_identities i ids = Ok () \<Longrightarrow> list_all identity_ok ids"
  by (induction i ids rule: validate_identities.induct) (auto simp: identity_ok_def go_res)

text \<open>What a successful validation gives: every pointer the builder reads is set.\<close>

lemma checks_ok:
  assumes "TLSConfig_checks t = Ok ()"
  obtains a mn mx r where "t_ClientAuth t = Some a" "map_of clientAuthTypes a \<noteq> None"
    "t_MinVersion t = Some mn" "map_of tlsVersions mn \<noteq> None"
    "t_MaxVersion t = Some mx" "map_of tlsVersions mx \<noteq> None"
    "list_all (\<lambda>c. map_of cipherSuites c \<noteq> None) (t_Ciphers t)"
    "t_Renegotiation t = Some r" "map_of renegotiationSupportTypes (ToLower r) \<noteq> None"
    "t_ServerIdentities t \<noteq> []" "list_all identity_ok (t_ServerIdentities t)"
proof -
  obtain a mn mx r where "t_ClientAuth t = Some a" "t_MinVersion t = Some mn"
      "t_MaxVersion t = Some mx" "t_Renegotiation t = Some r"
    using assms by (auto simp: TLSConfig_checks_def Let_def split: if_splits option.splits)
  then show thesis
    using assms that validate_identities_ok [of 0 "t_ServerIdentities t"]
    by (auto simp: TLSConfig_checks_def Let_def filter_empty_conv list_all_iff
        split: if_splits option.splits)
qed

lemma Validate_Ok:
  assumes "TLSConfig_Validate (Some t) = (Ok (), t')"
  obtains tp tp' where "TLSConfig_checks t = Ok ()" "t_TrustedCertPool t = Some tp"
    "TrustedCertPoolConfig_validate tp = (Ok (), tp')" "t' = Some (t\<lparr>t_TrustedCertPool := Some tp'\<rparr>)"
  using assms
  by (auto simp: TLSConfig_Validate_def split: res.splits option.splits prod.splits)

lemma checks_pool_update:
  assumes "t_TrustedCertPool t = Some tp"
  shows "TLSConfig_checks (t\<lparr>t_TrustedCertPool := Some tp'\<rparr>) = TLSConfig_checks t"
proof -
  have nonempty: "u \<noteq> emptyCfg" if "t_TrustedCertPool u \<noteq> None" for u
    using that by (auto simp: emptyCfg_def)
  have "t \<noteq> emptyCfg" "t\<lparr>t_TrustedCertPool := Some tp'\<rparr> \<noteq> emptyCfg"
    using assms by (auto intro!: nonempty)
  then show ?thesis by (simp add: TLSConfig_checks_def cong: option.case_cong if_cong)
qed

lemma pool_validate_idem:
  assumes "TrustedCertPoolConfig_validate tp = (Ok (), tp')"
  shows "TrustedCertPoolConfig_validate tp' = (Ok (), tp')"
  using assms
  by (auto simp: TrustedCertPoolConfig_validate_def Let_def split: option.splits if_splits)

section \<open>Properties\<close>


definition sample_tls :: TLSConfig where
  "sample_tls =
     \<lparr>t_MinVersion = Some ''1.2'', t_MaxVersion = Some ''1.3'', t_ClientAuth = Some ''NoClientCert'',
      t_Ciphers = [''TLS_AES_128_GCM_SHA256''],
      t_ServerIdentities = [Some \<lparr>si_CertKeyPair = Some \<lparr>ck_CertPath = Some ''c'', ck_KeyPath = Some ''k''\<rparr>,
        si_PKCS12Store = None\<rparr>],
      t_TrustedCertPool = Some \<lparr>tp_Mode = Some ''File'', tp_Encoding = Some ''PEM'', tp_Path = Some ''ca'',
        tp_Password = None\<rparr>,
      t_InsecureSkipVerify = False, t_SelfSigned = False, t_Renegotiation = Some ''RenegotiateNever''\<rparr>"

definition sample_tls' :: TLSConfig where
  "sample_tls' = sample_tls\<lparr>t_TrustedCertPool := Some \<lparr>tp_Mode = Some ''file'', tp_Encoding = Some ''pem'',
     tp_Path = Some ''ca'', tp_Password = None\<rparr>\<rparr>"

lemma lower_samples:
  "ToLower ''File'' = ''file''" "ToLower ''PEM'' = ''pem''"
  "ToLower ''RenegotiateNever'' = ''renegotiatenever''"
  "ToLower ''file'' = ''file''" "ToLower ''pem'' = ''pem''"
  by code_simp+

lemma sample_tls_validates: "TLSConfig_Validate (Some sample_tls) = (Ok (), Some sample_tls')"
  by (simp add: TLSConfig_Validate_def TLSConfig_checks_def sample_tls_def sample_tls'_def emptyCfg_def
      clientAuthTypes_def tlsVersions_def cipherSuites_def renegotiationSupportTypes_def lower_samples
      ServerIdentityConfig_validate_def CertKeyPair_validate_def TrustedCertPoolConfig_validate_def
      SYSMODE_def PEM_def PKCS12_def)

definition sample_tls_env :: "(unit, string, string) tls_env" where
  "sample_tls_env =
     \<lparr>ReadFile = (\<lambda>f. if f = ''ca'' then Inr ''root'' else Inl ''not found''), ReadDir = (\<lambda>_. Inl ''not found''),
      JoinPath = (\<lambda>d f. d @ ''/'' @ f),
      LoadX509KeyPair = (\<lambda>c k. Inr \<lparr>crt_chain = [c], crt_key = (), crt_leaf = None\<rparr>),
      DecodeChain = (\<lambda>_ _. Inl ''bad password''), RawCert = (\<lambda>c. c), PEM_certs = (\<lambda>t. [t]),
      SystemCertPool = Inr [], GOOS = ''linux''\<rparr>"


text \<open>
  Validation is idempotent: on the configuration it leaves behind (mode and encoding in
  lower case) it succeeds again and changes nothing.
\<close>

theorem validate_idempotent:
  assumes "TLSConfig_Validate c = (Ok (), c')"
  shows "TLSConfig_Validate c' = (Ok (), c')"
proof (cases c)
  case None
  with assms show ?thesis by (simp add: TLSConfig_Validate_def)
next
  case (Some t)
  with assms obtain tp tp' where v: "TLSConfig_checks t = Ok ()" "t_TrustedCertPool t = Some tp"
      "TrustedCertPoolConfig_validate tp = (Ok (), tp')" "c' = Some (t\<lparr>t_TrustedCertPool := Some tp'\<rparr>)"
    using Validate_Ok by metis
  then show ?thesis
    by (simp add: TLSConfig_Validate_def checks_pool_update pool_validate_idem)
qed

theorem validate_idempotent_witness:
  "TLSConfig_Validate (Some sample_tls') = (Ok (), Some sample_tls')"
  by (rule validate_idempotent [OF sample_tls_validates])

lemma cipher_ids_Ok: "cipher_ids cs = Ok ns \<Longrightarrow> map Some ns = map (map_of cipherSuites) cs"
  by (induction cs arbitrary: ns) (auto simp: go_res split: option.splits)

lemma TLSVersions_Ok: "TLSVersions cfg = Ok (mn, mx) \<Longrightarrow> mn \<le> mx"
  by (auto simp: TLSVersions_def go_res split: if_splits)



text \<open>
  Validation does not compare the two versions: a configuration whose minimum is above its
  maximum passes the same validation, and the settings are then refused when they are built.
\<close>

theorem reversed_versions_validate_but_fail:
  assumes "TLSConfig_Validate (Some t) = (Ok (), Some t')"
    and "t_MinVersion t = Some a" "t_MaxVersion t = Some b"
    and "map_of tlsVersions a = Some mn" "map_of tlsVersions b = Some mx" "mn < mx"
  shows "\<exists>u. TLSConfig_Validate (Some (t\<lparr>t_MinVersion := Some b, t_MaxVersion := Some a\<rparr>)) = (Ok (), Some u) \<and>
    TLSVersions u = Err (CfgErr ''invalid TLS version config'')"
proof -
  obtain tp tp' where v: "TLSConfig_checks t = Ok ()" "t_TrustedCertPool t = Some tp"
      "TrustedCertPoolConfig_validate tp = (Ok (), tp')"
    using Validate_Ok [OF assms(1)] by metis
  let ?u = "t\<lparr>t_MinVersion := Some b, t_MaxVersion := Some a\<rparr>"
  have "?u \<noteq> emptyCfg"
  proof
    assume "?u = emptyCfg"
    then have "t_MinVersion ?u = t_MinVersion emptyCfg" by simp
    then show False by (simp add: emptyCfg_def)
  qed
  moreover have "t \<noteq> emptyCfg" using assms(2) by (auto simp: emptyCfg_def)
  ultimately have "TLSConfig_checks ?u = TLSConfig_checks t"
    using assms(2-5)
    by (simp add: TLSConfig_checks_def cong: option.case_cong if_cong)
  then show ?thesis
    using v assms(4-6)
    by (simp add: TLSConfig_Validate_def TLSVersions_def version_of_def)
qed

theorem reversed_versions_validate_but_fail_witness:
  "\<exists>u. TLSConfig_Validate (Some (sample_tls\<lparr>t_MinVersion := Some ''1.3'', t_MaxVersion := Some ''1.2''\<rparr>)) =
         (Ok (), Some u) \<and>
       TLSVersions u = (Err (CfgErr ''invalid TLS version config'') :: (unit cfgerr, uint16 \<times> uint16) res)"
proof (rule reversed_versions_validate_but_fail [OF sample_tls_validates])
  show "(771 :: uint16) < 772" by code_simp
qed (simp_all add: sample_tls_def tlsVersions_def)

lemma set_load_pem:
  "set (case load_pem E f of None \<Rightarrow> [] | Some cs \<Rightarrow> cs) =
     {c. \<exists>t. ReadFile E f = Inr t \<and> c \<in> set (PEM_certs E t)}"
  by (cases "ReadFile E f") (auto simp: load_pem_def)

text \<open>
  A pool built from PEM files holds exactly the certificates of the files found that can be
  read and parsed, each once; unreadable files are skipped as long as one file gives a
  certificate, so the pool is empty only when there was no file at all.
\<close>

theorem pem_pool_contents:
  fixes E :: "('key, 'c, 'x) tls_env"
  assumes "buildPoolFromPEM E cfg = Ok pool"
  shows "\<exists>files. findCertsFromPath E cfg = Ok files \<and> distinct pool \<and>
    set pool = {c. \<exists>f t. f \<in> set files \<and> ReadFile E f = Inr t \<and> c \<in> set (PEM_certs E t)} \<and>
    (pool = [] \<longleftrightarrow> files = [])"
proof -
  from assms obtain files where f: "findCertsFromPath E cfg = Ok files"
      and b: "(finish_pool (load_files (load_pem E) files ([], [], False)) :: ('x cfgerr, 'c list) res) = Ok pool"
    by (auto simp: buildPoolFromPEM_def go_res)
  have "set (certs_of (load_pem E) files) =
      {c. \<exists>f t. f \<in> set files \<and> ReadFile E f = Inr t \<and> c \<in> set (PEM_certs E t)}"
    by (auto simp: certs_of_def set_load_pem)
  moreover have "pool = [] \<longleftrightarrow> files = []"
    using pem.built_pool_contents [OF b] by (auto simp: certs_of_def)
  ultimately show ?thesis using f pem.built_pool_contents [OF b] by auto
qed

theorem pem_pool_contents_witness:
  "buildPoolFromPEM sample_tls_env \<lparr>tp_Mode = Some ''file'', tp_Encoding = None, tp_Path = Some ''ca'',
     tp_Password = None\<rparr> = Ok [''root''] \<and> distinct [''root'']"
proof -
  have lower: "ToLower ''file'' = ''file''" by code_simp
  have "buildPoolFromPEM sample_tls_env \<lparr>tp_Mode = Some ''file'', tp_Encoding = None, tp_Path = Some ''ca'',
     tp_Password = None\<rparr> = Ok [''root'']"
    by (simp add: buildPoolFromPEM_def findCertsFromPath_def lower DIRMODE_def FILEMODE_def load_pem_def
        finish_pool_def sample_tls_env_def AddCert_def)
  with pem_pool_contents [OF this] show ?thesis by blast
qed

end
