(* ===== verification/ConfigReader.thy ===== *)
theory ConfigReader
  imports SecretConfig
begin

text \<open>
  Package \<^verbatim>\<open>validator\<close> (registration of validators, \<^verbatim>\<open>Validate\<close>, the \<^verbatim>\<open>timeout\<close> tag) and the reader of
  configuration files in package \<^verbatim>\<open>config\<close> (\<^verbatim>\<open>configreader*.go\<close>).  The third-party validator, viper
  and mapstructure are parameters; \<^verbatim>\<open>time.ParseDuration\<close> is the argument \<open>ParseDuration\<close>.
\<close>

section \<open>validator/validator.go\<close>

text \<open>
  The package state: the validator once built, and the registrations waiting to be put into it.
  \<open>'r\<close> is the type of a type registration, \<open>'s\<close> that of a struct-level one.
\<close>

record ('r, 's) validator_pkg =
  DefaultValidator :: "('r list \<times> 's list) option"
  registeredTypes :: "'r list"
  registeredStructLevel :: "'s list"

definition validator_init :: "('r, 's) validator_pkg" where
  "validator_init = \<lparr>DefaultValidator = None, registeredTypes = [], registeredStructLevel = []\<rparr>"

definition NewDefaultValidator :: "('r, 's) validator_pkg \<Rightarrow> 'r list \<times> 's list" where
  "NewDefaultValidator p = (registeredTypes p, registeredStructLevel p)"

definition late_registration :: string where
  "late_registration = ''attempting to add a new validator after init()''"

definition RegisterCustomValidator ::
  "'r \<Rightarrow> ('r, 's) validator_pkg \<Rightarrow> (unit, ('r, 's) validator_pkg) res" where
  "RegisterCustomValidator r p =
     (if DefaultValidator p \<noteq> None then Panic late_registration
      else Ok (p\<lparr>registeredTypes := registeredTypes p @ [r]\<rparr>))"

definition RegisterStructLevel ::
  "'s \<Rightarrow> ('r, 's) validator_pkg \<Rightarrow> (unit, ('r, 's) validator_pkg) res" where
  "RegisterStructLevel s p =
     (if DefaultValidator p \<noteq> None then Panic late_registration
      else Ok (p\<lparr>registeredStructLevel := registeredStructLevel p @ [s]\<rparr>))"

definition ensure_validator :: "('r, 's) validator_pkg \<Rightarrow> ('r, 's) validator_pkg" where
  "ensure_validator p =
     (case DefaultValidator p of
        Some _ \<Rightarrow> p
      | None \<Rightarrow> p\<lparr>DefaultValidator := Some (NewDefaultValidator p)\<rparr>)"

text \<open>
  A value as reflection sees it: nil, a string, a pointer, a slice, or anything else, which goes
  to the struct check of the third-party validator (\<open>check\<close>, with the registrations).
\<close>

datatype 'a rval = VNil | VString string | VPtr "'a rval option" | VSlice "'a rval list" | VOther 'a

type_synonym ('a, 'r, 's, 'x) struct_check = "'r list \<times> 's list \<Rightarrow> 'a rval \<Rightarrow> 'x option"

definition check_struct ::
  "('a, 'r, 's, 'x) struct_check \<Rightarrow> 'a rval \<Rightarrow> ('r, 's) validator_pkg \<Rightarrow>
     ('x, unit) res \<times> ('r, 's) validator_pkg" where
  "check_struct check v p =
     (let p' = ensure_validator p
      in (case check (the (DefaultValidator p')) v of None \<Rightarrow> Ok () | Some x \<Rightarrow> Err x, p'))"

fun Validate :: "('a, 'r, 's, 'x) struct_check \<Rightarrow> 'a rval \<Rightarrow> ('r, 's) validator_pkg \<Rightarrow>
     ('x, unit) res \<times> ('r, 's) validator_pkg"
  and Validate_slice :: "('a, 'r, 's, 'x) struct_check \<Rightarrow> 'a rval list \<Rightarrow> ('r, 's) validator_pkg \<Rightarrow>
     ('x, unit) res \<times> ('r, 's) validator_pkg" where
  "Validate check VNil p = (Panic nil_deref, p)"
| "Validate check (VString s) p = (Ok (), p)"
| "Validate check (VPtr (Some (VString s))) p = (Ok (), p)"
| "Validate check (VPtr (Some (VSlice vs))) p = (Ok (), p)"
| "Validate check (VPtr v) p = check_struct check (VPtr v) p"
| "Validate check (VSlice vs) p = Validate_slice check vs p"
| "Validate check (VOther a) p = check_struct check (VOther a) p"
| "Validate_slice check [] p = (Ok (), p)"
| "Validate_slice check (v # vs) p =
     (case Validate check v p of
        (Ok _, p') \<Rightarrow> Validate_slice check vs p'
      | other \<Rightarrow> other)"

text \<open>The \<^verbatim>\<open>timeout=\<close> tag; \<open>field\<close> is the field if it is a duration.\<close>

definition timeoutValidatorFunc ::
  "(string \<Rightarrow> int option) \<Rightarrow> string \<Rightarrow> int option \<Rightarrow> bool" where
  "timeoutValidatorFunc ParseDuration param field =
     (case field of
        None \<Rightarrow> False
      | Some val \<Rightarrow>
        (case split_on (CHR '':'') param of
           [a] \<Rightarrow> (case ParseDuration a of None \<Rightarrow> False | Some p \<Rightarrow> val < p)
         | [a, b] \<Rightarrow>
             (case ParseDuration a of
                None \<Rightarrow> False
              | Some mn \<Rightarrow>
                  if length b > 0
                  then (case ParseDuration b of None \<Rightarrow> False | Some mx \<Rightarrow> val \<ge> mn \<and> val < mx)
                  else val \<ge> mn)
         | _ \<Rightarrow> False))"

section \<open>config/configreader.go, configreaderimpl.go, configreaderbuilder.go\<close>

text \<open>
  The viper instance: \<open>vp_Get\<close> is its lookup, \<open>vp_Unmarshal\<close> decodes the whole configuration with
  the decode hook and returns the target with the keys it did not use.
\<close>

record ('t, 'x) viper =
  vp_Get :: "string \<Rightarrow> goval option"
  vp_Unmarshal :: "'x + 't \<times> string list"

record ('t, 'x) configReaderImpl =
  envVars :: "('t, 'x) viper"
  strictMode :: bool
  strictModeIgnoredKeys :: "string list"

datatype 'x readerr =
  NilValueError string
| ValueConversionError string
| DecodeErr 'x
| Misconfiguration string

definition configReader_Get ::
  "('t, 'x) configReaderImpl \<Rightarrow> string \<Rightarrow> ('x readerr, goval) res" where
  "configReader_Get m key =
     (case vp_Get (envVars m) key of
        None \<Rightarrow> Err (NilValueError (key @ '': key value is nil''))
      | Some v \<Rightarrow> Ok v)"

text \<open>\<open>ToStringE\<close> is the conversion of package cast.\<close>

definition configReader_GetString ::
  "(goval \<Rightarrow> string option) \<Rightarrow> ('t, 'x) configReaderImpl \<Rightarrow> string \<Rightarrow> ('x readerr, string) res" where
  "configReader_GetString ToStringE m key =
     and_then (configReader_Get m key) (\<lambda>v.
       case ToStringE v of
         None \<Rightarrow> Err (ValueConversionError (key @ '': key value is incompatible with string''))
       | Some s \<Rightarrow> Ok s)"

definition validateNoUnusedKeys ::
  "('t, 'x) configReaderImpl \<Rightarrow> string list \<Rightarrow> ('x readerr, unit) res" where
  "validateNoUnusedKeys m unused =
     (let toIgnore = map ToLower (strictModeIgnoredKeys m);
          unusedNotIgnored = filter (\<lambda>k. k \<notin> set toIgnore) unused
      in if unusedNotIgnored \<noteq> []
         then Err (Misconfiguration (''Misconfiguration error: found unexpected config key(s): '' @
                join_with '','' unusedNotIgnored))
         else Ok ())"

definition configReader_Unmarshal :: "('t, 'x) configReaderImpl \<Rightarrow> ('x readerr, 't) res" where
  "configReader_Unmarshal m =
     (case vp_Unmarshal (envVars m) of
        Inl x \<Rightarrow> Err (DecodeErr x)
      | Inr (config, unused) \<Rightarrow>
          if strictMode m then and_then (validateNoUnusedKeys m unused) (\<lambda>_. Ok config)
          else Ok config)"

text \<open>
  The first decode hook, on strings: it looks at the text only, not at the type of the target.
\<close>

datatype log_level = ErrorLevel | InfoLevel | DebugLevel

datatype hook_value = HString string | HLevel log_level | HOther nat

fun log_level_hook :: "hook_value \<Rightarrow> hook_value" where
  "log_level_hook (HString s) =
     (let str = ToLower s
      in if str = ''panic'' then HLevel ErrorLevel
         else if str = ''fatal'' then HLevel ErrorLevel
         else if str = ''error'' then HLevel ErrorLevel
         else if str = ''warn'' then HLevel InfoLevel
         else if str = ''info'' then HLevel InfoLevel
         else if str = ''debug'' then HLevel DebugLevel
         else if str = ''trace'' then HLevel DebugLevel
         else HString s)"
| "log_level_hook v = v"

section \<open>Registrations\<close>

text \<open>
  The contract of the registry as the packages that register validators use it: what has been
  registered before the first validation is what every validation uses.
\<close>

definition registry_inv :: "('r, 's) validator_pkg \<Rightarrow> bool" where
  "registry_inv p =
     (case DefaultValidator p of
        None \<Rightarrow> True
      | Some regs \<Rightarrow> regs = (registeredTypes p, registeredStructLevel p))"

lemma check_struct_inv:
  "registry_inv p \<Longrightarrow>
     registry_inv (snd (check_struct check v p)) \<and>
     registeredTypes (snd (check_struct check v p)) = registeredTypes p \<and>
     registeredStructLevel (snd (check_struct check v p)) = registeredStructLevel p"
  by (auto simp: check_struct_def ensure_validator_def registry_inv_def NewDefaultValidator_def Let_def
      split: option.splits)

lemma Validate_slice_Cons:
  "Validate_slice check (v # vs) p =
     (case fst (Validate check v p) of
        Ok _ \<Rightarrow> Validate_slice check vs (snd (Validate check v p))
      | _ \<Rightarrow> Validate check v p)"
  by (cases "Validate check v p") (auto split: res.splits)

lemma Validate_inv:
  "registry_inv p \<Longrightarrow>
     registry_inv (snd (Validate check v p)) \<and>
     registeredTypes (snd (Validate check v p)) = registeredTypes p \<and>
     registeredStructLevel (snd (Validate check v p)) = registeredStructLevel p"
  "registry_inv p \<Longrightarrow>
     registry_inv (snd (Validate_slice check vs p)) \<and>
     registeredTypes (snd (Validate_slice check vs p)) = registeredTypes p \<and>
     registeredStructLevel (snd (Validate_slice check vs p)) = registeredStructLevel p"
  by (induction check v p and check vs p rule: Validate_Validate_slice.induct)
     (auto simp: check_struct_inv split: prod.splits res.splits)

text \<open>The verdict a value gets from a given set of registrations, with no package state.\<close>

fun verdict_with :: "('a, 'r, 's, 'x) struct_check \<Rightarrow> 'r list \<times> 's list \<Rightarrow> 'a rval \<Rightarrow> ('x, unit) res"
  and verdict_slice :: "('a, 'r, 's, 'x) struct_check \<Rightarrow> 'r list \<times> 's list \<Rightarrow> 'a rval list \<Rightarrow> ('x, unit) res"
where
  "verdict_with check regs VNil = Panic nil_deref"
| "verdict_with check regs (VString s) = Ok ()"
| "verdict_with check regs (VPtr (Some (VString s))) = Ok ()"
| "verdict_with check regs (VPtr (Some (VSlice vs))) = Ok ()"
| "verdict_with check regs (VPtr v) =
     (case check regs (VPtr v) of None \<Rightarrow> Ok () | Some x \<Rightarrow> Err x)"
| "verdict_with check regs (VSlice vs) = verdict_slice check regs vs"
| "verdict_with check regs (VOther a) =
     (case check regs (VOther a) of None \<Rightarrow> Ok () | Some x \<Rightarrow> Err x)"
| "verdict_slice check regs [] = Ok ()"
| "verdict_slice check regs (v # vs) =
     and_then (verdict_with check regs v) (\<lambda>_. verdict_slice check regs vs)"

lemma check_struct_verdict:
  "registry_inv p \<Longrightarrow> fst (check_struct check v p) =
     (case check (registeredTypes p, registeredStructLevel p) v of None \<Rightarrow> Ok () | Some x \<Rightarrow> Err x)"
  by (auto simp: check_struct_def ensure_validator_def registry_inv_def NewDefaultValidator_def Let_def
      split: option.splits)

lemma Validate_verdict:
  "registry_inv p \<Longrightarrow>
     fst (Validate check v p) = verdict_with check (registeredTypes p, registeredStructLevel p) v"
  "registry_inv p \<Longrightarrow>
     fst (Validate_slice check vs p) = verdict_slice check (registeredTypes p, registeredStructLevel p) vs"
  by (induction check v p and check vs p rule: Validate_Validate_slice.induct)
     (auto simp: check_struct_verdict Validate_inv Validate_slice_Cons simp del: Validate_slice.simps(2)
       split: res.splits, metis Validate_inv(1) prod.collapse)

section \<open>Properties\<close>

text \<open>
  Registration and validation.  Starting from the initial package state and after any
  registrations, each of which succeeds exactly while nothing has been validated yet, every
  validation gives the verdict of the third-party validator with all registrations made, and it
  leaves the registrations unchanged, so later validations agree with earlier ones.
\<close>

theorem registrations_take_effect:
  assumes "registry_inv p"
  shows "(DefaultValidator p = None \<longrightarrow>
            (\<exists>p'. RegisterCustomValidator r p = Ok p' \<and> registry_inv p' \<and>
               registeredTypes p' = registeredTypes p @ [r])) \<and>
         (DefaultValidator p \<noteq> None \<longrightarrow> panics (RegisterCustomValidator r p)) \<and>
         fst (Validate check v p) = verdict_with check (registeredTypes p, registeredStructLevel p) v \<and>
         registry_inv (snd (Validate check v p)) \<and>
         fst (Validate check v (snd (Validate check u p))) = fst (Validate check v p)"
  using Validate_inv(1) [OF assms] Validate_verdict(1) [OF assms]
    Validate_verdict(1) [of "snd (Validate check u p)"] assms
  by (auto simp: RegisterCustomValidator_def registry_inv_def)

theorem registrations_take_effect_witness:
  "fst (Validate (\<lambda>regs v. if v = VOther () \<and> fst regs = [True] then None else Some ''x'') (VOther ())
     (validator_init\<lparr>registeredTypes := [True]\<rparr> :: (bool, unit) validator_pkg)) = Ok ()"
  using registrations_take_effect [of "validator_init\<lparr>registeredTypes := [True]\<rparr> :: (bool, unit) validator_pkg"
    True "\<lambda>regs v. if v = VOther () \<and> fst regs = [True] then None else Some ''x''" "VOther ()" VNil]
  by (simp add: registry_inv_def validator_init_def)

text \<open>
  The \<^verbatim>\<open>timeout\<close> tag accepts a duration exactly when it lies below the maximum (exclusive) of a
  one-part parameter, or from the minimum (inclusive) to the maximum (exclusive, if given) of a
  two-part one; a field that is not a duration, a part that does not parse and any other number
  of parts are refused.
\<close>

theorem timeout_tag_meaning:
  "timeoutValidatorFunc PD param field \<longleftrightarrow>
     (\<exists>val. field = Some val \<and>
       ((\<exists>p. CHR '':'' \<notin> set param \<and> PD param = Some p \<and> val < p) \<or>
        (\<exists>a b mn. CHR '':'' \<notin> set a \<and> CHR '':'' \<notin> set b \<and> param = a @ CHR '':'' # b \<and>
            PD a = Some mn \<and> mn \<le> val \<and> (b = [] \<or> (\<exists>mx. PD b = Some mx \<and> val < mx)))))"
proof (cases field)
  case (Some val)
  consider a where "split_on (CHR '':'') param = [a]"
    | a b where "split_on (CHR '':'') param = [a, b]"
    | a b c r where "split_on (CHR '':'') param = a # b # c # r"
    using split_on_not_Nil by (metis neq_Nil_conv)
  then show ?thesis
  proof cases
    case (1 a)
    then have "CHR '':'' \<notin> set param" "a = param" by (simp_all add: split_on_one)
    with 1 Some show ?thesis by (auto simp: timeoutValidatorFunc_def split: option.splits)
  next
    case (2 a b)
    then have p: "param = a @ CHR '':'' # b" "CHR '':'' \<notin> set a" "CHR '':'' \<notin> set b"
      by (simp_all add: split_on_two)
    have "a' = a \<and> b' = b" if "param = a' @ CHR '':'' # b'" "CHR '':'' \<notin> set a'" "CHR '':'' \<notin> set b'" for a' b'
      using that 2 split_on_two [of "CHR '':''" param a' b'] by simp
    then have "(\<exists>a b mn. CHR '':'' \<notin> set a \<and> CHR '':'' \<notin> set b \<and> param = a @ CHR '':'' # b \<and>
        PD a = Some mn \<and> mn \<le> val \<and> (b = [] \<or> (\<exists>mx. PD b = Some mx \<and> val < mx))) \<longleftrightarrow>
      (\<exists>mn. PD a = Some mn \<and> mn \<le> val \<and> (b = [] \<or> (\<exists>mx. PD b = Some mx \<and> val < mx)))"
      using p by blast
    moreover have "CHR '':'' \<in> set param" using p by simp
    moreover have "timeoutValidatorFunc PD param field \<longleftrightarrow>
      (\<exists>mn. PD a = Some mn \<and> mn \<le> val \<and> (b = [] \<or> (\<exists>mx. PD b = Some mx \<and> val < mx)))"
      using 2 Some by (auto simp: timeoutValidatorFunc_def split: option.splits)
    ultimately show ?thesis using Some by simp
  next
    case (3 a b c r)
    then have "CHR '':'' \<in> set param" "\<not> (\<exists>a b. CHR '':'' \<notin> set a \<and> CHR '':'' \<notin> set b \<and> param = a @ CHR '':'' # b)"
      using split_on_free [of "CHR '':''" param] by (auto simp: split_on_append split_on_free)
    with 3 Some show ?thesis by (auto simp: timeoutValidatorFunc_def)
  qed
qed (simp add: timeoutValidatorFunc_def)


definition sample_reader :: "(unit, unit) configReaderImpl" where
  "sample_reader = \<lparr>envVars = \<lparr>vp_Get = (\<lambda>_. None), vp_Unmarshal = Inr ((), [''fizz'', ''buzz''])\<rparr>,
     strictMode = True, strictModeIgnoredKeys = [''FIZZ'']\<rparr>"


text \<open>
  The log-level decode hook rewrites a string in any position of the configuration, whatever
  the type of the field it is decoded into: it changes exactly the seven level names, in any
  case, and leaves every other value alone.
\<close>

theorem log_level_hook_changes_any_string:
  "log_level_hook v \<noteq> v \<longleftrightarrow>
     (\<exists>s. v = HString s \<and>
        ToLower s \<in> {''panic'', ''fatal'', ''error'', ''warn'', ''info'', ''debug'', ''trace''} \<and>
        (\<exists>l. log_level_hook v = HLevel l))"
  by (cases v) (auto simp: Let_def)

end
