(* ===== verification/ServiceConfig.thy ===== *)
theory ServiceConfig
  imports JwtAuth TlsConfig ConfigReader
begin

text \<open>
  The configuration of a service (\<^verbatim>\<open>config/config.go\<close>, \<^verbatim>\<open>library.go\<close>, \<^verbatim>\<open>gen_code.go\<close>, \<^verbatim>\<open>http.go\<close>,
  \<^verbatim>\<open>grpc.go\<close>, \<^verbatim>\<open>temporal.go\<close>, \<^verbatim>\<open>development.go\<close>): its records, its place in the request context,
  its defaults and loading, and the HTTP clients, dial options and server options made from it.
  Durations are integers of nanoseconds.
\<close>

section \<open>Records\<close>

record LogConfig =
  lc_Format :: string
  lc_Level :: "log_level option"
  lc_ReportCaller :: bool
  lc_LogPayload :: bool

record AuthenticationConfig =
  JWTAuth :: "AuthConfig option"

record LibraryConfig =
  lib_Log :: LogConfig
  lib_Profiling :: bool
  lib_Health :: bool
  lib_Authentication :: "AuthenticationConfig option"
  lib_IncomingHeaderForID :: string

record CommonServerConfig =
  HostName :: string
  Port :: int
  ServerTLS :: "TLSConfig option"

record CommonHTTPServerConfig =
  http_Common :: CommonServerConfig
  BasePath :: string
  ReadTimeout :: int
  WriteTimeout :: int

record GRPCServerConfig = CommonServerConfig +
  EnableReflection :: bool

record TemporalServerConfig =
  temporal_HostPort :: string
  temporal_Namespace :: string

record UpstreamConfig =
  up_ContextTimeout :: int
  up_HTTP :: CommonHTTPServerConfig
  up_GRPC :: GRPCServerConfig
  up_Temporal :: TemporalServerConfig

record AdminConfig =
  admin_ContextTimeout :: int
  admin_HTTP :: CommonHTTPServerConfig

text \<open>\<open>'d\<close> is the type of the downstream section, which belongs to the generated code.\<close>

record 'd DefaultConfig =
  Library :: LibraryConfig
  Admin :: "AdminConfig option"
  Upstream :: UpstreamConfig
  Downstream :: 'd
  DisableAllAuthorizationRules :: "bool option"

type_synonym 'd sctx = "'d DefaultConfig ctx"

section \<open>The configuration in a context (config/config.go)\<close>

definition GetDefaultConfig :: "'d sctx \<Rightarrow> 'd DefaultConfig option" where
  "GetDefaultConfig cx = ctx_config cx"

definition PutDefaultConfig :: "'d sctx \<Rightarrow> 'd DefaultConfig \<Rightarrow> 'd sctx" where
  "PutDefaultConfig cx config = cx\<lparr>ctx_config := Some config\<rparr>"

datatype default_value = DefString string | DefLevel log_level

definition SetLibraryConfigDefaults :: "string \<Rightarrow> (string \<times> default_value) list" where
  "SetLibraryConfigDefaults pre =
     [(pre @ ''Log.Format'', DefString ''text''), (pre @ ''Log.Level'', DefLevel InfoLevel)]"

definition SetGenCodeConfigDefaults :: "string \<Rightarrow> (string \<times> default_value) list" where
  "SetGenCodeConfigDefaults pre =
     [(pre @ ''Upstream.ContextTimeout'', DefString ''30s''),
      (pre @ ''Upstream.HTTP.ReadTimeout'', DefString ''30s''),
      (pre @ ''Upstream.HTTP.WriteTimeout'', DefString ''30s'')]"

definition SetDefaults :: "(string \<times> default_value) list" where
  "SetDefaults = SetLibraryConfigDefaults ''Library.'' @ SetGenCodeConfigDefaults ''GenCode.''"

text \<open>
  \<^verbatim>\<open>LoadConfig\<close>: read the default and the custom part from the file, then validate each, stopping
  at the first error.
\<close>

definition LoadConfig ::
  "('x readerr, 'a) res \<Rightarrow> ('x readerr, 'b) res \<Rightarrow> ('a \<Rightarrow> 'y option) \<Rightarrow> ('b \<Rightarrow> 'y option) \<Rightarrow>
     ('x readerr + 'y, 'a \<times> 'b) res" where
  "LoadConfig readDefault readCustom validateDefault validateCustom =
     and_then (map_err Inl readDefault) (\<lambda>d.
     and_then (map_err Inl readCustom) (\<lambda>c.
       case validateDefault d of
         Some y \<Rightarrow> Err (Inr y)
       | None \<Rightarrow> (case validateCustom c of Some y \<Rightarrow> Err (Inr y) | None \<Rightarrow> Ok (d, c))))"

section \<open>HTTP clients (config/http.go)\<close>

record Dialer =
  dial_Timeout :: int
  dial_KeepAlive :: int
  dial_DualStack :: bool

record Transport =
  tr_Dialer :: Dialer
  tr_MaxIdleConns :: int
  tr_IdleConnTimeout :: int
  tr_TLSHandshakeTimeout :: int
  tr_ExpectContinueTimeout :: int
  tr_ClientTLS :: "TLSConfig option"
  tr_ProxyURL :: string
  tr_UseProxy :: bool

record CommonDownstreamData =
  ServiceURL :: string
  ClientTransport :: Transport
  ClientTimeout :: int
  DownHeaders :: header

definition seconds :: "int \<Rightarrow> int" where
  "seconds n = n * 1000000000"

definition DefaultCommonDownstreamData :: CommonDownstreamData where
  "DefaultCommonDownstreamData =
     \<lparr>ServiceURL = [],
      ClientTransport =
        \<lparr>tr_Dialer = \<lparr>dial_Timeout = seconds 30, dial_KeepAlive = seconds 30, dial_DualStack = True\<rparr>,
         tr_MaxIdleConns = 100, tr_IdleConnTimeout = seconds 90, tr_TLSHandshakeTimeout = seconds 10,
         tr_ExpectContinueTimeout = seconds 1, tr_ClientTLS = None, tr_ProxyURL = [],
         tr_UseProxy = False\<rparr>,
      ClientTimeout = seconds 60, DownHeaders = []\<rparr>"

definition CommonDownstreamData_Validate ::
  "(CommonDownstreamData \<Rightarrow> (string, unit) res) \<Rightarrow> CommonDownstreamData \<Rightarrow>
     (string, unit) res \<times> CommonDownstreamData" where
  "CommonDownstreamData_Validate validate g =
     (case validate g of
        Ok _ \<Rightarrow>
          (case tr_ClientTLS (ClientTransport g) of
             None \<Rightarrow> (Ok (), g)
           | Some t \<Rightarrow>
               (let (r, t') = TLSConfig_Validate (Some t)
                in (r, g\<lparr>ClientTransport := (ClientTransport g)\<lparr>tr_ClientTLS := t'\<rparr>\<rparr>)))
      | other \<Rightarrow> (other, g))"

text \<open>How requests are proxied: not at all, by the environment, or by a fixed URL.\<close>

datatype 'u proxy = NoProxy | ProxyFromEnvironment | ProxyURL 'u

definition proxyHandlerFromConfig :: "(string \<Rightarrow> 'u option) \<Rightarrow> Transport \<Rightarrow> 'u proxy" where
  "proxyHandlerFromConfig url_Parse cfg =
     (if tr_UseProxy cfg then
        (if length (tr_ProxyURL cfg) > 0 then
           (case url_Parse (tr_ProxyURL cfg) of None \<Rightarrow> ProxyFromEnvironment | Some u \<Rightarrow> ProxyURL u)
         else ProxyFromEnvironment)
      else NoProxy)"

record ('u, 'key, 'c) http_Transport =
  ht_Proxy :: "'u proxy"
  ht_Dialer :: Dialer
  ht_MaxIdleConns :: int
  ht_IdleConnTimeout :: int
  ht_TLSHandshakeTimeout :: int
  ht_ExpectContinueTimeout :: int
  ht_TLSClientConfig :: "('key, 'c) tls_Config option"

definition defaultHTTPTransport ::
  "('key, 'c, 'x) tls_env \<Rightarrow> (string \<Rightarrow> 'u option) \<Rightarrow> Transport \<Rightarrow>
     ('x cfgerr, ('u, 'key, 'c) http_Transport) res" where
  "defaultHTTPTransport E url_Parse cfg =
     and_then (MakeTLSConfig E (tr_ClientTLS cfg)) (\<lambda>tlsConfig.
       Ok \<lparr>ht_Proxy = proxyHandlerFromConfig url_Parse cfg, ht_Dialer = tr_Dialer cfg,
           ht_MaxIdleConns = tr_MaxIdleConns cfg, ht_IdleConnTimeout = tr_IdleConnTimeout cfg,
           ht_TLSHandshakeTimeout = tr_TLSHandshakeTimeout cfg,
           ht_ExpectContinueTimeout = tr_ExpectContinueTimeout cfg,
           ht_TLSClientConfig = tlsConfig\<rparr>)"

record ('u, 'key, 'c) http_Client =
  hc_Timeout :: int
  hc_Transport :: "('u, 'key, 'c) http_Transport"

definition DefaultHTTPClient ::
  "('key, 'c, 'x) tls_env \<Rightarrow> (string \<Rightarrow> 'u option) \<Rightarrow> CommonDownstreamData option \<Rightarrow>
     ('x cfgerr, ('u, 'key, 'c) http_Client) res" where
  "DefaultHTTPClient E url_Parse c =
     (let cfg = (case c of None \<Rightarrow> DefaultCommonDownstreamData | Some d \<Rightarrow> d)
      in and_then (defaultHTTPTransport E url_Parse (ClientTransport cfg)) (\<lambda>transport.
           Ok \<lparr>hc_Timeout = ClientTimeout cfg, hc_Transport = transport\<rparr>))"

section \<open>gRPC options (config/grpc.go)\<close>

datatype interceptor = LoggerInterceptor | TraceidLogInterceptor | UserInterceptor nat

datatype ('key, 'c) ServerOption =
  Creds "('key, 'c) tls_Config option" | ChainUnaryInterceptor "interceptor list" | OtherServerOption nat

definition ExtractGrpcServerOptions ::
  "('key, 'c, 'x) tls_env \<Rightarrow> GRPCServerConfig option \<Rightarrow> ('x cfgerr, ('key, 'c) ServerOption list) res"
where
  "ExtractGrpcServerOptions E cfg =
     (case cfg of
        None \<Rightarrow> Ok []
      | Some g \<Rightarrow>
          if ServerTLS g = None then Ok []
          else and_then (MakeTLSConfig E (ServerTLS g)) (\<lambda>tlsConfig. Ok [Creds tlsConfig]))"

record CommonGRPCDownstreamData =
  ServiceAddress :: string
  GrpcTLS :: "TLSConfig option"
  WithBlock :: bool

definition NewDefaultCommonGRPCDownstreamData :: CommonGRPCDownstreamData where
  "NewDefaultCommonGRPCDownstreamData = \<lparr>ServiceAddress = [], GrpcTLS = None, WithBlock = False\<rparr>"

datatype ('key, 'c) DialOption =
  WithTLSCredentials "('key, 'c) tls_Config option" | WithInsecureCredentials | WithBlockOption
| OtherDialOption nat

definition DefaultGrpcDialOptions ::
  "('key, 'c, 'x) tls_env \<Rightarrow> CommonGRPCDownstreamData option \<Rightarrow>
     ('x cfgerr, ('key, 'c) DialOption list) res" where
  "DefaultGrpcDialOptions E c =
     (let cfg = (case c of None \<Rightarrow> NewDefaultCommonGRPCDownstreamData | Some d \<Rightarrow> d);
          block = (if WithBlock cfg then [WithBlockOption] else [])
      in if GrpcTLS cfg \<noteq> None
         then and_then (MakeTLSConfig E (GrpcTLS cfg)) (\<lambda>tlsConfig.
                Ok (WithTLSCredentials tlsConfig # block))
         else Ok (WithInsecureCredentials # block))"

section \<open>Lemmas\<close>

lemma Get_Put_config [simp]: "GetDefaultConfig (PutDefaultConfig cx c) = Some c"
  by (simp add: GetDefaultConfig_def PutDefaultConfig_def)

lemma DefaultHTTPClient_nil: "\<exists>cl. DefaultHTTPClient E url_Parse None = Ok cl \<and> hc_Timeout cl = seconds 60"
  by (simp add: DefaultHTTPClient_def defaultHTTPTransport_def MakeTLSConfig_def
      DefaultCommonDownstreamData_def)

lemma MakeTLSConfig_given:
  "MakeTLSConfig E (Some cfg) = Ok r \<Longrightarrow> r \<noteq> None"
  by (auto simp: MakeTLSConfig_def go_res split: if_splits prod.splits)

section \<open>Properties\<close>


definition sample_grpc_server :: GRPCServerConfig where
  "sample_grpc_server = \<lparr>HostName = ''h'', Port = 1,
     ServerTLS = Some (emptyCfg\<lparr>t_InsecureSkipVerify := True\<rparr>), EnableReflection = False\<rparr>"


end
