(* ===== verification/RequestContext.thy ===== *)
theory RequestContext
  imports CommonErrors ServiceConfig
begin

text \<open>
  What package \<^verbatim>\<open>common\<close> keeps in the context of a request (\<^verbatim>\<open>corerequestcontext.go\<close>,
  \<^verbatim>\<open>traceability.go\<close>, \<^verbatim>\<open>temporal.go\<close>) and the monitor of unclosed response bodies with the logging
  round tripper (\<^verbatim>\<open>common/internal\<close>).

  The request header in a context is immutable and is a value.  The response header with its
  status, and a provisioned REST result, are pointers to mutable objects: the context holds an
  address and the objects live in a \<open>store\<close>, so that two contexts derived from one share them.
\<close>

section \<open>The request header\<close>

definition canonicalize :: "header \<Rightarrow> header" where
  "canonicalize h = fold (\<lambda>(k, vs) acc. fold (\<lambda>v acc. header_add acc k v) vs acc) h []"

definition RequestHeaderToContext :: "'cfg ctx \<Rightarrow> header option \<Rightarrow> 'cfg ctx" where
  "RequestHeaderToContext cx header = cx\<lparr>ctx_reqHeader := Some (map_option canonicalize header)\<rparr>"

definition RequestHeaderFromContext :: "'cfg ctx \<Rightarrow> header option" where
  "RequestHeaderFromContext cx = (case ctx_reqHeader cx of None \<Rightarrow> None | Some h \<Rightarrow> h)"

section \<open>The response header and status\<close>

record RestResult =
  rr_StatusCode :: int
  rr_Headers :: header
  rr_Body :: string

record store =
  resp_objs :: "(header option \<times> int) list"
  rest_objs :: "RestResult list"

definition RespHeaderAndStatusToContext ::
  "store \<Rightarrow> 'cfg ctx \<Rightarrow> header option \<Rightarrow> int \<Rightarrow> store \<times> 'cfg ctx" where
  "RespHeaderAndStatusToContext st cx header status =
     (st\<lparr>resp_objs := resp_objs st @ [(header, status)]\<rparr>,
      cx\<lparr>ctx_respHeader := Some (length (resp_objs st))\<rparr>)"

definition RespHeaderAndStatusFromContext :: "store \<Rightarrow> 'cfg ctx \<Rightarrow> header option \<times> int" where
  "RespHeaderAndStatusFromContext st cx =
     (case ctx_respHeader cx of None \<Rightarrow> (None, 200) | Some a \<Rightarrow> resp_objs st ! a)"

definition AppendToResponseHeader ::
  "('x \<Rightarrow> Kind option) \<Rightarrow> store \<Rightarrow> 'cfg ctx \<Rightarrow> string \<Rightarrow> string \<Rightarrow> ('x cerr, store) res" where
  "AppendToResponseHeader kinder st cx key val =
     (case ctx_respHeader cx of
        None \<Rightarrow> Err (CreateError kinder cx InternalError ''response header not in context'' None)
      | Some a \<Rightarrow>
          (case resp_objs st ! a of
             (None, _) \<Rightarrow> Panic nil_map_write
           | (Some h, status) \<Rightarrow> Ok (st\<lparr>resp_objs := (resp_objs st)[a := (Some (header_add h key val), status)]\<rparr>)))"

definition UpdateResponseStatus ::
  "('x \<Rightarrow> Kind option) \<Rightarrow> store \<Rightarrow> 'cfg ctx \<Rightarrow> int \<Rightarrow> ('x cerr, store) res" where
  "UpdateResponseStatus kinder st cx status =
     (case ctx_respHeader cx of
        None \<Rightarrow> Err (CreateError kinder cx InternalError ''response status not in context'' None)
      | Some a \<Rightarrow> Ok (st\<lparr>resp_objs := (resp_objs st)[a := (fst (resp_objs st ! a), status)]\<rparr>))"

section \<open>REST results\<close>

definition ProvisionRestResult :: "store \<Rightarrow> 'cfg ctx \<Rightarrow> store \<times> 'cfg ctx" where
  "ProvisionRestResult st cx =
     (st\<lparr>rest_objs := rest_objs st @ [\<lparr>rr_StatusCode = 0, rr_Headers = [], rr_Body = []\<rparr>]\<rparr>,
      cx\<lparr>ctx_restResult := Some (length (rest_objs st))\<rparr>)"

definition GetRestResult :: "store \<Rightarrow> 'cfg ctx \<Rightarrow> RestResult option" where
  "GetRestResult st cx =
     (case ctx_restResult cx of None \<Rightarrow> None | Some a \<Rightarrow> Some (rest_objs st ! a))"

section \<open>Trace ids (common/traceability.go)\<close>

definition AddTraceIDToContext :: "'cfg ctx \<Rightarrow> string \<Rightarrow> bool \<Rightarrow> 'cfg ctx" where
  "AddTraceIDToContext cx uuid wasProvided = cx\<lparr>ctx_traceID := Some (uuid, wasProvided)\<rparr>"

text \<open>\<open>fresh\<close> is the UUID that \<^verbatim>\<open>uuid.New\<close> returns at the call.\<close>

definition TryGetTraceIDFromContext :: "string \<Rightarrow> 'cfg ctx \<Rightarrow> string \<times> bool" where
  "TryGetTraceIDFromContext fresh cx =
     (case ctx_traceID cx of Some p \<Rightarrow> p | None \<Rightarrow> (fresh, False))"

definition GetTraceIDFromContext :: "string \<Rightarrow> 'cfg ctx \<Rightarrow> string" where
  "GetTraceIDFromContext fresh cx = fst (TryGetTraceIDFromContext fresh cx)"

definition getIncomingHeaderForID :: "'d sctx \<Rightarrow> string" where
  "getIncomingHeaderForID cx =
     (case GetDefaultConfig cx of
        Some cfg \<Rightarrow> if lib_IncomingHeaderForID (Library cfg) \<noteq> []
                  then lib_IncomingHeaderForID (Library cfg) else ''RequestID''
      | None \<Rightarrow> ''RequestID'')"

text \<open>The parts of an \<^verbatim>\<open>http.Request\<close> the library reads.\<close>

record 'cfg request =
  req_Method :: string
  req_URL :: string
  req_Header :: header
  req_ctx :: "'cfg ctx"

text \<open>
  A handler acts on a state (the response writer together with whatever else the program can
  reach) and may panic.
\<close>

type_synonym ('w, 'cfg) handler = "'w \<Rightarrow> 'cfg request \<Rightarrow> (unit, 'w) res"

definition TraceabilityMiddleware ::
  "(string \<Rightarrow> string option) \<Rightarrow> string \<Rightarrow> ('w, 'd DefaultConfig) handler \<Rightarrow> ('w, 'd DefaultConfig) handler"
where
  "TraceabilityMiddleware uuid_Parse fresh next w r =
     (case uuid_Parse (header_get (Some (req_Header r)) (getIncomingHeaderForID (req_ctx r))) of
        None \<Rightarrow> next w (r\<lparr>req_ctx := AddTraceIDToContext (req_ctx r) fresh False\<rparr>)
      | Some val \<Rightarrow> next w (r\<lparr>req_ctx := AddTraceIDToContext (req_ctx r) val True\<rparr>))"

section \<open>Unclosed response bodies (common/internal)\<close>

text \<open>
  A monitor is a list of wrapped bodies in the order in which they were added, with the URL of
  the request and whether \<^verbatim>\<open>Close\<close> was called.  A response body handed to the client is a wrapper,
  named by its index, or (after payload logging) a plain buffer.
\<close>

record wrapped_body =
  wb_url :: string
  wb_closed :: bool

type_synonym monitor = "wrapped_body list"

datatype body_ref = Wrapped nat | Buffered string | Original

definition addResponse :: "monitor \<Rightarrow> string \<Rightarrow> monitor \<times> body_ref" where
  "addResponse m url = (m @ [\<lparr>wb_url = url, wb_closed = False\<rparr>], Wrapped (length m))"

definition Close :: "monitor \<Rightarrow> body_ref \<Rightarrow> monitor" where
  "Close m b = (case b of Wrapped i \<Rightarrow> m[i := (m ! i)\<lparr>wb_closed := True\<rparr>] | _ \<Rightarrow> m)"

definition getResponsesWithOpenBodies :: "monitor \<Rightarrow> wrapped_body list" where
  "getResponsesWithOpenBodies m = filter (\<lambda>b. \<not> wb_closed b) m"

text \<open>
  The text of the panic: one line for each open body, printed as a Go value and the whole quoted again;
  \<open>quote\<close> is \<^verbatim>\<open>strconv.Quote\<close>.
\<close>

definition OpenResponseBodyErrors_Error :: "(string \<Rightarrow> string) \<Rightarrow> string list \<Rightarrow> string" where
  "OpenResponseBodyErrors_Error quote causes =
     quote (concat (map (\<lambda>c. ''internal.openBodyError{cause:'' @ quote c @ '', err:'' @
       quote ''response body not closed'' @ ''} '' @ [CHR 0x0A]) causes))"

definition CheckForUnclosedResponses :: "(string \<Rightarrow> string) \<Rightarrow> monitor option \<Rightarrow> (unit, unit) res" where
  "CheckForUnclosedResponses quote m =
     (case m of
        None \<Rightarrow> Ok ()
      | Some mon \<Rightarrow>
          (let openBodyErrors = map wb_url (getResponsesWithOpenBodies mon)
           in if length openBodyErrors > 0 then Panic (OpenResponseBodyErrors_Error quote openBodyErrors) else Ok ()))"

text \<open>
  The logging round tripper: the base transport's answer (an error, or a body text), the body put
  under the monitor of the request context if there is one, and the deferred payload log, which
  reads and closes the body and replaces it by a buffer.
\<close>

definition log_response :: "bool \<Rightarrow> string \<Rightarrow> monitor option \<times> body_ref \<Rightarrow> monitor option \<times> body_ref" where
  "log_response logPayload content mb =
     (if logPayload then (map_option (\<lambda>m. Close m (snd mb)) (fst mb), Buffered content) else mb)"

definition loggingRoundtripper_RoundTrip ::
  "bool \<Rightarrow> ('x + string) \<Rightarrow> string \<Rightarrow> monitor option \<Rightarrow> ('x, body_ref) res \<times> monitor option" where
  "loggingRoundtripper_RoundTrip logPayload base url mon =
     (case base of
        Inl x \<Rightarrow> (Err x, mon)
      | Inr content \<Rightarrow>
          (let mb = (case mon of
                       None \<Rightarrow> (None, Original)
                     | Some m \<Rightarrow> (let (m', b) = addResponse m url in (Some m', b)));
               (mon', b') = log_response logPayload content mb
           in (Ok b', mon')))"

section \<open>Lemmas\<close>

lemma header_values_canonicalize:
  "header_values (canonicalize h) k =
     concat (map snd (filter (\<lambda>(k', vs). CanonicalHeaderKey k' = CanonicalHeaderKey k) h))"
  unfolding canonicalize_def hdr.vals_add_all by (simp add: header_values_def)

lemma Header_From_To:
  "RequestHeaderFromContext (RequestHeaderToContext cx h) = map_option canonicalize h"
  by (simp add: RequestHeaderFromContext_def RequestHeaderToContext_def)

text \<open>
  The contract of an object shared through contexts: a write through one context is read back
  through every context with the same address, and through no other.
\<close>

locale shared_object =
  fixes fetch :: "'s \<Rightarrow> addr \<Rightarrow> 'v"
    and update :: "'s \<Rightarrow> addr \<Rightarrow> 'v \<Rightarrow> 's"
    and valid :: "'s \<Rightarrow> addr \<Rightarrow> bool"
  assumes fetch_update_same: "valid s a \<Longrightarrow> fetch (update s a v) a = v"
    and fetch_update_other: "a \<noteq> b \<Longrightarrow> fetch (update s a v) b = fetch s b"
    and valid_update: "valid (update s a v) b = valid s b"
begin

fun updates :: "'s \<Rightarrow> (addr \<times> 'v) list \<Rightarrow> 's" where
  "updates s [] = s"
| "updates s ((a, v) # ws) = updates (update s a v) ws"

lemma fetch_updates:
  "valid s a \<Longrightarrow> fetch (updates s ws) a = (case map_of (rev ws) a of Some v \<Rightarrow> v | None \<Rightarrow> fetch s a)"
proof (induction s ws rule: updates.induct)
  case (2 s b v ws)
  then have "fetch (updates (update s b v) ws) a =
      (case map_of (rev ws) a of Some v' \<Rightarrow> v' | None \<Rightarrow> fetch (update s b v) a)"
    by (simp add: valid_update)
  then show ?case
    using 2(2) by (auto simp: fetch_update_same fetch_update_other map_add_def split: option.splits)
qed simp

end

definition resp_update :: "store \<Rightarrow> addr \<Rightarrow> header option \<times> int \<Rightarrow> store" where
  "resp_update st a v = st\<lparr>resp_objs := (resp_objs st)[a := v]\<rparr>"

interpretation resp: shared_object "\<lambda>st a. resp_objs st ! a" resp_update "\<lambda>st a. a < length (resp_objs st)"
  by unfold_locales (auto simp: resp_update_def)

lemma Append_Ok:
  "AppendToResponseHeader kinder st cx key val = Ok st' \<longleftrightarrow>
     (\<exists>a h status. ctx_respHeader cx = Some a \<and> resp_objs st ! a = (Some h, status) \<and>
        st' = resp_update st a (Some (header_add h key val), status))"
  by (auto simp: AppendToResponseHeader_def resp_update_def split: option.splits prod.splits)

lemma Update_Ok:
  "UpdateResponseStatus kinder st cx status = Ok st' \<longleftrightarrow>
     (\<exists>a. ctx_respHeader cx = Some a \<and> st' = resp_update st a (fst (resp_objs st ! a), status))"
  by (auto simp: UpdateResponseStatus_def resp_update_def split: option.splits)

section \<open>Properties\<close>

text \<open>
  A request header put into a context is read back with the same values under every key,
  whatever the letter case of the keys and the order in which the map is enumerated: the values
  of all the keys with the same canonical form, in order.
\<close>

theorem request_header_read_back:
  "\<exists>h'. RequestHeaderFromContext (RequestHeaderToContext cx (Some h)) = Some h' \<and>
     header_values h' k =
       concat (map snd (filter (\<lambda>(k', vs). CanonicalHeaderKey k' = CanonicalHeaderKey k) h))"
  by (simp add: Header_From_To header_values_canonicalize)

text \<open>
  The response header and status put into a context are shared by every context derived
  from it: an addition through one derived context and a status set through another are both
  seen through a third, and contexts with a header of their own see nothing.
\<close>

theorem response_header_is_shared:
  assumes "RespHeaderAndStatusToContext st cx (Some h) status = (st1, cx1)"
    and "ctx_respHeader cx2 = ctx_respHeader cx1" "ctx_respHeader cx3 = ctx_respHeader cx1"
    and "AppendToResponseHeader kinder st1 cx2 key val = Ok st2"
    and "UpdateResponseStatus kinder st2 cx3 status' = Ok st3"
  shows "RespHeaderAndStatusFromContext st3 cx1 = (Some (header_add h key val), status') \<and>
    (\<forall>cx4 a. ctx_respHeader cx4 = Some a \<and> a < length (resp_objs st) \<longrightarrow>
       RespHeaderAndStatusFromContext st3 cx4 = RespHeaderAndStatusFromContext st cx4)"
proof -
  let ?a = "length (resp_objs st)"
  have cx1: "ctx_respHeader cx1 = Some ?a" and st1: "resp_objs st1 = resp_objs st @ [(Some h, status)]"
    using assms(1) by (auto simp: RespHeaderAndStatusToContext_def)
  have st2: "st2 = resp_update st1 ?a (Some (header_add h key val), status)"
    using assms(2,4) by (auto simp: Append_Ok cx1 st1)
  then have "st3 = resp_update st2 ?a (Some (header_add h key val), status')"
    using assms(3,5) st1 by (auto simp: Update_Ok cx1 resp_update_def)
  with st2 st1 show ?thesis
    by (auto simp: RespHeaderAndStatusFromContext_def cx1 resp_update_def nth_append)
qed

theorem response_header_is_shared_witness:
  "\<exists>st1 cx1 st2 st3.
     RespHeaderAndStatusToContext \<lparr>resp_objs = [], rest_objs = []\<rparr> (Background :: unit ctx) (Some []) 200 = (st1, cx1) \<and>
     AppendToResponseHeader (\<lambda>_ :: unit. None) st1 cx1 ''X-A'' ''1'' = Ok st2 \<and>
     UpdateResponseStatus (\<lambda>_ :: unit. None) st2 cx1 201 = Ok st3 \<and>
     RespHeaderAndStatusFromContext st3 cx1 = (Some (header_add [] ''X-A'' ''1''), 201)"
proof -
  obtain st1 cx1 where 1: "RespHeaderAndStatusToContext \<lparr>resp_objs = [], rest_objs = []\<rparr>
      (Background :: unit ctx) (Some []) 200 = (st1, cx1)" by fastforce
  obtain st2 where 2: "AppendToResponseHeader (\<lambda>_ :: unit. None) st1 cx1 ''X-A'' ''1'' = Ok st2"
    using 1 by (auto simp: RespHeaderAndStatusToContext_def Append_Ok)
  obtain st3 where 3: "UpdateResponseStatus (\<lambda>_ :: unit. None) st2 cx1 201 = Ok st3"
    using 1 by (auto simp: RespHeaderAndStatusToContext_def Update_Ok)
  from response_header_is_shared [OF 1 refl refl 2 3] 1 2 3 show ?thesis by blast
qed

lemma check_panics_iff:
  "panics (CheckForUnclosedResponses f (Some m)) \<longleftrightarrow> list_ex (\<lambda>b. \<not> wb_closed b) m"
  by (auto simp: CheckForUnclosedResponses_def getResponsesWithOpenBodies_def Let_def list_ex_iff
      filter_empty_conv)

text \<open>
  The monitor of unclosed bodies, when all earlier bodies are closed: the check at the end of
  the request panics after a round trip whose body is left open, and not once it is closed; a body handed out without payload logging is
  open until it is closed, but with payload logging the logger has already closed it, so a
  handler that never closes its response goes unnoticed.
\<close>

theorem unclosed_body_detection:
  assumes "loggingRoundtripper_RoundTrip logPayload (Inr content) url (Some m) = (Ok b, Some m')"
    and "\<not> list_ex (\<lambda>b. \<not> wb_closed b) m"
  shows "(panics (CheckForUnclosedResponses f (Some m')) \<longleftrightarrow> \<not> logPayload) \<and>
    \<not> panics (CheckForUnclosedResponses f (Some (Close m' b)))"
  using assms
  by (cases logPayload)
     (auto simp: check_panics_iff loggingRoundtripper_RoundTrip_def log_response_def addResponse_def
       Close_def Let_def list_ex_iff)

theorem unclosed_body_detection_witness:
  "\<exists>b m'. loggingRoundtripper_RoundTrip False (Inr ''x'' :: unit + string) ''u'' (Some []) = (Ok b, Some m') \<and>
     panics (CheckForUnclosedResponses (\<lambda>u. u) (Some m'))"
proof -
  obtain b m' where 1: "loggingRoundtripper_RoundTrip False (Inr ''x'' :: unit + string) ''u'' (Some []) = (Ok b, Some m')"
    by (simp add: loggingRoundtripper_RoundTrip_def log_response_def addResponse_def)
  with unclosed_body_detection [OF this, of "\<lambda>u. u"] show ?thesis by auto
qed

end
