(* ===== verification/JwtHttp.thy ===== *)
theory JwtHttp
  imports RequestContext
begin

text \<open>
  Packages \<^verbatim>\<open>jwtauth/jwthttp\<close> (the HTTP middleware that authenticates and authorises requests) and
  \<^verbatim>\<open>jwtauth/jwtgrpc\<close> (bearer tokens in gRPC metadata).

  A handler's state is a pair: \<open>'s\<close>, the state of the authenticator (its caches), and the response
  writer.  \<open>next\<close> is an arbitrary handler, so a theorem for all \<open>next\<close> says whether and with what
  request the next handler is called.
\<close>

section \<open>Unauth handlers (jwthttp/handlers.go)\<close>

type_synonym ('s, 'cfg, 'x) unauth_handler =
  "'s \<times> response_writer \<Rightarrow> 'cfg request \<Rightarrow> 'x autherr \<Rightarrow> (unit, 's \<times> response_writer) res"

definition respond :: "int \<Rightarrow> 's \<times> response_writer \<Rightarrow> (unit, 's \<times> response_writer) res" where
  "respond code sw = and_then (WriteHeader (snd sw) code) (\<lambda>w'. Ok (fst sw, w'))"

definition DefaultUnauthHandler :: "('s, 'cfg, 'x) unauth_handler" where
  "DefaultUnauthHandler sw r e =
     (case http_status_of e of Some st \<Rightarrow> respond st sw | None \<Rightarrow> respond 403 sw)"

definition HiddenEndpoint :: "('s, 'cfg, 'x) unauth_handler" where
  "HiddenEndpoint sw r e = respond 404 sw"

section \<open>The middleware (jwthttp/auth.go)\<close>

record ('s, 'cfg, 'x) Auth =
  auth_Headers :: "string list"
  Authenticator :: "'cfg ctx \<Rightarrow> string \<Rightarrow> 's \<Rightarrow> ('x autherr, claims) res \<times> 's"
  UnauthHandler :: "('s, 'cfg, 'x) unauth_handler option"
  Authorisers :: "(claims \<Rightarrow> ('x autherr, unit) res) list"

definition WithUnauthHandler ::
  "('s, 'cfg, 'x) Auth \<Rightarrow> ('s, 'cfg, 'x) unauth_handler option \<Rightarrow> ('s, 'cfg, 'x) Auth" where
  "WithUnauthHandler a h = a\<lparr>UnauthHandler := h\<rparr>"

definition WithAuthorisers ::
  "('s, 'cfg, 'x) Auth \<Rightarrow> (claims \<Rightarrow> ('x autherr, unit) res) list \<Rightarrow> ('s, 'cfg, 'x) Auth" where
  "WithAuthorisers a fs = a\<lparr>Authorisers := Authorisers a @ fs\<rparr>"

text \<open>\<^verbatim>\<open>jwthttp.AuthFromConfig\<close>; \<open>build\<close> makes the authenticator of the verifiers.\<close>

definition http_AuthFromConfig ::
  "('x autherr, 'v) res \<Rightarrow> ('v \<Rightarrow> 'cfg ctx \<Rightarrow> string \<Rightarrow> 's \<Rightarrow> ('x autherr, claims) res \<times> 's) \<Rightarrow>
     string list \<Rightarrow> ('x autherr, ('s, 'cfg, 'x) Auth) res" where
  "http_AuthFromConfig authenticator build headers =
     and_then authenticator (\<lambda>v.
       Ok \<lparr>auth_Headers = headers, Authenticator = build v, UnauthHandler = Some DefaultUnauthHandler,
           Authorisers = []\<rparr>)"

fun authorise_all :: "(claims \<Rightarrow> ('x autherr, unit) res) list \<Rightarrow> claims \<Rightarrow> ('x autherr, unit) res" where
  "authorise_all [] c = Ok ()"
| "authorise_all (f # fs) c = and_then (f c) (\<lambda>_. authorise_all fs c)"

definition Auth_Authorise :: "('s, 'cfg, 'x) Auth \<Rightarrow> claims \<Rightarrow> ('x autherr, unit) res" where
  "Auth_Authorise a c = authorise_all (Authorisers a) c"

definition bearer_of :: "string \<Rightarrow> string option" where
  "bearer_of val =
     (if length val > 8 \<and> ToLower (take 7 val) = ''bearer '' then Some (drop 7 val) else None)"

fun first_bearer :: "header \<Rightarrow> string list \<Rightarrow> string" where
  "first_bearer h [] = []"
| "first_bearer h (name # names) =
     (case bearer_of (header_get (Some h) name) of Some t \<Rightarrow> t | None \<Rightarrow> first_bearer h names)"

definition getBearer :: "('s, 'cfg, 'x) Auth \<Rightarrow> header \<Rightarrow> string" where
  "getBearer a h = first_bearer h (auth_Headers a)"

definition AuthenticateRequest ::
  "('s, 'cfg, 'x) Auth \<Rightarrow> 'cfg request \<Rightarrow> 's \<Rightarrow> ('x autherr, claims) res \<times> 's" where
  "AuthenticateRequest a r s = Authenticator a (req_ctx r) (getBearer a (req_Header r)) s"

definition unauth :: "('s, 'cfg, 'x) Auth \<Rightarrow> ('s, 'cfg, 'x) unauth_handler" where
  "unauth a = (case UnauthHandler a of None \<Rightarrow> DefaultUnauthHandler | Some h \<Rightarrow> h)"

text \<open>The end of both middlewares: authorise, then call the next handler.\<close>

definition authorise_then ::
  "('s, 'cfg, 'x) Auth \<Rightarrow> claims \<Rightarrow> ('s \<times> response_writer, 'cfg) handler \<Rightarrow>
     ('s \<times> response_writer, 'cfg) handler" where
  "authorise_then a c next sw r =
     (case Auth_Authorise a c of
        Ok _ \<Rightarrow> next sw r
      | Err e \<Rightarrow> unauth a sw r e
      | Panic p \<Rightarrow> Panic p)"

definition Auth_Auth ::
  "('s, 'cfg, 'x) Auth \<Rightarrow> ('s \<times> response_writer, 'cfg) handler \<Rightarrow> ('s \<times> response_writer, 'cfg) handler"
where
  "Auth_Auth a next sw r =
     and_then (GetClaimsFromContext (req_ctx r)) (\<lambda>(c, ok).
       if ok then authorise_then a c next sw r
       else
         (case AuthenticateRequest a r (fst sw) of
            (Err e, s') \<Rightarrow> unauth a (s', snd sw) r e
          | (Panic p, s') \<Rightarrow> Panic p
          | (Ok c', s') \<Rightarrow>
              and_then (AddClaimsToContext (req_ctx r) c') (\<lambda>cx.
                authorise_then a c' next (s', snd sw) (r\<lparr>req_ctx := cx\<rparr>))))"

text \<open>
  In \<^verbatim>\<open>AuthAllowAnon\<close> the claims of a fresh authentication are declared in the inner block
  (\<^verbatim>\<open>claims, err := ...\<close>), so the authorisers run on the outer variable, which is empty then.
\<close>

definition AuthAllowAnon ::
  "('s, 'cfg, 'x) Auth \<Rightarrow> ('s \<times> response_writer, 'cfg) handler \<Rightarrow> ('s \<times> response_writer, 'cfg) handler"
where
  "AuthAllowAnon a next sw r =
     and_then (GetClaimsFromContext (req_ctx r)) (\<lambda>(c, ok).
       if ok then authorise_then a c next sw r
       else if getBearer a (req_Header r) = [] then next sw r
       else
         (case Authenticator a (req_ctx r) (getBearer a (req_Header r)) (fst sw) of
            (Err e, s') \<Rightarrow> unauth a (s', snd sw) r e
          | (Panic p, s') \<Rightarrow> Panic p
          | (Ok inner, s') \<Rightarrow>
              and_then (AddClaimsToContext (req_ctx r) inner) (\<lambda>cx.
                authorise_then a c next (s', snd sw) (r\<lparr>req_ctx := cx\<rparr>))))"

section \<open>gRPC (jwtgrpc/jwtgrpc.go)\<close>

definition ErrNoAuthHeader :: "'x autherr" where
  "ErrNoAuthHeader = GrpcStatus Unauthenticated ''no authorization header''"

definition ErrParseJWT :: "'x autherr" where
  "ErrParseJWT = GrpcStatus Unauthenticated ''invalid authorization header''"

definition ErrAuthenticationFailed :: "'x autherr" where
  "ErrAuthenticationFailed = GrpcStatus Unauthenticated ''authentication failed''"

definition ErrClaimsValidationFailed :: "'x autherr" where
  "ErrClaimsValidationFailed = GrpcStatus PermissionDenied ''insufficient permissions''"

text \<open>Metadata keys are lower case, and \<^verbatim>\<open>Get\<close> lowers the key it is given.\<close>

definition md_Get :: "(string \<times> string list) list \<Rightarrow> string \<Rightarrow> string list" where
  "md_Get md k = (case map_of md (ToLower k) of None \<Rightarrow> [] | Some vs \<Rightarrow> vs)"

definition GetBearerFromIncomingContext :: "'cfg ctx \<Rightarrow> ('x autherr, string) res" where
  "GetBearerFromIncomingContext cx =
     (case ctx_metadata cx of
        None \<Rightarrow> Err ErrNoAuthHeader
      | Some md \<Rightarrow>
        (case md_Get md ''Authorization'' of
           [] \<Rightarrow> Err ErrNoAuthHeader
         | authVal # _ \<Rightarrow>
             if length authVal < 7 \<or> ToLower (take 7 authVal) \<noteq> ''bearer '' then Err ErrParseJWT
             else Ok (drop 7 authVal)))"

section \<open>Lemmas\<close>

lemma authorise_all_Ok: "authorise_all fs c = Ok () \<longleftrightarrow> list_all (\<lambda>f. f c = Ok ()) fs"
  by (induction fs) (auto simp: go_res)

lemma authorise_all_append:
  "authorise_all (fs @ gs) c = and_then (authorise_all fs c) (\<lambda>_. authorise_all gs c)"
proof (induction fs)
  case (Cons f fs)
  then show ?case by (cases "f c") auto
qed simp

lemma GetClaims_cases:
  "GetClaimsFromContext cx =
     (case ctx_claims cx of
        None \<Rightarrow> Ok ([], False)
      | Some c \<Rightarrow> if claims_safe c then Ok (c, True) else Panic ''cannot copy Claims'')"
  by (auto simp: GetClaimsFromContext_def clone_unsafe split: option.splits)

text \<open>
  The specification of an admitted request: the claims are those already in the context, or those
  the authenticator gives for the bearer token, which are then put into the context; and every
  authoriser accepts them.
\<close>

definition admits ::
  "('s, 'cfg, 'x) Auth \<Rightarrow> 's \<Rightarrow> 'cfg request \<Rightarrow> 's \<Rightarrow> 'cfg request \<Rightarrow> bool" where
  "admits a s r s' r' \<longleftrightarrow>
     (\<exists>c. claims_safe c \<and> list_all (\<lambda>f. f c = Ok ()) (Authorisers a) \<and>
        ((ctx_claims (req_ctx r) = Some c \<and> s' = s \<and> r' = r) \<or>
         (ctx_claims (req_ctx r) = None \<and>
          Authenticator a (req_ctx r) (getBearer a (req_Header r)) s = (Ok c, s') \<and>
          r' = r\<lparr>req_ctx := (req_ctx r)\<lparr>ctx_claims := Some c\<rparr>\<rparr>)))"

lemma authorise_then_eq:
  "authorise_then a c next sw r =
     (if list_all (\<lambda>f. f c = Ok ()) (Authorisers a) then next sw r
      else case Auth_Authorise a c of Err e \<Rightarrow> unauth a sw r e | Panic p \<Rightarrow> Panic p)"
  using authorise_all_Ok [of "Authorisers a" c]
  by (auto simp: authorise_then_def Auth_Authorise_def split: res.splits)

lemma Auth_admitted:
  assumes "admits a s r s' r'"
  shows "Auth_Auth a next (s, w) r = next (s', w) r'"
  using assms
  by (auto simp: admits_def Auth_Auth_def GetClaims_cases AuthenticateRequest_def Add_claims_cases
      authorise_then_eq)

lemma Auth_not_admitted:
  assumes "\<not> (\<exists>s' r'. admits a s r s' r')"
  shows "Auth_Auth a n1 (s, w) r = Auth_Auth a n2 (s, w) r"
proof (cases "ctx_claims (req_ctx r)")
  case (Some c)
  with assms have "claims_safe c \<Longrightarrow> \<not> list_all (\<lambda>f. f c = Ok ()) (Authorisers a)"
    by (auto simp: admits_def)
  with Some show ?thesis by (auto simp: Auth_Auth_def GetClaims_cases authorise_then_eq)
next
  case None
  obtain res s' where res: "Authenticator a (req_ctx r) (getBearer a (req_Header r)) s = (res, s')"
    by fastforce
  show ?thesis
  proof (cases res)
    case (Ok c)
    with assms None res have "claims_safe c \<Longrightarrow> \<not> list_all (\<lambda>f. f c = Ok ()) (Authorisers a)"
      by (auto simp: admits_def)
    with None res Ok show ?thesis
      by (auto simp: Auth_Auth_def GetClaims_cases AuthenticateRequest_def Add_claims_cases authorise_then_eq)
  qed (use None res in \<open>simp_all add: Auth_Auth_def GetClaims_cases AuthenticateRequest_def\<close>)
qed

section \<open>Properties\<close>

text \<open>
  C4.  The middleware calls the next handler exactly for admitted requests, with the admitted
  request: the claims it finds in the context, or the claims of the authenticated bearer token,
  accepted by every authoriser and present in the request context from then on.  For any other
  request its behaviour does not depend on the next handler, so that handler is never run.
\<close>

theorem auth_guards_next:
  "(\<exists>s' r'. admits a s r s' r' \<and> (\<forall>next w. Auth_Auth a next (s, w) r = next (s', w) r')) \<or>
   ((\<nexists>s' r'. admits a s r s' r') \<and> (\<forall>n1 n2 w. Auth_Auth a n1 (s, w) r = Auth_Auth a n2 (s, w) r))"
proof (cases "\<exists>s' r'. admits a s r s' r'")
  case True
  then show ?thesis using Auth_admitted by metis
next
  case False
  then show ?thesis using Auth_not_admitted [OF False] by simp
qed

text \<open>
  A request whose authentication fails is answered by the default handler with the error's
  own HTTP status, 403 if it has none, and nothing else is written: 401 for a missing or malformed
  token, 403 for an untrusted source or a bad signature, 500 when the keys cannot be fetched.
\<close>

theorem failed_authentication_status:
  assumes "ctx_claims (req_ctx r) = None" and "UnauthHandler a = None"
    and "Authenticator a (req_ctx r) (getBearer a (req_Header r)) s = (Err (AuthError code cause), s')"
    and "rw_code w = None"
  shows "Auth_Auth a next (s, w) r =
    Ok (s', w\<lparr>rw_code := Some (if code = AuthErrCodeInvalidJWT then 401
                               else if code \<in> {2, 3, 4} then 403 else 500),
              rw_sent := rw_header w\<rparr>)"
  using assms
  by (auto simp: Auth_Auth_def GetClaims_cases AuthenticateRequest_def unauth_def DefaultUnauthHandler_def
      respond_def WriteHeader_def AuthError_HTTPStatus_def errHTTPCodeMap_def auth_codes)

definition sample_auth :: "(nat, unit, unit) Auth" where
  "sample_auth =
     \<lparr>auth_Headers = [''Authorization''],
      Authenticator = (\<lambda>cx raw s. if raw = [] then (Err (AuthError AuthErrCodeInvalidJWT None), s)
                               else (Ok [(''sub'', GStr raw)], Suc s)),
      UnauthHandler = None,
      Authorisers = [\<lambda>c. if map_of c ''sub'' = Some (GStr ''eve'')
                          then Err (AuthError AuthErrCodeInsufficientPermissions None) else Ok ()]\<rparr>"

definition sample_request :: "string \<Rightarrow> unit request" where
  "sample_request token = \<lparr>req_Method = ''GET'', req_URL = ''/'',
     req_Header = [(''Authorization'', [''Bearer '' @ token])], req_ctx = Background\<rparr>"

lemma sample_bearer: "getBearer sample_auth (req_Header (sample_request ''eve'')) = ''eve''"
proof -
  have "ToLower ''Bearer '' = ''bearer ''" by code_simp
  then show ?thesis
    by (simp add: getBearer_def sample_auth_def sample_request_def bearer_of_def header_get_def
        header_values_def canon_authorization)
qed

lemma no_bearer: "getBearer sample_auth (req_Header (sample_request [])) = []"
  by (simp add: getBearer_def sample_auth_def sample_request_def bearer_of_def header_get_def
      header_values_def canon_authorization)

theorem failed_authentication_status_witness:
  "\<exists>w'. Auth_Auth sample_auth (\<lambda>sw r. Ok sw) (0, new_writer) (sample_request []) = Ok (0, w') \<and> rw_code w' = Some 401"
  using failed_authentication_status [of "sample_request []" sample_auth 0 AuthErrCodeInvalidJWT None 0
    new_writer "\<lambda>sw r. Ok sw"]
  by (simp add: no_bearer) (simp add: sample_auth_def sample_request_def Background_def new_writer_def)

text \<open>
  When \<^verbatim>\<open>AuthAllowAnon\<close> authenticates a token itself, the authorisers do not see its claims:
  they are run on empty claims, so whether the request is let through does not depend on what
  the token says.
\<close>

theorem allow_anon_ignores_token_claims:
  assumes "ctx_claims (req_ctx r) = None" and "getBearer a (req_Header r) \<noteq> []"
    and "Authenticator a (req_ctx r) (getBearer a (req_Header r)) s = (Ok c, s')" and "claims_safe c"
  shows "AuthAllowAnon a next (s, w) r =
    (case Auth_Authorise a [] of
       Ok _ \<Rightarrow> next (s', w) (r\<lparr>req_ctx := (req_ctx r)\<lparr>ctx_claims := Some c\<rparr>\<rparr>)
     | Err e \<Rightarrow> unauth a (s', w) (r\<lparr>req_ctx := (req_ctx r)\<lparr>ctx_claims := Some c\<rparr>\<rparr>) e
     | Panic p \<Rightarrow> Panic p)"
  using assms by (simp add: AuthAllowAnon_def GetClaims_cases Add_claims_cases authorise_then_def)

theorem allow_anon_ignores_token_claims_witness:
  "AuthAllowAnon sample_auth (\<lambda>sw r. Ok sw) (0, new_writer) (sample_request ''eve'') = Ok (1, new_writer) \<and>
   Auth_Authorise sample_auth [(''sub'', GStr ''eve'')] \<noteq> Ok ()"
  using allow_anon_ignores_token_claims [of "sample_request ''eve''" sample_auth 0 "[(''sub'', GStr ''eve'')]" 1
    "\<lambda>sw r. Ok sw" new_writer]
  by (simp add: sample_bearer)
     (simp add: sample_auth_def sample_request_def Background_def claims_safe_def Auth_Authorise_def)

text \<open>
  Bearer tokens: of a header value that starts with the scheme \<^verbatim>\<open>Bearer\<close> in any case and a
  space, the gRPC parser returns the rest, even an empty one, but the HTTP parser returns it only
  when it has at least two characters.
\<close>

theorem bearer_parsers:
  assumes "length p = 7" and "EqualFold p ''bearer ''"
  shows "bearer_of (p @ t) = (if length t \<ge> 2 then Some t else None) \<and>
    (map_of md ''authorization'' = Some ((p @ t) # vs) \<longrightarrow>
       GetBearerFromIncomingContext (cx\<lparr>ctx_metadata := Some md\<rparr>) = Ok t)"
proof -
  have l: "ToLower ''bearer '' = ''bearer ''" "ToLower ''Authorization'' = ''authorization''"
    by code_simp+
  then show ?thesis
    using assms
    by (auto simp: bearer_of_def GetBearerFromIncomingContext_def md_Get_def EqualFold_def)
qed

theorem bearer_parsers_witness:
  "bearer_of ''Bearer x'' = None \<and>
   GetBearerFromIncomingContext ((Background :: unit ctx)\<lparr>ctx_metadata := Some [(''authorization'', [''Bearer x''])]\<rparr>)
     = (Ok ''x'' :: (unit autherr, string) res)"
proof -
  have "EqualFold ''Bearer '' ''bearer ''" by code_simp
  from bearer_parsers [of "''Bearer ''" "''x''" "[(''authorization'', [''Bearer x''])]" "[]", OF _ this]
  show ?thesis by simp
qed

end
