(* ===== verification/JwtIssuer.thy ===== *)
theory JwtIssuer
  imports JwtHttp
begin

text \<open>
  The token issuer of \<^verbatim>\<open>jwtauth/jwttest\<close>: it signs tokens, serves its public key as a key set, and is itself
  a verifier and an authenticator.  Its tokens are what the authenticators of JwtAuth are fed with.

  Beyond the token library, \<open>sign\<close> is the signer with the serialisation of the token, \<open>marshal\<close> the
  encoding of a key set, and key generation is an argument of the constructor.
\<close>

section \<open>The issuer\<close>

record ('sk, 'k) Issuer =
  Signer :: 'sk
  PubKey :: 'k
  issuer_Name :: string

text \<open>
  \<open>gen\<close> generates an RSA key pair, \<open>uuid\<close> is the random key id, \<open>key_of\<close> makes a signing key with a key id,
  and \<open>new_signer\<close> the signer.
\<close>

definition GenRSKeys ::
  "(int \<Rightarrow> 'x + 'pub \<times> 'priv) \<Rightarrow> 'x + string \<Rightarrow> ('pub \<Rightarrow> string \<Rightarrow> 'k) \<Rightarrow> ('priv \<Rightarrow> string \<Rightarrow> 'sg) \<Rightarrow> int \<Rightarrow>
     ('x, 'k \<times> 'sg) res" where
  "GenRSKeys gen uuid pub_key priv_key keysize =
     (case gen keysize of
        Inl x \<Rightarrow> Err x
      | Inr (pub, priv) \<Rightarrow>
          (case uuid of
             Inl x \<Rightarrow> Err x
           | Inr kid \<Rightarrow> Ok (pub_key pub kid, priv_key priv kid)))"

definition NewIssuer ::
  "(int \<Rightarrow> 'x + 'pub \<times> 'priv) \<Rightarrow> 'x + string \<Rightarrow> ('pub \<Rightarrow> string \<Rightarrow> 'k) \<Rightarrow> ('priv \<Rightarrow> string \<Rightarrow> 'sg) \<Rightarrow>
     ('sg \<Rightarrow> 'x + 'sk) \<Rightarrow> string \<Rightarrow> int \<Rightarrow> ('x, ('sk, 'k) Issuer) res" where
  "NewIssuer gen uuid pub_key priv_key new_signer name keysize =
     and_then (GenRSKeys gen uuid pub_key priv_key keysize) (\<lambda>(pub, priv).
       (case new_signer priv of
          Inl x \<Rightarrow> Err x
        | Inr sig \<Rightarrow> Ok \<lparr>Signer = sig, PubKey = pub, issuer_Name = name\<rparr>))"

text \<open>
  \<^verbatim>\<open>IssueFromMap\<close> writes the issuer into the caller's map, unless the caller has set one that is not the
  empty string; the map after the call is returned beside the token.  Writing to a nil map panics.
\<close>

definition IssueFromMap ::
  "('sk \<Rightarrow> claims \<Rightarrow> 'x + string) \<Rightarrow> ('sk, 'k) Issuer \<Rightarrow> claims option \<Rightarrow> ('x, string) res \<times> claims option" where
  "IssueFromMap sign i claims =
     (let cs = (case claims of None \<Rightarrow> [] | Some c \<Rightarrow> c);
          stamped = (case map_of cs ''iss'' of
              None \<Rightarrow> map_option (put_assoc ''iss'' (GStr (issuer_Name i))) claims
            | Some v \<Rightarrow> if v = GStr [] then map_option (put_assoc ''iss'' (GStr (issuer_Name i))) claims else claims)
      in case stamped of
           None \<Rightarrow> (Panic nil_map_write, claims)
         | Some c \<Rightarrow> (case sign (Signer i) c of Inl x \<Rightarrow> (Err x, stamped) | Inr raw \<Rightarrow> (Ok raw, stamped)))"

definition Issue ::
  "('sk \<Rightarrow> claims \<Rightarrow> 'x + string) \<Rightarrow> ('sk, 'k) Issuer \<Rightarrow> claims option \<Rightarrow> ('x, string) res \<times> claims option" where
  "Issue sign i claims = IssueFromMap sign i claims"

definition Issuer_Verify ::
  "('tok, 'jc, 'k, 'ks, 'x) jose \<Rightarrow> ('sk, 'k) Issuer \<Rightarrow> 'tok \<Rightarrow> ('x autherr, claims) res" where
  "Issuer_Verify J i tok = (case TokenClaims J tok (PubKey i) of Inl x \<Rightarrow> Err (LibErr None x) | Inr c \<Rightarrow> Ok c)"

text \<open>The cause of an untrusted source is the nil error of the step before.\<close>

definition Issuer_Authenticate ::
  "('tok, 'jc, 'k, 'ks, 'x) jose \<Rightarrow> ('sk, 'k) Issuer \<Rightarrow> string \<Rightarrow> ('x autherr, claims) res" where
  "Issuer_Authenticate J i token =
     (case ParseSigned J token of
        Inl x \<Rightarrow> Err (AuthError AuthErrCodeInvalidJWT (Some (LibErr None x)))
      | Inr parsed \<Rightarrow>
        (case UnsafeStdClaims J parsed of
           Inl x \<Rightarrow> Err (AuthError AuthErrCodeInvalidJWT (Some (LibErr None x)))
         | Inr insecureClaims \<Rightarrow>
             if StdIssuer J insecureClaims \<noteq> issuer_Name i then Err (AuthError AuthErrCodeUntrustedSource None)
             else map_err (\<lambda>e. AuthError AuthErrCodeBadSignature (Some e)) (Issuer_Verify J i parsed)))"

definition Issuer_Authenticator :: "('sk, 'k) Issuer \<Rightarrow> (string \<rightharpoonup> ('sk, 'k) Issuer)" where
  "Issuer_Authenticator i = [issuer_Name i \<mapsto> i]"

definition Issuer_ServeHTTP ::
  "('k list \<Rightarrow> 'x + string) \<Rightarrow> ('sk, 'k) Issuer \<Rightarrow> response_writer \<Rightarrow> (unit, response_writer) res" where
  "Issuer_ServeHTTP marshal i w =
     (case marshal [PubKey i] of
        Inl x \<Rightarrow> WriteHeader w 500
      | Inr payload \<Rightarrow>
          and_then (WriteHeader (w\<lparr>rw_header := header_set (rw_header w) ''Content-Type'' ''application/json''\<rparr>) 200) (\<lambda>w'.
            Ok (Write w' payload)))"

definition HTTPAuth ::
  "('tok, 'jc, 'k, 'ks, 'x) jose \<Rightarrow> ('sk, 'k) Issuer \<Rightarrow> ('s, 'cfg, 'x) Auth" where
  "HTTPAuth J i =
     \<lparr>auth_Headers = [''Authorization''], Authenticator = (\<lambda>_ token s. (Issuer_Authenticate J i token, s)),
      UnauthHandler = None, Authorisers = []\<rparr>"

section \<open>The issuer is a verifier\<close>

lemma Issuer_Verify_iff: "Issuer_Verify J i tok = Ok c \<longleftrightarrow> TokenClaims J tok (PubKey i) = Inr c"
  by (auto simp: Issuer_Verify_def split: sum.splits)

interpretation test_issuer: token_verifier "\<lambda>i tok. (Issuer_Verify J i tok, i)"
  "\<lambda>i tok c. TokenClaims J tok (PubKey i) = Inr c" for J
  by unfold_locales (simp add: Issuer_Verify_iff)

text \<open>
  What the token library promises of an issuer's signer: a token it serialises parses back, shows the issuer
  of its claims, carries the issuer's key id and verifies with its public key to the signed claims; and the
  key set of the encoded public key has that key under that id.
\<close>

definition claims_issuer :: "claims \<Rightarrow> string" where
  "claims_issuer c = (case map_of c ''iss'' of Some (GStr s) \<Rightarrow> s | _ \<Rightarrow> [])"

definition signed_token ::
  "('tok, 'jc, 'k, 'ks, 'x) jose \<Rightarrow> ('sk, 'k) Issuer \<Rightarrow> string \<Rightarrow> string \<Rightarrow> claims \<Rightarrow> bool" where
  "signed_token J i kid raw c \<longleftrightarrow>
     (\<exists>tok jc. ParseSigned J raw = Inr tok \<and> UnsafeStdClaims J tok = Inr jc \<and> StdIssuer J jc = claims_issuer c \<and>
        TokenKeyIDs J tok = [kid] \<and> TokenClaims J tok (PubKey i) = Inr c)"

definition faithful_signer ::
  "('tok, 'jc, 'k, 'ks, 'x) jose \<Rightarrow> ('sk \<Rightarrow> claims \<Rightarrow> 'x + string) \<Rightarrow> ('sk, 'k) Issuer \<Rightarrow> string \<Rightarrow> bool" where
  "faithful_signer J sign i kid \<longleftrightarrow> (\<forall>c raw. sign (Signer i) c = Inr raw \<longrightarrow> signed_token J i kid raw c)"

definition faithful_marshal ::
  "('tok, 'jc, 'k, 'ks, 'x) jose \<Rightarrow> ('k list \<Rightarrow> 'x + string) \<Rightarrow> ('sk, 'k) Issuer \<Rightarrow> string \<Rightarrow> bool" where
  "faithful_marshal J marshal i kid \<longleftrightarrow>
     (\<exists>payload ks more. marshal [PubKey i] = Inr payload \<and> UnmarshalKeySet J payload = Inr ks \<and>
        KeySetKey J ks kid = PubKey i # more)"

text \<open>The claims a token is issued with.\<close>

definition stamped_claims :: "('sk, 'k) Issuer \<Rightarrow> claims \<Rightarrow> claims" where
  "stamped_claims i c =
     (if map_of c ''iss'' = None \<or> map_of c ''iss'' = Some (GStr []) then put_assoc ''iss'' (GStr (issuer_Name i)) c else c)"

lemma IssueFromMap_Some:
  "IssueFromMap sign i (Some c) =
     (case sign (Signer i) (stamped_claims i c) of Inl x \<Rightarrow> Err x | Inr raw \<Rightarrow> Ok raw, Some (stamped_claims i c))"
  by (auto simp: IssueFromMap_def stamped_claims_def Let_def split: option.splits sum.splits)

lemma issued_token:
  assumes "faithful_signer J sign i kid" and "Issue sign i (Some c) = (Ok raw, c')"
  shows "c' = Some (stamped_claims i c) \<and> signed_token J i kid raw (stamped_claims i c)"
  using assms by (auto simp: Issue_def IssueFromMap_Some faithful_signer_def split: sum.splits)

lemma signed_token_authenticates:
  assumes "signed_token J i kid raw c"
  shows "Issuer_Authenticate J i raw =
    (if claims_issuer c = issuer_Name i then Ok c else Err (AuthError AuthErrCodeUntrustedSource None))"
  using assms by (auto simp: signed_token_def Issuer_Authenticate_def Issuer_Verify_def)

lemma stamped_issuer:
  "map_of c ''iss'' = None \<or> map_of c ''iss'' = Some (GStr []) \<Longrightarrow> claims_issuer (stamped_claims i c) = issuer_Name i"
  by (auto simp: stamped_claims_def claims_issuer_def)


lemma served_key_set:
  assumes "faithful_marshal J marshal i kid" and "Issuer_ServeHTTP marshal i new_writer = Ok w"
  shows "\<exists>ks more. fetch_jwks J (GetResp (the (rw_code w)) (Inr (rw_body w))) = Ok ks \<and>
    KeySetKey J ks kid = PubKey i # more"
  using assms
  by (auto simp: faithful_marshal_def Issuer_ServeHTTP_def WriteHeader_def Write_def new_writer_def go_res
      Let_def fetch_jwks_def)

section \<open>Issued tokens are accepted\<close>

text \<open>The expiry of a token plays no role for the issuer's own authenticator.\<close>

lemma Issuer_Authenticate_ignores_expiry:
  "Issuer_Authenticate (J\<lparr>ValidateWithLeeway := v\<rparr>) i raw = Issuer_Authenticate J i raw"
  by (simp add: Issuer_Authenticate_def Issuer_Verify_def split: sum.split)


definition toy_signer :: "unit \<Rightarrow> claims \<Rightarrow> string + string" where
  "toy_signer _ c = (if c = [(''iss'', GStr ''idp'')] then Inr ''k1'' else Inl ''unsupported'')"

definition toy_test_issuer :: "(unit, string) Issuer" where
  "toy_test_issuer = \<lparr>Signer = (), PubKey = ''k1'', issuer_Name = ''idp''\<rparr>"

definition toy_remote :: "(unit, string list) RemoteJWKSIssuer" where
  "toy_remote = \<lparr>issuer_url = ''u'', issuer_client = (),
     issuer_cache = \<lparr>cached = None, ttl = 5, setTime = 0\<rparr>, refresh_loop = None\<rparr>"


text \<open>
  The middleware made of an issuer runs the wrapped handler on a request with a token of the issuer, with the
  token's claims in the context, and answers a request without a usable bearer token with the status of the
  authentication error.
\<close>

theorem issuer_middleware:
  fixes J :: "('tok, 'jc, 'k, 'ks, 'x) jose" and r :: "'cfg request" and s :: 's
  assumes "ctx_claims (req_ctx r) = None" and "rw_code w = None"
    and "getBearer (HTTPAuth J i :: ('s, 'cfg, 'x) Auth) (req_Header r) = raw"
  shows "(\<forall>c. Issuer_Authenticate J i raw = Ok c \<and> claims_safe c \<longrightarrow>
      Auth_Auth (HTTPAuth J i) next (s, w) r = next (s, w) (r\<lparr>req_ctx := (req_ctx r)\<lparr>ctx_claims := Some c\<rparr>\<rparr>)) \<and>
    (\<forall>code e. Issuer_Authenticate J i raw = Err (AuthError code e) \<longrightarrow>
      Auth_Auth (HTTPAuth J i) next (s, w) r =
        Ok (s, w\<lparr>rw_code := Some (AuthError_HTTPStatus code), rw_sent := rw_header w\<rparr>))"
proof -
  have "getBearer (HTTPAuth J i :: ('s, 'cfg, 'x) Auth) (req_Header r) = raw" using assms(3) .
  then have a: "Authenticator (HTTPAuth J i :: ('s, 'cfg, 'x) Auth) (req_ctx r)
      (getBearer (HTTPAuth J i :: ('s, 'cfg, 'x) Auth) (req_Header r)) s = (Issuer_Authenticate J i raw, s)"
    by (simp add: HTTPAuth_def)
  have "400 \<le> AuthError_HTTPStatus code \<and> AuthError_HTTPStatus code \<le> 599" for code
    by (auto simp: AuthError_HTTPStatus_def errHTTPCodeMap_def)
  then have "\<not> AuthError_HTTPStatus code < 100 \<and> \<not> 999 < AuthError_HTTPStatus code \<and> \<not> AuthError_HTTPStatus code \<le> 199" for code
    by (smt (verit))
  then have u: "unauth (HTTPAuth J i) (s, w) r (AuthError code e) =
      Ok (s, w\<lparr>rw_code := Some (AuthError_HTTPStatus code), rw_sent := rw_header w\<rparr>)" for code e
    using assms(2) by (simp add: unauth_def HTTPAuth_def DefaultUnauthHandler_def respond_def WriteHeader_def)
  have all: "list_all (\<lambda>f. f c = Ok ()) (Authorisers (HTTPAuth J i :: ('s, 'cfg, 'x) Auth))" for c
    by (simp add: HTTPAuth_def)
  show ?thesis using a assms(1) u all
    by (simp add: Auth_Auth_def GetClaims_cases AuthenticateRequest_def Add_claims_cases authorise_then_eq)
qed

theorem issuer_middleware_witness:
  "\<exists>w'. Auth_Auth (HTTPAuth toy_jose toy_test_issuer) (\<lambda>sw r. Ok sw) ((), new_writer) (sample_request []) =
     Ok ((), w') \<and> rw_code w' = Some 401"
proof -
  have n: "getBearer (HTTPAuth toy_jose toy_test_issuer :: (unit, unit, string) Auth) (req_Header (sample_request [])) = []"
    by (simp add: getBearer_def HTTPAuth_def sample_request_def bearer_of_def header_get_def
        header_values_def canon_authorization)
  have e: "Issuer_Authenticate toy_jose toy_test_issuer [] = Err (AuthError AuthErrCodeInvalidJWT (Some (LibErr None ''empty'')))"
    by (simp add: Issuer_Authenticate_def toy_jose_def)
  have c: "ctx_claims (req_ctx (sample_request [])) = None" by (simp add: sample_request_def Background_def)
  have f: "rw_code new_writer = None" by (simp add: new_writer_def)
  from issuer_middleware[OF c f n, of "\<lambda>sw r. Ok sw" "()"] e show ?thesis
    by (simp add: AuthError_HTTPStatus_def errHTTPCodeMap_def auth_codes)
qed

end
