(* ===== verification/ConfigHelp.thy ===== *)
theory ConfigHelp
  imports GoJson
begin

text \<open>
  The configuration schema printed for \<^verbatim>\<open>--help\<close> (core/serve.go: \<^verbatim>\<open>describeCustomConfig\<close>,
  \<^verbatim>\<open>describeYAMLForType\<close>, \<^verbatim>\<open>yamlEgComment\<close>).

  Go types form a graph: a type is an identifier whose kind refers to other types, so a type may refer to
  itself through a pointer, slice or map.  The recursion over the graph is by fuel, \<open>None\<close> meaning that the
  fuel is used up; a call that never gets enough is a stack overflow of the program.  The text is returned
  instead of being written.
\<close>

section \<open>Types by reflection\<close>

type_synonym tid = nat

record field =
  f_Name :: string
  f_yaml :: string
  f_mapstructure :: string
  f_Type :: tid

datatype gokind =
  KBool | KInt | KFloat | KSlice tid | KInterface | KMap tid | KPtr tid | KString | KStruct "field list" | KFunc | KOther

record type_env =
  Kind_of :: "tid \<Rightarrow> gokind"
  PkgPath :: "tid \<Rightarrow> string"
  TypeName :: "tid \<Rightarrow> string"
  Quote :: "string \<Rightarrow> string"

definition esc :: "string \<Rightarrow> string" where
  "esc code = CHR 0x1B # ''['' @ code @ ''m''"

definition yamlEgComment :: "string \<Rightarrow> string \<Rightarrow> string" where
  "yamlEgComment example comment = esc ''1;31'' @ example @ '' '' @ esc ''0;32'' @ ''# '' @ comment @ esc ''0''"

text \<open>The indentation goes after the first line break of the format.\<close>

fun indented :: "nat \<Rightarrow> string \<Rightarrow> string" where
  "indented n [] = []"
| "indented n (c # cs) = (if c = CHR 0x0A then c # replicate n (CHR '' '') @ cs else c # indented n cs)"

definition field_name :: "type_env \<Rightarrow> field \<Rightarrow> string" where
  "field_name E f =
     (if f_mapstructure f \<noteq> [] then hd (split_on (CHR '','') (f_mapstructure f))
      else if f_yaml f \<noteq> [] then hd (split_on (CHR '','') (f_yaml f))
      else if Kind_of E (f_Type f) = KFunc then []
      else f_Name f)"

type_synonym out = "(unit, string) res"

text \<open>Two pieces of output in order; a panic in the first ends the second.\<close>

definition followed_by :: "out option \<Rightarrow> out option \<Rightarrow> out option" where
  "followed_by x y =
     Option.bind x (\<lambda>a. case a of
        Ok s \<Rightarrow> map_option (\<lambda>b. and_then b (\<lambda>t. Ok (s @ t))) y
      | Err e \<Rightarrow> Some (Err e)
      | Panic p \<Rightarrow> Some (Panic p))"

definition emit :: "string \<Rightarrow> out option" where
  "emit s = Some (Ok s)"

fun describeYAMLForType :: "nat \<Rightarrow> type_env \<Rightarrow> (tid \<times> string) list \<Rightarrow> nat \<Rightarrow> tid \<Rightarrow> out option"
  and describe_fields :: "nat \<Rightarrow> type_env \<Rightarrow> (tid \<times> string) list \<Rightarrow> nat \<Rightarrow> field list \<Rightarrow> out option" where
  "describeYAMLForType 0 E common indent t = None"
| "describeYAMLForType (Suc n) E common indent t =
     (case map_of common t of
        Some alias \<Rightarrow>
          emit (if alias = [] then '' '' @ yamlEgComment ''{}'' (Quote E (PkgPath E t) @ ''.'' @ TypeName E t)
                else '' '' @ alias)
      | None \<Rightarrow>
        (case Kind_of E t of
           KBool \<Rightarrow> emit ('' '' @ esc ''1'' @ ''false'' @ esc ''0'')
         | KInt \<Rightarrow> emit ('' '' @ esc ''1'' @ ''0'' @ esc ''0'')
         | KFloat \<Rightarrow> emit ('' '' @ esc ''1'' @ ''0.0'' @ esc ''0'')
         | KSlice e \<Rightarrow> followed_by (emit (indented indent [CHR 0x0A, CHR ''-''])) (describeYAMLForType n E common (indent + 4) e)
         | KInterface \<Rightarrow> emit ('' '' @ yamlEgComment ''{}'' ''any value'')
         | KMap e \<Rightarrow> followed_by (emit (indented indent (CHR 0x0A # '' key: ''))) (describeYAMLForType n E common (indent + 4) e)
         | KPtr e \<Rightarrow> describeYAMLForType n E common indent e
         | KString \<Rightarrow> emit ('' '' @ esc ''1'' @ [CHR 0x22, CHR 0x22] @ esc ''0'')
         | KStruct fs \<Rightarrow> describe_fields n E common indent fs
         | KFunc \<Rightarrow> emit []
         | KOther \<Rightarrow> Some (Panic ''describeYAMLForType: Unhandled type'')))"
| "describe_fields n E common indent [] = emit []"
| "describe_fields n E common indent (f # fs) =
     followed_by (emit (if field_name E f \<noteq> [] then indented indent (CHR 0x0A # field_name E f @ '':'') else []))
       (followed_by (describeYAMLForType n E common (indent + 4) (f_Type f)) (describe_fields n E common indent fs))"

section \<open>The whole schema\<close>

definition qualified_name :: "type_env \<Rightarrow> tid \<Rightarrow> string" where
  "qualified_name E t = PkgPath E t @ ''.'' @ TypeName E t"

text \<open>
  The common types are described first, sorted by qualified name.  While one of them is described it is not
  in the table, so that its own fields are printed.
\<close>

fun describe_common :: "nat \<Rightarrow> type_env \<Rightarrow> (tid \<times> string) list \<Rightarrow> (string \<times> tid) list \<Rightarrow> out option" where
  "describe_common n E common [] = emit []"
| "describe_common n E common ((nm, ct) # cts) =
     (if map_of common ct = Some []
      then followed_by (emit ([CHR 0x0A, CHR 0x0A] @ esc ''1;32'' @ Quote E (PkgPath E ct) @ ''.'' @ TypeName E ct @ '':'' @ esc ''0''))
        (followed_by (describeYAMLForType n E (filter (\<lambda>(t, a). t \<noteq> ct) common) 4 ct) (describe_common n E common cts))
      else describe_common n E common cts)"

definition describeCustomConfig :: "nat \<Rightarrow> type_env \<Rightarrow> (tid \<times> string) list \<Rightarrow> tid \<Rightarrow> out option" where
  "describeCustomConfig n E common customConfig =
     followed_by (emit (esc ''1'' @ ''Configuration file YAML schema'' @ esc ''0''))
       (followed_by (describe_common n E common (sort_keys (map (\<lambda>(t, a). (qualified_name E t, t)) common)))
         (followed_by (emit ([CHR 0x0A, CHR 0x0A] @ esc ''1'' @ ''Application Configuration'' @ esc ''0''))
           (describeYAMLForType n E common 0 customConfig)))"

section \<open>When the schema can be printed\<close>

text \<open>The types a description goes on to, outside the table.\<close>

definition refers :: "type_env \<Rightarrow> tid \<Rightarrow> tid list" where
  "refers E t =
     (case Kind_of E t of
        KSlice e \<Rightarrow> [e] | KMap e \<Rightarrow> [e] | KPtr e \<Rightarrow> [e] | KStruct fs \<Rightarrow> map f_Type fs | _ \<Rightarrow> [])"

definition ranked :: "type_env \<Rightarrow> (tid \<times> string) list \<Rightarrow> (tid \<Rightarrow> nat) \<Rightarrow> bool" where
  "ranked E common r \<longleftrightarrow> (\<forall>t. map_of common t = None \<longrightarrow> (\<forall>t' \<in> set (refers E t). r t' < r t))"

lemma followed_by_defined: "x \<noteq> None \<Longrightarrow> y \<noteq> None \<Longrightarrow> followed_by x y \<noteq> None"
  by (auto simp: followed_by_def split: res.splits)

lemma emit_defined [simp]: "emit s \<noteq> None"
  by (simp add: emit_def)

lemma describe_fields_defined:
  assumes "\<And>f i. f \<in> set fs \<Longrightarrow> describeYAMLForType n E common i (f_Type f) \<noteq> None"
  shows "describe_fields n E common i fs \<noteq> None"
  using assms by (induction fs) (simp_all add: followed_by_defined)

lemma describe_ranked:
  assumes "ranked E common r" and "r t < n"
  shows "describeYAMLForType n E common i t \<noteq> None"
  using assms(2)
proof (induction n arbitrary: t i)
  case (Suc n)
  show ?case
  proof (cases "map_of common t")
    case None
    have sub: "describeYAMLForType n E common j t' \<noteq> None" if "t' \<in> set (refers E t)" for j t'
    proof (rule Suc.IH)
      have "r t' < r t" using assms(1) None that by (simp add: ranked_def)
      with Suc.prems show "r t' < n" by simp
    qed
    then show ?thesis using None
      by (cases "Kind_of E t") (simp_all add: refers_def followed_by_defined describe_fields_defined)
  qed simp
qed simp


text \<open>More fuel does not change a description.\<close>

definition mono_out :: "out option \<Rightarrow> out option \<Rightarrow> bool" where
  "mono_out x y \<longleftrightarrow> (x \<noteq> None \<longrightarrow> y = x)"

lemma mono_out_refl [simp]: "mono_out x x"
  by (simp add: mono_out_def)

lemma mono_followed_by: "mono_out x x' \<Longrightarrow> mono_out y y' \<Longrightarrow> mono_out (followed_by x y) (followed_by x' y')"
  by (cases x; cases "the x"; cases y) (auto simp: mono_out_def followed_by_def)

lemma mono_fields:
  assumes "\<And>j t. mono_out (describeYAMLForType n E common j t) (describeYAMLForType m E common j t)"
  shows "mono_out (describe_fields n E common i fs) (describe_fields m E common i fs)"
  by (induction fs) (simp_all add: mono_followed_by assms)

lemma mono_describe:
  "n \<le> m \<Longrightarrow> mono_out (describeYAMLForType n E common i t) (describeYAMLForType m E common i t)"
proof (induction n arbitrary: m i t)
  case (Suc n)
  then obtain m' where m: "m = Suc m'" "n \<le> m'" by (cases m) auto
  have IH: "mono_out (describeYAMLForType n E common j u) (describeYAMLForType m' E common j u)" for j u
    using Suc.IH m(2) .
  show ?case unfolding m(1)
    by (simp add: IH mono_fields mono_followed_by split: option.split gokind.split)
qed (simp add: mono_out_def)

lemma mono_common: "n \<le> m \<Longrightarrow> mono_out (describe_common n E common cts) (describe_common m E common cts)"
  by (induction n E common cts rule: describe_common.induct) (simp_all add: mono_followed_by mono_describe)

lemma mono_config: "n \<le> m \<Longrightarrow> mono_out (describeCustomConfig n E common t) (describeCustomConfig m E common t)"
  by (simp add: describeCustomConfig_def mono_followed_by mono_common mono_describe)

lemma common_defined:
  assumes "\<And>nm ct. (nm, ct) \<in> set cts \<Longrightarrow> map_of common ct = Some [] \<Longrightarrow>
      describeYAMLForType n E (filter (\<lambda>(t, a). t \<noteq> ct) common) 4 ct \<noteq> None"
  shows "describe_common n E common cts \<noteq> None"
  using assms
proof (induction cts)
  case (Cons c cts)
  obtain nm ct where c: "c = (nm, ct)" by (cases c)
  have "describe_common n E common cts \<noteq> None"
    by (rule Cons.IH) (use Cons.prems in \<open>meson list.set_intros(2)\<close>)
  moreover have "map_of common ct = Some [] \<Longrightarrow>
      describeYAMLForType n E (filter (\<lambda>(t, a). t \<noteq> ct) common) 4 ct \<noteq> None"
    using Cons.prems[of nm ct] by (simp add: c)
  ultimately show ?case by (simp add: c followed_by_defined del: not_None_eq)
qed simp


text \<open>
  A configuration type that contains a pointer to itself as its first field is described without end: no
  recursion depth is enough.
\<close>

theorem recursive_config_overflows:
  assumes "Kind_of E t = KStruct (f # fs)" and "Kind_of E (f_Type f) = KPtr t"
    and "map_of common t = None" and "map_of common (f_Type f) = None"
  shows "describeYAMLForType n E common i t = None"
proof (induction n arbitrary: i rule: less_induct)
  case (less n)
  show ?case
  proof (cases n)
    case (Suc m)
    have "describeYAMLForType m E common (i + 4) (f_Type f) = None"
    proof (cases m)
      case (Suc k)
      then show ?thesis using less[of k "i + 4"] assms \<open>n = Suc m\<close> by simp
    qed simp
    then show ?thesis using Suc assms by (simp add: followed_by_def emit_def)
  qed simp
qed

definition list_env :: type_env where
  "list_env =
     \<lparr>Kind_of = (\<lambda>t. if t = 0 then KStruct [\<lparr>f_Name = ''Next'', f_yaml = [], f_mapstructure = ''next'', f_Type = 1\<rparr>]
                   else if t = 1 then KPtr 0
                   else if t = 2 then KStruct [\<lparr>f_Name = ''Port'', f_yaml = ''port'', f_mapstructure = [], f_Type = 3\<rparr>] else KInt),
      PkgPath = (\<lambda>_. ''p''), TypeName = (\<lambda>_. ''T''), Quote = (\<lambda>s. s)\<rparr>"

theorem recursive_config_overflows_witness: "describeYAMLForType 1000 list_env [] 0 0 = None"
  by (rule recursive_config_overflows[where f = "\<lparr>f_Name = ''Next'', f_yaml = [], f_mapstructure = ''next'', f_Type = 1\<rparr>" and fs = "[]"])
    (simp_all add: list_env_def)


end
