(* ===== verification/Convert.thy ===== *)
theory Convert
  imports CommonErrors
begin

text \<open>
  Conversions between the text of parameters and values: \<^verbatim>\<open>strconv.ParseInt\<close> at 64 bits as the
  sources use it, the optional parameters of package convert (convert/convert.go, convert/query.go), and
  the JSON and YAML forms of times and durations (jsontime/jsontime.go, jsontime/jsonduration.go).

  Calendar arithmetic is not modelled: \<open>parse layout s\<close> and \<open>format layout t\<close> stand for
  \<^verbatim>\<open>time.Parse\<close> and \<^verbatim>\<open>Time.Format\<close>, and likewise for the text of durations.
\<close>

section \<open>strconv.ParseInt(s, 10, 64)\<close>

datatype num_err = ErrSyntax | ErrRange

definition uint64_cutoff :: nat where
  "uint64_cutoff = (2 ^ 64 - 1) div 10 + 1"

text \<open>
  The scan over the digits stops at the first byte that is not a digit or at the first digit that
  leaves 64 bits, whichever comes first.
\<close>

fun scan_uint :: "nat \<Rightarrow> string \<Rightarrow> num_err + nat" where
  "scan_uint n [] = Inr n"
| "scan_uint n (c # cs) =
     (if \<not> is_digit c then Inl ErrSyntax
      else if n \<ge> uint64_cutoff then Inl ErrRange
      else let n1 = n * 10 + (of_char c - 48)
           in if n1 \<ge> 2 ^ 64 then Inl ErrRange else scan_uint n1 cs)"

definition split_sign :: "string \<Rightarrow> bool \<times> string" where
  "split_sign s =
     (case s of
        [] \<Rightarrow> (False, [])
      | c # cs \<Rightarrow> if c = CHR ''+'' then (False, cs) else if c = CHR ''-'' then (True, cs) else (False, s))"

definition ParseInt :: "string \<Rightarrow> int \<times> num_err option" where
  "ParseInt s =
     (let (neg, ds) = split_sign s
      in if ds = [] then (0, Some ErrSyntax)
         else case scan_uint 0 ds of
                Inl ErrSyntax \<Rightarrow> (0, Some ErrSyntax)
              | Inl ErrRange \<Rightarrow> (if neg then - (2 ^ 63) else 2 ^ 63 - 1, Some ErrRange)
              | Inr un \<Rightarrow>
                  if \<not> neg \<and> un \<ge> 2 ^ 63 then (2 ^ 63 - 1, Some ErrRange)
                  else if neg \<and> un > 2 ^ 63 then (- (2 ^ 63), Some ErrRange)
                  else (if neg then - int un else int un, None))"

section \<open>Optional parameters (convert/convert.go)\<close>

definition StringToIntPtr ::
  "('x \<Rightarrow> Kind option) \<Rightarrow> 'cfg ctx \<Rightarrow> string \<Rightarrow> ('x cerr, int option) res" where
  "StringToIntPtr kinder cx input =
     (if input = [] then Ok None
      else case ParseInt input of
             (_, Some _) \<Rightarrow> Err (CreateError kinder cx InternalError (''invalid integer format: '' @ input) None)
           | (result, None) \<Rightarrow> Ok (Some result))"

definition StringToBoolPtr ::
  "('x \<Rightarrow> Kind option) \<Rightarrow> 'cfg ctx \<Rightarrow> string \<Rightarrow> ('x cerr, bool option) res" where
  "StringToBoolPtr kinder cx input =
     (if input = [] then Ok None
      else if EqualFold input ''true'' then Ok (Some True)
      else if EqualFold input ''false'' then Ok (Some False)
      else Err (CreateError kinder cx InternalError (''invalid boolean format: '' @ input) None))"

definition StringToStringPtr :: "string \<Rightarrow> ('e, string option) res" where
  "StringToStringPtr input = (if input = [] then Ok None else Ok (Some input))"

definition ms_layout :: string where
  "ms_layout = ''2006-01-02T15:04:05.000-0700''"

definition RFC3339 :: string where
  "RFC3339 = ''2006-01-02T15:04:05Z07:00''"

definition parse_either :: "(string \<Rightarrow> string \<Rightarrow> 'x + 't) \<Rightarrow> string \<Rightarrow> string \<Rightarrow> 'x + 't" where
  "parse_either parse first second =
     (case parse ms_layout first of Inr t \<Rightarrow> Inr t | Inl _ \<Rightarrow> parse RFC3339 second)"

definition StringToTimePtr ::
  "(string \<Rightarrow> string \<Rightarrow> 'x + 't) \<Rightarrow> ('x \<Rightarrow> Kind option) \<Rightarrow> 'cfg ctx \<Rightarrow> string \<Rightarrow> ('x cerr, 't option) res" where
  "StringToTimePtr parse kinder cx input =
     (if input = [] then Ok None
      else case parse_either parse input input of
             Inl e \<Rightarrow> Err (CreateError kinder cx InternalError (''invalid time format: '' @ input) (Some (OtherErr e)))
           | Inr t \<Rightarrow> Ok (Some t))"

abbreviation quote :: char where
  "quote \<equiv> CHR 0x22"

definition JSONTime_MarshalJSON :: "(string \<Rightarrow> 't \<Rightarrow> string) \<Rightarrow> 't \<Rightarrow> string" where
  "JSONTime_MarshalJSON format t = [quote] @ format ms_layout t @ [quote]"

text \<open>The first attempt sees the text without its quotes, the second one the raw data.\<close>

definition JSONTime_UnmarshalJSON :: "(string \<Rightarrow> string \<Rightarrow> 'x + 't) \<Rightarrow> string \<Rightarrow> ('x, 't) res" where
  "JSONTime_UnmarshalJSON parse data =
     (case parse_either parse (filter (\<lambda>c. c \<noteq> quote) data) data of Inl e \<Rightarrow> Err e | Inr t \<Rightarrow> Ok t)"

section \<open>Query parameters (convert/query.go)\<close>

text \<open>A value by its reflected kind, with the text \<^verbatim>\<open>fmt.Sprint\<close> gives it or its elements.\<close>

datatype query_value = QInvalid | QSlice "string list" | QScalar string | QOther string

type_synonym url_values = "(string \<times> string list) list"

definition values_of :: "url_values \<Rightarrow> string \<Rightarrow> string list" where
  "values_of ps k = (case map_of ps k of None \<Rightarrow> [] | Some vs \<Rightarrow> vs)"

definition values_add :: "url_values \<Rightarrow> string \<Rightarrow> string \<Rightarrow> url_values" where
  "values_add ps k v = put_assoc k (values_of ps k @ [v]) ps"

fun EncodeQueryParam :: "url_values \<Rightarrow> string \<Rightarrow> query_value \<Rightarrow> url_values" where
  "EncodeQueryParam params key QInvalid = params"
| "EncodeQueryParam params key (QSlice vs) = fold (\<lambda>v ps. values_add ps key v) vs params"
| "EncodeQueryParam params key (QScalar v) = values_add params key v"
| "EncodeQueryParam params key (QOther v) = values_add params key v"

section \<open>Durations and times (jsontime)\<close>

definition Duration_MarshalJSON :: "(int \<Rightarrow> string) \<Rightarrow> int \<Rightarrow> string" where
  "Duration_MarshalJSON show_duration d = [quote] @ show_duration d @ [quote]"

definition slice_bounds :: string where
  "slice_bounds = ''slice bounds out of range''"

definition Duration_UnmarshalJSON :: "(string \<Rightarrow> 'x + int) \<Rightarrow> string \<Rightarrow> ('x, int) res" where
  "Duration_UnmarshalJSON ParseDuration data =
     (if data = ''null'' then Ok 0
      else if length data < 2 then Panic slice_bounds
      else case ParseDuration (butlast (tl data)) of Inl e \<Rightarrow> Err e | Inr d \<Rightarrow> Ok d)"

text \<open>\<open>decoded\<close> is the string the YAML decoder hands over.\<close>

definition Duration_UnmarshalYAML :: "(string \<Rightarrow> 'x + int) \<Rightarrow> 'x + string \<Rightarrow> ('x, int) res" where
  "Duration_UnmarshalYAML ParseDuration decoded =
     (case decoded of
        Inl e \<Rightarrow> Err e
      | Inr s \<Rightarrow> if s = [] then Ok 0
                else case ParseDuration s of Inl e \<Rightarrow> Err e | Inr d \<Rightarrow> Ok d)"

definition Duration_MarshalYAML :: "(int \<Rightarrow> string) \<Rightarrow> int \<Rightarrow> string" where
  "Duration_MarshalYAML show_duration d = show_duration d"

text \<open>A decoded value is a string or something else; \<open>wants_duration\<close> says what the target type is.\<close>

definition DurationMapstructureDecodeHookFunc ::
  "(string \<Rightarrow> 'x + int) \<Rightarrow> bool \<Rightarrow> string + 'v \<Rightarrow> ('x, (string + 'v) + int) res" where
  "DurationMapstructureDecodeHookFunc ParseDuration wants_duration data =
     (case data of
        Inr v \<Rightarrow> Ok (Inl data)
      | Inl s \<Rightarrow> if \<not> wants_duration then Ok (Inl data)
                else case ParseDuration s of Inl e \<Rightarrow> Err e | Inr d \<Rightarrow> Ok (Inr d))"

definition RFC3339Nano :: string where
  "RFC3339Nano = ''2006-01-02T15:04:05.999999999Z07:00''"

definition Time_MarshalYAML :: "('t \<Rightarrow> int) \<Rightarrow> (string \<Rightarrow> 't \<Rightarrow> string) \<Rightarrow> 't \<Rightarrow> (string, string) res" where
  "Time_MarshalYAML year format t =
     (if year t < 0 \<or> year t > 10000 then Err ''Time.MarshalYAML: year outside range [0,9999]''
      else Ok (format RFC3339Nano t))"

text \<open>The text \<^verbatim>\<open>null\<close> leaves the target as it is.\<close>

definition Time_UnmarshalYAML ::
  "(string \<Rightarrow> string \<Rightarrow> 'x + 't) \<Rightarrow> 't \<Rightarrow> 'x + string \<Rightarrow> ('x, 't) res" where
  "Time_UnmarshalYAML parse old decoded =
     (case decoded of
        Inl e \<Rightarrow> Err e
      | Inr s \<Rightarrow> if s = ''null'' then Ok old
                else case parse RFC3339Nano s of Inl e \<Rightarrow> Err e | Inr t \<Rightarrow> Ok t)"

definition Time_UnmarshalJSON :: "(string \<Rightarrow> 'x + 't) \<Rightarrow> string \<Rightarrow> ('x, 't) res" where
  "Time_UnmarshalJSON unmarshal data = (case unmarshal data of Inl e \<Rightarrow> Err e | Inr t \<Rightarrow> Ok t)"

section \<open>Scanning decimal text\<close>

definition digits_nat :: "nat \<Rightarrow> string \<Rightarrow> nat" where
  "digits_nat n ds = foldl (\<lambda>n c. n * 10 + (of_char c - 48)) n ds"

lemma digits_nat_simps [simp]:
  "digits_nat n [] = n"
  "digits_nat n (c # cs) = digits_nat (n * 10 + (of_char c - 48)) cs"
  by (simp_all add: digits_nat_def)

lemma digits_nat_ge: "n \<le> digits_nat n ds"
proof (induction ds arbitrary: n)
  case (Cons c cs)
  have "n \<le> n * 10 + (of_char c - 48)" by simp
  also have "\<dots> \<le> digits_nat (n * 10 + (of_char c - 48)) cs" by (rule Cons)
  finally show ?case by simp
qed simp

lemma cutoff: "n \<ge> uint64_cutoff \<Longrightarrow> n * 10 \<ge> 2 ^ 64"
  by (simp add: uint64_cutoff_def)

text \<open>On digits only, the scan computes the number or detects that it leaves 64 bits.\<close>

lemma scan_digits:
  "list_all is_digit ds \<Longrightarrow> n < 2 ^ 64 \<Longrightarrow>
     scan_uint n ds = (if digits_nat n ds < 2 ^ 64 then Inr (digits_nat n ds) else Inl ErrRange)"
proof (induction ds arbitrary: n)
  case (Cons c cs)
  let ?n1 = "n * 10 + (of_char c - 48)"
  show ?case
  proof (cases "?n1 < 2 ^ 64")
    case True
    then have "\<not> n \<ge> uint64_cutoff" using cutoff[of n] by linarith
    then show ?thesis using Cons True by simp
  next
    case False
    then have "\<not> digits_nat ?n1 cs < 2 ^ 64" using digits_nat_ge[of ?n1 cs] by linarith
    then show ?thesis using Cons.prems False by simp
  qed
qed simp

lemma scan_not_digits: "\<not> list_all is_digit ds \<Longrightarrow> \<exists>e. scan_uint n ds = Inl e"
  by (induction n ds rule: scan_uint.induct) (auto simp: Let_def)

lemma digits_value_nat:
  "list_all is_digit ds \<Longrightarrow> foldl (\<lambda>n c. 10 * n + (int (of_char c) - 48)) (int n) ds = int (digits_nat n ds)"
proof (induction ds arbitrary: n)
  case (Cons c cs)
  then have e: "10 * int n + (int (of_char c) - 48) = int (n * 10 + (of_char c - 48))"
    by (simp add: is_digit_def of_nat_diff)
  show ?case unfolding foldl.simps digits_nat_simps e by (rule Cons.IH) (use Cons.prems in simp)
qed simp

text \<open>\<^verbatim>\<open>ParseInt\<close> succeeds exactly on decimal numbers of 64 bits, with their value.\<close>

lemma ParseInt_Atoi: "(case ParseInt s of (v, None) \<Rightarrow> Some v | (_, Some _) \<Rightarrow> None) = Atoi s"
proof -
  obtain neg ds where s: "split_sign s = (neg, ds)" by fastforce
  have sign: "(case s of [] \<Rightarrow> (False, [])
      | c # cs \<Rightarrow> if c = CHR ''-'' then (True, cs) else if c = CHR ''+'' then (False, cs) else (False, s)) = (neg, ds)"
    using s by (auto simp: split_sign_def split: list.splits if_splits)
  show ?thesis
  proof (cases "ds \<noteq> [] \<and> list_all is_digit ds")
    case True
    then have "digits_value ds = int (digits_nat 0 ds)"
      using digits_value_nat[of ds 0] by (simp add: digits_value_def)
    moreover have "scan_uint 0 ds = (if digits_nat 0 ds < 2 ^ 64 then Inr (digits_nat 0 ds) else Inl ErrRange)"
      using True by (simp add: scan_digits)
    ultimately show ?thesis using True s sign by (simp add: ParseInt_def Atoi_def Let_def)
  next
    case False
    then have "ds = [] \<or> (\<exists>e. scan_uint 0 ds = Inl e)" using scan_not_digits by blast
    then have "\<exists>v e. ParseInt s = (v, Some e)"
      using s by (auto simp: ParseInt_def Let_def split: num_err.splits)
    then show ?thesis using False sign by (auto simp: Atoi_def)
  qed
qed

section \<open>Printed numbers\<close>

lemma digit_of: "d < 10 \<Longrightarrow> is_digit (char_of (48 + d)) \<and> of_char (char_of (48 + d) :: char) = (48 + d :: nat)"
  by (simp add: is_digit_def)

lemma show_nat_digits: "list_all is_digit (show_nat n)"
proof (induction n rule: show_nat.induct)
  case (1 n)
  then show ?case
    by (subst show_nat.simps) (use digit_of in \<open>simp add: digit_of\<close>)
qed

lemma digits_nat_append: "digits_nat n (xs @ ys) = digits_nat (digits_nat n xs) ys"
  by (simp add: digits_nat_def)

lemma digits_show_nat: "digits_nat 0 (show_nat n) = n"
proof (induction n rule: show_nat.induct)
  case (1 n)
  then show ?case
    by (subst show_nat.simps) (simp add: digits_nat_append digit_of)
qed

lemma show_nat_nonempty: "show_nat n \<noteq> []"
  by (subst show_nat.simps) simp

lemma show_nat_unsigned: "split_sign (show_nat n) = (False, show_nat n)"
proof -
  obtain c cs where c: "show_nat n = c # cs" using show_nat_nonempty by (cases "show_nat n") auto
  then have "is_digit c" using show_nat_digits[of n] by simp
  then have "c \<noteq> CHR ''+''" "c \<noteq> CHR ''-''" by (auto simp: is_digit_def)
  with c show ?thesis by (simp add: split_sign_def)
qed

lemma digits_value_show: "digits_value (show_nat n) = int n"
  using digits_value_nat[OF show_nat_digits, of 0 n] by (simp add: digits_value_def digits_show_nat)

lemma Atoi_show_int: "Atoi (show_int i) = (if - (2 ^ 63) \<le> i \<and> i < 2 ^ 63 then Some i else None)"
proof (cases "i < 0")
  case True
  then show ?thesis
    by (simp add: Atoi_def show_int_def show_nat_nonempty show_nat_digits digits_value_show)
next
  case False
  obtain c cs where c: "show_nat (nat i) = c # cs" using show_nat_nonempty by (cases "show_nat (nat i)") auto
  then have "c \<noteq> CHR ''-''" "c \<noteq> CHR ''+''"
    using show_nat_unsigned[of "nat i"] by (auto simp: split_sign_def split: if_splits)
  then show ?thesis
    using False c show_nat_digits[of "nat i"] digits_value_show[of "nat i"]
    by (simp add: Atoi_def show_int_def)
qed

section \<open>Properties\<close>

text \<open>
  C31.  An optional integer parameter is read exactly when its text is a decimal number of 64 bits, with
  that value; in particular every 64-bit number printed in decimal is read back, and every larger one
  is refused.
\<close>

theorem int_parameters:
  "(StringToIntPtr kinder cx s = Ok (Some v) \<longleftrightarrow> Atoi s = Some v) \<and>
   (StringToIntPtr kinder cx (show_int i) = Ok (Some i) \<longleftrightarrow> - (2 ^ 63) \<le> i \<and> i < 2 ^ 63)"
proof -
  have "StringToIntPtr kinder cx s = Ok (Some v) \<longleftrightarrow> Atoi s = Some v" for s v
    using ParseInt_Atoi[of s]
    by (cases "ParseInt s") (auto simp: StringToIntPtr_def Atoi_def split: option.splits)
  then show ?thesis by (simp add: Atoi_show_int)
qed

text \<open>
  The times of package convert: printing and reading back is the identity wherever the time package's
  own layout round trip is; but the RFC 3339 fallback of the JSON decoder sees the text with its
  quotes, so a quoted text that is not in the millisecond layout is always refused, while the query
  parameter decoder accepts it.
\<close>

theorem time_texts:
  assumes quoted: "\<And>s. quote \<in> set s \<Longrightarrow> \<exists>e. parse RFC3339 s = Inl e"
    and plain: "quote \<notin> set s" "s \<noteq> []"
  shows "(JSONTime_UnmarshalJSON parse ([quote] @ s @ [quote]) = Ok t \<longleftrightarrow> parse ms_layout s = Inr t) \<and>
    (StringToTimePtr parse kinder cx s = Ok (Some t) \<longleftrightarrow>
       parse ms_layout s = Inr t \<or> (\<exists>e. parse ms_layout s = Inl e) \<and> parse RFC3339 s = Inr t) \<and>
    (s = format ms_layout t \<and> parse ms_layout (format ms_layout t) = Inr t \<longrightarrow>
       JSONTime_UnmarshalJSON parse (JSONTime_MarshalJSON format t) = Ok t)"
proof -
  have "filter (\<lambda>c. c \<noteq> quote) ([quote] @ s @ [quote]) = s"
    using plain(1) by (induction s) auto
  moreover obtain e where "parse RFC3339 ([quote] @ s @ [quote]) = Inl e" using quoted by force
  ultimately have json: "JSONTime_UnmarshalJSON parse ([quote] @ s @ [quote]) = Ok t \<longleftrightarrow> parse ms_layout s = Inr t"
    by (auto simp: JSONTime_UnmarshalJSON_def parse_either_def split: sum.splits)
  then show ?thesis using plain(2)
    by (auto simp: StringToTimePtr_def parse_either_def JSONTime_MarshalJSON_def split: sum.splits)
qed

definition toy_parse :: "string \<Rightarrow> string \<Rightarrow> string + nat" where
  "toy_parse layout s =
     (if layout = ms_layout \<and> s = ''ms'' then Inr 1
      else if layout = RFC3339 \<and> s = ''rfc'' then Inr 2 else Inl ''cannot parse'')"

theorem time_texts_witness:
  "JSONTime_UnmarshalJSON toy_parse ([quote] @ ''rfc'' @ [quote]) \<noteq> Ok 2 \<and>
   StringToTimePtr toy_parse (\<lambda>_. None) (Background :: unit ctx) ''rfc'' = Ok (Some 2)"
proof -
  have q: "\<exists>e. toy_parse RFC3339 s = Inl e" if "quote \<in> set s" for s
    using that by (auto simp: toy_parse_def ms_layout_def RFC3339_def)
  have "toy_parse ms_layout ''rfc'' = Inl ''cannot parse''" "toy_parse RFC3339 ''rfc'' = Inr 2"
    by (simp_all add: toy_parse_def ms_layout_def RFC3339_def)
  then show ?thesis
    using time_texts[of toy_parse "''rfc''" 2 "\<lambda>_. None" "Background :: unit ctx" "\<lambda>_ _. []"] q by simp
qed

end
