(* ===== verification/ConfigDecoding.thy ===== *)
theory ConfigDecoding
  imports ConfigHelp ServiceConfig Convert
begin

text \<open>
  How the text of a configuration becomes typed values: the decode hook of config/configreaderimpl.go with the hook
  for secrets of config/sensitivestring.go, the validators of the configuration structures, and the type of the
  custom configuration that core/serve.go builds by reflection.

  The composition of hooks and two of the hooks belong to mapstructure and are arguments.
\<close>

section \<open>Decode hooks\<close>

datatype target = TDuration | TJsonDuration | TSensitive | TSlice | TOther nat

datatype 'v hdata = DString string | DLevel log_level | DDuration int | DSensitive SensitiveString | DOther 'v

type_synonym ('x, 'v) decode_hook = "target \<Rightarrow> 'v hdata \<Rightarrow> ('x, 'v hdata) res"

definition level_hook :: "('x, 'v) decode_hook" where
  "level_hook t data =
     (case data of
        DString s \<Rightarrow> (case log_level_hook (HString s) of HLevel l \<Rightarrow> Ok (DLevel l) | _ \<Rightarrow> Ok data)
      | _ \<Rightarrow> Ok data)"

definition duration_hook :: "(string \<Rightarrow> 'x + int) \<Rightarrow> ('x, 'v) decode_hook" where
  "duration_hook ParseDuration t data =
     and_then (DurationMapstructureDecodeHookFunc ParseDuration (t = TJsonDuration \<or> t = TDuration)
         (case data of DString s \<Rightarrow> Inl s | _ \<Rightarrow> Inr ())) (\<lambda>r.
       case r of Inl _ \<Rightarrow> Ok data | Inr d \<Rightarrow> Ok (DDuration d))"

definition StringToSensitiveStringHookFunc :: "('x, 'v) decode_hook" where
  "StringToSensitiveStringHookFunc t data =
     (case data of
        DString s \<Rightarrow> if t = TSensitive then Ok (DSensitive (NewSensitiveString s)) else Ok data
      | _ \<Rightarrow> Ok data)"

text \<open>\<open>compose\<close>, \<open>to_duration\<close> and \<open>to_slice\<close> are those of mapstructure.\<close>

definition makeDefaultDecodeHook ::
  "(('x, 'v) decode_hook list \<Rightarrow> ('x, 'v) decode_hook) \<Rightarrow> (string \<Rightarrow> 'x + int) \<Rightarrow> ('x, 'v) decode_hook \<Rightarrow>
     ('x, 'v) decode_hook \<Rightarrow> ('x, 'v) decode_hook" where
  "makeDefaultDecodeHook compose ParseDuration to_duration to_slice =
     compose [level_hook, duration_hook ParseDuration, to_duration, to_slice, StringToSensitiveStringHookFunc]"

text \<open>
  Documented: composed hooks are called in order, each with the result of the one before; the two library hooks change
  only strings, for a duration and for a slice.
\<close>

definition composes_in_order :: "(('x, 'v) decode_hook list \<Rightarrow> ('x, 'v) decode_hook) \<Rightarrow> bool" where
  "composes_in_order compose \<longleftrightarrow>
     (\<forall>t d. compose [] t d = Ok d) \<and> (\<forall>h hs t d. compose (h # hs) t d = and_then (h t d) (compose hs t))"

definition only_strings_for :: "target \<Rightarrow> ('x, 'v) decode_hook \<Rightarrow> bool" where
  "only_strings_for t0 h \<longleftrightarrow> (\<forall>t d. t \<noteq> t0 \<or> (\<forall>s. d \<noteq> DString s) \<longrightarrow> h t d = Ok d)"

section \<open>Validators\<close>

text \<open>A field handed to the validator of secrets: a secret, a pointer to one, or something else.\<close>

datatype secret_field = SecretValue SensitiveString | SecretPtr "SensitiveString option" | NoSecret

definition sensitiveStringValidator :: "secret_field \<Rightarrow> ('e, string option) res" where
  "sensitiveStringValidator field =
     (case field of
        SecretValue val \<Rightarrow> and_then (SensitiveString_Value (Some val)) (\<lambda>s. Ok (Some s))
      | SecretPtr val \<Rightarrow> and_then (SensitiveString_Value val) (\<lambda>s. Ok (Some s))
      | NoSecret \<Rightarrow> Ok None)"

text \<open>\<^verbatim>\<open>ValidateString\<close>: \<open>var\<close> is the tag check of the validator library, with the registrations.\<close>

definition ValidateString ::
  "('r list \<times> 's list \<Rightarrow> string \<Rightarrow> string \<Rightarrow> 'x option) \<Rightarrow> string \<Rightarrow> string \<Rightarrow> ('r, 's) validator_pkg \<Rightarrow>
     ('x, unit) res \<times> ('r, 's) validator_pkg" where
  "ValidateString var val tag p =
     (let p' = ensure_validator p
      in (case var (the (DefaultValidator p')) val tag of None \<Rightarrow> Ok () | Some x \<Rightarrow> Err x, p'))"

definition LibraryConfig_Validate ::
  "(LibraryConfig, 'r, 's, 'x) struct_check \<Rightarrow> LibraryConfig option \<Rightarrow> ('r, 's) validator_pkg \<Rightarrow>
     ('x, unit) res \<times> ('r, 's) validator_pkg" where
  "LibraryConfig_Validate check c p = Validate check (VPtr (map_option VOther c)) p"

definition CommonHTTPServerConfig_Validate ::
  "(CommonHTTPServerConfig, 'r, 's, 'x) struct_check \<Rightarrow> CommonHTTPServerConfig option \<Rightarrow> ('r, 's) validator_pkg \<Rightarrow>
     ('x, unit) res \<times> ('r, 's) validator_pkg" where
  "CommonHTTPServerConfig_Validate check c p = Validate check (VPtr (map_option VOther c)) p"

definition UpstreamConfig_Validate :: "UpstreamConfig option \<Rightarrow> ('x, unit) res" where
  "UpstreamConfig_Validate c = Ok ()"

section \<open>The type of the custom configuration\<close>

definition FieldByName :: "field list \<Rightarrow> string \<Rightarrow> field option" where
  "FieldByName fs name = List.find (\<lambda>f. f_Name f = name) fs"

text \<open>The field that \<^verbatim>\<open>FieldByName\<close> returns when there is none; \<open>0\<close> stands for the nil type.\<close>

definition zero_field :: field where
  "zero_field = \<lparr>f_Name = [], f_yaml = [], f_mapstructure = [], f_Type = 0\<rparr>"

text \<open>\<^verbatim>\<open>reflect.StructOf\<close> panics at the first field without a name.\<close>

fun StructOf_from :: "nat \<Rightarrow> field list \<Rightarrow> ('e, unit) res" where
  "StructOf_from i [] = Ok ()"
| "StructOf_from i (f # fs) =
     (if f_Name f = [] then Panic (''reflect.StructOf: field '' @ show_int (int i) @ '' has no name'')
      else StructOf_from (Suc i) fs)"

definition StructOf :: "field list \<Rightarrow> ('e, gokind) res" where
  "StructOf fs = and_then (StructOf_from 0 fs) (\<lambda>_. Ok (KStruct fs))"

definition missing :: "string \<Rightarrow> string" where
  "missing name = ''config.DefaultType missing '' @ name @ '' field''"

text \<open>
  \<open>genCode\<close> is the identifier of the new struct type for the generated part.  The result is the kind of the new
  configuration type with that of its generated part.  The test for the field \<^verbatim>\<open>Admin\<close> looks at the result of the
  lookup before it.
\<close>

definition NewZeroCustomConfig ::
  "field list \<Rightarrow> field list \<Rightarrow> tid \<Rightarrow> tid \<Rightarrow> tid \<Rightarrow> ('e, gokind \<times> gokind) res" where
  "NewZeroCustomConfig defaultConfigType genCodeType downstreamConfigType appConfigType genCode =
     (case FieldByName defaultConfigType ''Library'' of
        None \<Rightarrow> Panic (missing ''Library'')
      | Some libraryField \<Rightarrow>
          (let adminField = (case FieldByName defaultConfigType ''Admin'' of Some f \<Rightarrow> f | None \<Rightarrow> zero_field)
           in case FieldByName defaultConfigType ''Development'' of
                None \<Rightarrow> Panic (missing ''Development'')
              | Some developmentField \<Rightarrow>
                  (case FieldByName genCodeType ''Upstream'' of
                     None \<Rightarrow> Panic (missing ''Upstream'')
                   | Some upstreamField \<Rightarrow>
                       and_then (StructOf [upstreamField,
                           \<lparr>f_Name = ''Downstream'', f_yaml = [], f_mapstructure = ''downstream'', f_Type = downstreamConfigType\<rparr>]) (\<lambda>gen.
                       and_then (StructOf [libraryField, adminField,
                           \<lparr>f_Name = ''GenCode'', f_yaml = [], f_mapstructure = ''genCode'', f_Type = genCode\<rparr>,
                           developmentField,
                           \<lparr>f_Name = ''App'', f_yaml = [], f_mapstructure = ''app'', f_Type = appConfigType\<rparr>]) (\<lambda>outer.
                       Ok (outer, gen))))))"

section \<open>Properties\<close>

text \<open>The log level a text spells, if it does.\<close>

definition spelled_level :: "string \<Rightarrow> log_level option" where
  "spelled_level s = (case log_level_hook (HString s) of HLevel l \<Rightarrow> Some l | _ \<Rightarrow> None)"

lemma level_hook_string: "level_hook t (DString s) = (case spelled_level s of Some l \<Rightarrow> Ok (DLevel l) | None \<Rightarrow> Ok (DString s))"
  by (simp add: level_hook_def spelled_level_def split: hook_value.split)

lemmas hook_defs = level_hook_def duration_hook_def StringToSensitiveStringHookFunc_def
  DurationMapstructureDecodeHookFunc_def

text \<open>
  What a text of the configuration is decoded to.  A text that spells a log level, in any case of letters, becomes
  that level whatever the target is, so that a secret or a duration that reads so is lost; any other text becomes a
  duration for a duration (or the error of parsing it), a secret with that text for a secret, and is left alone for
  every other target but a slice.
\<close>

theorem config_text_decoding:
  assumes "composes_in_order compose" and "only_strings_for TDuration to_duration" and "only_strings_for TSlice to_slice"
    and "t \<noteq> TSlice"
  shows "makeDefaultDecodeHook compose ParseDuration to_duration to_slice t (DString s) =
    (case spelled_level s of
       Some l \<Rightarrow> Ok (DLevel l)
     | None \<Rightarrow>
         if t = TDuration \<or> t = TJsonDuration
         then (case ParseDuration s of Inl e \<Rightarrow> Err e | Inr d \<Rightarrow> Ok (DDuration d))
         else if t = TSensitive then Ok (DSensitive (NewSensitiveString s)) else Ok (DString s))"
proof -
  have lib: "to_duration t (DString s) = Ok (DString s)" if "t \<noteq> TDuration"
    using assms(2) that by (simp add: only_strings_for_def)
  have lib2: "to_slice t' d = Ok d" if "t' \<noteq> TSlice" for t' d using assms(3) that by (simp add: only_strings_for_def)
  have lib3: "to_duration t' (DLevel l) = Ok (DLevel l)" "to_duration t' (DDuration i) = Ok (DDuration i)" for t' l i
    using assms(2) by (simp_all add: only_strings_for_def)
  show ?thesis
    using assms(1,4) lib
    by (cases "spelled_level s"; cases "ParseDuration s")
      (auto simp: makeDefaultDecodeHook_def composes_in_order_def level_hook_string duration_hook_def
        DurationMapstructureDecodeHookFunc_def StringToSensitiveStringHookFunc_def lib2 lib3)
qed

text \<open>
  A secret given as text reaches validation with its text, and is printed as the replacement.
\<close>

theorem secret_text_is_validated:
  assumes "composes_in_order compose" and "only_strings_for TDuration to_duration" and "only_strings_for TSlice to_slice"
    and "spelled_level s = None"
  shows "\<exists>secret. makeDefaultDecodeHook compose ParseDuration to_duration to_slice TSensitive (DString s) = Ok (DSensitive secret) \<and>
    sensitiveStringValidator (SecretValue secret) = Ok (Some s) \<and> SensitiveString_String secret = DefaultReplacementText"
proof -
  have e: "to_duration TSensitive (DString s) = Ok (DString s)" "to_slice TSensitive (DString s) = Ok (DString s)"
    using assms(2,3) by (simp_all add: only_strings_for_def)
  have "makeDefaultDecodeHook compose ParseDuration to_duration to_slice TSensitive (DString s) = Ok (DSensitive (NewSensitiveString s))"
    using assms(1,4) e
    by (simp add: makeDefaultDecodeHook_def composes_in_order_def level_hook_string duration_hook_def
        DurationMapstructureDecodeHookFunc_def StringToSensitiveStringHookFunc_def)
  then show ?thesis
    by (simp add: sensitiveStringValidator_def SensitiveString_Value_def NewSensitiveString_def SensitiveString_String_def)
qed

lemma FieldByName_name: "FieldByName fs n = Some f \<Longrightarrow> f_Name f = n"
  by (auto simp: FieldByName_def find_Some_iff)

lemma FieldByName_None: "FieldByName fs n = None \<longleftrightarrow> n \<notin> f_Name ` set fs"
  by (auto simp: FieldByName_def find_None_iff)

lemma show_one: "show_int (int (Suc 0)) = ''1''"
  by code_simp

text \<open>
  The custom configuration has the five sections of a configuration file, the generated one with its two parts, under
  the tags of the source.  A default configuration type without \<^verbatim>\<open>Admin\<close> is not noticed by the test for it but by
  reflection.
\<close>

theorem custom_config_sections:
  assumes "''Library'' \<in> f_Name ` set dc" and "''Development'' \<in> f_Name ` set dc" and "''Upstream'' \<in> f_Name ` set gc"
  shows "if ''Admin'' \<in> f_Name ` set dc
    then \<exists>fs gs. NewZeroCustomConfig dc gc dt app gen = Ok (KStruct fs, KStruct gs) \<and>
      map f_Name fs = [''Library'', ''Admin'', ''GenCode'', ''Development'', ''App''] \<and>
      map f_Name gs = [''Upstream'', ''Downstream''] \<and> f_Type (fs ! 2) = gen \<and> f_Type (fs ! 4) = app \<and> f_Type (gs ! 1) = dt
    else NewZeroCustomConfig dc gc dt app gen = Panic ''reflect.StructOf: field 1 has no name''"
proof -
  obtain l where l: "FieldByName dc ''Library'' = Some l" using assms(1) FieldByName_None by fastforce
  obtain d where d: "FieldByName dc ''Development'' = Some d" using assms(2) FieldByName_None by fastforce
  obtain u where u: "FieldByName gc ''Upstream'' = Some u" using assms(3) FieldByName_None by fastforce
  note names = l[THEN FieldByName_name] d[THEN FieldByName_name] u[THEN FieldByName_name]
  show ?thesis
  proof (cases "FieldByName dc ''Admin''")
    case None
    then have "''Admin'' \<notin> f_Name ` set dc" by (simp add: FieldByName_None)
    then show ?thesis using None l d u names
      by (simp add: NewZeroCustomConfig_def StructOf_def zero_field_def show_one[simplified])
  next
    case (Some a)
    then have "''Admin'' \<in> f_Name ` set dc" using FieldByName_None[of dc "''Admin''"] by simp
    then show ?thesis using Some Some[THEN FieldByName_name] l d u names
      by (simp add: NewZeroCustomConfig_def StructOf_def)
  qed
qed

section \<open>Witnesses\<close>

fun compose_all :: "('x, 'v) decode_hook list \<Rightarrow> ('x, 'v) decode_hook" where
  "compose_all [] t d = Ok d"
| "compose_all (h # hs) t d = and_then (h t d) (compose_all hs t)"

lemma compose_all_in_order: "composes_in_order compose_all"
  by (simp add: composes_in_order_def)

lemma no_hook: "only_strings_for t0 (\<lambda>_ d. Ok d)"
  by (simp add: only_strings_for_def)

theorem config_text_decoding_witness:
  "makeDefaultDecodeHook compose_all (\<lambda>_. Inl ''bad'') (\<lambda>_ d. Ok d) (\<lambda>_ d. Ok d) TSensitive (DString ''Debug'') =
     (Ok (DLevel DebugLevel) :: (string, unit hdata) res)"
proof -
  have "spelled_level ''Debug'' = Some DebugLevel" by code_simp
  with config_text_decoding[OF compose_all_in_order no_hook no_hook, of TSensitive "\<lambda>_. Inl ''bad''" "''Debug''"]
  show ?thesis by simp
qed

theorem secret_text_is_validated_witness:
  "\<exists>secret. makeDefaultDecodeHook compose_all (\<lambda>_. Inl ''bad'') (\<lambda>_ d. Ok d) (\<lambda>_ d. Ok d) TSensitive (DString ''hunter2'') =
     (Ok (DSensitive secret) :: (string, unit hdata) res) \<and> sensitiveStringValidator (SecretValue secret) = (Ok (Some ''hunter2'') :: (unit, _) res)"
proof -
  have "spelled_level ''hunter2'' = None" by (simp add: spelled_level_def ToLower_def)
  from secret_text_is_validated[OF compose_all_in_order no_hook no_hook this, of "\<lambda>_. Inl ''bad''"]
  show ?thesis by (elim exE conjE, intro exI conjI) assumption+
qed

definition config_fields :: "string list \<Rightarrow> field list" where
  "config_fields = map (\<lambda>n. \<lparr>f_Name = n, f_yaml = [], f_mapstructure = [], f_Type = 1\<rparr>)"

theorem custom_config_sections_witness:
  "(\<exists>fs gs. NewZeroCustomConfig (config_fields [''Library'', ''Admin'', ''Development'']) (config_fields [''Upstream'']) 2 3 4 =
      (Ok (KStruct fs, KStruct gs) :: (unit, _) res) \<and> length fs = 5) \<and>
   NewZeroCustomConfig (config_fields [''Library'', ''Development'']) (config_fields [''Upstream'']) 2 3 4 =
      (Panic ''reflect.StructOf: field 1 has no name'' :: (unit, _) res)"
proof -
  let ?c = "config_fields [''Library'', ''Admin'', ''Development'']" and ?d = "config_fields [''Library'', ''Development'']"
  have 1: "''Library'' \<in> f_Name ` set ?c" "''Development'' \<in> f_Name ` set ?c"
    and 3: "''Library'' \<in> f_Name ` set ?d" "''Development'' \<in> f_Name ` set ?d"
    by (auto simp: config_fields_def)
  have 2: "''Upstream'' \<in> f_Name ` set (config_fields [''Upstream''])"
    and a: "''Admin'' \<in> f_Name ` set (config_fields [''Library'', ''Admin'', ''Development''])"
    and b: "''Admin'' \<notin> f_Name ` set (config_fields [''Library'', ''Development''])"
    by (auto simp: config_fields_def)
  have "\<exists>fs gs. NewZeroCustomConfig (config_fields [''Library'', ''Admin'', ''Development'']) (config_fields [''Upstream'']) 2 3 4 =
      (Ok (KStruct fs, KStruct gs) :: (unit, _) res) \<and> map f_Name fs = [''Library'', ''Admin'', ''GenCode'', ''Development'', ''App''] \<and>
      map f_Name gs = [''Upstream'', ''Downstream''] \<and> f_Type (fs ! 2) = 4 \<and> f_Type (fs ! 4) = 3 \<and> f_Type (gs ! 1) = 2"
    by (rule custom_config_sections[OF 1 2, of 2 3 4, unfolded if_P[OF a]])
  then obtain fs gs where f: "NewZeroCustomConfig (config_fields [''Library'', ''Admin'', ''Development'']) (config_fields [''Upstream'']) 2 3 4 =
      (Ok (KStruct fs, KStruct gs) :: (unit, _) res)" "map f_Name fs = [''Library'', ''Admin'', ''GenCode'', ''Development'', ''App'']"
    by (elim exE conjE) (rule that; assumption)
  moreover have "length fs = 5" using arg_cong[OF f(2), of length] by simp
  moreover have "NewZeroCustomConfig (config_fields [''Library'', ''Development'']) (config_fields [''Upstream'']) 2 3 4 =
      (Panic ''reflect.StructOf: field 1 has no name'' :: (unit, _) res)"
    using custom_config_sections[OF 3 2, of 2 3 4] b by simp
  ultimately show ?thesis by blast
qed

end
