(* ===== verification/StoppableServers.thy ===== *)
theory StoppableServers
  imports ServiceConfig "HOL-Library.Multiset"
begin

text \<open>
  The servers of a service and their life cycle (core/stoppableserver.go, the servers of core/http.go,
  core/grpc.go and core/temporal_serve.go, and the composite servers of core/serve.go).

  What the standard library's HTTP server, gRPC and the temporal worker return from their blocking
  calls is data of the leaf servers.  \<^verbatim>\<open>Start\<close> of a composite runs its sub-servers in
  goroutines that report over a channel of capacity one; \<^verbatim>\<open>Stop\<close> and
  \<^verbatim>\<open>GracefulStop\<close> collect the errors of all sub-servers, which finish in any order.
\<close>

section \<open>Errors\<close>

datatype 'x serr = LibError 'x | MultiError string "'x serr list" | Errorf string

fun MultiError_Error :: "('x \<Rightarrow> string) \<Rightarrow> 'x serr \<Rightarrow> string" where
  "MultiError_Error lib (LibError x) = lib x"
| "MultiError_Error lib (Errorf msg) = msg"
| "MultiError_Error lib (MultiError msg errs) =
     msg @ ''; sub-error(s): '' @ join_with ''; '' (map (MultiError_Error lib) errs)"

section \<open>Leaf servers\<close>

text \<open>
  \<^verbatim>\<open>ListenAndServe\<close> always returns an error, \<^verbatim>\<open>http.ErrServerClosed\<close> after a shutdown;
  \<^verbatim>\<open>Shutdown\<close> is given the time it may take.
\<close>

datatype 'x listen_end = ErrServerClosed | ListenErr 'x

datatype 'x shutdown_end = ShutdownDone | ShutdownDeadline | ShutdownErr 'x

record 'x net_http =
  ListenAndServe :: "'x listen_end"
  ListenAndServeTLS :: "'x listen_end"
  Shutdown :: "int \<Rightarrow> 'x shutdown_end"
  srv_Close :: "'x option"

record 'x httpServer =
  hs_cfg :: CommonHTTPServerConfig
  hs_server :: "'x net_http"
  hs_gracefulStopTimeout :: int
  hs_name :: string

definition defaultGracefulStopTimeout :: int where
  "defaultGracefulStopTimeout = 180 * 1000000000"

definition httpServer_Start :: "'x httpServer \<Rightarrow> 'x serr option" where
  "httpServer_Start s =
     (case (if ServerTLS (http_Common (hs_cfg s)) \<noteq> None then ListenAndServeTLS (hs_server s)
            else ListenAndServe (hs_server s)) of
        ErrServerClosed \<Rightarrow> None
      | ListenErr x \<Rightarrow> Some (LibError x))"

definition httpServer_Stop :: "'x httpServer \<Rightarrow> 'x serr option" where
  "httpServer_Stop s = map_option LibError (srv_Close (hs_server s))"

definition httpServer_GracefulStop :: "'x httpServer \<Rightarrow> 'x serr option" where
  "httpServer_GracefulStop s =
     (let timeout = (if hs_gracefulStopTimeout s \<noteq> 0 then hs_gracefulStopTimeout s
                     else defaultGracefulStopTimeout)
      in case Shutdown (hs_server s) timeout of
           ShutdownDone \<Rightarrow> None
         | ShutdownDeadline \<Rightarrow> httpServer_Stop s
         | ShutdownErr x \<Rightarrow> Some (LibError x))"

record 'x grpcServer =
  gs_cfg :: GRPCServerConfig
  gs_Listen :: "string \<Rightarrow> 'x option"
  gs_Serve :: "'x option"
  gs_name :: string

definition listen_addr :: "string \<Rightarrow> int \<Rightarrow> string" where
  "listen_addr host port = host @ '':'' @ show_int port"

definition grpcServer_Start :: "'x grpcServer \<Rightarrow> 'x serr option" where
  "grpcServer_Start s =
     (case gs_Listen s (listen_addr (HostName (gs_cfg s)) (Port (gs_cfg s))) of
        Some x \<Rightarrow> Some (LibError x)
      | None \<Rightarrow> map_option LibError (gs_Serve s))"

text \<open>
  A server built by a hook: its results are its own; \<open>None\<close> for \<open>cs_Start\<close> is a panic.
\<close>

record 'x customServer =
  cs_name :: string
  cs_Start :: "'x serr option option"
  cs_Stop :: "'x option"
  cs_GracefulStop :: "'x option"

datatype 'x server =
  HttpServer "'x httpServer"
| GrpcServer "'x grpcServer"
| TemporalServer "'x option"
| CustomServer "'x customServer"
| MultiServer "'x server list"
| AutogenServer string "'x server option"

fun GetName :: "'x server \<Rightarrow> string" where
  "GetName (HttpServer s) = hs_name s"
| "GetName (GrpcServer s) = gs_name s"
| "GetName (TemporalServer _) = ''autogenerated-temporal-server''"
| "GetName (CustomServer s) = cs_name s"
| "GetName (MultiServer _) = ''multiStoppableServer''"
| "GetName (AutogenServer name _) = name"

section \<open>Stopping\<close>

text \<open>
  The shared body of \<^verbatim>\<open>multiStoppableServer.Stop\<close> and
  \<^verbatim>\<open>GracefulStop\<close>: goroutine \<open>i\<close> ends with the result \<open>rs ! i\<close> of its sub-server and puts an
  error, if any, into a queue of capacity \<open>cap\<close>; it cannot finish while the queue is full.
\<close>

record 'e collect =
  finished :: "bool list"
  errQueue :: "'e list"

definition collect_start :: "nat \<Rightarrow> 'e collect" where
  "collect_start n = \<lparr>finished = replicate n False, errQueue = []\<rparr>"

inductive collect_step :: "'e option list \<Rightarrow> nat \<Rightarrow> 'e collect \<Rightarrow> 'e collect \<Rightarrow> bool"
  for rs :: "'e option list" and cap :: nat where
  no_error: "i < length rs \<Longrightarrow> \<not> finished s ! i \<Longrightarrow> rs ! i = None \<Longrightarrow>
     collect_step rs cap s (s\<lparr>finished := (finished s)[i := True]\<rparr>)"
| enqueue: "i < length rs \<Longrightarrow> \<not> finished s ! i \<Longrightarrow> rs ! i = Some e \<Longrightarrow> length (errQueue s) < cap \<Longrightarrow>
     collect_step rs cap s (s\<lparr>finished := (finished s)[i := True], errQueue := errQueue s @ [e]\<rparr>)"

inductive collect_reach :: "'e option list \<Rightarrow> nat \<Rightarrow> 'e collect \<Rightarrow> bool"
  for rs :: "'e option list" and cap :: nat where
  init: "collect_reach rs cap (collect_start (length rs))"
| step: "collect_reach rs cap s \<Longrightarrow> collect_step rs cap s s' \<Longrightarrow> collect_reach rs cap s'"

definition stop_result :: "string \<Rightarrow> 'x serr list \<Rightarrow> 'x serr option" where
  "stop_result msg errs = (if length errs > 0 then Some (MultiError msg errs) else None)"

definition multi_stopped :: "string \<Rightarrow> 'x serr option list \<Rightarrow> 'x serr option \<Rightarrow> bool" where
  "multi_stopped msg rs r =
     (\<exists>s. collect_reach rs (length rs) s \<and> list_all id (finished s) \<and> r = stop_result msg (errQueue s))"

definition stop_message :: "bool \<Rightarrow> string" where
  "stop_message graceful = (if graceful then ''error during graceful stop'' else ''error during stop'')"

text \<open>\<open>stops graceful s r\<close>: the call to \<open>s\<close> can return \<open>r\<close>.\<close>

inductive stops :: "bool \<Rightarrow> 'x server \<Rightarrow> 'x serr option \<Rightarrow> bool" for graceful :: bool where
  http: "stops graceful (HttpServer s) (if graceful then httpServer_GracefulStop s else httpServer_Stop s)"
| grpc: "stops graceful (GrpcServer s) None"
| temporal: "stops graceful (TemporalServer run) None"
| custom: "stops graceful (CustomServer s)
     (map_option LibError (if graceful then cs_GracefulStop s else cs_Stop s))"
| multi: "list_all2 (stops graceful) ss rs \<Longrightarrow> multi_stopped (stop_message graceful) rs r \<Longrightarrow>
     stops graceful (MultiServer ss) r"
| unstarted: "stops graceful (AutogenServer name None) None"
| started: "stops graceful s r \<Longrightarrow> stops graceful (AutogenServer name (Some s)) r"

section \<open>Starting\<close>

text \<open>How the \<^verbatim>\<open>Start\<close> of a sub-server ends, and what its goroutine then sends.\<close>

datatype 'x start_end = Returns "'x serr option" | Panics string

definition start_message :: "('x \<Rightarrow> string) \<Rightarrow> nat \<Rightarrow> string \<Rightarrow> 'x start_end \<Rightarrow> 'x serr option" where
  "start_message lib i name result =
     (case result of
        Returns None \<Rightarrow> None
      | Returns (Some e) \<Rightarrow> Some (Errorf (''server '' @ show_nat (i + 1) @ '' ('' @ name @
          '') returned an error: '' @ MultiError_Error lib e))
      | Panics p \<Rightarrow> Some (Errorf (''server '' @ show_nat (i + 1) @ '' ('' @ name @ '') panicked: '' @ p)))"

datatype 'm gor = Serving | Sending 'm | Sent

record 'm start_sys =
  gors :: "'m gor list"
  errChan :: "'m list"
  returned :: "'m option"

definition multi_start :: "nat \<Rightarrow> 'm start_sys" where
  "multi_start n = \<lparr>gors = replicate n Serving, errChan = [], returned = None\<rparr>"

text \<open>\<open>msgs ! i\<close> is what goroutine \<open>i\<close> sends once the \<^verbatim>\<open>Start\<close> of sub-server \<open>i\<close> has ended.\<close>

inductive multi_step :: "'m list \<Rightarrow> 'm start_sys \<Rightarrow> 'm start_sys \<Rightarrow> bool" for msgs :: "'m list" where
  terminate: "i < length (gors s) \<Longrightarrow> gors s ! i = Serving \<Longrightarrow>
     multi_step msgs s (s\<lparr>gors := (gors s)[i := Sending (msgs ! i)]\<rparr>)"
| send: "i < length (gors s) \<Longrightarrow> gors s ! i = Sending m \<Longrightarrow> length (errChan s) < 1 \<Longrightarrow>
     multi_step msgs s (s\<lparr>gors := (gors s)[i := Sent], errChan := errChan s @ [m]\<rparr>)"
| receive: "returned s = None \<Longrightarrow> errChan s = m # ms \<Longrightarrow>
     multi_step msgs s (s\<lparr>errChan := ms, returned := Some m\<rparr>)"

inductive multi_reach :: "'m list \<Rightarrow> 'm start_sys \<Rightarrow> 'm start_sys \<Rightarrow> bool" for msgs :: "'m list" where
  refl: "multi_reach msgs s s"
| step: "multi_reach msgs s t \<Longrightarrow> multi_step msgs t u \<Longrightarrow> multi_reach msgs s u"


definition sub_messages ::
  "('x \<Rightarrow> string) \<Rightarrow> 'x server list \<Rightarrow> 'x start_end list \<Rightarrow> 'x serr option list" where
  "sub_messages lib ss ends =
     map (\<lambda>i. start_message lib i (GetName (ss ! i)) (ends ! i)) [0..<length ss]"

section \<open>The errors a stop reports\<close>

fun flat :: "'x serr \<Rightarrow> 'x multiset" where
  "flat (LibError x) = {#x#}"
| "flat (Errorf msg) = {#}"
| "flat (MultiError msg errs) = sum_list (map flat errs)"

fun content :: "'x serr option \<Rightarrow> 'x multiset" where
  "content None = {#}"
| "content (Some e) = flat e"

text \<open>What the leaves below a server report when each is stopped once.\<close>

fun owed :: "bool \<Rightarrow> 'x server \<Rightarrow> 'x multiset" where
  "owed graceful (HttpServer s) = content (if graceful then httpServer_GracefulStop s else httpServer_Stop s)"
| "owed graceful (GrpcServer s) = {#}"
| "owed graceful (TemporalServer run) = {#}"
| "owed graceful (CustomServer s) =
     content (map_option LibError (if graceful then cs_GracefulStop s else cs_Stop s))"
| "owed graceful (MultiServer ss) = sum_list (map (owed graceful) ss)"
| "owed graceful (AutogenServer name None) = {#}"
| "owed graceful (AutogenServer name (Some s)) = owed graceful s"

definition reports :: "'x multiset \<Rightarrow> 'x serr option \<Rightarrow> bool" where
  "reports due r \<longleftrightarrow> content r = due \<and> (r = None \<longleftrightarrow> due = {#})"

fun opt_mset :: "'e option \<Rightarrow> 'e multiset" where
  "opt_mset None = {#}"
| "opt_mset (Some e) = {#e#}"

definition collected :: "'e option list \<Rightarrow> 'e collect \<Rightarrow> bool" where
  "collected rs s \<longleftrightarrow> length (finished s) = length rs \<and>
     mset (errQueue s) = (\<Sum>i<length rs. if finished s ! i then opt_mset (rs ! i) else {#})"

lemma sum_finish:
  assumes "i < n" and "\<not> f ! i" and "length f = n"
  shows "(\<Sum>j<n. if f[i := True] ! j then g j else {#}) =
     (\<Sum>j<n. if f ! j then g j else {#}) + (g i :: 'e multiset)"
proof -
  have "(\<Sum>j<n. if f[i := True] ! j then g j else {#}) =
      (\<Sum>j<n. (if f ! j then g j else {#}) + (if i = j then g j else {#}))"
    using assms by (intro sum.cong) (auto simp: nth_list_update)
  also have "\<dots> = (\<Sum>j<n. if f ! j then g j else {#}) + (\<Sum>j<n. if i = j then g j else {#})"
    by (rule sum.distrib)
  also have "(\<Sum>j<n. if i = j then g j else {#}) = g i"
    using assms(1) by (simp add: sum.delta)
  finally show ?thesis .
qed

lemma collected_reach: "collect_reach rs cap s \<Longrightarrow> collected rs s"
proof (induction rule: collect_reach.induct)
  case init
  then show ?case by (simp add: collected_def collect_start_def)
next
  case (step s s')
  from step(2,3) show ?case
    by (cases rule: collect_step.cases) (simp_all add: collected_def sum_finish)
qed

lemma collected_all:
  assumes "collected rs s" and "list_all id (finished s)"
  shows "mset (errQueue s) = sum_list (map opt_mset rs)"
proof -
  have "finished s ! i" if "i < length rs" for i
    using assms that by (auto simp: collected_def list_all_length)
  then have "mset (errQueue s) = (\<Sum>i<length rs. opt_mset (rs ! i))"
    using assms(1) by (simp add: collected_def)
  then show ?thesis by (simp add: sum_list_sum_nth atLeast0LessThan)
qed

text \<open>The queue has room for every goroutine that has not finished.\<close>

lemma size_collected:
  assumes "collected rs s"
  shows "length (errQueue s) \<le> card {i. i < length rs \<and> finished s ! i}"
proof -
  have "size (opt_mset r) \<le> 1" for r :: "'e option" by (cases r) auto
  then have "(\<Sum>i<length rs. size (if finished s ! i then opt_mset (rs ! i) else {#}))
      \<le> (\<Sum>i<length rs. if finished s ! i then 1 else 0)"
    by (intro sum_mono) auto
  also have "\<dots> = card {i. i < length rs \<and> finished s ! i}"
    by (simp add: sum.If_cases Int_def lessThan_def)
  finally have "size (mset (errQueue s)) \<le> card {i. i < length rs \<and> finished s ! i}"
    using assms by (simp add: collected_def size_multiset_sum)
  then show ?thesis by simp
qed


lemma collect_never_blocks:
  assumes "collected rs s" and "i < length rs" and "\<not> finished s ! i"
  obtains s' where "collect_step rs (length rs) s s'" and "finished s' = (finished s)[i := True]"
proof (cases "rs ! i")
  case None
  from collect_step.no_error[OF assms(2,3) None] show ?thesis by (rule that) simp
next
  case (Some e)
  have "{j. j < length rs \<and> finished s ! j} \<subset> {j. j < length rs}" using assms(2,3) by auto
  then have "card {j. j < length rs \<and> finished s ! j} < length rs"
    using psubset_card_mono[of "{j. j < length rs}"] by simp
  with size_collected[OF assms(1)] have "length (errQueue s) < length rs" by simp
  from collect_step.enqueue[OF assms(2,3) Some this] show ?thesis by (rule that) simp
qed

lemma collect_terminates:
  assumes "collect_reach rs (length rs) s"
  shows "\<exists>s'. collect_reach rs (length rs) s' \<and> list_all id (finished s')"
  using assms
proof (induction "length (filter Not (finished s))" arbitrary: s rule: less_induct)
  case less
  note inv = collected_reach[OF less.prems]
  show ?case
  proof (cases "list_all id (finished s)")
    case False
    then obtain i where i: "i < length rs" "\<not> finished s ! i"
      using inv by (auto simp: list_all_length collected_def)
    obtain s' where s': "collect_step rs (length rs) s s'" "finished s' = (finished s)[i := True]"
      by (rule collect_never_blocks[OF inv i])
    have "filter Not (finished s) = filter Not (take i (finished s)) @ False # filter Not (drop (Suc i) (finished s))"
      using i inv by (subst id_take_nth_drop[of i]) (auto simp: collected_def)
    moreover have "filter Not (finished s') = filter Not (take i (finished s)) @ filter Not (drop (Suc i) (finished s))"
      using i inv unfolding s'(2) by (subst upd_conv_take_nth_drop) (auto simp: collected_def)
    ultimately have "length (filter Not (finished s')) < length (filter Not (finished s))" by simp
    then show ?thesis using less.hyps collect_reach.step[OF less.prems s'(1)] by blast
  qed (use less.prems in blast)
qed

lemma multi_stopped_exists: "\<exists>r. multi_stopped msg rs r"
  using collect_terminates[OF collect_reach.init] by (auto simp: multi_stopped_def)

lemma multi_stopped_errors:
  assumes "multi_stopped msg rs r"
  obtains errs where "mset errs = sum_list (map opt_mset rs)" and "r = stop_result msg errs"
  using assms collected_all[OF collected_reach] by (auto simp: multi_stopped_def)

lemma sum_list_flat: "sum_list (map flat errs) = sum_mset (image_mset flat (mset errs))"
  by (induction errs) auto

lemma flat_opts: "sum_mset (image_mset flat (sum_list (map opt_mset rs))) = sum_list (map content rs)"
proof (induction rs)
  case (Cons r rs)
  then show ?case by (cases r) auto
qed simp

lemma opts_empty: "sum_list (map opt_mset rs) = {#} \<longleftrightarrow> (\<forall>r \<in> set rs. r = None)"
proof (induction rs)
  case (Cons r rs)
  then show ?case by (cases r) auto
qed simp

lemma reports_all:
  "list_all2 (\<lambda>s r. reports (due s) r) ss rs \<Longrightarrow>
     sum_list (map content rs) = sum_list (map due ss) \<and>
     ((\<forall>r \<in> set rs. r = None) \<longleftrightarrow> sum_list (map due ss) = {#})"
  by (induction rule: list_all2_induct) (auto simp: reports_def)

text \<open>If every sub-server reports what it owes, so does the composite.\<close>

lemma multi_reports:
  assumes "list_all2 (\<lambda>s r. reports (due s) r) ss rs" and "multi_stopped msg rs r"
  shows "reports (sum_list (map due ss)) r"
proof -
  obtain errs where errs: "mset errs = sum_list (map opt_mset rs)" "r = stop_result msg errs"
    using assms(2) by (rule multi_stopped_errors)
  have "content r = sum_list (map flat errs)"
    using errs(2) by (auto simp: stop_result_def)
  also have "\<dots> = sum_list (map due ss)"
    using reports_all[OF assms(1)] by (simp add: sum_list_flat errs(1) flat_opts)
  moreover have "r = None \<longleftrightarrow> (\<forall>r \<in> set rs. r = None)"
    using errs opts_empty[of rs] by (auto simp: stop_result_def simp flip: mset_zero_iff)
  ultimately show ?thesis using reports_all[OF assms(1)] by (simp add: reports_def)
qed

lemma reports_none: "reports {#} None"
  by (simp add: reports_def)

lemma reports_leaf: "reports (content (map_option LibError x)) (map_option LibError x)"
  by (cases x) (auto simp: reports_def)

lemma reports_http:
  "reports (content (if graceful then httpServer_GracefulStop s else httpServer_Stop s))
     (if graceful then httpServer_GracefulStop s else httpServer_Stop s)"
  by (auto simp: httpServer_GracefulStop_def httpServer_Stop_def reports_leaf Let_def
      reports_leaf[of "Some _", simplified] reports_leaf[of None, simplified] split: shutdown_end.splits)

lemma stops_reports: "stops graceful s r \<Longrightarrow> reports (owed graceful s) r"
proof (induction rule: stops.induct)
  case (multi ss rs r)
  then have "list_all2 (\<lambda>s r. reports (owed graceful s) r) ss rs" by (simp add: list_all2_mono)
  with multi show ?case by (simp add: multi_reports)
qed (simp_all only: owed.simps reports_http reports_leaf reports_none)

lemma pick_results: "(\<forall>s \<in> set ss. \<exists>r. P s r) \<Longrightarrow> \<exists>rs. list_all2 P ss rs"
  by (induction ss) (auto intro: list_all2_Cons1[THEN iffD2])

lemma stops_returns: "\<exists>r. stops graceful s r"
proof (induction s)
  case (MultiServer ss)
  then obtain rs where "list_all2 (stops graceful) ss rs" using pick_results[of ss "stops graceful"] by blast
  moreover obtain r where "multi_stopped (stop_message graceful) rs r" using multi_stopped_exists by blast
  ultimately show ?case by (blast intro: stops.multi)
next
  case (AutogenServer name sub)
  then show ?case by (cases sub) (auto intro: stops.unstarted stops.started)
qed (auto intro: stops.intros)


section \<open>The contract of a stoppable server\<close>

text \<open>
  What a client of \<^verbatim>\<open>StoppableServer\<close> relies on: a stop returns, and it returns exactly the errors
  that are owed.
\<close>

locale stoppable =
  fixes stop :: "'s \<Rightarrow> 'r option \<Rightarrow> bool"
    and errors_in :: "'r option \<Rightarrow> 'x multiset"
    and due :: "'s \<Rightarrow> 'x multiset"
  assumes stop_returns: "\<exists>r. stop s r"
    and stop_reports: "stop s r \<Longrightarrow> errors_in r = due s \<and> (r = None \<longleftrightarrow> due s = {#})"
begin

lemma clean_stop_iff: "stop s None \<longleftrightarrow> due s = {#}"
proof
  assume "due s = {#}"
  moreover obtain r where "stop s r" using stop_returns by blast
  ultimately show "stop s None" using stop_reports by blast
qed (use stop_reports in blast)

lemma outcome_determined: "stop s r \<Longrightarrow> stop s r' \<Longrightarrow> errors_in r = errors_in r' \<and> (r = None \<longleftrightarrow> r' = None)"
  using stop_reports by metis

end

interpretation hard_stop: stoppable "stops False" content "owed False"
  by unfold_locales (rule stops_returns, rule stops_reports[unfolded reports_def])

interpretation graceful_stop: stoppable "stops True" content "owed True"
  by unfold_locales (rule stops_returns, rule stops_reports[unfolded reports_def])

section \<open>The first server to end\<close>

definition sent :: "'m start_sys \<Rightarrow> nat" where
  "sent s = card {i. i < length (gors s) \<and> gors s ! i = Sent}"

definition sent_by :: "'m list \<Rightarrow> 'm gor list \<Rightarrow> 'm \<Rightarrow> bool" where
  "sent_by msgs gs m \<longleftrightarrow> (\<exists>i < length msgs. gs ! i = Sent \<and> m = msgs ! i)"

definition own_message :: "'m list \<Rightarrow> 'm gor list \<Rightarrow> bool" where
  "own_message msgs gs \<longleftrightarrow> (\<forall>i < length msgs. \<forall>m. gs ! i = Sending m \<longrightarrow> m = msgs ! i)"

definition start_inv :: "'m list \<Rightarrow> 'm start_sys \<Rightarrow> bool" where
  "start_inv msgs s \<longleftrightarrow> length (gors s) = length msgs \<and> length (errChan s) \<le> 1 \<and>
     sent s = length (errChan s) + (if returned s = None then 0 else 1) \<and>
     own_message msgs (gors s) \<and>
     (\<forall>m. m \<in> set (errChan s) \<or> returned s = Some m \<longrightarrow> sent_by msgs (gors s) m)"

lemma sent_update:
  assumes "i < length (gors s)" and "gors s ! i \<noteq> Sent"
  shows "card {j. j < length (gors s) \<and> (gors s)[i := Sent] ! j = Sent} = Suc (sent s)"
    and "g \<noteq> Sent \<Longrightarrow> card {j. j < length (gors s) \<and> (gors s)[i := g] ! j = Sent} = sent s"
proof -
  have "{j. j < length (gors s) \<and> (gors s)[i := Sent] ! j = Sent} =
      insert i {j. j < length (gors s) \<and> gors s ! j = Sent}"
    using assms(1) by (auto simp: nth_list_update)
  then show "card {j. j < length (gors s) \<and> (gors s)[i := Sent] ! j = Sent} = Suc (sent s)"
    using assms(2) by (simp add: sent_def)
  show "card {j. j < length (gors s) \<and> (gors s)[i := g] ! j = Sent} = sent s" if "g \<noteq> Sent"
    unfolding sent_def using assms that by (intro arg_cong[of _ _ card]) (auto simp: nth_list_update)
qed

lemma sent_by_update: "sent_by msgs gs m \<Longrightarrow> gs ! i \<noteq> Sent \<Longrightarrow> sent_by msgs (gs[i := g]) m"
  unfolding sent_by_def by (metis nth_list_update_neq)

lemma own_message_update:
  "own_message msgs gs \<Longrightarrow> length gs = length msgs \<Longrightarrow> own_message msgs (gs[i := Sent])"
  "own_message msgs gs \<Longrightarrow> length gs = length msgs \<Longrightarrow> own_message msgs (gs[i := Sending (msgs ! i)])"
  unfolding own_message_def by (metis gor.distinct gor.inject nth_list_update_eq nth_list_update_neq)+

lemma sent_by_new: "i < length msgs \<Longrightarrow> i < length gs \<Longrightarrow> sent_by msgs (gs[i := Sent]) (msgs ! i)"
  unfolding sent_by_def by (intro exI[of _ i]) simp

lemma start_inv_step:
  assumes "multi_step msgs s s'" and "start_inv msgs s"
  shows "start_inv msgs s'"
  using assms(1)
proof (cases rule: multi_step.cases)
  case (terminate i)
  then have "sent s' = sent s" using sent_update(2)[of i s "Sending (msgs ! i)"] by (simp add: sent_def)
  then show ?thesis using terminate assms(2)
    by (simp add: start_inv_def sent_by_update own_message_update)
next
  case (send i m)
  then have "sent s' = Suc (sent s)" using sent_update(1)[of i s] by (simp add: sent_def)
  moreover have i: "i < length msgs" "i < length (gors s)" "gors s ! i = Sending m" "errChan s = []"
    using send assms(2) by (simp_all add: start_inv_def)
  moreover have m: "m = msgs ! i" using assms(2) i by (simp add: start_inv_def own_message_def)
  moreover have "sent_by msgs ((gors s)[i := Sent]) m" unfolding m using i(1,2) by (rule sent_by_new)
  ultimately show ?thesis using send(1) assms(2)
    by (simp add: start_inv_def sent_by_update own_message_update)
next
  case (receive m ms)
  then have "sent s' = sent s" by (simp add: sent_def)
  then show ?thesis using receive assms(2) by (auto simp: start_inv_def)
qed

lemma start_inv_from: "multi_reach msgs s0 s \<Longrightarrow> start_inv msgs s0 \<Longrightarrow> start_inv msgs s"
  by (induction rule: multi_reach.induct) (auto intro: start_inv_step)

lemma start_inv_init: "start_inv msgs (multi_start (length msgs))"
  by (simp add: start_inv_def multi_start_def sent_def own_message_def)

lemmas start_inv_reach = start_inv_from[OF _ start_inv_init]

text \<open>A goroutine that finds the channel full after the composite has returned stays blocked.\<close>

lemma stays_blocked:
  assumes "multi_reach msgs s s'" and "returned s \<noteq> None" and "length (errChan s) = 1"
    and "i < length (gors s)" and "gors s ! i = Sending m"
  shows "returned s' \<noteq> None \<and> length (errChan s') = 1 \<and> length (gors s') = length (gors s) \<and>
    gors s' ! i = Sending m"
  using assms
proof (induction rule: multi_reach.induct)
  case (step s t u)
  then have IH: "returned t \<noteq> None" "length (errChan t) = 1" "length (gors t) = length (gors s)"
      "gors t ! i = Sending m" by auto
  from step.hyps(2) show ?case
    by (cases rule: multi_step.cases) (use IH step.prems in \<open>auto simp: nth_list_update\<close>)
qed simp

lemma reach_one: "multi_step msgs s t \<Longrightarrow> multi_reach msgs s t"
  by (rule multi_reach.step[OF multi_reach.refl])

lemma reach_trans: "multi_reach msgs t u \<Longrightarrow> multi_reach msgs s t \<Longrightarrow> multi_reach msgs s u"
  by (induction rule: multi_reach.induct) (auto intro: multi_reach.step)

lemma reach_two: "multi_step msgs s t \<Longrightarrow> multi_step msgs t u \<Longrightarrow> multi_reach msgs s u"
  by (rule multi_reach.step[OF reach_one])

text \<open>Once one sub-server has ended, \<^verbatim>\<open>Start\<close> can return.\<close>

lemma can_return:
  assumes "start_inv msgs s" and "i < length msgs" and "gors s ! i \<noteq> Serving"
  shows "\<exists>s'. multi_reach msgs s s' \<and> returned s' \<noteq> None"
proof (cases "returned s")
  case None
  show ?thesis
  proof (cases "errChan s")
    case Nil
    have "gors s ! i \<noteq> Sent"
    proof
      assume "gors s ! i = Sent"
      then have "sent s > 0" using assms(1,2) by (auto simp: sent_def start_inv_def card_gt_0_iff)
      then show False using assms(1) Nil None by (simp add: start_inv_def)
    qed
    then obtain m where m: "gors s ! i = Sending m" using assms(3) by (cases "gors s ! i") auto
    have "multi_step msgs s (s\<lparr>gors := (gors s)[i := Sent], errChan := errChan s @ [m]\<rparr>)"
      using assms m Nil by (intro multi_step.send) (auto simp: start_inv_def)
    from reach_two[OF this multi_step.receive[of _ m "[]"]] show ?thesis
      using None Nil by (intro exI conjI) auto
  qed (use multi_step.receive[OF None] reach_one in fastforce)
qed (use multi_reach.refl in auto)

section \<open>Properties\<close>


definition failing_server :: "string \<Rightarrow> nat customServer" where
  "failing_server name =
     \<lparr>cs_name = name, cs_Start = Some None, cs_Stop = Some 7, cs_GracefulStop = None\<rparr>"


text \<open>
  C28.  In every interleaving of the goroutines of a composite server's \<^verbatim>\<open>Start\<close>: what it returns is
  the message of a sub-server that has ended; once one has ended it can return; at most two goroutines
  ever get rid of their message, and after the return every further one is blocked for good.
\<close>

theorem start_returns_first_end:
  assumes "multi_reach msgs (multi_start n) s" and "msgs = sub_messages lib ss ends" and "n = length ss"
  shows "(\<forall>r. returned s = Some r \<longrightarrow>
            (\<exists>i < n. gors s ! i = Sent \<and> r = start_message lib i (GetName (ss ! i)) (ends ! i))) \<and>
    ((\<exists>i < n. gors s ! i \<noteq> Serving) \<longrightarrow> (\<exists>s'. multi_reach msgs s s' \<and> returned s' \<noteq> None)) \<and>
    card {i. i < n \<and> gors s ! i = Sent} \<le> 2 \<and>
    (\<forall>i m s'. returned s \<noteq> None \<and> errChan s \<noteq> [] \<and> i < n \<and> gors s ! i = Sending m \<and>
       multi_reach msgs s s' \<longrightarrow> gors s' ! i = Sending m)"
proof (intro conjI)
  have len: "length msgs = n" using assms(2,3) by (simp add: sub_messages_def)
  have inv: "start_inv msgs s" using assms(1) len start_inv_reach by blast
  then have n: "length (gors s) = n" using len by (simp add: start_inv_def)
  show "\<forall>r. returned s = Some r \<longrightarrow>
      (\<exists>i < n. gors s ! i = Sent \<and> r = start_message lib i (GetName (ss ! i)) (ends ! i))"
  proof (intro allI impI)
    fix r assume "returned s = Some r"
    then have "sent_by msgs (gors s) r" using inv by (simp add: start_inv_def)
    then obtain i where "i < n" "gors s ! i = Sent" "r = msgs ! i" using len by (auto simp: sent_by_def)
    then show "\<exists>i < n. gors s ! i = Sent \<and> r = start_message lib i (GetName (ss ! i)) (ends ! i)"
      using assms(2,3) by (auto simp: sub_messages_def intro!: exI[of _ i])
  qed
  show "(\<exists>i < n. gors s ! i \<noteq> Serving) \<longrightarrow> (\<exists>s'. multi_reach msgs s s' \<and> returned s' \<noteq> None)"
    using can_return[OF inv] len by blast
  show "card {i. i < n \<and> gors s ! i = Sent} \<le> 2"
    using inv n by (auto simp: start_inv_def sent_def split: if_splits)
  show "\<forall>i m s'. returned s \<noteq> None \<and> errChan s \<noteq> [] \<and> i < n \<and> gors s ! i = Sending m \<and>
      multi_reach msgs s s' \<longrightarrow> gors s' ! i = Sending m"
  proof (intro allI impI, elim conjE)
    fix i m s'
    assume a: "returned s \<noteq> None" "errChan s \<noteq> []" "i < n" "gors s ! i = Sending m" "multi_reach msgs s s'"
    have "length (errChan s) = 1" using inv a(2) by (cases "errChan s") (auto simp: start_inv_def)
    with stays_blocked[OF a(5,1)] a(3,4) n show "gors s' ! i = Sending m" by simp
  qed
qed

definition blocked_state :: "unit serr option start_sys" where
  "blocked_state = \<lparr>gors = [Sent, Sent, Sending None], errChan = [None], returned = Some None\<rparr>"

definition three_servers :: "unit server list" where
  "three_servers = replicate 3 (TemporalServer None)"

lemma sub_messages_three: "sub_messages lib three_servers (replicate 3 (Returns None)) = [None, None, None]"
  by (simp add: sub_messages_def three_servers_def start_message_def upt_rec numeral_3_eq_3)

lemma blocked_reachable: "multi_reach [None, None, None] (multi_start 3) blocked_state"
proof -
  let ?S = "\<lambda>g c r. \<lparr>gors = g, errChan = c, returned = r\<rparr> :: unit serr option start_sys"
  let ?M = "[None, None, None] :: unit serr option list"
  have "multi_step ?M (?S [Serving, Serving, Serving] [] None) (?S [Sending None, Serving, Serving] [] None)"
    using multi_step.terminate[of 0 "?S [Serving, Serving, Serving] [] None" ?M] by simp
  moreover have "multi_step ?M (?S [Sending None, Serving, Serving] [] None) (?S [Sent, Serving, Serving] [None] None)"
    using multi_step.send[of 0 "?S [Sending None, Serving, Serving] [] None" None ?M] by simp
  ultimately have 1: "multi_reach ?M (?S [Serving, Serving, Serving] [] None) (?S [Sent, Serving, Serving] [None] None)"
    by (rule reach_two)
  have "multi_step ?M (?S [Sent, Serving, Serving] [None] None) (?S [Sent, Serving, Serving] [] (Some None))"
    using multi_step.receive[of "?S [Sent, Serving, Serving] [None] None" None "[]" ?M] by simp
  moreover have "multi_step ?M (?S [Sent, Serving, Serving] [] (Some None)) (?S [Sent, Sending None, Serving] [] (Some None))"
    using multi_step.terminate[of 1 "?S [Sent, Serving, Serving] [] (Some None)" ?M] by simp
  ultimately have 2: "multi_reach ?M (?S [Sent, Serving, Serving] [None] None) (?S [Sent, Sending None, Serving] [] (Some None))"
    by (rule reach_two)
  have "multi_step ?M (?S [Sent, Sending None, Serving] [] (Some None)) (?S [Sent, Sent, Serving] [None] (Some None))"
    using multi_step.send[of 1 "?S [Sent, Sending None, Serving] [] (Some None)" None ?M] by simp
  moreover have "multi_step ?M (?S [Sent, Sent, Serving] [None] (Some None)) blocked_state"
    using multi_step.terminate[of 2 "?S [Sent, Sent, Serving] [None] (Some None)" ?M]
    by (simp add: blocked_state_def numeral_2_eq_2)
  ultimately have 3: "multi_reach ?M (?S [Sent, Sending None, Serving] [] (Some None)) blocked_state"
    by (rule reach_two)
  show ?thesis
    using reach_trans[OF 3 reach_trans[OF 2 1]] by (simp add: multi_start_def numeral_3_eq_3)
qed

theorem start_returns_first_end_witness:
  "\<not> (\<exists>s'. multi_reach [None, None, None] blocked_state s' \<and> gors s' ! 2 \<noteq> Sending None)"
  using start_returns_first_end[OF blocked_reachable sub_messages_three[of "\<lambda>_. []", symmetric],
      THEN conjunct2, THEN conjunct2, THEN conjunct2, rule_format, of 2 None]
  by (auto simp: three_servers_def blocked_state_def)

end
