(* ===== verification/TimeoutHandler.thy ===== *)
theory TimeoutHandler
  imports RequestContext
begin

text \<open>
  \<^verbatim>\<open>common/timeout.go\<close> and \<^verbatim>\<open>common/async.go\<close>: a handler that runs in its own goroutine against a
  buffering writer while the caller waits for its end, its panic or the deadline; and futures.

  Both are step relations whose steps interleave the goroutines.  The handler is the list of the
  actions it performs on its writer; the two critical sections guarded by the writer's mutex (a
  write, and each branch of the select) are single steps.
\<close>

section \<open>The buffering writer\<close>

record timeoutWriter =
  tw_h :: header
  tw_wbuf :: string
  tw_timedOut :: bool
  tw_wroteHeader :: bool
  tw_code :: int

definition new_tw :: timeoutWriter where
  "new_tw = \<lparr>tw_h = [], tw_wbuf = [], tw_timedOut = False, tw_wroteHeader = False, tw_code = 0\<rparr>"

definition checkWriteHeaderCode :: "int \<Rightarrow> (unit, unit) res" where
  "checkWriteHeaderCode code =
     (if code < 100 \<or> code > 999 then Panic (''invalid WriteHeader code '' @ show_int code) else Ok ())"

definition writeHeaderLocked :: "timeoutWriter \<Rightarrow> int \<Rightarrow> (unit, timeoutWriter) res" where
  "writeHeaderLocked tw code =
     and_then (checkWriteHeaderCode code) (\<lambda>_.
       Ok (if tw_timedOut tw then tw
           else if tw_wroteHeader tw then tw
           else tw\<lparr>tw_wroteHeader := True, tw_code := code\<rparr>))"

definition timeoutWriter_WriteHeader :: "timeoutWriter \<Rightarrow> int \<Rightarrow> (unit, timeoutWriter) res" where
  "timeoutWriter_WriteHeader tw code = writeHeaderLocked tw code"

definition ErrHandlerTimeout :: string where
  "ErrHandlerTimeout = ''http: Handler timeout''"

text \<open>\<^verbatim>\<open>Write\<close>: the number of bytes or the error, and the writer afterwards.\<close>

definition timeoutWriter_Write ::
  "timeoutWriter \<Rightarrow> string \<Rightarrow> (string, nat) res \<times> timeoutWriter" where
  "timeoutWriter_Write tw p =
     (if tw_timedOut tw then (Err ErrHandlerTimeout, tw)
      else
        (let tw1 = (if tw_wroteHeader tw then tw
                    else (case writeHeaderLocked tw 200 of Ok t \<Rightarrow> t | _ \<Rightarrow> tw))
         in (Ok (length p), tw1\<lparr>tw_wbuf := tw_wbuf tw1 @ p\<rparr>)))"

section \<open>The handler\<close>

datatype action = SetHeader string string | CallWriteHeader int | CallWrite string | DoPanic string

fun act :: "action \<Rightarrow> timeoutWriter \<Rightarrow> (unit, timeoutWriter) res" where
  "act (SetHeader k v) tw = Ok (tw\<lparr>tw_h := header_set (tw_h tw) k v\<rparr>)"
| "act (CallWriteHeader code) tw = timeoutWriter_WriteHeader tw code"
| "act (CallWrite p) tw = Ok (snd (timeoutWriter_Write tw p))"
| "act (DoPanic m) tw = Panic m"

text \<open>The handler run to its end with no deadline.\<close>

fun run :: "action list \<Rightarrow> timeoutWriter \<Rightarrow> (unit, timeoutWriter) res" where
  "run [] tw = Ok tw"
| "run (a # as) tw = and_then (act a tw) (run as)"

text \<open>The branch of the select for a finished handler: copy the headers, send status and body.\<close>

definition deliver :: "response_writer \<Rightarrow> timeoutWriter \<Rightarrow> (unit, response_writer) res" where
  "deliver w tw =
     (let w1 = w\<lparr>rw_header := fold (\<lambda>(k, vv) dst. put_assoc k vv dst) (tw_h tw) (rw_header w)\<rparr>;
          code = (if tw_wroteHeader tw then tw_code tw else 200)
      in and_then (WriteHeader w1 code) (\<lambda>w2. Ok (Write w2 (tw_wbuf tw))))"

section \<open>timeoutHandler.ServeHTTP\<close>

datatype goroutine = Running "action list" | Done | Panicked string

datatype outcome = Waiting | Delivered | TimedOut | Repanicked string

record tsys =
  ts_g :: goroutine
  ts_tw :: timeoutWriter
  ts_w :: response_writer
  ts_deadline :: bool
  ts_out :: outcome

definition tstart :: "action list \<Rightarrow> response_writer \<Rightarrow> tsys" where
  "tstart as w = \<lparr>ts_g = Running as, ts_tw = new_tw, ts_w = w, ts_deadline = False, ts_out = Waiting\<rparr>"

text \<open>\<open>onTimeout\<close> is the timeout handler, on the real writer.\<close>

inductive tstep :: "(response_writer \<Rightarrow> (unit, response_writer) res) \<Rightarrow> tsys \<Rightarrow> tsys \<Rightarrow> bool"
  for onTimeout where
  act_ok: "ts_g s = Running (a # as) \<Longrightarrow> act a (ts_tw s) = Ok tw \<Longrightarrow>
    tstep onTimeout s (s\<lparr>ts_g := Running as, ts_tw := tw\<rparr>)"
| act_panic: "ts_g s = Running (a # as) \<Longrightarrow> act a (ts_tw s) = Panic p \<Longrightarrow>
    tstep onTimeout s (s\<lparr>ts_g := Panicked p\<rparr>)"
| close_done: "ts_g s = Running [] \<Longrightarrow> tstep onTimeout s (s\<lparr>ts_g := Done\<rparr>)"
| deadline: "tstep onTimeout s (s\<lparr>ts_deadline := True\<rparr>)"
| select_done: "ts_out s = Waiting \<Longrightarrow> ts_g s = Done \<Longrightarrow> deliver (ts_w s) (ts_tw s) = Ok w \<Longrightarrow>
    tstep onTimeout s (s\<lparr>ts_out := Delivered, ts_w := w\<rparr>)"
| select_panic: "ts_out s = Waiting \<Longrightarrow> ts_g s = Panicked p \<Longrightarrow>
    tstep onTimeout s (s\<lparr>ts_out := Repanicked p\<rparr>)"
| select_timeout: "ts_out s = Waiting \<Longrightarrow> ts_deadline s \<Longrightarrow> onTimeout (ts_w s) = Ok w \<Longrightarrow>
    tstep onTimeout s (s\<lparr>ts_out := TimedOut, ts_w := w, ts_tw := (ts_tw s)\<lparr>tw_timedOut := True\<rparr>\<rparr>)"

inductive treach ::
  "(response_writer \<Rightarrow> (unit, response_writer) res) \<Rightarrow> action list \<Rightarrow> response_writer \<Rightarrow> tsys \<Rightarrow> bool"
  for onTimeout as w where
  start: "treach onTimeout as w (tstart as w)"
| step: "treach onTimeout as w s \<Longrightarrow> tstep onTimeout s s' \<Longrightarrow> treach onTimeout as w s'"

section \<open>Lemmas\<close>

lemma writeHeader_wf:
  "writeHeaderLocked tw c = Ok tw' \<Longrightarrow> (tw_wroteHeader tw \<longrightarrow> 100 \<le> tw_code tw \<and> tw_code tw \<le> 999) \<Longrightarrow>
     tw_wroteHeader tw' \<longrightarrow> 100 \<le> tw_code tw' \<and> tw_code tw' \<le> 999"
  by (auto simp: writeHeaderLocked_def checkWriteHeaderCode_def split: if_splits)

lemma act_no_err: "act a tw \<noteq> Err e"
  by (cases a) (auto simp: timeoutWriter_WriteHeader_def writeHeaderLocked_def checkWriteHeaderCode_def)

text \<open>While nothing is decided the buffered state is that of the handler run so far.\<close>

definition tw_wf :: "timeoutWriter \<Rightarrow> bool" where
  "tw_wf tw \<longleftrightarrow> (tw_wroteHeader tw \<longrightarrow> 100 \<le> tw_code tw \<and> tw_code tw \<le> 999)"

lemma tw_wf_new [simp]: "tw_wf new_tw"
  by (simp add: tw_wf_def new_tw_def)

lemma act_wf: "act a tw = Ok tw' \<Longrightarrow> tw_wf tw \<Longrightarrow> tw_wf tw'"
  by (cases a)
     (auto simp: tw_wf_def timeoutWriter_WriteHeader_def timeoutWriter_Write_def writeHeaderLocked_def
       checkWriteHeaderCode_def Let_def split: if_splits)

lemma act_timedOut: "act a tw = Ok tw' \<Longrightarrow> tw_timedOut tw' = tw_timedOut tw"
  by (cases a)
     (auto simp: timeoutWriter_WriteHeader_def timeoutWriter_Write_def writeHeaderLocked_def
       checkWriteHeaderCode_def Let_def split: if_splits)

lemma deliver_total: "tw_wf tw \<Longrightarrow> \<exists>w'. deliver w tw = Ok w'"
  by (auto simp: deliver_def WriteHeader_def tw_wf_def Let_def)

fun pending :: "goroutine \<Rightarrow> timeoutWriter \<Rightarrow> (unit, timeoutWriter) res" where
  "pending (Running as) tw = run as tw"
| "pending Done tw = Ok tw"
| "pending (Panicked p) tw = Panic p"

definition tinv ::
  "(response_writer \<Rightarrow> (unit, response_writer) res) \<Rightarrow> action list \<Rightarrow> response_writer \<Rightarrow> tsys \<Rightarrow> bool" where
  "tinv onTimeout as w s \<longleftrightarrow>
     tw_wf (ts_tw s) \<and>
     (case ts_out s of
        Waiting \<Rightarrow> ts_w s = w \<and> \<not> tw_timedOut (ts_tw s) \<and> pending (ts_g s) (ts_tw s) = run as new_tw
      | Delivered \<Rightarrow> \<exists>tw. run as new_tw = Ok tw \<and> deliver w tw = Ok (ts_w s) \<and> ts_g s = Done
      | TimedOut \<Rightarrow> ts_deadline s \<and> onTimeout w = Ok (ts_w s) \<and> tw_timedOut (ts_tw s)
      | Repanicked p \<Rightarrow> ts_w s = w \<and> run as new_tw = Panic p \<and> ts_g s = Panicked p)"

lemma tinv_start: "tinv onTimeout as w (tstart as w)"
  by (simp add: tinv_def tstart_def) (simp add: new_tw_def)

lemma tinv_step:
  assumes "tinv onTimeout as w s" and "tstep onTimeout s s'"
  shows "tinv onTimeout as w s'"
  using assms(2)
proof cases
  case (act_ok a as' tw)
  with assms(1) act_wf [OF act_ok(3)] act_timedOut [OF act_ok(3)] show ?thesis
    by (auto simp: tinv_def split: outcome.splits)
next
  case (act_panic a as' p)
  with assms(1) show ?thesis by (auto simp: tinv_def split: outcome.splits)
next
  case close_done
  with assms(1) show ?thesis by (auto simp: tinv_def split: outcome.splits)
next
  case deadline
  with assms(1) show ?thesis by (auto simp: tinv_def split: outcome.splits)
next
  case (select_done w')
  with assms(1) have "run as new_tw = Ok (ts_tw s)" "ts_w s = w" "tw_wf (ts_tw s)"
    by (simp_all add: tinv_def)
  with select_done show ?thesis by (simp add: tinv_def)
next
  case (select_panic p)
  with assms(1) show ?thesis by (auto simp: tinv_def)
next
  case (select_timeout w')
  with assms(1) show ?thesis by (simp add: tinv_def tw_wf_def)
qed

lemma treach_inv: "treach onTimeout as w s \<Longrightarrow> tinv onTimeout as w s"
proof (induction rule: treach.induct)
  case start
  then show ?case by (rule tinv_start)
next
  case (step s s')
  then show ?case by (blast intro: tinv_step)
qed

section \<open>Futures (common/async.go)\<close>

text \<open>
  What the function did: returned a value and an error, or panicked.  \<open>as_chan\<close> is the buffered
  channel; \<open>as_got\<close> lists what the calls of \<^verbatim>\<open>Get\<close> have returned.
\<close>

datatype ('o, 'e) fn_end = Returned "'o option" "'e option" | FnPanic string

datatype 'e future_err = FnErr 'e | PanicErr string | CtxErr ctx_err

type_synonym ('o, 'e) AsyncResult = "'o option \<times> 'e future_err option"

definition async_result :: "('o, 'e) fn_end \<Rightarrow> ('o, 'e) AsyncResult" where
  "async_result f =
     (case f of Returned ob e \<Rightarrow> (ob, map_option FnErr e) | FnPanic p \<Rightarrow> (None, Some (PanicErr p)))"

record ('o, 'e) async_sys =
  as_finished :: "('o, 'e) fn_end option"
  as_chan :: "('o, 'e) AsyncResult list"
  as_ctx :: "ctx_err option"
  as_got :: "('o, 'e) AsyncResult list"

definition Async :: "('o, 'e) async_sys" where
  "Async = \<lparr>as_finished = None, as_chan = [], as_ctx = None, as_got = []\<rparr>"

inductive astep :: "('o, 'e) async_sys \<Rightarrow> ('o, 'e) async_sys \<Rightarrow> bool" where
  fn_end: "as_finished s = None \<Longrightarrow>
    astep s (s\<lparr>as_finished := Some f, as_chan := as_chan s @ [async_result f]\<rparr>)"
| ctx_done: "as_ctx s = None \<Longrightarrow> astep s (s\<lparr>as_ctx := Some c\<rparr>)"
| get_result: "as_chan s = r # rs \<Longrightarrow> astep s (s\<lparr>as_chan := rs, as_got := as_got s @ [r]\<rparr>)"
| get_ctx: "as_ctx s = Some c \<Longrightarrow> astep s (s\<lparr>as_got := as_got s @ [(None, Some (CtxErr c))]\<rparr>)"

inductive areach :: "('o, 'e) async_sys \<Rightarrow> bool" where
  areach_start: "areach Async"
| areach_step: "areach s \<Longrightarrow> astep s s' \<Longrightarrow> areach s'"

definition is_ctx_result :: "('o, 'e) AsyncResult \<Rightarrow> bool" where
  "is_ctx_result r \<longleftrightarrow> (\<exists>c. r = (None, Some (CtxErr c)))"

definition ainv :: "('o, 'e) async_sys \<Rightarrow> bool" where
  "ainv s \<longleftrightarrow>
     (\<forall>c. (None, Some (CtxErr c)) \<in> set (as_got s) \<longrightarrow> as_ctx s = Some c) \<and>
     (case as_finished s of
        None \<Rightarrow> as_chan s = [] \<and> filter (\<lambda>r. \<not> is_ctx_result r) (as_got s) = []
      | Some f \<Rightarrow> filter (\<lambda>r. \<not> is_ctx_result r) (as_got s) @ as_chan s = [async_result f])"

lemma async_result_not_ctx: "\<not> is_ctx_result (async_result f)"
  by (cases f) (auto simp: async_result_def is_ctx_result_def)

lemma ainv_step:
  assumes "ainv s" "astep s s'"
  shows "ainv s'"
  using assms(2)
proof cases
  case (fn_end f)
  with assms(1) show ?thesis by (simp add: ainv_def)
next
  case (ctx_done c)
  with assms(1) show ?thesis by (auto simp: ainv_def split: option.splits)
next
  case (get_result r rs)
  with assms(1) obtain f where f: "as_finished s = Some f" "r = async_result f" "rs = []"
      "filter (\<lambda>r. \<not> is_ctx_result r) (as_got s) = []"
    by (auto simp: ainv_def split: option.splits simp: append_eq_Cons_conv)
  moreover have "(None, Some (CtxErr c)) \<noteq> async_result f" for c
    using async_result_not_ctx [of f] unfolding is_ctx_result_def by metis
  ultimately show ?thesis
    using assms(1) get_result async_result_not_ctx [of f] by (auto simp: ainv_def)
next
  case (get_ctx c)
  with assms(1) show ?thesis by (auto simp: ainv_def is_ctx_result_def split: option.splits)
qed

lemma areach_inv: "areach s \<Longrightarrow> ainv s"
proof (induction rule: areach.induct)
  case areach_start
  then show ?case by (simp add: ainv_def Async_def)
next
  case (areach_step s s')
  then show ?case by (blast intro: ainv_step)
qed

section \<open>Properties\<close>

text \<open>
  C6.  Exactly one response.  In every interleaving of the handler, the deadline and the waiting
  caller, the real response writer is untouched until the caller decides, and then it holds
  either the complete response of the handler run to its end, or exactly what the timeout handler
  wrote (and only after the deadline), or nothing because the handler's panic is raised again;
  after a timeout every write of the handler fails with the timeout error.
\<close>

theorem timeout_exactly_one_response:
  assumes "treach onTimeout as w s"
  shows "case ts_out s of
      Waiting \<Rightarrow> ts_w s = w
    | Delivered \<Rightarrow> \<exists>tw. run as new_tw = Ok tw \<and> deliver w tw = Ok (ts_w s)
    | TimedOut \<Rightarrow> ts_deadline s \<and> onTimeout w = Ok (ts_w s) \<and>
        (\<forall>p. timeoutWriter_Write (ts_tw s) p = (Err ErrHandlerTimeout, ts_tw s))
    | Repanicked p \<Rightarrow> ts_w s = w \<and> run as new_tw = Panic p"
  using treach_inv [OF assms]
  by (auto simp: tinv_def timeoutWriter_Write_def split: outcome.splits)

definition plain_timeout :: "response_writer \<Rightarrow> (unit, response_writer) res" where
  "plain_timeout w = WriteHeader w 503"

definition timed_out_state :: tsys where
  "timed_out_state =
     (tstart [CallWrite ''hi''] new_writer)\<lparr>ts_deadline := True, ts_out := TimedOut,
        ts_w := new_writer\<lparr>rw_code := Some 503\<rparr>, ts_tw := new_tw\<lparr>tw_timedOut := True\<rparr>\<rparr>"

lemma timed_out_reachable: "treach plain_timeout [CallWrite ''hi''] new_writer timed_out_state"
proof -
  let ?s = "tstart [CallWrite ''hi''] new_writer"
  have "treach plain_timeout [CallWrite ''hi''] new_writer (?s\<lparr>ts_deadline := True\<rparr>)"
    by (rule treach.step [OF treach.start]) (rule tstep.deadline)
  moreover have "tstep plain_timeout (?s\<lparr>ts_deadline := True\<rparr>) timed_out_state"
    using tstep.select_timeout [of "?s\<lparr>ts_deadline := True\<rparr>" plain_timeout "new_writer\<lparr>rw_code := Some 503\<rparr>"]
    by (simp add: tstart_def timed_out_state_def plain_timeout_def WriteHeader_def new_writer_def)
  ultimately show ?thesis by (rule treach.step)
qed

theorem timeout_exactly_one_response_witness:
  "timeoutWriter_Write (ts_tw timed_out_state) ''more'' = (Err ErrHandlerTimeout, ts_tw timed_out_state)"
  using timeout_exactly_one_response [OF timed_out_reachable]
  by (simp add: timed_out_state_def)

text \<open>
  The caller is never stuck and decides once: when the handler has ended or the deadline has
  passed a deciding step is possible (the timeout handler does not panic), and after the decision
  neither the outcome nor the real writer changes any more.
\<close>

theorem timeout_decides_once:
  assumes "treach onTimeout as w s"
  shows "(ts_out s = Waiting \<and> (ts_g s = Done \<or> (\<exists>p. ts_g s = Panicked p) \<or>
            (ts_deadline s \<and> (\<exists>w'. onTimeout w = Ok w'))) \<longrightarrow>
            (\<exists>s'. tstep onTimeout s s' \<and> ts_out s' \<noteq> Waiting)) \<and>
         (ts_out s \<noteq> Waiting \<and> tstep onTimeout s s' \<longrightarrow> ts_out s' = ts_out s \<and> ts_w s' = ts_w s)"
proof (intro conjI impI)
  assume "ts_out s = Waiting \<and> (ts_g s = Done \<or> (\<exists>p. ts_g s = Panicked p) \<or>
    (ts_deadline s \<and> (\<exists>w'. onTimeout w = Ok w')))"
  moreover from this treach_inv [OF assms] have "ts_w s = w" "tw_wf (ts_tw s)" by (simp_all add: tinv_def)
  moreover obtain v where "deliver (ts_w s) (ts_tw s) = Ok v"
    using deliver_total [OF \<open>tw_wf (ts_tw s)\<close>] by blast
  ultimately consider w' where "ts_out s = Waiting" "ts_deadline s" "onTimeout (ts_w s) = Ok w'"
    | v where "ts_out s = Waiting" "ts_g s = Done" "deliver (ts_w s) (ts_tw s) = Ok v"
    | p where "ts_out s = Waiting" "ts_g s = Panicked p"
    by blast
  then show "\<exists>s'. tstep onTimeout s s' \<and> ts_out s' \<noteq> Waiting"
  proof cases
    case 1
    from tstep.select_timeout [where onTimeout = onTimeout, OF this] show ?thesis by (intro exI conjI) (assumption, simp)
  next
    case 2
    from tstep.select_done [OF this] show ?thesis by (intro exI conjI) (assumption, simp)
  next
    case 3
    from tstep.select_panic [OF this] show ?thesis by (intro exI conjI) (assumption, simp)
  qed
next
  assume "ts_out s \<noteq> Waiting \<and> tstep onTimeout s s'"
  then have "tstep onTimeout s s'" "ts_out s \<noteq> Waiting" by simp_all
  then show "ts_out s' = ts_out s" "ts_w s' = ts_w s" by (cases, simp_all)+
qed

theorem timeout_decides_once_witness:
  "\<exists>s'. tstep plain_timeout (tstart [] new_writer\<lparr>ts_g := Done\<rparr>) s' \<and> ts_out s' \<noteq> Waiting"
proof -
  have "treach plain_timeout [] new_writer (tstart [] new_writer\<lparr>ts_g := Done\<rparr>)"
    by (rule treach.step [OF treach.start], rule tstep.close_done) (simp add: tstart_def)
  from timeout_decides_once [OF this] show ?thesis by (simp add: tstart_def)
qed

text \<open>
  A future hands out the result of its function at most once.  Every value a call of \<^verbatim>\<open>Get\<close>
  returned is that result (a panic of the function as an error) or the error of the context, and
  only after the context is done; after the result has been taken, a further call can return only
  once the context is done, so under a context that never ends it blocks.
\<close>

theorem future_result_once:
  assumes "areach s"
  shows "(\<forall>r. r \<in> set (as_got s) \<longrightarrow>
            (\<exists>f. as_finished s = Some f \<and> r = async_result f) \<or>
            (\<exists>c. as_ctx s = Some c \<and> r = (None, Some (CtxErr c)))) \<and>
         length (filter (\<lambda>r. \<not> is_ctx_result r) (as_got s)) \<le> 1 \<and>
         (list_ex (\<lambda>r. \<not> is_ctx_result r) (as_got s) \<and> as_ctx s = None \<and> astep s s' \<longrightarrow>
            as_got s' = as_got s)"
proof -
  note inv = areach_inv [OF assms]
  have len: "length (filter (\<lambda>r. \<not> is_ctx_result r) (as_got s)) \<le> 1"
    using inv by (auto simp: ainv_def append_eq_Cons_conv split: option.splits)
  have all: "(\<exists>f. as_finished s = Some f \<and> r = async_result f) \<or>
      (\<exists>c. as_ctx s = Some c \<and> r = (None, Some (CtxErr c)))" if r: "r \<in> set (as_got s)" for r
  proof (cases "is_ctx_result r")
    case True
    with r inv show ?thesis by (auto simp: ainv_def is_ctx_result_def)
  next
    case False
    define F where "F = filter (\<lambda>r. \<not> is_ctx_result r) (as_got s)"
    have "case as_finished s of None \<Rightarrow> F = [] | Some f \<Rightarrow> F @ as_chan s = [async_result f]"
      using inv by (auto simp: ainv_def F_def split: option.splits)
    moreover have "r \<in> set F" using r False by (simp add: F_def)
    ultimately show ?thesis by (auto simp: append_eq_Cons_conv split: option.splits)
  qed
  have "as_got s' = as_got s"
    if "list_ex (\<lambda>r. \<not> is_ctx_result r) (as_got s)" "as_ctx s = None" "astep s s'"
  proof -
    have "filter (\<lambda>r. \<not> is_ctx_result r) (as_got s) \<noteq> []"
      using that(1) by (auto simp: list_ex_iff filter_empty_conv)
    then have "as_chan s = []"
      using inv by (auto simp: ainv_def append_eq_Cons_conv split: option.splits)
    with that(3,2) show ?thesis by (cases) auto
  qed
  with all len show ?thesis by blast
qed

definition taken_state :: "(nat, unit) async_sys" where
  "taken_state = \<lparr>as_finished = Some (Returned (Some 1) None), as_chan = [], as_ctx = None,
     as_got = [(Some 1, None)]\<rparr>"

lemma taken_reachable: "areach taken_state"
proof -
  let ?f = "Returned (Some (1 :: nat)) (None :: unit option)"
  have "areach (Async\<lparr>as_finished := Some ?f, as_chan := as_chan Async @ [async_result ?f]\<rparr>)"
    by (rule areach_step [OF areach_start], rule astep.fn_end) (simp add: Async_def)
  from areach_step [OF this astep.get_result [of _ "async_result ?f" "[]"]] show ?thesis
    by (simp add: Async_def taken_state_def async_result_def)
qed

theorem future_result_once_witness:
  "length (filter (\<lambda>r. \<not> is_ctx_result r) (as_got taken_state)) \<le> 1"
  using future_result_once [OF taken_reachable] by blast

end
