(* ===== verification/ServerSetup.thy ===== *)
theory ServerSetup
  imports StoppableServers TimeoutHandler
begin

text \<open>
  How a service assembles its servers: the middleware stacks (core/middleware.go), the HTTP listeners
  and their routers (core/http.go), the gRPC listener (core/grpc.go) and
  \<^verbatim>\<open>autogenServer.Start\<close> (core/serve.go), which decides which of them exist.

  A router is the list of the middleware and of the route patterns registered on it, in order.  The
  network behaviour of an HTTP or gRPC server is an argument (\<open>net\<close>, \<open>serve\<close>).
\<close>

section \<open>Middleware\<close>

datatype middleware =
  RecovererMW | TimeoutMW int | TraceabilityMW | CoreRequestContextMW | MetricsMW string

record middlewareCollection =
  mw_admin :: "middleware list"
  mw_public :: "middleware list"

definition addToBoth :: "middleware list \<Rightarrow> middlewareCollection \<Rightarrow> middlewareCollection" where
  "addToBoth h m = m\<lparr>mw_admin := mw_admin m @ h, mw_public := mw_public m @ h\<rparr>"

definition prepareMiddleware :: "string \<Rightarrow> bool \<Rightarrow> int \<Rightarrow> middlewareCollection" where
  "prepareMiddleware name promRegistry contextTimeout =
     (let r0 = addToBoth [RecovererMW] \<lparr>mw_admin = [], mw_public = []\<rparr>;
          r1 = addToBoth [TimeoutMW contextTimeout] r0;
          r2 = r1\<lparr>mw_public := mw_public r1 @ [TraceabilityMW]\<rparr>;
          r3 = addToBoth [CoreRequestContextMW] r2
      in if promRegistry then addToBoth [MetricsMW name] r3 else r3)"

text \<open>The handler that answers a request whose time is up.\<close>

definition timeout_text :: string where
  "timeout_text = ''timeout expired while processing response''"

definition timeoutHandler ::
  "('x \<Rightarrow> Kind option) \<Rightarrow> ('x, 'cfg) err_writer \<Rightarrow> (ctx_err \<Rightarrow> 'x) \<Rightarrow>
     response_writer \<Rightarrow> 'cfg ctx \<Rightarrow> (unit, response_writer) res" where
  "timeoutHandler kinder writer ctx_error w cx =
     HandleError kinder writer cx w InternalError timeout_text (map_option (OtherErr \<circ> ctx_error) (ctx_Err cx))
       (Some (\<lambda>_ _. Some \<lparr>HTTPCode = 500, Code = [], Description = timeout_text, extraFields = None\<rparr>)) None"

section \<open>Routers and listeners (core/http.go)\<close>

record router =
  rt_use :: "middleware list"
  rt_prefix :: string
  rt_routes :: "string list"

definition configureRouters :: "string \<Rightarrow> middleware list \<Rightarrow> router" where
  "configureRouters basePath mWare =
     \<lparr>rt_use = mWare, rt_prefix = (if basePath = [] \<or> basePath = ''/'' then [] else basePath), rt_routes = []\<rparr>"

definition add_routes :: "string list \<Rightarrow> router \<Rightarrow> router" where
  "add_routes ps r = r\<lparr>rt_routes := rt_routes r @ map (\<lambda>p. rt_prefix r @ p) ps\<rparr>"

definition SelectBasePath :: "string \<Rightarrow> string \<Rightarrow> string" where
  "SelectBasePath fromSpec fromCfg =
     (if fromCfg \<noteq> [] then fromCfg
      else if fromSpec = [] then ''/''
      else if hd fromSpec \<noteq> CHR ''/'' then CHR ''/'' # fromSpec
      else fromSpec)"

text \<open>What \<^verbatim>\<open>WireRoutes\<close> of an enabled handler does to the router is the handler's own.\<close>

record HandlerInitialiser =
  hi_Name :: string
  hi_WireRoutes :: "router \<Rightarrow> router"

record Manager =
  EnabledHandlers :: "HandlerInitialiser list"
  mgr_LibraryConfig :: "LibraryConfig option"
  AdminServerConfig :: "CommonHTTPServerConfig option"
  PublicServerConfig :: "UpstreamConfig option"
  AddAdminHTTPMiddleware :: "(router \<Rightarrow> router) option"

definition profiling_routes :: "string list" where
  "profiling_routes =
     [''/pprof'', ''/allocs'', ''/block'', ''/cmdline'', ''/goroutine'', ''/heap'', ''/mutex'',
      ''/profile'', ''/threadcreate'', ''/symbol'', ''/trace'']"

definition registerProfilingHandler :: "LibraryConfig \<Rightarrow> router \<Rightarrow> router" where
  "registerProfilingHandler cfg r =
     (if lib_Profiling cfg then add_routes (map (\<lambda>p. ''/-'' @ p) profiling_routes) r else r)"

record ('key, 'c) http_Server =
  Addr :: string
  srv_Handler :: router
  srv_TLSConfig :: "('key, 'c) tls_Config option"
  srv_ReadTimeout :: int
  srv_WriteTimeout :: int
  ReadHeaderTimeout :: int
  IdleTimeout :: int
  MaxHeaderBytes :: int

definition makeNewServer ::
  "router \<Rightarrow> ('key, 'c) tls_Config option \<Rightarrow> CommonHTTPServerConfig \<Rightarrow> ('key, 'c) http_Server" where
  "makeNewServer router tlsConfig serverConfig =
     \<lparr>Addr = listen_addr (HostName (http_Common serverConfig)) (Port (http_Common serverConfig)),
      srv_Handler = router, srv_TLSConfig = tlsConfig,
      srv_ReadTimeout = ReadTimeout serverConfig, srv_WriteTimeout = WriteTimeout serverConfig,
      ReadHeaderTimeout = 10 * 1000000000, IdleTimeout = 5 * 1000000000, MaxHeaderBytes = 1048576\<rparr>"

definition prepareServerListener ::
  "(('key, 'c) http_Server \<Rightarrow> 'x net_http) \<Rightarrow> router \<Rightarrow> ('key, 'c) tls_Config option \<Rightarrow>
     CommonHTTPServerConfig \<Rightarrow> string \<Rightarrow> 'x server" where
  "prepareServerListener net rootRouter tlsConfig httpConfig name =
     HttpServer \<lparr>hs_cfg = httpConfig, hs_server = net (makeNewServer rootRouter tlsConfig httpConfig),
       hs_gracefulStopTimeout = 0, hs_name = name\<rparr>"

text \<open>\<open>health\<close> are the routes of the health server, when there is one.\<close>

definition configureAdminServerListener ::
  "('key, 'c, 'x) tls_env \<Rightarrow> (('key, 'c) http_Server \<Rightarrow> 'x net_http) \<Rightarrow> Manager \<Rightarrow> bool \<Rightarrow>
     string list option \<Rightarrow> middleware list \<Rightarrow> ('x cfgerr, 'x server) res" where
  "configureAdminServerListener E net hl promRegistry health mWare =
     (case AdminServerConfig hl of
        None \<Rightarrow> Err (CfgErr ''missing adminserverconfig'')
      | Some cfg \<Rightarrow>
        (case mgr_LibraryConfig hl of
           None \<Rightarrow> Err (CfgErr ''missing libraryconfig'')
         | Some lib \<Rightarrow>
           (let r0 = configureRouters (BasePath cfg) mWare
            in and_then (MakeTLSConfig E (ServerTLS (http_Common cfg))) (\<lambda>adminTLSConfig.
               (let r1 = (case AddAdminHTTPMiddleware hl of Some f \<Rightarrow> f r0 | None \<Rightarrow> r0);
                    r2 = add_routes [''/-/status/''] r1;
                    r3 = (if promRegistry then add_routes [''/-/metrics/''] r2 else r2);
                    r4 = registerProfilingHandler lib r3;
                    r5 = (case health of Some ps \<Rightarrow> add_routes ps r4 | None \<Rightarrow> r4)
                in Ok (prepareServerListener net r5 adminTLSConfig cfg ''REST Admin Server''))))))"

section \<open>Hooks\<close>

text \<open>The hooks that the set-up of the servers reads (core/callback.go).\<close>

record ('key, 'c, 'x) server_hooks =
  StoppableServerBuilder ::
    "(router \<Rightarrow> ('key, 'c) tls_Config option \<Rightarrow> CommonHTTPServerConfig \<Rightarrow> string \<Rightarrow> 'x server) option"
  StoppableGrpcServerBuilder :: "(string list \<Rightarrow> GRPCServerConfig \<Rightarrow> string \<Rightarrow> 'x server) option"
  ShouldSetGrpcGlobalLogger :: "bool option"
  HealthCheck :: bool

definition configurePublicServerListener ::
  "('key, 'c, 'x) tls_env \<Rightarrow> (('key, 'c) http_Server \<Rightarrow> 'x net_http) \<Rightarrow> Manager \<Rightarrow>
     middleware list \<Rightarrow> ('key, 'c, 'x) server_hooks option \<Rightarrow> ('x cfgerr, 'x server) res" where
  "configurePublicServerListener E net hl mWare hooks =
     and_then (deref (PublicServerConfig hl)) (\<lambda>up.
     and_then (MakeTLSConfig E (ServerTLS (http_Common (up_HTTP up)))) (\<lambda>publicTLSConfig.
       (let router = fold hi_WireRoutes (EnabledHandlers hl) (configureRouters [] mWare);
            build = (case Option.bind hooks StoppableServerBuilder of
                       Some f \<Rightarrow> f | None \<Rightarrow> prepareServerListener net)
        in Ok (build router publicTLSConfig (up_HTTP up) ''REST Public Server''))))"

section \<open>The gRPC listener (core/grpc.go)\<close>

record ('key, 'c) GrpcServerManager =
  GrpcServerOptions :: "('key, 'c) ServerOption list"
  EnabledGrpcHandlers :: "string list"
  GrpcPublicServerConfig :: "GRPCServerConfig option"

definition DefaultGrpcServerOptions ::
  "('key, 'c, 'x) tls_env \<Rightarrow> GRPCServerConfig option \<Rightarrow> ('x cfgerr, ('key, 'c) ServerOption list) res" where
  "DefaultGrpcServerOptions E cfg =
     and_then (ExtractGrpcServerOptions E cfg) (\<lambda>opts.
       Ok (opts @ [ChainUnaryInterceptor [LoggerInterceptor], ChainUnaryInterceptor [TraceidLogInterceptor]]))"

text \<open>The deprecated manager interface.\<close>

record GrpcManager =
  Interceptors :: "interceptor list"
  gm_EnabledGrpcHandlers :: "string list"
  gm_GrpcPublicServerConfig :: "GRPCServerConfig option"

definition extractGrpcServerOptionsFromGrpcManager ::
  "('key, 'c, 'x) tls_env \<Rightarrow> GrpcManager \<Rightarrow> ('x cfgerr, ('key, 'c) ServerOption list) res" where
  "extractGrpcServerOptionsFromGrpcManager E hl =
     and_then (ExtractGrpcServerOptions E (gm_GrpcPublicServerConfig hl)) (\<lambda>opts.
       Ok (opts @ [ChainUnaryInterceptor (Interceptors hl), ChainUnaryInterceptor [LoggerInterceptor],
                   ChainUnaryInterceptor [TraceidLogInterceptor]]))"

definition newGrpcServerManagerFromGrpcManager ::
  "('key, 'c, 'x) tls_env \<Rightarrow> GrpcManager \<Rightarrow> ('x cfgerr, ('key, 'c) GrpcServerManager) res" where
  "newGrpcServerManagerFromGrpcManager E hl =
     and_then (extractGrpcServerOptionsFromGrpcManager E hl) (\<lambda>opts.
       Ok \<lparr>GrpcServerOptions = opts, EnabledGrpcHandlers = gm_EnabledGrpcHandlers hl,
           GrpcPublicServerConfig = gm_GrpcPublicServerConfig hl\<rparr>)"

text \<open>The health service of the hook: an error of the check is passed on.\<close>

datatype HealthCheckStatus = UNKNOWN | SERVING | NOT_SERVING | SERVICE_UNKNOWN

datatype ServingStatus =
  HealthCheckResponse_UNKNOWN | HealthCheckResponse_SERVING | HealthCheckResponse_NOT_SERVING
| HealthCheckResponse_SERVICE_UNKNOWN

fun healthCheckStatusMap :: "HealthCheckStatus \<Rightarrow> ServingStatus" where
  "healthCheckStatusMap UNKNOWN = HealthCheckResponse_UNKNOWN"
| "healthCheckStatusMap SERVING = HealthCheckResponse_SERVING"
| "healthCheckStatusMap NOT_SERVING = HealthCheckResponse_NOT_SERVING"
| "healthCheckStatusMap SERVICE_UNKNOWN = HealthCheckResponse_SERVICE_UNKNOWN"

definition healthCheckSrv_Check ::
  "(string \<Rightarrow> 'x + HealthCheckStatus) \<Rightarrow> string \<Rightarrow> ('x, ServingStatus) res" where
  "healthCheckSrv_Check check service =
     (case check service of Inl x \<Rightarrow> Err x | Inr status \<Rightarrow> Ok (healthCheckStatusMap status))"

text \<open>
  The services registered on the gRPC server, in order: reflection when the configuration in the
  context asks for it, the health check hook, and the enabled handlers.  The second component says
  whether the global gRPC logger is replaced.
\<close>

definition configurePublicGrpcServerListener ::
  "(('key, 'c) ServerOption list \<Rightarrow> string list \<Rightarrow> (string \<Rightarrow> 'x option) \<times> 'x option) \<Rightarrow> 'd sctx \<Rightarrow>
     ('key, 'c) GrpcServerManager \<Rightarrow> ('key, 'c, 'x) server_hooks option \<Rightarrow>
     ('x cfgerr, 'x server \<times> bool) res" where
  "configurePublicGrpcServerListener serve cx m hooks =
     (let reflected = (case GetDefaultConfig cx of
                         Some cfg \<Rightarrow> if EnableReflection (up_GRPC (Upstream cfg)) then [''reflection''] else []
                       | None \<Rightarrow> []);
          checked = (case hooks of Some h \<Rightarrow> if HealthCheck h then [''grpc.health.v1.Health''] else [] | None \<Rightarrow> []);
          services = reflected @ checked @ EnabledGrpcHandlers m;
          set_logger = (case hooks of
                          None \<Rightarrow> True
                        | Some h \<Rightarrow> (case ShouldSetGrpcGlobalLogger h of None \<Rightarrow> True | Some b \<Rightarrow> b))
      in and_then (deref (GrpcPublicServerConfig m)) (\<lambda>cfg.
           Ok ((case Option.bind hooks StoppableGrpcServerBuilder of
                  Some f \<Rightarrow> f services cfg ''gRPC Public server''
                | None \<Rightarrow>
                    (let (listen, served) = serve (GrpcServerOptions m) services
                     in GrpcServer \<lparr>gs_cfg = cfg, gs_Listen = listen, gs_Serve = served,
                          gs_name = ''gRPC Public server''\<rparr>)), set_logger)))"

section \<open>Starting the service (core/serve.go)\<close>

record ('d, 'key, 'c, 'x) autogenServer =
  as_ctx :: "'d sctx"
  as_name :: string
  restManager :: "Manager option"
  grpcServerManager :: "('key, 'c) GrpcServerManager option"
  prometheusRegistry :: bool
  multiServer :: "'x server option"
  as_hooks :: "('key, 'c, 'x) server_hooks option"

definition defaultContextTimeout :: int where
  "defaultContextTimeout = 30 * 1000000000"

definition context_timeout :: "Manager option \<Rightarrow> int" where
  "context_timeout rest =
     (let t = (case Option.bind rest PublicServerConfig of Some up \<Rightarrow> up_ContextTimeout up | None \<Rightarrow> 0)
      in if t = 0 then defaultContextTimeout else t)"

text \<open>
  \<open>new_health\<close> is the result of \<^verbatim>\<open>health.NewServer\<close>: an error, or the service name and the routes of
  the health server.
\<close>

record ('key, 'c, 'x) server_env =
  tls :: "('key, 'c, 'x) tls_env"
  net :: "('key, 'c) http_Server \<Rightarrow> 'x net_http"
  serve :: "('key, 'c) ServerOption list \<Rightarrow> string list \<Rightarrow> (string \<Rightarrow> 'x option) \<times> 'x option"
  new_health :: "'x + string \<times> string list"

definition wants_health :: "Manager option \<Rightarrow> bool" where
  "wants_health rest =
     (case Option.bind rest mgr_LibraryConfig of Some lib \<Rightarrow> lib_Health lib | None \<Rightarrow> False)"

definition load_health ::
  "('key, 'c, 'x) server_env \<Rightarrow> ('d, 'key, 'c, 'x) autogenServer \<Rightarrow>
     ('x cfgerr, ('d, 'key, 'c, 'x) autogenServer \<times> string list option) res" where
  "load_health V s =
     (if wants_health (restManager s)
      then (case new_health V of
              Inl x \<Rightarrow> Err (LibE x)
            | Inr (service, routes) \<Rightarrow>
                and_then (deref (grpcServerManager s)) (\<lambda>m.
                  Ok (s\<lparr>grpcServerManager := Some (m\<lparr>EnabledGrpcHandlers := EnabledGrpcHandlers m @ [service]\<rparr>)\<rparr>,
                      Some routes)))
      else Ok (s, None))"

definition no_public_server :: string where
  "no_public_server = ''REST and gRPC servers cannot both be nil''"

text \<open>The three optional servers, each as a list of at most one.\<close>

definition admin_servers ::
  "('key, 'c, 'x) server_env \<Rightarrow> Manager option \<Rightarrow> bool \<Rightarrow> string list option \<Rightarrow> middleware list \<Rightarrow>
     ('x cfgerr, 'x server list) res" where
  "admin_servers V rest promRegistry health mWare =
     (case rest of
        Some hl \<Rightarrow>
          if AdminServerConfig hl \<noteq> None
          then and_then (configureAdminServerListener (tls V) (net V) hl promRegistry health mWare) (\<lambda>a. Ok [a])
          else Ok []
      | None \<Rightarrow> Ok [])"

definition public_servers ::
  "('key, 'c, 'x) server_env \<Rightarrow> Manager option \<Rightarrow> middleware list \<Rightarrow> ('key, 'c, 'x) server_hooks option \<Rightarrow>
     ('x cfgerr, 'x server list) res" where
  "public_servers V rest mWare hooks =
     (case rest of
        Some hl \<Rightarrow>
          if PublicServerConfig hl \<noteq> None
          then and_then (configurePublicServerListener (tls V) (net V) hl mWare hooks) (\<lambda>p. Ok [p])
          else Ok []
      | None \<Rightarrow> Ok [])"

definition grpc_servers ::
  "('key, 'c, 'x) server_env \<Rightarrow> 'd sctx \<Rightarrow> ('key, 'c) GrpcServerManager option \<Rightarrow>
     ('key, 'c, 'x) server_hooks option \<Rightarrow> ('x cfgerr, 'x server list) res" where
  "grpc_servers V cx manager hooks =
     (case manager of
        Some m \<Rightarrow>
          if GrpcPublicServerConfig m \<noteq> None \<and> length (EnabledGrpcHandlers m) > 0
          then and_then (configurePublicGrpcServerListener (serve V) cx m hooks) (\<lambda>g. Ok [fst g])
          else Ok []
      | None \<Rightarrow> Ok [])"

text \<open>
  \<^verbatim>\<open>autogenServer.Start\<close> up to the call that blocks: the composite server it then starts is the new
  value of \<^verbatim>\<open>multiServer\<close>.
\<close>

definition autogenServer_Start ::
  "('key, 'c, 'x) server_env \<Rightarrow> ('d, 'key, 'c, 'x) autogenServer \<Rightarrow>
     ('x cfgerr, ('d, 'key, 'c, 'x) autogenServer) res" where
  "autogenServer_Start V s0 =
     (let rest = restManager s0;
          mWare = prepareMiddleware (as_name s0) (prometheusRegistry s0) (context_timeout rest)
      in and_then (load_health V s0) (\<lambda>(s, health).
         and_then (admin_servers V rest (prometheusRegistry s) health (mw_admin mWare)) (\<lambda>admin.
         and_then (public_servers V rest (mw_public mWare) (as_hooks s)) (\<lambda>public.
         and_then (grpc_servers V (as_ctx s) (grpcServerManager s) (as_hooks s)) (\<lambda>grpc.
           if public = [] \<and> grpc = [] then Panic no_public_server
           else Ok (s\<lparr>multiServer := Some (MultiServer (admin @ public @ grpc))\<rparr>))))))"

definition autogenServer_stops ::
  "bool \<Rightarrow> ('d, 'key, 'c, 'x) autogenServer \<Rightarrow> 'x serr option \<Rightarrow> bool" where
  "autogenServer_stops graceful s r = stops graceful (AutogenServer (as_name s) (multiServer s)) r"

section \<open>Which servers a service has\<close>

definition admin_configured :: "('d, 'key, 'c, 'x) autogenServer \<Rightarrow> bool" where
  "admin_configured s \<longleftrightarrow> Option.bind (restManager s) AdminServerConfig \<noteq> None"

definition public_configured :: "('d, 'key, 'c, 'x) autogenServer \<Rightarrow> bool" where
  "public_configured s \<longleftrightarrow> Option.bind (restManager s) PublicServerConfig \<noteq> None"

text \<open>The health server counts as a gRPC handler.\<close>

definition grpc_configured :: "('d, 'key, 'c, 'x) autogenServer \<Rightarrow> bool" where
  "grpc_configured s \<longleftrightarrow>
     (\<exists>m. grpcServerManager s = Some m \<and> GrpcPublicServerConfig m \<noteq> None \<and>
        (EnabledGrpcHandlers m \<noteq> [] \<or> wants_health (restManager s)))"

definition built_with_tls :: "('key, 'c, 'x) server_env \<Rightarrow> 'x server \<Rightarrow> bool" where
  "built_with_tls V srv \<longleftrightarrow>
     (\<forall>h. srv = HttpServer h \<longrightarrow>
        (\<exists>tc r. MakeTLSConfig (tls V) (ServerTLS (http_Common (hs_cfg h))) = Ok tc \<and>
               hs_server h = net V (makeNewServer r tc (hs_cfg h))))"

lemma listener_built:
  "MakeTLSConfig (tls V) (ServerTLS (http_Common cfg)) = Ok tc \<Longrightarrow>
     built_with_tls V (prepareServerListener (net V) r tc cfg name)"
  by (auto simp: built_with_tls_def prepareServerListener_def)

lemma listener_name: "GetName (prepareServerListener n r tc cfg name) = name"
  by (simp add: prepareServerListener_def)

lemma admin_listener:
  assumes "configureAdminServerListener (tls V) (net V) hl prom health mWare = Ok a"
  shows "GetName a = ''REST Admin Server'' \<and> built_with_tls V a"
  using assms
  by (auto simp: configureAdminServerListener_def go_res Let_def listener_name listener_built
      split: option.splits)

lemma public_listener:
  assumes "configurePublicServerListener (tls V) (net V) hl mWare hooks = Ok p"
    and "Option.bind hooks StoppableServerBuilder = None"
  shows "GetName p = ''REST Public Server'' \<and> built_with_tls V p"
  using assms
  by (auto simp: configurePublicServerListener_def go_res Let_def listener_name listener_built)

lemma grpc_listener:
  assumes "configurePublicGrpcServerListener (serve V) cx m hooks = Ok (g, b)"
    and "Option.bind hooks StoppableGrpcServerBuilder = None"
  shows "GetName g = ''gRPC Public server'' \<and> built_with_tls V g"
  using assms
  by (auto simp: configurePublicGrpcServerListener_def go_res Let_def built_with_tls_def case_prod_beta)

lemma load_health_keeps:
  assumes "load_health V s = Ok (s1, health)"
  shows "restManager s1 = restManager s \<and> as_ctx s1 = as_ctx s \<and> as_hooks s1 = as_hooks s \<and>
    prometheusRegistry s1 = prometheusRegistry s \<and>
    ((\<exists>m. grpcServerManager s1 = Some m \<and> GrpcPublicServerConfig m \<noteq> None \<and> EnabledGrpcHandlers m \<noteq> [])
      \<longleftrightarrow> grpc_configured s)"
  using assms
  by (auto simp: load_health_def grpc_configured_def go_res deref_def split: if_splits sum.splits prod.splits option.splits)

lemma admin_part:
  assumes "admin_servers V rest prom health mWare = Ok part"
  shows "map GetName part = (if Option.bind rest AdminServerConfig \<noteq> None then [''REST Admin Server''] else [])"
    and "list_all (built_with_tls V) part"
  using assms admin_listener[of V] by (auto simp: admin_servers_def go_res split: option.splits if_splits)

lemma public_part:
  assumes "public_servers V rest mWare hooks = Ok part"
    and "Option.bind hooks StoppableServerBuilder = None"
  shows "map GetName part = (if Option.bind rest PublicServerConfig \<noteq> None then [''REST Public Server''] else [])"
    and "list_all (built_with_tls V) part"
  using assms public_listener[of V] by (auto simp: public_servers_def go_res split: option.splits if_splits)

lemma grpc_part:
  assumes "grpc_servers V cx gm hooks = Ok part"
    and "Option.bind hooks StoppableGrpcServerBuilder = None"
  shows "map GetName part =
      (if \<exists>m. gm = Some m \<and> GrpcPublicServerConfig m \<noteq> None \<and> EnabledGrpcHandlers m \<noteq> []
       then [''gRPC Public server''] else [])"
    and "list_all (built_with_tls V) part"
  using assms by (auto simp: grpc_servers_def go_res split: option.splits if_splits dest: grpc_listener)

lemma Start_Ok:
  assumes "autogenServer_Start V s = Ok s'"
  obtains s1 health adm pub grp where "load_health V s = Ok (s1, health)"
    and "admin_servers V (restManager s) (prometheusRegistry s1) health
      (mw_admin (prepareMiddleware (as_name s) (prometheusRegistry s) (context_timeout (restManager s)))) = Ok adm"
    and "public_servers V (restManager s)
      (mw_public (prepareMiddleware (as_name s) (prometheusRegistry s) (context_timeout (restManager s))))
      (as_hooks s1) = Ok pub"
    and "grpc_servers V (as_ctx s1) (grpcServerManager s1) (as_hooks s1) = Ok grp"
    and "pub \<noteq> [] \<or> grp \<noteq> []"
    and "s' = s1\<lparr>multiServer := Some (MultiServer (adm @ pub @ grp))\<rparr>"
  using assms by (auto simp: autogenServer_Start_def Let_def go_res split: if_splits)

section \<open>Properties\<close>


definition sample_server_env :: "(unit, string, string) server_env" where
  "sample_server_env =
     \<lparr>tls = sample_tls_env,
      net = (\<lambda>_. \<lparr>ListenAndServe = ErrServerClosed, ListenAndServeTLS = ErrServerClosed,
                   Shutdown = (\<lambda>_. ShutdownDone), srv_Close = None\<rparr>),
      serve = (\<lambda>_ _. (\<lambda>_. None, None)), new_health = Inr (''health'', [''/health''])\<rparr>"

definition plain_http :: CommonHTTPServerConfig where
  "plain_http = \<lparr>http_Common = \<lparr>HostName = ''localhost'', Port = 8080, ServerTLS = None\<rparr>,
     BasePath = ''/'', ReadTimeout = 0, WriteTimeout = 0\<rparr>"

definition sample_manager :: "bool \<Rightarrow> Manager" where
  "sample_manager health =
     \<lparr>EnabledHandlers = [],
      mgr_LibraryConfig = Some \<lparr>lib_Log = \<lparr>lc_Format = ''text'', lc_Level = Some InfoLevel,
          lc_ReportCaller = False, lc_LogPayload = False\<rparr>, lib_Profiling = False, lib_Health = health,
          lib_Authentication = None, lib_IncomingHeaderForID = []\<rparr>,
      AdminServerConfig = Some plain_http,
      PublicServerConfig = Some \<lparr>up_ContextTimeout = 0, up_HTTP = plain_http,
          up_GRPC = \<lparr>HostName = [], Port = 0, ServerTLS = None, EnableReflection = False\<rparr>,
          up_Temporal = \<lparr>temporal_HostPort = [], temporal_Namespace = []\<rparr>\<rparr>,
      AddAdminHTTPMiddleware = None\<rparr>"

definition sample_server :: "bool \<Rightarrow> (unit, unit, string, string) autogenServer" where
  "sample_server health =
     \<lparr>as_ctx = Background, as_name = ''app'', restManager = Some (sample_manager health),
      grpcServerManager = None, prometheusRegistry = False, multiServer = None, as_hooks = None\<rparr>"

lemmas sample_server_defs = sample_server_def sample_manager_def sample_server_env_def plain_http_def

lemma sample_server_starts: "\<exists>s'. autogenServer_Start sample_server_env (sample_server False) = Ok s'"
  by (simp add: autogenServer_Start_def load_health_def wants_health_def admin_servers_def public_servers_def
      grpc_servers_def configureAdminServerListener_def configurePublicServerListener_def MakeTLSConfig_def
      Let_def deref_def sample_server_defs)


text \<open>
  \<^verbatim>\<open>Start\<close> panics in two situations that depend on configuration alone: the health server is
  switched on for a service without a gRPC manager (the manager is dereferenced unchecked), or
  neither a public REST nor a public gRPC server is configured.
\<close>

theorem start_panics:
  "(wants_health (restManager s) \<and> grpcServerManager s = None \<and> \<not> isl (new_health V) \<longrightarrow>
      autogenServer_Start V s = Panic nil_deref) \<and>
   (\<not> wants_health (restManager s) \<and> \<not> public_configured s \<and> \<not> grpc_configured s \<and> \<not> admin_configured s \<longrightarrow>
      autogenServer_Start V s = Panic no_public_server)"
proof (intro conjI impI; elim conjE)
  assume "wants_health (restManager s)" "grpcServerManager s = None" "\<not> isl (new_health V)"
  then show "autogenServer_Start V s = Panic nil_deref"
    by (cases "new_health V")
      (auto simp: autogenServer_Start_def load_health_def deref_def Let_def split: prod.splits)
next
  assume a: "\<not> wants_health (restManager s)" "\<not> public_configured s" "\<not> grpc_configured s" "\<not> admin_configured s"
  have "admin_servers V (restManager s) p h m = Ok []" for p h m
    using a(4) by (auto simp: admin_servers_def admin_configured_def split: option.splits)
  moreover have "public_servers V (restManager s) m h = Ok []" for m h
    using a(2) by (auto simp: public_servers_def public_configured_def split: option.splits)
  moreover have "grpc_servers V (as_ctx s) (grpcServerManager s) h = Ok []" for h
    using a(1,3) by (auto simp: grpc_servers_def grpc_configured_def split: option.splits)
  ultimately show "autogenServer_Start V s = Panic no_public_server"
    using a(1) by (simp add: autogenServer_Start_def load_health_def Let_def)
qed

theorem start_panics_witness:
  "autogenServer_Start sample_server_env (sample_server True) = Panic nil_deref"
  using start_panics[of "sample_server True" sample_server_env]
  by (simp add: wants_health_def sample_server_defs)

end
