(* ===== verification/Bootstrap.thy ===== *)
theory Bootstrap
  imports ServerSetup
begin

text \<open>
  From the command line to a server that can be started: reading the custom configuration in strict
  mode, checking the type of the create-service callback, creating the service, validating its
  configuration, choosing the logger, and building the managers (core/serve.go: \<^verbatim>\<open>NewServer\<close>,
  \<^verbatim>\<open>LoadCustomConfig\<close>, \<^verbatim>\<open>createDefaultConfig\<close>,
  \<^verbatim>\<open>MustTypeCheckCreateService\<close>, \<^verbatim>\<open>getExternalLogger\<close>, \<^verbatim>\<open>Serve\<close>).

  The callbacks of the service, the file system behind a configuration source and the tag validator
  are arguments, collected in the record \<open>boot_env\<close>.
\<close>

section \<open>Loggers in the context\<close>

text \<open>
  Which logger the context carries and at which level, as far as the bootstrap chooses it; package log itself,
  with the fields of its loggers, is modelled in Logging.
\<close>

datatype logger_kind = UserLogger nat | LogrusLogger nat | PkgLogger nat | BootstrapLogger | DefaultLogger

type_synonym logger = "logger_kind \<times> log_level option"

text \<open>
  The context during the bootstrap: the request context, the logger of package log, a logrus logger and
  non-empty pkg fields of legacy applications, and the configuration text of
  \<^verbatim>\<open>WithConfigFile\<close>.
\<close>

record 'd bctx =
  b_ctx :: "'d sctx"
  b_logger :: "logger option"
  b_logrus :: "nat option"
  b_pkgFields :: "nat option"
  b_yaml :: "string option"

definition PutLogger :: "'d bctx \<Rightarrow> logger \<Rightarrow> 'd bctx" where
  "PutLogger cx l = cx\<lparr>b_logger := Some l\<rparr>"

definition WithLevel :: "'d bctx \<Rightarrow> log_level \<Rightarrow> ('e, 'd bctx) res" where
  "WithLevel cx level =
     and_then (deref (b_logger cx)) (\<lambda>(kind, _). Ok (PutLogger cx (kind, Some level)))"

definition getExternalLogger :: "'d bctx \<Rightarrow> 'd bctx \<times> logger option" where
  "getExternalLogger cx =
     (case b_logger cx of
        Some l \<Rightarrow> (cx, Some l)
      | None \<Rightarrow>
        (case b_logrus cx of
           Some g \<Rightarrow> (PutLogger cx (LogrusLogger g, None), Some (LogrusLogger g, None))
         | None \<Rightarrow>
           (case b_pkgFields cx of
              Some f \<Rightarrow> (PutLogger cx (PkgLogger f, None), Some (PkgLogger f, None))
            | None \<Rightarrow> (cx, None))))"

definition withLogLevel :: "'d bctx \<Rightarrow> 'd DefaultConfig \<Rightarrow> ('e, 'd bctx) res" where
  "withLogLevel cx defaultConfig =
     (let level = (case lc_Level (lib_Log (Library defaultConfig)) of None \<Rightarrow> InfoLevel | Some l \<Rightarrow> l)
      in WithLevel cx level)"

section \<open>The type of the create-service callback\<close>

datatype gotype = TContext | THooksPtr | TError | TOther string

record fn_type =
  fn_In :: "gotype list"
  fn_Out :: "gotype list"

definition MustTypeCheckCreateService :: "fn_type \<Rightarrow> gotype \<Rightarrow> ('e, unit) res" where
  "MustTypeCheckCreateService cs serviceInterface =
     (if length (fn_In cs) \<noteq> 2 then Panic ''createService: wrong number of in params''
      else if length (fn_Out cs) \<noteq> 3 then Panic ''createService: wrong number of out params''
      else if TContext \<noteq> fn_In cs ! 0 then Panic ''createService: first in param must be of type context.Context''
      else if serviceInterface \<noteq> fn_Out cs ! 0 then Panic ''createService: second out param''
      else if THooksPtr \<noteq> fn_Out cs ! 1 then Panic ''createService: second out param must be of type *Hooks''
      else if TError \<noteq> fn_Out cs ! 2 then Panic ''createService: third out param must be of type error''
      else Ok ())"

section \<open>The custom configuration\<close>

text \<open>The value built by \<^verbatim>\<open>NewZeroCustomConfig\<close>, decoded; the downstream section may be absent.\<close>

record ('d, 'app) custom_config =
  cc_Library :: LibraryConfig
  cc_Admin :: "AdminConfig option"
  cc_Upstream :: UpstreamConfig
  cc_Downstream :: "'d option"
  cc_Development :: "bool option"
  cc_App :: 'app

datatype cfg_source = MemFile string | OsFile string

datatype 'x booterr =
  BootErr string | ErrDisplayHelp nat | ReadErr "'x readerr" | SetupErr "'x cfgerr" | CallbackErr 'x

text \<open>
  \<open>open_config src prefix\<close> is the reader the builder makes for a source with the defaults of
  \<^verbatim>\<open>SetDefaults\<close> and, if given, an environment prefix; reading a broken file ends the process inside
  the builder.
\<close>

definition config_source :: "string list \<Rightarrow> string option \<Rightarrow> ('x booterr, cfg_source) res" where
  "config_source args yaml =
     (case yaml of
        Some text \<Rightarrow> Ok (MemFile text)
      | None \<Rightarrow>
        (case args of
           [] \<Rightarrow> Panic index_out_of_range
         | prog # rest \<Rightarrow>
           if length args \<noteq> 2
           then Err (BootErr (''wrong number of arguments (usage: '' @ prog @ '' (config | -h | --help | -v | --version))''))
           else if hd rest \<in> {''--help'', ''-h'', ''--version'', ''-v''} then Err (ErrDisplayHelp 2)
           else Ok (OsFile (hd rest))))"

definition envPrefixConfigKey :: string where
  "envPrefixConfigKey = ''envPrefix''"

definition strict_reader :: "('t, 'x) configReaderImpl \<Rightarrow> ('t, 'x) configReaderImpl" where
  "strict_reader m = m\<lparr>strictMode := True, strictModeIgnoredKeys := [envPrefixConfigKey]\<rparr>"

definition LoadCustomConfig ::
  "(goval \<Rightarrow> string option) \<Rightarrow> (cfg_source \<Rightarrow> string option \<Rightarrow> ('t, 'x) configReaderImpl) \<Rightarrow>
     string list \<Rightarrow> string option \<Rightarrow> ('x booterr, 't) res" where
  "LoadCustomConfig ToStringE open_config args yaml =
     and_then (config_source args yaml) (\<lambda>src.
       (let prefix = (case configReader_GetString ToStringE (strict_reader (open_config src None)) envPrefixConfigKey of
                        Ok env \<Rightarrow> if length env > 0 then Some env else None
                      | _ \<Rightarrow> None)
        in map_err ReadErr (configReader_Unmarshal (strict_reader (open_config src prefix)))))"

definition default_config_of :: "'d \<Rightarrow> ('d, 'app) custom_config \<Rightarrow> 'd DefaultConfig" where
  "default_config_of downstreamConfig cc =
     \<lparr>Library = cc_Library cc, Admin = cc_Admin cc, Upstream = cc_Upstream cc,
      Downstream = (case cc_Downstream cc of None \<Rightarrow> downstreamConfig | Some d \<Rightarrow> d),
      DisableAllAuthorizationRules = cc_Development cc\<rparr>"

definition createDefaultConfig ::
  "(goval \<Rightarrow> string option) \<Rightarrow> (cfg_source \<Rightarrow> string option \<Rightarrow> (('d, 'app) custom_config, 'x) configReaderImpl) \<Rightarrow>
     string list \<Rightarrow> string option \<Rightarrow> 'd \<Rightarrow> ('x booterr, 'd DefaultConfig \<times> 'app) res" where
  "createDefaultConfig ToStringE open_config args yaml downstreamConfig =
     and_then (LoadCustomConfig ToStringE open_config args yaml) (\<lambda>customConfig.
       Ok (default_config_of downstreamConfig customConfig, cc_App customConfig))"

section \<open>Bootstrapping\<close>

text \<open>
  The hooks read here.  \<^verbatim>\<open>ValidateConfig\<close> receives a pointer, so it may also change the
  configuration; \<open>hk_Logger = Some None\<close> is a hook that returns nil.
\<close>

record ('d, 'key, 'c, 'x) Hooks = "('key, 'c, 'x) server_hooks" +
  hk_Logger :: "logger option option"
  hk_ValidateConfig :: "('d DefaultConfig \<Rightarrow> 'x option \<times> 'd DefaultConfig) option"

definition validateConfig ::
  "('d DefaultConfig \<Rightarrow> 'x option) \<Rightarrow> ('d, 'key, 'c, 'x) Hooks option \<Rightarrow> 'd DefaultConfig \<Rightarrow>
     ('x booterr, 'd DefaultConfig) res" where
  "validateConfig validate hooks conf =
     and_then (case Option.bind hooks hk_ValidateConfig of
                 Some f \<Rightarrow> (case f conf of (Some x, _) \<Rightarrow> Err (CallbackErr x) | (None, conf') \<Rightarrow> Ok conf')
               | None \<Rightarrow> Ok conf) (\<lambda>conf'.
       case validate conf' of Some x \<Rightarrow> Err (CallbackErr x) | None \<Rightarrow> Ok conf')"

definition choose_logger :: "('d, 'key, 'c, 'x) Hooks option \<Rightarrow> logger" where
  "choose_logger hooks =
     (case Option.bind hooks hk_Logger of Some (Some l) \<Rightarrow> l | _ \<Rightarrow> (DefaultLogger, None))"

text \<open>The two results of a callback that can fail.\<close>

fun callback :: "'x + 'a \<Rightarrow> ('x booterr, 'a) res" where
  "callback (Inl x) = Err (CallbackErr x)"
| "callback (Inr a) = Ok a"

lemma callback_Ok [go_res]: "callback r = Ok a \<longleftrightarrow> r = Inr a"
  by (cases r) auto

record ('d, 'app, 'svc, 'key, 'c, 'x) boot_env =
  os_Args :: "string list"
  ToStringE :: "goval \<Rightarrow> string option"
  open_config :: "cfg_source \<Rightarrow> string option \<Rightarrow> (('d, 'app) custom_config, 'x) configReaderImpl"
  createService_type :: fn_type
  serviceInterface :: gotype
  createService :: "'d bctx \<Rightarrow> 'app \<Rightarrow> 'x + 'svc \<times> ('d, 'key, 'c, 'x) Hooks option"
  struct_check :: "'d DefaultConfig \<Rightarrow> 'x option"
  newManagers :: "'d bctx \<Rightarrow> 'svc \<Rightarrow> ('d, 'key, 'c, 'x) Hooks option \<Rightarrow>
    'x + Manager option \<times> ('key, 'c) GrpcServerManager option"

definition with_config :: "'d bctx \<Rightarrow> 'd DefaultConfig \<Rightarrow> 'd bctx" where
  "with_config cx cfg = cx\<lparr>b_ctx := PutDefaultConfig (b_ctx cx) cfg\<rparr>"

text \<open>The result carries the bootstrap context beside the server, for its logger.\<close>

definition NewServer ::
  "('d, 'app, 'svc, 'key, 'c, 'x) boot_env \<Rightarrow> 'd bctx \<Rightarrow> 'd \<Rightarrow>
     ('x booterr, ('d, 'key, 'c, 'x) autogenServer \<times> 'd bctx) res" where
  "NewServer B cx0 downstreamConfig =
     (let (cx1, externalLogger) = getExternalLogger cx0;
          cx2 = (if externalLogger = None then PutLogger cx1 (BootstrapLogger, None) else cx1)
      in and_then (MustTypeCheckCreateService (createService_type B) (serviceInterface B)) (\<lambda>_.
         and_then (LoadCustomConfig (ToStringE B) (open_config B) (os_Args B) (b_yaml cx0)) (\<lambda>customConfig.
           (let admin = cc_Admin customConfig;
                conf0 = default_config_of downstreamConfig customConfig
            in and_then (callback (createService B (with_config cx2 conf0) (cc_App customConfig))) (\<lambda>(serviceIntf, hooks).
               and_then (validateConfig (struct_check B) hooks conf0) (\<lambda>conf.
                 (let cx3 = with_config cx2 conf;
                      cx4 = (if externalLogger = None then PutLogger cx3 (choose_logger hooks) else cx3)
                  in and_then (withLogLevel cx4 conf) (\<lambda>cx5.
                     and_then (callback (newManagers B cx5 serviceIntf hooks)) (\<lambda>(manager, grpcManager).
                       Ok (\<lparr>as_ctx = b_ctx cx5, as_name = ''nameless-autogenerated-app'',
                            restManager = manager, grpcServerManager = grpcManager,
                            prometheusRegistry = (admin \<noteq> None), multiServer = None,
                            as_hooks = map_option server_hooks.truncate hooks\<rparr>, cx5))))))))))"

definition Serve ::
  "('d, 'app, 'svc, 'key, 'c, 'x) boot_env \<Rightarrow> ('key, 'c, 'x) server_env \<Rightarrow> 'd bctx \<Rightarrow> 'd \<Rightarrow>
     ('x booterr, ('d, 'key, 'c, 'x) autogenServer) res" where
  "Serve B V cx downstreamConfig =
     and_then (NewServer B cx downstreamConfig) (\<lambda>(srv, _). map_err SetupErr (autogenServer_Start V srv))"

section \<open>What a constructed server has gone through\<close>

lemma strict_load:
  fixes opn :: "cfg_source \<Rightarrow> string option \<Rightarrow> ('t, 'x) configReaderImpl"
  assumes "LoadCustomConfig conv opn args yaml = Ok cc"
  obtains src pre unused where "config_source args yaml = (Ok src :: ('x booterr, cfg_source) res)"
    and "vp_Unmarshal (envVars (opn src pre)) = Inr (cc, unused)" and "set unused \<subseteq> {ToLower envPrefixConfigKey}"
proof -
  obtain src pre where src: "config_source args yaml = (Ok src :: ('x booterr, cfg_source) res)"
    and "configReader_Unmarshal (strict_reader (opn src pre)) = Ok cc"
    using assms unfolding LoadCustomConfig_def go_res Let_def map_err_eq_Ok by blast
  then obtain unused where "vp_Unmarshal (envVars (opn src pre)) = Inr (cc, unused)"
    "validateNoUnusedKeys (strict_reader (opn src pre)) unused = Ok ()"
    by (auto simp: configReader_Unmarshal_def strict_reader_def go_res split: sum.splits)
  with src that show thesis
    by (auto simp: validateNoUnusedKeys_def strict_reader_def Let_def filter_empty_conv split: if_splits)
qed

lemma validateConfig_checked: "validateConfig validate hooks conf0 = Ok conf \<Longrightarrow> validate conf = None"
  by (auto simp: validateConfig_def go_res split: option.splits)

lemma withLogLevel_Ok:
  assumes "withLogLevel cx conf = Ok cx'"
  shows "b_ctx cx' = b_ctx cx \<and> (\<exists>kind lvl. b_logger cx = Some (kind, lvl) \<and>
    b_logger cx' = Some (kind, Some (case lc_Level (lib_Log (Library conf)) of None \<Rightarrow> InfoLevel | Some l \<Rightarrow> l)))"
  using assms by (auto simp: withLogLevel_def WithLevel_def PutLogger_def deref_def Let_def split: option.splits)

lemma external_logger: "getExternalLogger cx = (cx', Some l) \<Longrightarrow> b_logger cx' = Some l"
  by (auto simp: getExternalLogger_def PutLogger_def split: option.splits)

lemma NewServer_Ok:
  fixes B :: "('d, 'app, 'svc, 'key, 'c, 'x) boot_env"
  assumes "NewServer B cx d = Ok (srv, cx')"
  obtains cx1 ext cc svc hooks conf mgr grpc cx4 where "getExternalLogger cx = (cx1, ext)"
    and "MustTypeCheckCreateService (createService_type B) (serviceInterface B) = (Ok () :: ('x booterr, unit) res)"
    and "LoadCustomConfig (ToStringE B) (open_config B) (os_Args B) (b_yaml cx) = Ok cc"
    and "validateConfig (struct_check B) hooks (default_config_of d cc) = Ok conf"
    and "b_ctx cx4 = PutDefaultConfig (b_ctx cx1) conf"
    and "b_logger cx4 = (if ext = None then Some (choose_logger hooks) else b_logger cx1)"
    and "withLogLevel cx4 conf = (Ok cx' :: ('x booterr, _) res)"
    and "newManagers B cx' svc hooks = Inr (mgr, grpc)"
    and "as_ctx srv = b_ctx cx'" and "restManager srv = mgr" and "grpcServerManager srv = grpc"
    and "prometheusRegistry srv \<longleftrightarrow> cc_Admin cc \<noteq> None"
    and "multiServer srv = None"
proof -
  obtain cx1 ext where e: "getExternalLogger cx = (cx1, ext)" by fastforce
  let ?cx2 = "if ext = None then PutLogger cx1 (BootstrapLogger, None) else cx1"
  let ?cx4 = "\<lambda>conf hooks. if ext = None then PutLogger (with_config ?cx2 conf) (choose_logger hooks)
    else with_config ?cx2 conf"
  from assms e obtain cc svc hooks conf mgr grpc
    where "MustTypeCheckCreateService (createService_type B) (serviceInterface B) = (Ok () :: ('x booterr, unit) res)"
      "LoadCustomConfig (ToStringE B) (open_config B) (os_Args B) (b_yaml cx) = Ok cc"
      "validateConfig (struct_check B) hooks (default_config_of d cc) = Ok conf"
      "withLogLevel (?cx4 conf hooks) conf = (Ok cx' :: ('x booterr, _) res)"
      "newManagers B cx' svc hooks = Inr (mgr, grpc)"
      "srv = \<lparr>as_ctx = b_ctx cx', as_name = ''nameless-autogenerated-app'',
         restManager = mgr, grpcServerManager = grpc, prometheusRegistry = (cc_Admin cc \<noteq> None),
         multiServer = None, as_hooks = map_option server_hooks.truncate hooks\<rparr>"
    unfolding NewServer_def Let_def by (auto simp only: go_res prod.case callback_Ok prod.inject)
  moreover have "b_ctx (?cx4 conf hooks) = PutDefaultConfig (b_ctx cx1) conf"
    "b_logger (?cx4 conf hooks) = (if ext = None then Some (choose_logger hooks) else b_logger cx1)"
    by (simp_all add: with_config_def PutLogger_def)
  ultimately show thesis using that[of cx1 ext cc hooks conf "?cx4 conf hooks" svc mgr grpc] e by simp
qed

section \<open>Properties\<close>


definition sample_custom :: "(unit, unit) custom_config" where
  "sample_custom =
     \<lparr>cc_Library = \<lparr>lib_Log = \<lparr>lc_Format = ''text'', lc_Level = Some DebugLevel, lc_ReportCaller = False,
          lc_LogPayload = False\<rparr>, lib_Profiling = False, lib_Health = False, lib_Authentication = None,
          lib_IncomingHeaderForID = []\<rparr>,
      cc_Admin = None,
      cc_Upstream = \<lparr>up_ContextTimeout = 0, up_HTTP = plain_http,
          up_GRPC = \<lparr>HostName = [], Port = 0, ServerTLS = None, EnableReflection = False\<rparr>,
          up_Temporal = \<lparr>temporal_HostPort = [], temporal_Namespace = []\<rparr>\<rparr>,
      cc_Downstream = None, cc_Development = None, cc_App = ()\<rparr>"

definition sample_boot :: "(unit, unit, unit, unit, string, string) boot_env" where
  "sample_boot =
     \<lparr>os_Args = [''app'', ''config.yaml''], ToStringE = (\<lambda>_. None),
      open_config = (\<lambda>_ _. \<lparr>envVars = \<lparr>vp_Get = (\<lambda>_. None), vp_Unmarshal = Inr (sample_custom, [''envprefix''])\<rparr>,
        strictMode = False, strictModeIgnoredKeys = []\<rparr>),
      createService_type = \<lparr>fn_In = [TContext, TOther ''AppConfig''],
        fn_Out = [TOther ''Service'', THooksPtr, TError]\<rparr>,
      serviceInterface = TOther ''Service'', createService = (\<lambda>_ _. Inr ((), None)),
      struct_check = (\<lambda>_. None), newManagers = (\<lambda>_ _ _. Inr (Some (sample_manager False), None))\<rparr>"

definition sample_bctx :: "unit bctx" where
  "sample_bctx = \<lparr>b_ctx = Background, b_logger = None, b_logrus = None, b_pkgFields = None, b_yaml = None\<rparr>"

lemma sample_load: "LoadCustomConfig (ToStringE sample_boot) (open_config sample_boot) (os_Args sample_boot) None = Ok sample_custom"
proof -
  have "ToLower envPrefixConfigKey = ''envprefix''" by code_simp
  then show ?thesis
    by (simp add: LoadCustomConfig_def config_source_def sample_boot_def configReader_Unmarshal_def
        strict_reader_def validateNoUnusedKeys_def)
qed

lemma sample_boots: "\<exists>r. NewServer sample_boot sample_bctx () = Ok r"
  using sample_load
  by (simp add: NewServer_def getExternalLogger_def sample_bctx_def MustTypeCheckCreateService_def
      validateConfig_def withLogLevel_def WithLevel_def PutLogger_def with_config_def deref_def choose_logger_def Let_def)
    (simp add: sample_boot_def)


end
