(* ===== verification/ConfigBuilder.thy ===== *)
theory ConfigBuilder
  imports Bootstrap
begin

text \<open>
  The builder of configuration readers (config/configreaderbuilder.go) and the way \<^verbatim>\<open>LoadCustomConfig\<close> of
  core/serve.go goes through it.

  A builder is passed by value but holds a pointer to its viper instance: the instances live in a store and a
  builder, like a reader built from it, has the address of one.  The viper library is an argument
  (\<open>viper_lib\<close>); \<^verbatim>\<open>log.Fatalln\<close> ends the process, which is the error of the result.
\<close>

section \<open>The builder\<close>

record ('v, 'fs, 't, 'x) viper_lib =
  vl_New :: 'v
  vl_SetEnvPrefix :: "string \<Rightarrow> 'v \<Rightarrow> 'v"
  vl_AutomaticEnv :: "'v \<Rightarrow> 'v"
  vl_SetEnvKeyReplacer :: "(string \<times> string) list \<Rightarrow> 'v \<Rightarrow> 'v"
  vl_SetConfigFile :: "string \<Rightarrow> 'v \<Rightarrow> 'v"
  vl_SetConfigName :: "string \<Rightarrow> 'v \<Rightarrow> 'v"
  vl_AddConfigPath :: "string \<Rightarrow> 'v \<Rightarrow> 'v"
  vl_SetFs :: "'fs \<Rightarrow> 'v \<Rightarrow> 'v"
  vl_SetDefault :: "string \<Rightarrow> default_value \<Rightarrow> 'v \<Rightarrow> 'v"
  vl_MergeInConfig :: "'v \<Rightarrow> 'x + 'v"
  vl_ReadInConfig :: "'v \<Rightarrow> 'x + 'v"
  vl_contents :: "'v \<Rightarrow> ('t, 'x) viper"

record ConfigReaderBuilder =
  cb_envVars :: addr
  cb_strictMode :: bool
  cb_strictModeIgnoredKeys :: "string list"

text \<open>A method call on the instance at an address; one that fails ends the process.\<close>

definition on_viper :: "addr \<Rightarrow> ('v \<Rightarrow> 'v) \<Rightarrow> 'v list \<Rightarrow> 'v list" where
  "on_viper a f st = st[a := f (st ! a)]"

definition or_fatal :: "addr \<Rightarrow> ('v \<Rightarrow> 'x + 'v) \<Rightarrow> 'v list \<Rightarrow> ('x, 'v list) res" where
  "or_fatal a f st = (case f (st ! a) of Inl x \<Rightarrow> Err x | Inr v \<Rightarrow> Ok (st[a := v]))"

definition NewConfigReaderBuilder :: "('v, 'fs, 't, 'x) viper_lib \<Rightarrow> 'v list \<Rightarrow> ConfigReaderBuilder \<times> 'v list" where
  "NewConfigReaderBuilder V st =
     (\<lparr>cb_envVars = length st, cb_strictMode = False, cb_strictModeIgnoredKeys = []\<rparr>, st @ [vl_New V])"

definition AttachEnvPrefix ::
  "('v, 'fs, 't, 'x) viper_lib \<Rightarrow> ConfigReaderBuilder \<Rightarrow> string \<Rightarrow> 'v list \<Rightarrow> ConfigReaderBuilder \<times> 'v list" where
  "AttachEnvPrefix V b appName st =
     (let s1 = on_viper (cb_envVars b) (vl_SetEnvPrefix V appName) st;
          s2 = on_viper (cb_envVars b) (vl_AutomaticEnv V) s1;
          s3 = on_viper (cb_envVars b) (vl_SetEnvKeyReplacer V [(''.'', ''_'')]) s2
      in (b, s3))"

definition builder_WithConfigFile ::
  "('v, 'fs, 't, 'x) viper_lib \<Rightarrow> ConfigReaderBuilder \<Rightarrow> string \<Rightarrow> 'v list \<Rightarrow> ('x, ConfigReaderBuilder \<times> 'v list) res" where
  "builder_WithConfigFile V b configFile st =
     (let s1 = on_viper (cb_envVars b) (vl_SetConfigFile V configFile) st
      in and_then (or_fatal (cb_envVars b) (vl_MergeInConfig V) s1) (\<lambda>s2. Ok (b, s2)))"

definition builder_WithConfigName ::
  "('v, 'fs, 't, 'x) viper_lib \<Rightarrow> ConfigReaderBuilder \<Rightarrow> string \<Rightarrow> string list \<Rightarrow> 'v list \<Rightarrow>
     ('x, ConfigReaderBuilder \<times> 'v list) res" where
  "builder_WithConfigName V b configName configPath st =
     (let s1 = on_viper (cb_envVars b) (vl_SetConfigName V configName) st;
          s2 = fold (\<lambda>path. on_viper (cb_envVars b) (vl_AddConfigPath V path)) configPath s1
      in and_then (or_fatal (cb_envVars b) (vl_MergeInConfig V) s2) (\<lambda>s3. Ok (b, s3)))"

definition WithFs ::
  "('v, 'fs, 't, 'x) viper_lib \<Rightarrow> ConfigReaderBuilder \<Rightarrow> 'fs \<Rightarrow> 'v list \<Rightarrow> ConfigReaderBuilder \<times> 'v list" where
  "WithFs V b fs st = (b, on_viper (cb_envVars b) (vl_SetFs V fs) st)"

definition WithStrictMode :: "ConfigReaderBuilder \<Rightarrow> bool \<Rightarrow> string list \<Rightarrow> ConfigReaderBuilder" where
  "WithStrictMode b strict ignoredKeys = b\<lparr>cb_strictMode := strict, cb_strictModeIgnoredKeys := ignoredKeys\<rparr>"

text \<open>\<open>setDefaults\<close> is the list of the calls the argument of \<^verbatim>\<open>WithDefaults\<close> makes.\<close>

definition WithDefaults ::
  "('v, 'fs, 't, 'x) viper_lib \<Rightarrow> ConfigReaderBuilder \<Rightarrow> (string \<times> default_value) list \<Rightarrow> 'v list \<Rightarrow>
     ConfigReaderBuilder \<times> 'v list" where
  "WithDefaults V b setDefaults st =
     (b, fold (\<lambda>(key, val). on_viper (cb_envVars b) (vl_SetDefault V key val)) setDefaults st)"

text \<open>A built reader is a copy of the reader inside the builder, with the same pointer.\<close>

definition Build ::
  "('v, 'fs, 't, 'x) viper_lib \<Rightarrow> ConfigReaderBuilder \<Rightarrow> 'v list \<Rightarrow> ('x, ConfigReaderBuilder \<times> 'v list) res" where
  "Build V b st = and_then (or_fatal (cb_envVars b) (vl_ReadInConfig V) st) (\<lambda>s1. Ok (b, s1))"

text \<open>What a reader reads when its methods are called in a store.\<close>

definition reader_in :: "('v, 'fs, 't, 'x) viper_lib \<Rightarrow> ConfigReaderBuilder \<Rightarrow> 'v list \<Rightarrow> ('t, 'x) configReaderImpl" where
  "reader_in V b st =
     \<lparr>envVars = vl_contents V (st ! cb_envVars b), strictMode = cb_strictMode b,
      strictModeIgnoredKeys = cb_strictModeIgnoredKeys b\<rparr>"

section \<open>Loading the configuration of a service\<close>

text \<open>
  \<open>mem_fs text\<close> is an in-memory file system with the text as its \<^verbatim>\<open>config.yaml\<close>, \<open>os_fs\<close> that of the
  operating system.
\<close>

definition source_file :: "(string \<Rightarrow> 'fs) \<Rightarrow> 'fs \<Rightarrow> cfg_source \<Rightarrow> 'fs \<times> string" where
  "source_file mem_fs os_fs src =
     (case src of MemFile text \<Rightarrow> (mem_fs text, ''config.yaml'') | OsFile path \<Rightarrow> (os_fs, path))"

definition read_custom_config ::
  "('v, 'fs, 't, 'x) viper_lib \<Rightarrow> (goval \<Rightarrow> string option) \<Rightarrow> 'fs \<times> string \<Rightarrow> 'v list \<Rightarrow> ('x, ('x readerr, 't) res) res" where
  "read_custom_config V cast_string source st =
     (case source of (fs, configPath) \<Rightarrow>
       (let (b0, s0) = NewConfigReaderBuilder V st;
            (b1, s1) = WithFs V b0 fs s0
        in and_then (builder_WithConfigFile V b1 configPath s1) (\<lambda>(b2, s2).
          (let (b3, s3) = WithDefaults V b2 SetDefaults s2;
               b4 = WithStrictMode b3 True [envPrefixConfigKey]
           in and_then (Build V b4 s3) (\<lambda>(r, s4).
             (let (b5, s5) =
                (case configReader_GetString cast_string (reader_in V r s4) envPrefixConfigKey of
                   Ok env \<Rightarrow> if length env > 0 then AttachEnvPrefix V b4 env s4 else (b4, s4)
                 | _ \<Rightarrow> (b4, s4))
              in and_then (Build V b5 s5) (\<lambda>(r', s6). Ok (configReader_Unmarshal (reader_in V r' s6)))))))))"

definition LoadCustomConfig_built ::
  "('v, 'fs, 't, 'x) viper_lib \<Rightarrow> (goval \<Rightarrow> string option) \<Rightarrow> (string \<Rightarrow> 'fs) \<Rightarrow> 'fs \<Rightarrow> 'v list \<Rightarrow>
     string list \<Rightarrow> string option \<Rightarrow> ('x, ('x booterr, 't) res) res" where
  "LoadCustomConfig_built V cast_string mem_fs os_fs st args yaml =
     (case config_source args yaml of
        Ok src \<Rightarrow> and_then (read_custom_config V cast_string (source_file mem_fs os_fs src) st) (\<lambda>r. Ok (map_err ReadErr r))
      | Err e \<Rightarrow> Ok (Err e)
      | Panic p \<Rightarrow> Ok (Panic p))"

section \<open>One instance under a builder\<close>

lemma on_viper_nth [simp]: "a < length st \<Longrightarrow> on_viper a f st ! a = f (st ! a)"
  by (simp add: on_viper_def)

lemma on_viper_length [simp]: "length (on_viper a f st) = length st"
  by (simp add: on_viper_def)

lemma on_viper_other [simp]: "b \<noteq> a \<Longrightarrow> on_viper a f st ! b = st ! b"
  by (simp add: on_viper_def)

lemma fold_on_viper:
  "a < length st \<Longrightarrow> fold (\<lambda>p. on_viper a (g p)) ps st = st[a := fold g ps (st ! a)]"
  by (induction ps arbitrary: st) (simp_all add: on_viper_def)

lemma or_fatal_Ok:
  "or_fatal a f st = Ok st' \<longleftrightarrow> (\<exists>v. f (st ! a) = Inr v \<and> st' = st[a := v])"
  by (auto simp: or_fatal_def split: sum.splits)

text \<open>The instance \<open>b\<close> points to, after each operation of the builder.\<close>

definition prefixed :: "('v, 'fs, 't, 'x) viper_lib \<Rightarrow> string \<Rightarrow> 'v \<Rightarrow> 'v" where
  "prefixed V env v = vl_SetEnvKeyReplacer V [(''.'', ''_'')] (vl_AutomaticEnv V (vl_SetEnvPrefix V env v))"

lemma AttachEnvPrefix_eq:
  "cb_envVars b < length st \<Longrightarrow>
     AttachEnvPrefix V b env st = (b, st[cb_envVars b := prefixed V env (st ! cb_envVars b)])"
  by (simp add: AttachEnvPrefix_def on_viper_def prefixed_def Let_def)

lemma WithConfigFile_Ok:
  "cb_envVars b < length st \<Longrightarrow> builder_WithConfigFile V b f st = Ok (b', st') \<longleftrightarrow>
     b' = b \<and> (\<exists>v. vl_MergeInConfig V (vl_SetConfigFile V f (st ! cb_envVars b)) = Inr v \<and> st' = st[cb_envVars b := v])"
  by (auto simp: builder_WithConfigFile_def go_res or_fatal_Ok on_viper_def Let_def)

lemma Build_Ok:
  "cb_envVars b < length st \<Longrightarrow> Build V b st = Ok (b', st') \<longleftrightarrow>
     b' = b \<and> (\<exists>v. vl_ReadInConfig V (st ! cb_envVars b) = Inr v \<and> st' = st[cb_envVars b := v])"
  by (auto simp: Build_def go_res or_fatal_Ok)

lemma WithDefaults_eq:
  "cb_envVars b < length st \<Longrightarrow> WithDefaults V b ds st =
     (b, st[cb_envVars b := fold (\<lambda>(key, val). vl_SetDefault V key val) ds (st ! cb_envVars b)])"
  using fold_on_viper[of "cb_envVars b" st "\<lambda>(key, val). vl_SetDefault V key val" ds]
  by (simp add: WithDefaults_def case_prod_unfold)

text \<open>
  What is relied on of viper: an instance has settings (where to read, defaults, environment) beside the values
  it has read; reading and merging keep the settings, \<^verbatim>\<open>ReadInConfig\<close> loads the values anew from what the
  settings name, and setting the file replaces the one set before.
\<close>

definition reads_anew :: "('v, 'fs, 't, 'x) viper_lib \<Rightarrow> ('v \<Rightarrow> 's) \<Rightarrow> bool" where
  "reads_anew V settings \<longleftrightarrow>
     (\<forall>v v'. settings v = settings v' \<longrightarrow> vl_ReadInConfig V v = vl_ReadInConfig V v') \<and>
     (\<forall>v v'. vl_ReadInConfig V v = Inr v' \<longrightarrow> settings v' = settings v) \<and>
     (\<forall>v v'. vl_MergeInConfig V v = Inr v' \<longrightarrow> settings v' = settings v) \<and>
     (\<forall>f v v'. settings v = settings v' \<longrightarrow> settings (vl_SetConfigFile V f v) = settings (vl_SetConfigFile V f v')) \<and>
     (\<forall>f g v. settings (vl_SetConfigFile V g (vl_SetConfigFile V f v)) = settings (vl_SetConfigFile V g v))"

section \<open>Properties of the builder\<close>

text \<open>
  Only the last file counts: a builder that is given two files builds the reader it builds when it is given the
  second one alone.
\<close>

theorem last_file_wins:
  assumes "reads_anew V settings" and "cb_envVars b < length st"
    and "builder_WithConfigFile V b f st = Ok (b1, s1)" and "builder_WithConfigFile V b1 g s1 = Ok (b2, s2)"
    and "Build V b2 s2 = Ok (r, s3)"
    and "builder_WithConfigFile V b g st = Ok (b1', s1')"
  shows "Build V b1' s1' = Ok (r, s3)"
proof -
  let ?a = "cb_envVars b"
  obtain v1 where v1: "b1 = b" "vl_MergeInConfig V (vl_SetConfigFile V f (st ! ?a)) = Inr v1" "s1 = st[?a := v1]"
    using assms(2,3) by (auto simp: WithConfigFile_Ok)
  obtain v2 where v2: "b2 = b" "vl_MergeInConfig V (vl_SetConfigFile V g v1) = Inr v2" "s2 = st[?a := v2]"
    using assms(2,4) v1 by (auto simp: WithConfigFile_Ok)
  obtain v3 where v3: "r = b" "vl_ReadInConfig V v2 = Inr v3" "s3 = st[?a := v3]"
    using assms(2,5) v2 by (auto simp: Build_Ok)
  obtain u where u: "b1' = b" "vl_MergeInConfig V (vl_SetConfigFile V g (st ! ?a)) = Inr u" "s1' = st[?a := u]"
    using assms(2,6) by (auto simp: WithConfigFile_Ok)
  have "settings v2 = settings (vl_SetConfigFile V g v1)" using assms(1) v2(2) unfolding reads_anew_def by blast
  also have "\<dots> = settings (vl_SetConfigFile V g (vl_SetConfigFile V f (st ! ?a)))"
    using assms(1) v1(2) unfolding reads_anew_def by blast
  also have "\<dots> = settings u" using assms(1) u(2) unfolding reads_anew_def by metis
  finally have "vl_ReadInConfig V u = Inr v3" using assms(1) v3(2) unfolding reads_anew_def by metis
  then show ?thesis using assms(2) u v3 by (simp add: Build_Ok)
qed

text \<open>
  A builder returned by a method shares its instance with the builder the method was called on and with every
  reader built before: attaching a prefix is seen through all of them, and through no builder with an instance
  of its own; the strict mode is that of each value.
\<close>

theorem builders_share_instance:
  assumes "cb_envVars b < length st" and "AttachEnvPrefix V b env st = (b', st')"
  shows "(cb_envVars r = cb_envVars b \<longrightarrow> reader_in V r st' =
      (reader_in V r st)\<lparr>envVars := vl_contents V (prefixed V env (st ! cb_envVars r))\<rparr>) \<and>
    (cb_envVars r \<noteq> cb_envVars b \<longrightarrow> reader_in V r st' = reader_in V r st)"
  using assms by (auto simp: AttachEnvPrefix_eq reader_in_def)

text \<open>The reader of a source, as the loading of the configuration uses it.\<close>

definition opened :: "('v, 'fs, 't, 'x) viper_lib \<Rightarrow> 'fs \<times> string \<Rightarrow> 'x + 'v" where
  "opened V source =
     (case vl_MergeInConfig V (vl_SetConfigFile V (snd source) (vl_SetFs V (fst source) (vl_New V))) of
        Inl x \<Rightarrow> Inl x
      | Inr v \<Rightarrow> vl_ReadInConfig V (fold (\<lambda>(key, val). vl_SetDefault V key val) SetDefaults v))"

definition open_with ::
  "('v, 'fs, 't, 'x) viper_lib \<Rightarrow> 'fs \<times> string \<Rightarrow> string option \<Rightarrow> ('t, 'x) configReaderImpl" where
  "open_with V source pre =
     (let v = projr (opened V source)
      in \<lparr>envVars = vl_contents V (case pre of None \<Rightarrow> v | Some env \<Rightarrow> projr (vl_ReadInConfig V (prefixed V env v))),
          strictMode = False, strictModeIgnoredKeys = []\<rparr>)"

lemma read_again:
  "reads_anew V settings \<Longrightarrow> vl_ReadInConfig V v = Inr v' \<Longrightarrow> vl_ReadInConfig V v' = Inr v'"
  unfolding reads_anew_def by metis

lemma read_custom_config_eq:
  assumes "reads_anew V settings" and "opened V source = Inr v"
    and "\<And>env. \<exists>u. vl_ReadInConfig V (prefixed V env v) = Inr u"
  shows "read_custom_config V cast_string source st = Ok
    (configReader_Unmarshal (strict_reader (open_with V source
       (case configReader_GetString cast_string (strict_reader (open_with V source None)) envPrefixConfigKey of
          Ok env \<Rightarrow> if length env > 0 then Some env else None | _ \<Rightarrow> None))))"
proof -
  obtain fs path where src: "source = (fs, path)" by (cases source)
  obtain m where m: "vl_MergeInConfig V (vl_SetConfigFile V path (vl_SetFs V fs (vl_New V))) = Inr m"
      "vl_ReadInConfig V (fold (\<lambda>(key, val). vl_SetDefault V key val) SetDefaults m) = Inr v"
    using assms(2) by (auto simp: opened_def src split: sum.splits)
  let ?a = "length st" and ?b = "\<lparr>cb_envVars = length st, cb_strictMode = False, cb_strictModeIgnoredKeys = []\<rparr>"
  let ?b4 = "WithStrictMode ?b True [envPrefixConfigKey]"
  let ?get = "configReader_GetString cast_string (strict_reader (open_with V source None)) envPrefixConfigKey"
  have b4: "cb_envVars ?b4 = ?a" by (simp add: WithStrictMode_def)
  have s2: "builder_WithConfigFile V ?b path (on_viper ?a (vl_SetFs V fs) (st @ [vl_New V])) = Ok (?b, st @ [m])"
    using m(1) by (simp add: WithConfigFile_Ok on_viper_def)
  have s4: "Build V ?b4 (st @ [fold (\<lambda>(key, val). vl_SetDefault V key val) SetDefaults m]) = Ok (?b4, st @ [v])"
    using m(2) b4 by (simp add: Build_Ok)
  have r: "reader_in V ?b4 (st @ [u]) = strict_reader (open_with V source pre)"
    if "u = (case pre of None \<Rightarrow> v | Some env \<Rightarrow> projr (vl_ReadInConfig V (prefixed V env v)))" for u pre
    using that assms(2) by (simp add: reader_in_def WithStrictMode_def strict_reader_def open_with_def)
  have fin: "and_then (Build V b5 s5) (\<lambda>(r', s6). Ok (configReader_Unmarshal (reader_in V r' s6))) =
      Ok (configReader_Unmarshal (strict_reader (open_with V source pre)))"
    if "(b5, s5) = (case pre of None \<Rightarrow> (?b4, st @ [v]) | Some env \<Rightarrow> AttachEnvPrefix V ?b4 env (st @ [v]))" for b5 s5 pre
  proof (cases pre)
    case None
    then have "Build V b5 s5 = Ok (?b4, st @ [v])" using that read_again[OF assms(1) m(2)] b4 by (simp add: Build_Ok)
    then show ?thesis using r[of v None] None by simp
  next
    case (Some env)
    obtain u where u: "vl_ReadInConfig V (prefixed V env v) = Inr u" using assms(3) by blast
    then have "Build V b5 s5 = Ok (?b4, st @ [u])" using that Some b4 by (simp add: AttachEnvPrefix_eq Build_Ok)
    then show ?thesis using r[of u "Some env"] Some u by simp
  qed
  have fin': "(case (case pre of None \<Rightarrow> (?b4, st @ [v]) | Some env \<Rightarrow> AttachEnvPrefix V ?b4 env (st @ [v])) of (b5, s5) \<Rightarrow>
      and_then (Build V b5 s5) (\<lambda>(r', s6). Ok (configReader_Unmarshal (reader_in V r' s6)))) =
      Ok (configReader_Unmarshal (strict_reader (open_with V source pre)))" for pre
    using fin[OF sym] by (auto split: prod.split)
  define pre where "pre = (case ?get of Ok env \<Rightarrow> if length env > 0 then Some env else None | _ \<Rightarrow> None)"
  have p: "(case ?get of Ok env \<Rightarrow> if length env > 0 then AttachEnvPrefix V ?b4 env (st @ [v]) else (?b4, st @ [v])
      | _ \<Rightarrow> (?b4, st @ [v])) = (case pre of None \<Rightarrow> (?b4, st @ [v]) | Some env \<Rightarrow> AttachEnvPrefix V ?b4 env (st @ [v]))"
    by (cases ?get) (auto simp: pre_def)
  show ?thesis
    by (simp add: read_custom_config_def src NewConfigReaderBuilder_def WithFs_def s2 WithDefaults_eq s4
        r[of v None, unfolded src])
      (simp add: p[unfolded src] fin'[unfolded src] pre_def src Let_def)
qed

text \<open>
  C15.  Loading a configuration through the builder refines \<^verbatim>\<open>LoadCustomConfig\<close> over an ideal reader of the source: the
  two builds over one shared instance read the file with its defaults, the second one with the environment prefix
  that the first one found in the file, and the process ends exactly when the file cannot be read.
\<close>

theorem load_refines_reader:
  fixes V :: "('v, 'fs, 't, 'x) viper_lib"
  assumes "reads_anew V settings"
    and "\<And>source v env. opened V source = Inr v \<Longrightarrow> \<exists>u. vl_ReadInConfig V (prefixed V env v) = Inr u"
  shows "LoadCustomConfig_built V cast_string mem_fs os_fs st args yaml =
    (case (config_source args yaml :: ('x booterr, _) res) of
       Ok src \<Rightarrow>
         (case opened V (source_file mem_fs os_fs src) of
            Inl x \<Rightarrow> Err x
          | Inr _ \<Rightarrow> Ok (LoadCustomConfig cast_string (\<lambda>src. open_with V (source_file mem_fs os_fs src)) args yaml))
     | _ \<Rightarrow> Ok (LoadCustomConfig cast_string (\<lambda>src. open_with V (source_file mem_fs os_fs src)) args yaml))"
proof (cases "config_source args yaml :: ('x booterr, _) res")
  case (Ok src)
  let ?s = "source_file mem_fs os_fs src"
  show ?thesis
  proof (cases "opened V ?s")
    case (Inr v)
    from read_custom_config_eq[OF assms(1) Inr assms(2)[OF Inr], of cast_string st] Ok Inr show ?thesis
      by (simp add: LoadCustomConfig_built_def LoadCustomConfig_def Let_def)
  next
    case (Inl x)
    then have "read_custom_config V cast_string ?s st = Err x"
      by (auto simp: opened_def read_custom_config_def NewConfigReaderBuilder_def WithFs_def builder_WithConfigFile_def
          or_fatal_def on_viper_def WithDefaults_eq Build_def WithStrictMode_def split: sum.splits prod.split)
    then show ?thesis using Ok Inl by (simp add: LoadCustomConfig_built_def)
  qed
qed (simp_all add: LoadCustomConfig_built_def LoadCustomConfig_def)

text \<open>An instance of a file name, a file system and the text read; every file decodes to its text.\<close>

definition text_viper :: "(string \<times> (string \<rightharpoonup> string) \<times> string, string \<rightharpoonup> string, string, string) viper_lib" where
  "text_viper =
     \<lparr>vl_New = ([], Map.empty, []), vl_SetEnvPrefix = (\<lambda>_ v. v), vl_AutomaticEnv = (\<lambda>v. v), vl_SetEnvKeyReplacer = (\<lambda>_ v. v),
      vl_SetConfigFile = (\<lambda>f (_, fs, d). (f, fs, d)), vl_SetConfigName = (\<lambda>f (_, fs, d). (f, fs, d)),
      vl_AddConfigPath = (\<lambda>_ v. v), vl_SetFs = (\<lambda>fs (f, _, d). (f, fs, d)), vl_SetDefault = (\<lambda>_ _ v. v),
      vl_MergeInConfig = (\<lambda>(f, fs, d). case fs f of None \<Rightarrow> Inl ''no such file'' | Some t \<Rightarrow> Inr (f, fs, d @ t)),
      vl_ReadInConfig = (\<lambda>(f, fs, d). case fs f of None \<Rightarrow> Inl ''no such file'' | Some t \<Rightarrow> Inr (f, fs, t)),
      vl_contents = (\<lambda>(f, fs, d). \<lparr>vp_Get = (\<lambda>_. None), vp_Unmarshal = Inr (d, [])\<rparr>)\<rparr>"

lemma text_viper_reads_anew: "reads_anew text_viper (\<lambda>(f, fs, d). (f, fs))"
  unfolding reads_anew_def by (auto simp: text_viper_def split: option.splits)

lemma fold_default_text: "fold (\<lambda>(key, val). vl_SetDefault text_viper key val) ds v = v"
  by (induction ds) (auto simp: text_viper_def)

lemma text_viper_prefixed:
  assumes "opened text_viper source = Inr v"
  shows "\<exists>u. vl_ReadInConfig text_viper (prefixed text_viper env v) = Inr u"
proof -
  obtain m where "vl_ReadInConfig text_viper m = Inr v"
    using assms by (auto simp: opened_def split: sum.splits)
  moreover have "prefixed text_viper env v = v" by (simp add: prefixed_def text_viper_def)
  ultimately show ?thesis using read_again[OF text_viper_reads_anew] by metis
qed

theorem load_refines_reader_witness:
  "LoadCustomConfig_built text_viper (\<lambda>_. None) (\<lambda>t. [''config.yaml'' \<mapsto> t]) Map.empty [] [''app''] (Some ''a: 1'') =
     Ok (Ok ''a: 1'')"
proof -
  let ?fs = "\<lambda>t. [''config.yaml'' \<mapsto> t]" and ?v = "(''config.yaml'', [''config.yaml'' \<mapsto> ''a: 1''], ''a: 1'')"
  have m: "vl_MergeInConfig text_viper (vl_SetConfigFile text_viper ''config.yaml''
      (vl_SetFs text_viper [''config.yaml'' \<mapsto> ''a: 1''] (vl_New text_viper))) = Inr ?v" "vl_ReadInConfig text_viper ?v = Inr ?v"
    and c: "vl_contents text_viper ?v = \<lparr>vp_Get = (\<lambda>_. None), vp_Unmarshal = Inr (''a: 1'', [])\<rparr>"
    by (simp_all add: text_viper_def)
  have o: "opened text_viper (source_file ?fs Map.empty (MemFile ''a: 1'')) = Inr ?v"
    by (simp add: opened_def source_file_def m fold_default_text)
  have "open_with text_viper (source_file ?fs Map.empty (MemFile ''a: 1'')) None =
      \<lparr>envVars = \<lparr>vp_Get = (\<lambda>_. None), vp_Unmarshal = Inr (''a: 1'', [])\<rparr>, strictMode = False, strictModeIgnoredKeys = []\<rparr>"
    by (simp add: open_with_def o c)
  then have l: "LoadCustomConfig (\<lambda>_. None) (\<lambda>src. open_with text_viper (source_file ?fs Map.empty src)) [''app''] (Some ''a: 1'') =
      Ok ''a: 1''"
    by (simp add: LoadCustomConfig_def config_source_def strict_reader_def configReader_GetString_def
        configReader_Get_def configReader_Unmarshal_def validateNoUnusedKeys_def)
  have s: "(config_source [''app''] (Some ''a: 1'') :: (string booterr, _) res) = Ok (MemFile ''a: 1'')"
    by (simp add: config_source_def)
  have "LoadCustomConfig_built text_viper (\<lambda>_. None) ?fs Map.empty [] [''app''] (Some ''a: 1'') =
      (case (config_source [''app''] (Some ''a: 1'') :: (string booterr, _) res) of
         Ok src \<Rightarrow> (case opened text_viper (source_file ?fs Map.empty src) of
            Inl x \<Rightarrow> Err x
          | Inr _ \<Rightarrow> Ok (LoadCustomConfig (\<lambda>_. None) (\<lambda>src. open_with text_viper (source_file ?fs Map.empty src)) [''app''] (Some ''a: 1'')))
       | _ \<Rightarrow> Ok (LoadCustomConfig (\<lambda>_. None) (\<lambda>src. open_with text_viper (source_file ?fs Map.empty src)) [''app''] (Some ''a: 1'')))"
    by (rule load_refines_reader[OF text_viper_reads_anew]) (rule text_viper_prefixed)
  then show ?thesis by (simp only: s res.case o sum.case l)
qed

definition two_files :: "string \<rightharpoonup> string" where
  "two_files = [''a.yaml'' \<mapsto> ''x: 1'', ''b.yaml'' \<mapsto> ''y: 2'']"

theorem last_file_wins_witness:
  "\<exists>b1 s1 b2 s2 r s3. builder_WithConfigFile text_viper \<lparr>cb_envVars = 0, cb_strictMode = False, cb_strictModeIgnoredKeys = []\<rparr>
       ''a.yaml'' [([], two_files, [])] = Ok (b1, s1) \<and>
     builder_WithConfigFile text_viper b1 ''b.yaml'' s1 = Ok (b2, s2) \<and> Build text_viper b2 s2 = Ok (r, s3) \<and>
     configReader_Unmarshal (reader_in text_viper r s3) = Ok ''y: 2''"
proof -
  let ?b = "\<lparr>cb_envVars = 0, cb_strictMode = False, cb_strictModeIgnoredKeys = []\<rparr>" and ?st = "[([], two_files, [])]"
  have 0: "cb_envVars ?b < length ?st" by simp
  have 1: "builder_WithConfigFile text_viper ?b ''a.yaml'' ?st = Ok (?b, [(''a.yaml'', two_files, ''x: 1'')])"
    and 2: "builder_WithConfigFile text_viper ?b ''b.yaml'' [(''a.yaml'', two_files, ''x: 1'')] =
      Ok (?b, [(''b.yaml'', two_files, ''x: 1y: 2'')])"
    and 3: "Build text_viper ?b [(''b.yaml'', two_files, ''x: 1y: 2'')] = Ok (?b, [(''b.yaml'', two_files, ''y: 2'')])"
    and 4: "builder_WithConfigFile text_viper ?b ''b.yaml'' ?st = Ok (?b, [(''b.yaml'', two_files, ''y: 2'')])"
    by (simp_all add: WithConfigFile_Ok Build_Ok text_viper_def two_files_def)
  have "Build text_viper ?b [(''b.yaml'', two_files, ''y: 2'')] = Ok (?b, [(''b.yaml'', two_files, ''y: 2'')])"
    by (rule last_file_wins[OF text_viper_reads_anew 0 1 2 3 4])
  moreover have "configReader_Unmarshal (reader_in text_viper ?b [(''b.yaml'', two_files, ''y: 2'')]) = Ok ''y: 2''"
    by (simp add: configReader_Unmarshal_def reader_in_def text_viper_def)
  ultimately show ?thesis using 1 2 3 by blast
qed

end
