(* ===== verification/Logging.thy ===== *)
theory Logging
  imports GoPrelude
begin

text \<open>
  Package log (log/logging.go): the \<^verbatim>\<open>Logger\<close> interface with its three implementations, and the logger a
  context carries.

  The log libraries are arguments.  \<open>'f\<close> is the type of field sets of pkg/log and \<open>'z\<close> that of loggers of
  pkg/logging; both are immutable values.  A logrus logger is a mutable object: an address, whose level is
  kept in a store.  \<open>onto f g\<close> are the fields found in a context that had the fields \<open>g\<close> after \<open>f\<close> is
  put onto it.  A call of a log library is recorded as a \<open>log_call\<close>.
\<close>

section \<open>Loggers\<close>

datatype fval = FStr string | FInt int | FDur int

record ('f, 'z) log_libs =
  pkg_With :: "'f \<Rightarrow> string \<Rightarrow> fval \<Rightarrow> 'f"
  pkg_Verbose :: "'f \<Rightarrow> bool \<Rightarrow> 'f"
  pkg_onto :: "'f \<Rightarrow> 'f \<Rightarrow> 'f"
  zero_With :: "'z \<Rightarrow> string \<Rightarrow> fval \<Rightarrow> 'z"
  zero_WithLevel :: "'z \<Rightarrow> int \<Rightarrow> 'z"
  zero_ErrorLevel :: int
  zero_InfoLevel :: int
  zero_DebugLevel :: int

text \<open>\<^verbatim>\<open>Level\<close> is an integer; its three named values are those of logrus.\<close>

definition errorLevel :: int where "errorLevel = 2"

definition infoLevel :: int where "infoLevel = 4"

definition debugLevel :: int where "debugLevel = 5"

lemmas level_defs = errorLevel_def infoLevel_def debugLevel_def

definition Level_String :: "int \<Rightarrow> string" where
  "Level_String l = (if l = errorLevel then ''error'' else if l = infoLevel then ''info'' else ''debug'')"

datatype ('f, 'z) Logger =
  pkgLogger 'f
| zeroPkgLogger 'z
| logrusLogger nat "string \<rightharpoonup> fval"

type_synonym levels = "nat \<Rightarrow> int"

datatype severity = SError string | SInfo | SDebug

datatype ('f, 'z) log_call =
  PkgCall 'f severity string
| ZeroCall 'z severity string
| LogrusCall nat "string \<rightharpoonup> fval" severity string

definition pkgLogger_log :: "'f \<Rightarrow> severity \<Rightarrow> string \<Rightarrow> ('f, 'z) log_call" where
  "pkgLogger_log f s m = PkgCall f s m"

definition zeroPkgLogger_log :: "'z \<Rightarrow> severity \<Rightarrow> string \<Rightarrow> ('f, 'z) log_call" where
  "zeroPkgLogger_log z s m = ZeroCall z s m"

definition logrusLogger_log :: "nat \<Rightarrow> (string \<rightharpoonup> fval) \<Rightarrow> severity \<Rightarrow> string \<Rightarrow> ('f, 'z) log_call" where
  "logrusLogger_log a fs s m = LogrusCall a fs s m"

lemmas logger_log_defs [simp] = pkgLogger_log_def zeroPkgLogger_log_def logrusLogger_log_def

fun Logger_log :: "('f, 'z) Logger \<Rightarrow> severity \<Rightarrow> string \<Rightarrow> ('f, 'z) log_call" where
  "Logger_log (pkgLogger f) s m = pkgLogger_log f s m"
| "Logger_log (zeroPkgLogger z) s m = zeroPkgLogger_log z s m"
| "Logger_log (logrusLogger a fs) s m = logrusLogger_log a fs s m"

text \<open>The constructors; \<open>no_fields\<close> are the empty fields of pkg/log.\<close>

definition NewPkgLogger :: "'f \<Rightarrow> ('f, 'z) Logger" where
  "NewPkgLogger fs = pkgLogger fs"

definition NewDefaultLogger :: "'f \<Rightarrow> ('f, 'z) Logger" where
  "NewDefaultLogger no_fields = NewPkgLogger no_fields"

definition NewZeroPkgLogger :: "'z \<Rightarrow> ('f, 'z) Logger" where
  "NewZeroPkgLogger z = zeroPkgLogger z"

definition NewLogrusLogger :: "nat \<Rightarrow> ('f, 'z) Logger" where
  "NewLogrusLogger a = logrusLogger a Map.empty"

definition withField :: "(string \<rightharpoonup> fval) \<Rightarrow> string \<Rightarrow> fval \<Rightarrow> (string \<rightharpoonup> fval)" where
  "withField fs key val = fs(key \<mapsto> val)"

definition pkgLogger_With :: "('f, 'z) log_libs \<Rightarrow> 'f \<Rightarrow> string \<Rightarrow> fval \<Rightarrow> ('f, 'z) Logger" where
  "pkgLogger_With L f k v = pkgLogger (pkg_With L f k v)"

definition zeroPkgLogger_With :: "('f, 'z) log_libs \<Rightarrow> 'z \<Rightarrow> string \<Rightarrow> fval \<Rightarrow> ('f, 'z) Logger" where
  "zeroPkgLogger_With L z k v = zeroPkgLogger (zero_With L z k v)"

definition logrusLogger_With :: "nat \<Rightarrow> (string \<rightharpoonup> fval) \<Rightarrow> string \<Rightarrow> fval \<Rightarrow> ('f, 'z) Logger" where
  "logrusLogger_With a fs k v = logrusLogger a (withField fs k v)"

fun Logger_With :: "('f, 'z) log_libs \<Rightarrow> ('f, 'z) Logger \<Rightarrow> string \<Rightarrow> fval \<Rightarrow> ('f, 'z) Logger" where
  "Logger_With L (pkgLogger f) k v = pkgLogger_With L f k v"
| "Logger_With L (zeroPkgLogger z) k v = zeroPkgLogger_With L z k v"
| "Logger_With L (logrusLogger a fs) k v = logrusLogger_With a fs k v"

text \<open>
  The zero values of the level types, set for a level that is none of the three: zero for pkg/logging, and
  for logrus the panic level.
\<close>

definition pkgLogger_WithLevel :: "('f, 'z) log_libs \<Rightarrow> 'f \<Rightarrow> int \<Rightarrow> ('f, 'z) Logger" where
  "pkgLogger_WithLevel L f l = pkgLogger (pkg_Verbose L f (l = debugLevel))"

definition zeroPkgLogger_WithLevel :: "('f, 'z) log_libs \<Rightarrow> 'z \<Rightarrow> int \<Rightarrow> ('f, 'z) Logger" where
  "zeroPkgLogger_WithLevel L z l =
     zeroPkgLogger (zero_WithLevel L z
       (if l = errorLevel then zero_ErrorLevel L
        else if l = infoLevel then zero_InfoLevel L
        else if l = debugLevel then zero_DebugLevel L else 0))"

definition logrusLogger_WithLevel ::
  "levels \<Rightarrow> nat \<Rightarrow> (string \<rightharpoonup> fval) \<Rightarrow> int \<Rightarrow> ('f, 'z) Logger \<times> levels" where
  "logrusLogger_WithLevel lv a fs l =
     (logrusLogger a fs, lv(a := if l \<in> {errorLevel, infoLevel, debugLevel} then l else 0))"

fun Logger_WithLevel :: "('f, 'z) log_libs \<Rightarrow> levels \<Rightarrow> ('f, 'z) Logger \<Rightarrow> int \<Rightarrow> ('f, 'z) Logger \<times> levels" where
  "Logger_WithLevel L lv (pkgLogger f) l = (pkgLogger_WithLevel L f l, lv)"
| "Logger_WithLevel L lv (zeroPkgLogger z) l = (zeroPkgLogger_WithLevel L z l, lv)"
| "Logger_WithLevel L lv (logrusLogger a fs) l = logrusLogger_WithLevel lv a fs l"

section \<open>The logger of a context\<close>

text \<open>
  What a context holds for logging: the function stored under \<^verbatim>\<open>loggerKey\<close>, which either reads the native
  logger of the context it is given or returns a fixed logrus logger; the native fields of pkg/log (the
  empty set when none were put) and logger of pkg/logging (the default one); and the logrus pair of the
  deprecated functions.
\<close>

datatype restore = FromPkg | FromZero | Fixed nat "string \<rightharpoonup> fval"

record ('f, 'z) log_ctx =
  loggerKey :: "restore option"
  native_fields :: 'f
  native_zero :: 'z
  logrusRequestContext :: "(nat \<times> nat option) option"

fun restored :: "('f, 'z) log_ctx \<Rightarrow> restore \<Rightarrow> ('f, 'z) Logger" where
  "restored cx FromPkg = pkgLogger (native_fields cx)"
| "restored cx FromZero = zeroPkgLogger (native_zero cx)"
| "restored cx (Fixed a fs) = logrusLogger a fs"

definition GetLogger :: "('f, 'z) log_ctx \<Rightarrow> ('f, 'z) Logger option" where
  "GetLogger cx = map_option (restored cx) (loggerKey cx)"

definition LogrusLoggerToContext :: "('f, 'z) log_ctx \<Rightarrow> nat \<Rightarrow> nat option \<Rightarrow> ('f, 'z) log_ctx" where
  "LogrusLoggerToContext cx logger entry = cx\<lparr>logrusRequestContext := Some (logger, entry)\<rparr>"

definition GetLogrusLogEntryFromContext :: "('f, 'z) log_ctx \<Rightarrow> nat option" where
  "GetLogrusLogEntryFromContext cx = Option.bind (logrusRequestContext cx) snd"

definition GetLogrusLoggerFromContext :: "('f, 'z) log_ctx \<Rightarrow> nat option" where
  "GetLogrusLoggerFromContext cx = map_option fst (logrusRequestContext cx)"

definition pkgLogger_Inject ::
  "('f, 'z) log_libs \<Rightarrow> ('f, 'z) log_ctx \<Rightarrow> 'f \<Rightarrow> ('f, 'z) log_ctx \<times> restore" where
  "pkgLogger_Inject L cx f = (cx\<lparr>native_fields := pkg_onto L f (native_fields cx)\<rparr>, FromPkg)"

definition zeroPkgLogger_Inject :: "('f, 'z) log_ctx \<Rightarrow> 'z \<Rightarrow> ('f, 'z) log_ctx \<times> restore" where
  "zeroPkgLogger_Inject cx z = (cx\<lparr>native_zero := z\<rparr>, FromZero)"

definition logrusLogger_Inject ::
  "('f, 'z) log_ctx \<Rightarrow> nat \<Rightarrow> (string \<rightharpoonup> fval) \<Rightarrow> ('f, 'z) log_ctx \<times> restore" where
  "logrusLogger_Inject cx a fs = (LogrusLoggerToContext cx a (GetLogrusLogEntryFromContext cx), Fixed a fs)"

fun Inject :: "('f, 'z) log_libs \<Rightarrow> ('f, 'z) log_ctx \<Rightarrow> ('f, 'z) Logger \<Rightarrow> ('f, 'z) log_ctx \<times> restore" where
  "Inject L cx (pkgLogger f) = pkgLogger_Inject L cx f"
| "Inject L cx (zeroPkgLogger z) = zeroPkgLogger_Inject cx z"
| "Inject L cx (logrusLogger a fs) = logrusLogger_Inject cx a fs"

lemmas logger_impl_defs [simp] = pkgLogger_With_def zeroPkgLogger_With_def logrusLogger_With_def
  pkgLogger_WithLevel_def zeroPkgLogger_WithLevel_def logrusLogger_WithLevel_def
  pkgLogger_Inject_def zeroPkgLogger_Inject_def logrusLogger_Inject_def

definition ctx_PutLogger :: "('f, 'z) log_libs \<Rightarrow> ('f, 'z) log_ctx \<Rightarrow> ('f, 'z) Logger \<Rightarrow> ('f, 'z) log_ctx" where
  "ctx_PutLogger L cx l = (let (cx', fn) = Inject L cx l in cx'\<lparr>loggerKey := Some fn\<rparr>)"

text \<open>\<^verbatim>\<open>log.WithStr\<close>, \<^verbatim>\<open>log.WithInt\<close> and \<^verbatim>\<open>log.WithDuration\<close>; a context without a logger panics.\<close>

definition ctx_With ::
  "('f, 'z) log_libs \<Rightarrow> ('f, 'z) log_ctx \<Rightarrow> string \<Rightarrow> fval \<Rightarrow> ('e, ('f, 'z) log_ctx) res" where
  "ctx_With L cx k v = and_then (deref (GetLogger cx)) (\<lambda>l. Ok (ctx_PutLogger L cx (Logger_With L l k v)))"

definition ctx_WithLevel ::
  "('f, 'z) log_libs \<Rightarrow> levels \<Rightarrow> ('f, 'z) log_ctx \<Rightarrow> int \<Rightarrow> ('e, ('f, 'z) log_ctx \<times> levels) res" where
  "ctx_WithLevel L lv cx level =
     and_then (deref (GetLogger cx)) (\<lambda>l.
       (let (l', lv') = Logger_WithLevel L lv l level in Ok (ctx_PutLogger L cx l', lv')))"

text \<open>\<^verbatim>\<open>log.Error\<close>, \<^verbatim>\<open>log.Info\<close> and \<^verbatim>\<open>log.Debug\<close>.\<close>

definition ctx_log :: "('f, 'z) log_ctx \<Rightarrow> severity \<Rightarrow> string \<Rightarrow> ('e, ('f, 'z) log_call) res" where
  "ctx_log cx s m = and_then (deref (GetLogger cx)) (\<lambda>l. Ok (Logger_log l s m))"

fun ctx_With_all ::
  "('f, 'z) log_libs \<Rightarrow> ('f, 'z) log_ctx \<Rightarrow> (string \<times> fval) list \<Rightarrow> ('e, ('f, 'z) log_ctx) res" where
  "ctx_With_all L cx [] = Ok cx"
| "ctx_With_all L cx ((k, v) # kvs) = and_then (ctx_With L cx k v) (\<lambda>cx'. ctx_With_all L cx' kvs)"

section \<open>The contract of a logger\<close>

text \<open>
  \<^verbatim>\<open>WithStr\<close> and its siblings return a logger that persists the key and value: seen through the fields it
  attaches to a message, each is an update of a map.
\<close>

locale persisting =
  fixes fields_of :: "'l \<Rightarrow> (string \<rightharpoonup> fval)" and put :: "'l \<Rightarrow> string \<Rightarrow> fval \<Rightarrow> 'l"
  assumes fields_put: "fields_of (put l k v) = (fields_of l)(k \<mapsto> v)"
begin

lemma fields_put_all:
  "fields_of (fold (\<lambda>(k, v) l. put l k v) kvs l) = fields_of l ++ map_of (rev kvs)"
proof (induction kvs arbitrary: l)
  case (Cons kv kvs)
  then show ?case by (cases kv) (auto simp: fields_put map_add_def fun_eq_iff split: option.splits)
qed simp

lemma last_put_wins: "fields_of (put (put l k v) k v') k = Some v'"
  by (simp add: fields_put)

lemma other_keys_kept: "k \<noteq> k' \<Longrightarrow> fields_of (put l k v) k' = fields_of l k'"
  by (simp add: fields_put)

end

interpretation logrus_fields: persisting "\<lambda>fs. fs" withField
  by unfold_locales (simp add: withField_def)


section \<open>Fields and levels of the logger of a context\<close>

lemmas ctx_logger_defs = ctx_With_def ctx_WithLevel_def ctx_PutLogger_def GetLogger_def Let_def

lemma ctx_With_none: "loggerKey cx = None \<Longrightarrow> ctx_With L cx k v = Panic nil_deref"
  by (simp add: ctx_logger_defs)

lemma ctx_With_pkg:
  "loggerKey cx = Some FromPkg \<Longrightarrow> ctx_With L cx k v =
     Ok (cx\<lparr>native_fields := pkg_onto L (pkg_With L (native_fields cx) k v) (native_fields cx)\<rparr>)"
  by (simp add: ctx_logger_defs)

lemma ctx_With_zero:
  "loggerKey cx = Some FromZero \<Longrightarrow> ctx_With L cx k v = Ok (cx\<lparr>native_zero := zero_With L (native_zero cx) k v\<rparr>)"
  by (simp add: ctx_logger_defs)

lemma ctx_With_fixed:
  "loggerKey cx = Some (Fixed a fs) \<Longrightarrow> ctx_With L cx k v =
     Ok (cx\<lparr>loggerKey := Some (Fixed a (fs(k \<mapsto> v))),
            logrusRequestContext := Some (a, GetLogrusLogEntryFromContext cx)\<rparr>)"
  by (simp add: ctx_logger_defs LogrusLoggerToContext_def withField_def)

lemma logrus_entry_kept:
  "GetLogrusLogEntryFromContext (cx\<lparr>loggerKey := fn, logrusRequestContext := Some (a, e)\<rparr>) = e"
  by (simp add: GetLogrusLogEntryFromContext_def)

text \<open>What a sequence of \<^verbatim>\<open>WithStr\<close>, \<^verbatim>\<open>WithInt\<close> and \<^verbatim>\<open>WithDuration\<close> makes of a context.\<close>

definition with_all :: "('f, 'z) log_libs \<Rightarrow> ('f, 'z) log_ctx \<Rightarrow> (string \<times> fval) list \<Rightarrow> ('e, ('f, 'z) log_ctx) res" where
  "with_all L cx kvs =
     (if kvs = [] then Ok cx
      else case loggerKey cx of
        None \<Rightarrow> Panic nil_deref
      | Some FromPkg \<Rightarrow> Ok (cx\<lparr>native_fields := fold (\<lambda>(k, v) f. pkg_With L f k v) kvs (native_fields cx)\<rparr>)
      | Some FromZero \<Rightarrow> Ok (cx\<lparr>native_zero := fold (\<lambda>(k, v) z. zero_With L z k v) kvs (native_zero cx)\<rparr>)
      | Some (Fixed a fs) \<Rightarrow>
          Ok (cx\<lparr>loggerKey := Some (Fixed a (fs ++ map_of (rev kvs))),
                 logrusRequestContext := Some (a, GetLogrusLogEntryFromContext cx)\<rparr>))"

lemmas with_all_fold = with_all_def[folded logrus_fields.fields_put_all]

lemma ctx_With_all_eq:
  assumes "\<And>f k v. pkg_onto L (pkg_With L f k v) f = pkg_With L f k v"
  shows "ctx_With_all L cx kvs = with_all L cx kvs"
proof (induction kvs arbitrary: cx)
  case (Cons kv kvs)
  obtain k v where kv: "kv = (k, v)" by (cases kv)
  show ?case
  proof (cases "loggerKey cx")
    case None
    then show ?thesis by (simp add: kv ctx_With_none with_all_fold)
  next
    case (Some r)
    then show ?thesis
      by (cases r) (simp_all add: kv Cons.IH ctx_With_pkg ctx_With_zero ctx_With_fixed with_all_fold assms
          logrus_entry_kept withField_def)
  qed
qed (simp add: with_all_def)

text \<open>
  C36.  Fields added to the logger of a context persist: after any sequence of \<^verbatim>\<open>WithStr\<close>, \<^verbatim>\<open>WithInt\<close> and
  \<^verbatim>\<open>WithDuration\<close> calls the native logger has exactly these fields added in order (for logrus, the last
  value of each key), nothing else of the context changes, the legacy logrus entry survives, and a context
  without a logger panics.  The pkg/log library is assumed to let the fields put onto a context win over the
  same fields already there.
\<close>

theorem context_fields_persist:
  assumes "\<And>f k v. pkg_onto L (pkg_With L f k v) f = pkg_With L f k v"
  shows "ctx_With_all L cx kvs = with_all L cx kvs"
  using assms by (rule ctx_With_all_eq)

definition map_libs :: "(string \<rightharpoonup> fval, string \<rightharpoonup> fval) log_libs" where
  "map_libs =
     \<lparr>pkg_With = (\<lambda>f k v. f(k \<mapsto> v)), pkg_Verbose = (\<lambda>f b. f), pkg_onto = (\<lambda>f g. g ++ f),
      zero_With = (\<lambda>f k v. f(k \<mapsto> v)), zero_WithLevel = (\<lambda>f l. f(''level'' \<mapsto> FInt l)),
      zero_ErrorLevel = 3, zero_InfoLevel = 1, zero_DebugLevel = 0\<rparr>"

definition plain_log_ctx :: "restore \<Rightarrow> (string \<rightharpoonup> fval, string \<rightharpoonup> fval) log_ctx" where
  "plain_log_ctx r = \<lparr>loggerKey = Some r, native_fields = Map.empty, native_zero = Map.empty, logrusRequestContext = None\<rparr>"

theorem context_fields_persist_witness:
  "ctx_With_all map_libs (plain_log_ctx FromPkg) [(''a'', FInt 1), (''b'', FStr []), (''a'', FInt 2)] =
     Ok ((plain_log_ctx FromPkg)\<lparr>native_fields := [''a'' \<mapsto> FInt 2, ''b'' \<mapsto> FStr []]\<rparr>)"
proof -
  have "pkg_onto map_libs (pkg_With map_libs f k v) f = pkg_With map_libs f k v" for f k v
    by (auto simp: map_libs_def map_add_def fun_eq_iff split: option.splits)
  then have "ctx_With_all map_libs (plain_log_ctx FromPkg) kvs = (with_all map_libs (plain_log_ctx FromPkg) kvs :: ('e, _) res)" for kvs
    by (rule context_fields_persist)
  moreover have "with_all map_libs (plain_log_ctx FromPkg) [(''a'', FInt 1), (''b'', FStr []), (''a'', FInt 2)] =
      Ok ((plain_log_ctx FromPkg)\<lparr>native_fields := [''a'' \<mapsto> FInt 2, ''b'' \<mapsto> FStr []]\<rparr>)"
    by (simp add: with_all_def plain_log_ctx_def map_libs_def fun_upd_twist)
  ultimately show ?thesis by (rule trans)
qed

section \<open>The scope of a level\<close>

text \<open>The level a logrus logger filters by when it is used through a context.\<close>

definition logrus_level :: "levels \<Rightarrow> ('f, 'z) log_ctx \<Rightarrow> int option" where
  "logrus_level lv cx =
     (case GetLogger cx of Some (logrusLogger a _) \<Rightarrow> Some (lv a) | _ \<Rightarrow> None)"

lemma GetLogger_PutLogger:
  "GetLogger (ctx_PutLogger L cx l) =
     Some (case l of pkgLogger f \<Rightarrow> pkgLogger (pkg_onto L f (native_fields cx)) | _ \<Rightarrow> l)"
  by (cases l) (simp_all add: ctx_PutLogger_def GetLogger_def LogrusLoggerToContext_def)

text \<open>
  Setting the level through a context that holds a logrus logger changes the level of every context that
  holds the same logger, and of no other; through a pkg/log or pkg/logging logger it changes no logger of
  any other context.  For pkg/log the error level is the same as the info level.
\<close>

theorem level_scope:
  fixes L :: "('f, 'z) log_libs" and cx :: "('f, 'z) log_ctx"
  assumes "ctx_WithLevel L lv cx l = Ok (cx', lv')"
  shows "(case GetLogger cx of
      Some (logrusLogger a fs) \<Rightarrow> GetLogger cx' = Some (logrusLogger a fs) \<and>
        (\<forall>c :: ('f, 'z) log_ctx. logrus_level lv' c =
           (if \<exists>fs. GetLogger c = Some (logrusLogger a fs)
            then Some (if l \<in> {errorLevel, infoLevel, debugLevel} then l else 0) else logrus_level lv c))
    | _ \<Rightarrow> lv' = lv) \<and>
    (\<forall>f. GetLogger cx = Some (pkgLogger f) \<longrightarrow> ctx_WithLevel L lv cx errorLevel =
       (ctx_WithLevel L lv cx infoLevel :: ('e, ('f, 'z) log_ctx \<times> levels) res))"
proof -
  from assms obtain lg where lg: "GetLogger cx = Some lg"
    and r: "cx' = ctx_PutLogger L cx (fst (Logger_WithLevel L lv lg l))" "lv' = snd (Logger_WithLevel L lv lg l)"
    by (auto simp: ctx_WithLevel_def go_res case_prod_beta Let_def)
  show ?thesis
  proof (cases lg)
    case (logrusLogger a fs)
    then show ?thesis using lg r
      by (auto simp: GetLogger_PutLogger logrus_level_def split: option.splits Logger.splits)
  qed (use lg r in \<open>simp_all add: ctx_WithLevel_def level_defs\<close>)
qed

theorem level_scope_witness:
  "\<exists>lv'. (Ok (plain_log_ctx (Fixed 7 Map.empty)\<lparr>logrusRequestContext := Some (7, None)\<rparr>, lv') :: (unit, _) res) =
       ctx_WithLevel map_libs (\<lambda>_. 4) (plain_log_ctx (Fixed 7 Map.empty)) 5 \<and>
     logrus_level lv' (plain_log_ctx (Fixed 7 [''a'' \<mapsto> FInt 1])) = Some 5"
proof -
  have e: "ctx_WithLevel map_libs (\<lambda>_. 4) (plain_log_ctx (Fixed 7 Map.empty)) 5 =
    (Ok (plain_log_ctx (Fixed 7 Map.empty)\<lparr>logrusRequestContext := Some (7, None)\<rparr>, (\<lambda>_. 4)(7 := 5)) :: (unit, _) res)"
    by (simp add: ctx_logger_defs plain_log_ctx_def LogrusLoggerToContext_def GetLogrusLogEntryFromContext_def level_defs)
  from level_scope[OF e] e show ?thesis
    by (auto simp: GetLogger_def plain_log_ctx_def level_defs)
qed

end
