(* ===== verification/GrpcServing.thy ===== *)
theory GrpcServing
  imports ServerSetup Logging
begin

text \<open>
  What surrounds a gRPC call (core/grpc.go): the interceptors that give the handler a logger, the writers behind
  the global logger of the gRPC library, and the listener.

  A handler is given the logging part of its context and the request.  Chaining interceptors and the routing of
  log lines to the writers are done by the gRPC library and are arguments.
\<close>

section \<open>Interceptors\<close>

type_synonym ('f, 'z, 'q, 'e, 'r) unary_handler = "('f, 'z) log_ctx \<Rightarrow> 'q \<Rightarrow> ('e, 'r) res"

type_synonym ('f, 'z, 'q, 'e, 'r) unary_interceptor =
  "('f, 'z) log_ctx \<Rightarrow> 'q \<Rightarrow> ('f, 'z, 'q, 'e, 'r) unary_handler \<Rightarrow> ('e, 'r) res"

text \<open>The logger is the one of the context the server was made with, which may have none.\<close>

definition makeLoggerInterceptor ::
  "('f, 'z) log_libs \<Rightarrow> ('f, 'z) Logger option \<Rightarrow> ('f, 'z, 'q, 'e, 'r) unary_interceptor" where
  "makeLoggerInterceptor L logger cx req handler =
     and_then (deref logger) (\<lambda>l. handler (ctx_PutLogger L cx l) req)"

definition TraceidLogInterceptor_call :: "('f, 'z) log_libs \<Rightarrow> ('f, 'z, 'q, 'e, 'r) unary_interceptor" where
  "TraceidLogInterceptor_call L cx req handler =
     and_then (ctx_With L cx ''traceid'' (FStr ''traceid'')) (\<lambda>cx'. handler cx' req)"

text \<open>
  The interceptors behind the options of a server, in the order in which they are added; those of a \<^verbatim>\<open>GrpcManager\<close>
  are given by \<open>user\<close>.
\<close>

fun interceptor_call ::
  "('f, 'z) log_libs \<Rightarrow> ('f, 'z) log_ctx \<Rightarrow> (nat \<Rightarrow> ('f, 'z, 'q, 'e, 'r) unary_interceptor) \<Rightarrow> interceptor \<Rightarrow>
     ('f, 'z, 'q, 'e, 'r) unary_interceptor" where
  "interceptor_call L scx user LoggerInterceptor = makeLoggerInterceptor L (GetLogger scx)"
| "interceptor_call L scx user TraceidLogInterceptor = TraceidLogInterceptor_call L"
| "interceptor_call L scx user (UserInterceptor n) = user n"

fun unary_interceptors :: "('key, 'c) ServerOption list \<Rightarrow> interceptor list" where
  "unary_interceptors [] = []"
| "unary_interceptors (ChainUnaryInterceptor is # opts) = is @ unary_interceptors opts"
| "unary_interceptors (opt # opts) = unary_interceptors opts"

lemma unary_interceptors_append [simp]:
  "unary_interceptors (xs @ ys) = unary_interceptors xs @ unary_interceptors ys"
  by (induction xs rule: unary_interceptors.induct) simp_all

lemma extracted_interceptors: "ExtractGrpcServerOptions E cfg = Ok opts \<Longrightarrow> unary_interceptors opts = []"
  by (auto simp: ExtractGrpcServerOptions_def go_res split: option.splits if_splits)

lemma default_interceptors:
  "DefaultGrpcServerOptions E cfg = Ok opts \<Longrightarrow> unary_interceptors opts = [LoggerInterceptor, TraceidLogInterceptor]"
  by (auto simp: DefaultGrpcServerOptions_def go_res extracted_interceptors)

lemma manager_interceptors:
  "extractGrpcServerOptionsFromGrpcManager E hl = Ok opts \<Longrightarrow>
     unary_interceptors opts = Interceptors hl @ [LoggerInterceptor, TraceidLogInterceptor]"
  by (auto simp: extractGrpcServerOptionsFromGrpcManager_def go_res extracted_interceptors)

text \<open>A call through the interceptors of the options to the handler.\<close>

definition unary_call ::
  "(('f, 'z, 'q, 'e, 'r) unary_interceptor list \<Rightarrow> ('f, 'z, 'q, 'e, 'r) unary_handler \<Rightarrow>
      ('f, 'z, 'q, 'e, 'r) unary_handler) \<Rightarrow> ('f, 'z) log_libs \<Rightarrow> ('f, 'z) log_ctx \<Rightarrow>
     (nat \<Rightarrow> ('f, 'z, 'q, 'e, 'r) unary_interceptor) \<Rightarrow> ('key, 'c) ServerOption list \<Rightarrow>
     ('f, 'z, 'q, 'e, 'r) unary_handler \<Rightarrow> ('f, 'z, 'q, 'e, 'r) unary_handler" where
  "unary_call chain L scx user opts h = chain (map (interceptor_call L scx user) (unary_interceptors opts)) h"

text \<open>The first interceptor is the outermost, as \<^verbatim>\<open>grpc.ChainUnaryInterceptor\<close> documents.\<close>

definition chains_in_order ::
  "(('f, 'z, 'q, 'e, 'r) unary_interceptor list \<Rightarrow> ('f, 'z, 'q, 'e, 'r) unary_handler \<Rightarrow>
      ('f, 'z, 'q, 'e, 'r) unary_handler) \<Rightarrow> bool" where
  "chains_in_order chain \<longleftrightarrow>
     (\<forall>h. chain [] h = h) \<and> (\<forall>i is h cx q. chain (i # is) h cx q = i cx q (chain is h))"

section \<open>The global logger of the gRPC library\<close>

datatype ('f, 'z) log_writer = logWriterInfo "('f, 'z) Logger option" | logWriterError "('f, 'z) Logger option"

fun log_writer_Write :: "('f, 'z) log_writer \<Rightarrow> string \<Rightarrow> ('e, nat \<times> ('f, 'z) log_call) res" where
  "log_writer_Write (logWriterInfo logger) p =
     and_then (deref logger) (\<lambda>l. Ok (length p, Logger_log l SInfo p))"
| "log_writer_Write (logWriterError logger) p =
     and_then (deref logger) (\<lambda>l. Ok (length p, Logger_log l (SError p) ''gRPC error''))"

text \<open>The three writers of \<^verbatim>\<open>grpclog.NewLoggerV2\<close>.\<close>

record ('f, 'z) grpc_writers =
  infoW :: "('f, 'z) log_writer"
  warningW :: "('f, 'z) log_writer"
  errorW :: "('f, 'z) log_writer"

definition setLogger :: "('f, 'z) log_ctx \<Rightarrow> ('f, 'z) grpc_writers" where
  "setLogger cx =
     (let logger = GetLogger cx
      in \<lparr>infoW = logWriterInfo logger, warningW = logWriterInfo logger, errorW = logWriterError logger\<rparr>)"

datatype grpc_severity = GInfo | GWarning | GError

fun severity_rank :: "grpc_severity \<Rightarrow> nat" where
  "severity_rank GInfo = 0"
| "severity_rank GWarning = 1"
| "severity_rank GError = 2"

text \<open>Severities in the order of the library.\<close>

instantiation grpc_severity :: linorder
begin

definition less_eq_grpc_severity :: "grpc_severity \<Rightarrow> grpc_severity \<Rightarrow> bool" where
  "less_eq_grpc_severity s t \<longleftrightarrow> severity_rank s \<le> severity_rank t"

definition less_grpc_severity :: "grpc_severity \<Rightarrow> grpc_severity \<Rightarrow> bool" where
  "less_grpc_severity s t \<longleftrightarrow> severity_rank s < severity_rank t"

instance
proof
  fix s t :: grpc_severity
  assume "s \<le> t" "t \<le> s"
  then show "s = t" by (cases s; cases t) (simp_all add: less_eq_grpc_severity_def)
qed (auto simp: less_eq_grpc_severity_def less_grpc_severity_def)

end

fun severity_writer :: "('f, 'z) grpc_writers \<Rightarrow> grpc_severity \<Rightarrow> ('f, 'z) log_writer" where
  "severity_writer w GInfo = infoW w"
| "severity_writer w GWarning = warningW w"
| "severity_writer w GError = errorW w"

text \<open>
  The writers a line of a severity is written to.  The library documents that a line goes to the writer of its severity
  and to those of all lower ones.
\<close>

definition documented_route :: "grpc_severity \<Rightarrow> ('f, 'z) grpc_writers \<Rightarrow> ('f, 'z) log_writer list" where
  "documented_route s w = map (severity_writer w) (filter (\<lambda>t. t \<le> s) [GError, GWarning, GInfo])"

lemma documented_route_simps [simp]:
  "documented_route GInfo w = [infoW w]" "documented_route GWarning w = [warningW w, infoW w]"
  "documented_route GError w = [errorW w, warningW w, infoW w]"
  by (simp_all add: documented_route_def less_eq_grpc_severity_def)

fun write_all :: "('f, 'z) log_writer list \<Rightarrow> string \<Rightarrow> ('e, ('f, 'z) log_call list) res" where
  "write_all [] p = Ok []"
| "write_all (w # ws) p = and_then (log_writer_Write w p) (\<lambda>(n, c). and_then (write_all ws p) (\<lambda>cs. Ok (c # cs)))"

section \<open>The listener\<close>

definition prepareGrpcServerListener ::
  "(string \<Rightarrow> 'x option) \<times> 'x option \<Rightarrow> GRPCServerConfig \<Rightarrow> string \<Rightarrow> 'x server" where
  "prepareGrpcServerListener server cfg name =
     GrpcServer \<lparr>gs_cfg = cfg, gs_Listen = fst server, gs_Serve = snd server, gs_name = name\<rparr>"

lemma default_listener:
  assumes "Option.bind hooks StoppableGrpcServerBuilder = None" and "GrpcPublicServerConfig m = Some cfg"
  shows "\<exists>services b. configurePublicGrpcServerListener srv cx m hooks =
    Ok (prepareGrpcServerListener (srv (GrpcServerOptions m) services) cfg ''gRPC Public server'', b)"
  using assms
  by (simp add: configurePublicGrpcServerListener_def prepareGrpcServerListener_def Let_def case_prod_beta) blast

section \<open>Properties\<close>

lemma chain_pair:
  "chains_in_order chain \<Longrightarrow> chain [i, j] h cx q = i cx q (\<lambda>c r. j c r h)"
proof -
  assume c: "chains_in_order chain"
  have "chain [j] h = (\<lambda>c r. j c r h)" using c by (intro ext) (simp add: chains_in_order_def)
  then show ?thesis using c unfolding chains_in_order_def by simp
qed

lemma injected_logger:
  obtains l1 where "GetLogger (ctx_PutLogger L cx l) = Some l1" "(\<And>f. l \<noteq> pkgLogger f) \<Longrightarrow> l1 = l"
  by (cases l) (auto simp: GetLogger_def ctx_PutLogger_def Let_def)

text \<open>
  C37.  Every gRPC handler is given the logger of the server, whatever logger or trace id its request came with, and the
  field it gets under \<^verbatim>\<open>traceid\<close> is the text \<^verbatim>\<open>traceid\<close>, the same for every request.  A server whose context
  has no logger answers every call with a panic.
\<close>

theorem grpc_handler_logger:
  assumes "chains_in_order chain" and "DefaultGrpcServerOptions E cfg = Ok opts"
  shows "case GetLogger scx of
      None \<Rightarrow> unary_call chain L scx user opts h cx q = Panic nil_deref
    | Some l \<Rightarrow>
        (\<exists>l1. GetLogger (ctx_PutLogger L cx l) = Some l1 \<and>
           (let cx' = ctx_PutLogger L (ctx_PutLogger L cx l) (Logger_With L l1 ''traceid'' (FStr ''traceid''))
            in unary_call chain L scx user opts h cx q = h cx' q \<and>
               ((\<forall>f. l \<noteq> pkgLogger f) \<longrightarrow> GetLogger cx' = Some (Logger_With L l ''traceid'' (FStr ''traceid'')))))"
proof -
  have u: "unary_call chain L scx user opts h cx q =
      makeLoggerInterceptor L (GetLogger scx) cx q (\<lambda>c r. TraceidLogInterceptor_call L c r h)"
    by (simp add: unary_call_def default_interceptors[OF assms(2)] chain_pair[OF assms(1)])
  show ?thesis
  proof (cases "GetLogger scx")
    case None
    then show ?thesis by (simp add: u makeLoggerInterceptor_def)
  next
    case (Some l)
    obtain l1 where l1: "GetLogger (ctx_PutLogger L cx l) = Some l1" "(\<And>f. l \<noteq> pkgLogger f) \<Longrightarrow> l1 = l"
      using injected_logger[of L cx l] by metis
    let ?l2 = "Logger_With L l1 ''traceid'' (FStr ''traceid'')"
    have "unary_call chain L scx user opts h cx q = h (ctx_PutLogger L (ctx_PutLogger L cx l) ?l2) q"
      by (simp add: u Some makeLoggerInterceptor_def TraceidLogInterceptor_call_def ctx_With_def l1(1))
    moreover have "GetLogger (ctx_PutLogger L (ctx_PutLogger L cx l) ?l2) = Some (Logger_With L l ''traceid'' (FStr ''traceid''))"
      if "\<forall>f. l \<noteq> pkgLogger f"
    proof -
      have "l1 = l" using l1(2) that by blast
      then show ?thesis using that by (cases l) (simp_all add: GetLogger_def ctx_PutLogger_def Let_def)
    qed
    ultimately show ?thesis using Some l1(1) by (auto simp: Let_def)
  qed
qed

text \<open>
  The interceptors of a \<^verbatim>\<open>GrpcManager\<close> run before the logger is put into the context: with a context the
  library hands out, which has none, one that writes a log line panics and its call is never handled.
\<close>

theorem manager_interceptors_have_no_logger:
  assumes "chains_in_order chain" and "GetLogger cx = None"
    and "extractGrpcServerOptionsFromGrpcManager E hl = Ok opts" and "Interceptors hl = UserInterceptor n # others"
    and "\<And>c r g. user n c r g = and_then (ctx_log c sev msg) (\<lambda>_. g c r)"
  shows "unary_call chain L scx user opts h cx q = Panic nil_deref"
  using assms(1,2,4,5) by (simp add: unary_call_def manager_interceptors[OF assms(3)] chains_in_order_def ctx_log_def)

text \<open>
  With the documented routing, one error of the gRPC library is logged three times: once as an error and twice as
  an information; a warning is logged twice as an information.
\<close>

theorem grpc_errors_logged_thrice:
  assumes "GetLogger cx = Some l"
  shows "write_all (documented_route GError (setLogger cx)) p =
      Ok [Logger_log l (SError p) ''gRPC error'', Logger_log l SInfo p, Logger_log l SInfo p] \<and>
    write_all (documented_route GWarning (setLogger cx)) p = Ok [Logger_log l SInfo p, Logger_log l SInfo p]"
  using assms by (simp add: setLogger_def Let_def)

section \<open>Witnesses\<close>

fun fold_chain ::
  "('f, 'z, 'q, 'e, 'r) unary_interceptor list \<Rightarrow> ('f, 'z, 'q, 'e, 'r) unary_handler \<Rightarrow> ('f, 'z, 'q, 'e, 'r) unary_handler"
where
  "fold_chain [] h = h"
| "fold_chain (i # is) h = (\<lambda>cx q. i cx q (fold_chain is h))"

lemma fold_chain_in_order: "chains_in_order fold_chain"
  by (simp add: chains_in_order_def)

definition bare_log_ctx :: "(string \<rightharpoonup> fval, string \<rightharpoonup> fval) log_ctx" where
  "bare_log_ctx = \<lparr>loggerKey = None, native_fields = Map.empty, native_zero = Map.empty, logrusRequestContext = None\<rparr>"

lemma logrus_plain: "GetLogger (plain_log_ctx (Fixed a fs)) = Some (logrusLogger a fs)"
  by (simp add: GetLogger_def plain_log_ctx_def)

theorem grpc_handler_logger_witness:
  "\<exists>opts. DefaultGrpcServerOptions sample_tls_env None = Ok opts \<and>
   unary_call fold_chain map_libs (plain_log_ctx (Fixed 3 Map.empty)) (\<lambda>_ c r g. g c r) opts
     (\<lambda>cx _. Ok (map_option (\<lambda>l. Logger_log l SInfo ''hi'') (GetLogger cx))) bare_log_ctx () =
   (Ok (Some (LogrusCall 3 [''traceid'' \<mapsto> FStr ''traceid''] SInfo ''hi'')) :: (unit, _) res)"
proof -
  obtain opts where o: "DefaultGrpcServerOptions sample_tls_env None = Ok opts"
    by (simp add: DefaultGrpcServerOptions_def ExtractGrpcServerOptions_def)
  from grpc_handler_logger[OF fold_chain_in_order o, where scx = "plain_log_ctx (Fixed 3 Map.empty)" and L = map_libs
      and user = "\<lambda>_ c r g. g c r" and cx = bare_log_ctx and q = "()" and
      h = "\<lambda>cx _. Ok (map_option (\<lambda>l. Logger_log l SInfo ''hi'') (GetLogger cx)) :: (unit, _) res"] o
  show ?thesis by (auto simp: logrus_plain Let_def withField_def)
qed

definition logging_manager :: GrpcManager where
  "logging_manager = \<lparr>Interceptors = [UserInterceptor 0], gm_EnabledGrpcHandlers = [], gm_GrpcPublicServerConfig = None\<rparr>"

theorem manager_interceptors_have_no_logger_witness:
  "\<exists>opts. extractGrpcServerOptionsFromGrpcManager sample_tls_env logging_manager = Ok opts \<and>
     unary_call fold_chain map_libs (plain_log_ctx (Fixed 3 Map.empty))
       (\<lambda>_ c r g. and_then (ctx_log c SInfo ''call'') (\<lambda>_. g c r)) opts (\<lambda>_ _. Ok ()) bare_log_ctx () =
     (Panic nil_deref :: (unit, unit) res)"
proof -
  obtain opts where o: "extractGrpcServerOptionsFromGrpcManager sample_tls_env logging_manager = Ok opts"
    by (simp add: extractGrpcServerOptionsFromGrpcManager_def ExtractGrpcServerOptions_def logging_manager_def)
  have "unary_call fold_chain map_libs (plain_log_ctx (Fixed 3 Map.empty))
       (\<lambda>_ c r g. and_then (ctx_log c SInfo ''call'') (\<lambda>_. g c r)) opts (\<lambda>_ _. Ok ()) bare_log_ctx () =
     (Panic nil_deref :: (unit, unit) res)"
    by (rule manager_interceptors_have_no_logger[OF fold_chain_in_order _ o, of _ 0 "[]" _ SInfo "''call''"])
      (simp_all add: bare_log_ctx_def GetLogger_def logging_manager_def)
  with o show ?thesis by blast
qed

theorem grpc_errors_logged_thrice_witness:
  "write_all (documented_route GError (setLogger (plain_log_ctx (Fixed 3 Map.empty)))) ''x'' =
     (Ok [LogrusCall 3 Map.empty (SError ''x'') ''gRPC error'', LogrusCall 3 Map.empty SInfo ''x'', LogrusCall 3 Map.empty SInfo ''x'']
        :: (unit, _) res)"
  using conjunct1[OF grpc_errors_logged_thrice[OF logrus_plain, of 3 Map.empty "''x''"]] by simp

end
