(* ===== verification/Observability.thy ===== *)
theory Observability
  imports TimeoutHandler Logging
begin

text \<open>
  What is observed of requests: the metrics middleware with its status-recording writer
  (metrics/prometheus.go, metrics/prometheus_utils.go), the recovering middleware (core/recoverer.go), the
  request timer's log line (common/internal/timelogger.go), the status endpoint (status/status.go) and the
  TLS log filter (core/tls_log_filter.go).

  A handler is the list of the actions it performs on the writer it is given; running it returns the writer
  as it is at the end or at the panic.
\<close>

section \<open>Handlers on a writer\<close>

record 'w writer_ops =
  op_SetHeader :: "'w \<Rightarrow> string \<Rightarrow> string \<Rightarrow> 'w"
  op_WriteHeader :: "'w \<Rightarrow> int \<Rightarrow> (unit, 'w) res"
  op_Write :: "'w \<Rightarrow> string \<Rightarrow> (unit, 'w) res"

fun perform :: "'w writer_ops \<Rightarrow> action \<Rightarrow> 'w \<Rightarrow> (unit, 'w) res" where
  "perform W (SetHeader k v) w = Ok (op_SetHeader W w k v)"
| "perform W (CallWriteHeader code) w = op_WriteHeader W w code"
| "perform W (CallWrite p) w = op_Write W w p"
| "perform W (DoPanic m) w = Panic m"

fun serve :: "'w writer_ops \<Rightarrow> action list \<Rightarrow> 'w \<Rightarrow> 'w \<times> string option" where
  "serve W [] w = (w, None)"
| "serve W (a # as) w =
     (case perform W a w of
        Ok w' \<Rightarrow> serve W as w'
      | Panic p \<Rightarrow> (w, Some p)
      | Err _ \<Rightarrow> (w, None))"

definition base_ops :: "response_writer writer_ops" where
  "base_ops =
     \<lparr>op_SetHeader = (\<lambda>w k v. w\<lparr>rw_header := header_set (rw_header w) k v\<rparr>),
      op_WriteHeader = WriteHeader, op_Write = (\<lambda>w b. Ok (Write w b))\<rparr>"

text \<open>
  A writer that wraps another one simulates it when every action it is given has the effect, and the
  panic, of the same action on the wrapped writer; then so does every handler.
\<close>

locale writer_simulation =
  fixes outer :: "'a writer_ops" and inner :: "'b writer_ops" and wrapped :: "'a \<Rightarrow> 'b"
    and ok :: "'a \<Rightarrow> bool" and allowed :: "action \<Rightarrow> bool"
  assumes sim_step: "ok w \<Longrightarrow> allowed a \<Longrightarrow>
      (case perform outer a w of
         Ok w' \<Rightarrow> perform inner a (wrapped w) = Ok (wrapped w') \<and> ok w'
       | Panic p \<Rightarrow> perform inner a (wrapped w) = Panic p
       | Err e \<Rightarrow> False)"
begin

lemma sim_serve:
  "ok w \<Longrightarrow> list_all allowed as \<Longrightarrow>
     serve inner as (wrapped w) = map_prod wrapped id (serve outer as w) \<and> ok (fst (serve outer as w))"
proof (induction as arbitrary: w)
  case (Cons a as)
  then show ?case using sim_step[of w a] by (auto split: res.splits)
qed simp

end

section \<open>The status-recording writer\<close>

text \<open>The writer it embeds is any writer; \<open>W\<close> are its operations.\<close>

record 'w StatusResponseWriter =
  sw_inner :: 'w
  sw_code :: int
  sw_wroteHeader :: bool

definition NewStatusResponseWriter :: "'w \<Rightarrow> 'w StatusResponseWriter" where
  "NewStatusResponseWriter w = \<lparr>sw_inner = w, sw_code = 0, sw_wroteHeader = False\<rparr>"

definition StatusResponseWriter_WriteHeader ::
  "'w writer_ops \<Rightarrow> 'w StatusResponseWriter \<Rightarrow> int \<Rightarrow> (unit, 'w StatusResponseWriter) res" where
  "StatusResponseWriter_WriteHeader W w code =
     (if \<not> sw_wroteHeader w
      then and_then (op_WriteHeader W (sw_inner w) code) (\<lambda>i.
        Ok (w\<lparr>sw_code := code, sw_wroteHeader := True, sw_inner := i\<rparr>))
      else Ok w)"

definition StatusResponseWriter_Write ::
  "'w writer_ops \<Rightarrow> 'w StatusResponseWriter \<Rightarrow> string \<Rightarrow> (unit, 'w StatusResponseWriter) res" where
  "StatusResponseWriter_Write W w data =
     and_then (if \<not> sw_wroteHeader w then StatusResponseWriter_WriteHeader W w 200 else Ok w) (\<lambda>w'.
       and_then (op_Write W (sw_inner w') data) (\<lambda>i. Ok (w'\<lparr>sw_inner := i\<rparr>)))"

definition StatusResponseWriter_Status :: "'w StatusResponseWriter \<Rightarrow> int" where
  "StatusResponseWriter_Status w = sw_code w"

definition status_ops :: "'w writer_ops \<Rightarrow> 'w StatusResponseWriter writer_ops" where
  "status_ops W =
     \<lparr>op_SetHeader = (\<lambda>w k v. w\<lparr>sw_inner := op_SetHeader W (sw_inner w) k v\<rparr>),
      op_WriteHeader = StatusResponseWriter_WriteHeader W, op_Write = StatusResponseWriter_Write W\<rparr>"

text \<open>An action that sends no informational status.\<close>

fun final_status :: "action \<Rightarrow> bool" where
  "final_status (CallWriteHeader c) = (c \<notin> {100..199} \<or> c = 101)"
| "final_status a = True"

definition recorded :: "response_writer StatusResponseWriter \<Rightarrow> bool" where
  "recorded w \<longleftrightarrow>
     (if sw_wroteHeader w then rw_code (sw_inner w) = Some (sw_code w)
      else rw_code (sw_inner w) = None \<and> sw_code w = 0)"

lemma recorded_code: "recorded w \<Longrightarrow> rw_code (sw_inner w) = (if sw_wroteHeader w then Some (sw_code w) else None)"
  by (simp add: recorded_def split: if_splits)

lemma recorded_status: "recorded w \<Longrightarrow> sw_code w = (case rw_code (sw_inner w) of Some c \<Rightarrow> c | None \<Rightarrow> 0)"
  by (simp add: recorded_def split: if_splits)

interpretation status_writer: writer_simulation "status_ops base_ops" base_ops sw_inner recorded final_status
proof (unfold_locales, goal_cases)
  case (1 w a)
  note c = recorded_code[OF 1(1)] 1(1)[unfolded recorded_def]
  show ?case
  proof (cases a)
    case (CallWriteHeader code)
    then show ?thesis using c 1(2)
      by (auto simp: status_ops_def base_ops_def StatusResponseWriter_WriteHeader_def WriteHeader_def recorded_def)
  next
    case (CallWrite b)
    then show ?thesis using c
      by (auto simp: status_ops_def base_ops_def StatusResponseWriter_Write_def
          StatusResponseWriter_WriteHeader_def WriteHeader_def Write_def Let_def recorded_def)
  qed (use c in \<open>auto simp: status_ops_def base_ops_def recorded_def\<close>)
qed

lemma fresh_recorded: "rw_code w = None \<Longrightarrow> recorded (NewStatusResponseWriter w)"
  by (simp add: recorded_def NewStatusResponseWriter_def)


section \<open>The metrics middleware\<close>

text \<open>
  The counters are a multiset of label triples (code, method, path), the latencies a list of label triples
  with their duration.  The writer after a panic inside the recording writer is not looked at.
\<close>

record metrics_Middleware =
  requests :: "(string \<times> string \<times> string) multiset"
  latency :: "((string \<times> string \<times> string) \<times> int) list"

definition updateMetrics ::
  "metrics_Middleware \<Rightarrow> int \<Rightarrow> string \<Rightarrow> string \<Rightarrow> int \<Rightarrow> metrics_Middleware" where
  "updateMetrics m status method path duration =
     (let labels = (show_int status, method, path)
      in m\<lparr>requests := add_mset labels (requests m), latency := latency m @ [(labels, duration)]\<rparr>)"

text \<open>\<open>pattern\<close> is the result of \<^verbatim>\<open>getPathPattern\<close> for the request, when the middleware has that function.\<close>

definition MonitorMetrics ::
  "'w writer_ops \<Rightarrow> string option \<Rightarrow> metrics_Middleware \<Rightarrow> action list \<Rightarrow> string \<Rightarrow> string \<Rightarrow> int \<Rightarrow> 'w \<Rightarrow>
     metrics_Middleware \<times> 'w \<times> string option" where
  "MonitorMetrics W pattern m as method urlPath duration w =
     (let (ww, p) = serve (status_ops W) as (NewStatusResponseWriter w);
          pathPattern = (case pattern of Some s \<Rightarrow> s | None \<Rightarrow> urlPath)
      in case p of
           None \<Rightarrow> (updateMetrics m (StatusResponseWriter_Status ww) method pathPattern duration, sw_inner ww, None)
         | Some e \<Rightarrow> (m, sw_inner ww, Some e))"

section \<open>The recovering middleware\<close>

definition http_Error :: "response_writer \<Rightarrow> string \<Rightarrow> int \<Rightarrow> (unit, response_writer) res" where
  "http_Error w msg code =
     (let h = header_set (header_set (rw_header w) ''Content-Type'' ''text/plain; charset=utf-8'')
                ''X-Content-Type-Options'' ''nosniff''
      in and_then (WriteHeader (w\<lparr>rw_header := h\<rparr>) code) (\<lambda>w'. Ok (Write w' (msg @ [CHR 0x0A]))))"

definition internal_error_text :: string where
  "internal_error_text = ''Internal Server Error''"

definition Recoverer :: "(response_writer \<Rightarrow> response_writer \<times> string option) \<Rightarrow> response_writer \<Rightarrow>
    response_writer \<times> string option" where
  "Recoverer next w =
     (case next w of
        (w', None) \<Rightarrow> (w', None)
      | (w', Some p) \<Rightarrow>
          (case http_Error w' internal_error_text 500 of
             Ok w'' \<Rightarrow> (w'', None)
           | Panic q \<Rightarrow> (w', Some q)
           | Err _ \<Rightarrow> (w', None)))"

lemma http_Error_500:
  "\<exists>w'. http_Error w msg 500 = Ok w' \<and> rw_body w' = rw_body w @ msg @ [CHR 0x0A] \<and>
     rw_code w' = Some (case rw_code w of Some c \<Rightarrow> c | None \<Rightarrow> 500)"
  by (cases "rw_code w") (auto simp: http_Error_def WriteHeader_def Write_def Let_def)

section \<open>Properties of the middlewares\<close>

text \<open>
  C9.  The metrics middleware is transparent for a handler that sends no informational status: the client gets
  the response, and the panic, of the handler itself.  A request whose handler returns is counted once,
  with one latency, under the status that was sent, or zero when nothing was sent; a request whose handler
  panics is not counted.
\<close>

theorem metrics_transparent:
  assumes "list_all final_status as" and "rw_code w = None"
    and "MonitorMetrics base_ops pattern m as method path d w = (m', w', p)"
  shows "serve base_ops as w = (w', p) \<and>
    (case p of
       Some _ \<Rightarrow> m' = m
     | None \<Rightarrow>
         (let labels = (show_int (case rw_code w' of Some c \<Rightarrow> c | None \<Rightarrow> 0), method,
                        case pattern of Some s \<Rightarrow> s | None \<Rightarrow> path)
          in requests m' = add_mset labels (requests m) \<and> latency m' = latency m @ [(labels, d)]))"
proof -
  obtain ww q where s: "serve (status_ops base_ops) as (NewStatusResponseWriter w) = (ww, q)" by fastforce
  have r: "serve base_ops as w = (sw_inner ww, q)" "recorded ww"
    using status_writer.sim_serve[OF fresh_recorded[OF assms(2)] assms(1)] s
    by (simp_all add: NewStatusResponseWriter_def)
  show ?thesis
    using assms(3) r recorded_status[OF r(2)]
    by (cases q) (auto simp: MonitorMetrics_def s Let_def updateMetrics_def StatusResponseWriter_Status_def)
qed

theorem metrics_transparent_witness:
  "\<exists>m w. MonitorMetrics base_ops (Some ''/pets/{id}'') \<lparr>requests = {#}, latency = []\<rparr> [CallWriteHeader 404, CallWrite ''gone'']
       ''GET'' ''/pets/7'' 3 new_writer = (m, w, None) \<and>
     requests m = {#(show_int 404, ''GET'', ''/pets/{id}'')#} \<and> rw_code w = Some 404"
proof -
  let ?as = "[CallWriteHeader 404, CallWrite ''gone'']"
  let ?m = "MonitorMetrics base_ops (Some ''/pets/{id}'') \<lparr>requests = {#}, latency = []\<rparr> ?as ''GET'' ''/pets/7'' 3 new_writer"
  obtain m w p where e: "?m = (m, w, p)" by (cases ?m)
  have s: "\<exists>v. serve base_ops ?as new_writer = (v, None) \<and> rw_code v = Some 404"
    by (simp add: base_ops_def WriteHeader_def Write_def new_writer_def)
  have "list_all final_status ?as" "rw_code new_writer = None" by (simp_all add: new_writer_def)
  from metrics_transparent[OF this e] s e show ?thesis by (auto simp: Let_def)
qed

text \<open>
  An informational status sent first is taken for the status of the response: the final status is dropped
  and the client gets 200 instead.
\<close>

theorem informational_status_lost:
  assumes "c \<in> {100..199}" and "c \<noteq> 101" and "c' \<in> {200..999}" and "rw_code w = None"
  shows "rw_code (fst (serve base_ops [CallWriteHeader c, CallWriteHeader c', CallWrite b] w)) = Some c' \<and>
    rw_code (fst (snd (MonitorMetrics base_ops pat m [CallWriteHeader c, CallWriteHeader c', CallWrite b] meth path d w))) = Some 200"
  using assms
  by (simp add: base_ops_def status_ops_def MonitorMetrics_def StatusResponseWriter_WriteHeader_def
      StatusResponseWriter_Write_def NewStatusResponseWriter_def WriteHeader_def Write_def Let_def)

theorem informational_status_lost_witness:
  "rw_code (fst (snd (MonitorMetrics base_ops None \<lparr>requests = {#}, latency = []\<rparr>
     [CallWriteHeader 103, CallWriteHeader 404, CallWrite ''gone''] ''GET'' ''/'' 3 new_writer))) = Some 200"
  using informational_status_lost[of 103 404 new_writer "''gone''" None] by (simp add: new_writer_def)

text \<open>
  Behind the recovering middleware no panic of a handler escapes: a handler that panics before it has sent a
  status is answered with 500, and one that panics later keeps its status; in both cases the error text
  follows what was written.
\<close>

theorem recoverer_answers:
  "\<exists>w'. Recoverer next w = (w', None) \<and>
     (case next w of
        (v, None) \<Rightarrow> w' = v
      | (v, Some _) \<Rightarrow> rw_code w' = Some (case rw_code v of Some c \<Rightarrow> c | None \<Rightarrow> 500) \<and>
          rw_body w' = rw_body v @ internal_error_text @ [CHR 0x0A])"
proof (cases "next w")
  case (Pair v p)
  with http_Error_500[of v internal_error_text] show ?thesis
    by (cases p) (auto simp: Recoverer_def)
qed


section \<open>The log line of a request\<close>

definition distributedTracingIDs :: "string list" where
  "distributedTracingIDs = [''X-B3-Traceid'', ''X-B3-Spanid'', ''X-B3-ParentSpanId'']"

text \<open>The parts of a request the timer logs.\<close>

record timed_request =
  tq_Header :: header
  tq_RemoteAddr :: string
  tq_URL :: string
  tq_Method :: string

fun tracing_fields ::
  "('f, 'z) log_libs \<Rightarrow> ('f, 'z) log_ctx \<Rightarrow> header \<Rightarrow> string list \<Rightarrow> ('e, ('f, 'z) log_ctx) res" where
  "tracing_fields L cx h [] = Ok cx"
| "tracing_fields L cx h (name # names) =
     (let val = header_get (Some h) name
      in if val \<noteq> [] then and_then (ctx_With L cx name (FStr val)) (\<lambda>cx'. tracing_fields L cx' h names)
         else tracing_fields L cx h names)"

definition distributedTracingFields ::
  "('f, 'z) log_libs \<Rightarrow> ('f, 'z) log_ctx \<Rightarrow> header \<Rightarrow> ('e, ('f, 'z) log_ctx) res" where
  "distributedTracingFields L cx h = tracing_fields L cx h distributedTracingIDs"

definition InitFieldsFromRequest ::
  "('f, 'z) log_libs \<Rightarrow> ('f, 'z) log_ctx \<Rightarrow> timed_request \<Rightarrow> ('e, ('f, 'z) log_ctx) res" where
  "InitFieldsFromRequest L cx r =
     and_then (distributedTracingFields L cx (tq_Header r)) (\<lambda>c1.
     and_then (ctx_With L c1 ''remote'' (FStr (tq_RemoteAddr r))) (\<lambda>c2.
     and_then (ctx_With L c2 ''request'' (FStr (tq_URL r))) (\<lambda>c3.
     ctx_With L c3 ''method'' (FStr (tq_Method r)))))"

definition initCommonLogFields ::
  "('f, 'z) log_libs \<Rightarrow> ('f, 'z) log_ctx \<Rightarrow> int \<Rightarrow> int \<Rightarrow> timed_request \<Rightarrow> ('e, ('f, 'z) log_ctx) res" where
  "initCommonLogFields L cx status reqTime r =
     and_then (InitFieldsFromRequest L cx r) (\<lambda>c1.
     and_then (ctx_With L c1 ''status'' (FInt status)) (\<lambda>c2.
     and_then (ctx_With L c2 ''took'' (FDur reqTime)) (\<lambda>c3.
     ctx_With L c3 ''latency'' (FStr (show_int reqTime)))))"

definition RequestTimer_Log ::
  "('f, 'z) log_libs \<Rightarrow> ('f, 'z) log_ctx \<Rightarrow> int \<Rightarrow> int \<Rightarrow> timed_request \<Rightarrow> (unit, ('f, 'z) log_call) res" where
  "RequestTimer_Log L cx status elapsed r =
     and_then (initCommonLogFields L cx status elapsed r) (\<lambda>cx'.
       if status < 400 then ctx_log cx' SInfo ''Request completed''
       else ctx_log cx' (SError (''invalid status: '' @ show_int status)) ''request completed with error status'')"

text \<open>The fields of the log line, in the order they are added.\<close>

definition trace_pairs :: "header \<Rightarrow> (string \<times> fval) list" where
  "trace_pairs h =
     map (\<lambda>n. (n, FStr (header_get (Some h) n))) (filter (\<lambda>n. header_get (Some h) n \<noteq> []) distributedTracingIDs)"

definition request_pairs :: "int \<Rightarrow> int \<Rightarrow> timed_request \<Rightarrow> (string \<times> fval) list" where
  "request_pairs status elapsed r =
     trace_pairs (tq_Header r) @
     [(''remote'', FStr (tq_RemoteAddr r)), (''request'', FStr (tq_URL r)), (''method'', FStr (tq_Method r)),
      (''status'', FInt status), (''took'', FDur elapsed), (''latency'', FStr (show_int elapsed))]"

lemma ctx_With_all_append:
  "ctx_With_all L cx (xs @ ys) = and_then (ctx_With_all L cx xs) (\<lambda>cx'. ctx_With_all L cx' ys)"
  by (induction L cx xs rule: ctx_With_all.induct) (simp_all add: and_then_assoc)

lemma tracing_fields_pairs:
  "tracing_fields L cx h names =
     ctx_With_all L cx (map (\<lambda>n. (n, FStr (header_get (Some h) n))) (filter (\<lambda>n. header_get (Some h) n \<noteq> []) names))"
  by (induction L cx h names rule: tracing_fields.induct) (simp_all add: Let_def)

lemma and_then_Ok [simp]: "and_then x Ok = x"
  by (cases x) simp_all

lemma initCommonLogFields_pairs:
  "initCommonLogFields L cx status elapsed r = ctx_With_all L cx (request_pairs status elapsed r)"
  by (simp add: initCommonLogFields_def InitFieldsFromRequest_def distributedTracingFields_def
      tracing_fields_pairs request_pairs_def trace_pairs_def ctx_With_all_append and_then_assoc)

text \<open>
  The one log line of a timed request goes to the logger of the context, as an error exactly from status 400
  on, with the fields of the request added to those the logger already has: through a logrus logger the line
  carries exactly the fields of the logger overridden by the request's.
\<close>

theorem request_log_line:
  assumes "loggerKey cx = Some (Fixed a fs)"
    and "\<And>f k v. pkg_onto L (pkg_With L f k v) f = pkg_With L f k v"
  shows "\<exists>fields sev msg. RequestTimer_Log L cx status elapsed r = Ok (LogrusCall a fields sev msg) \<and>
    fields = fs ++ map_of (rev (request_pairs status elapsed r)) \<and>
    ((\<exists>e. sev = SError e) \<longleftrightarrow> 400 \<le> status) \<and> fields ''status'' = Some (FInt status)"
proof -
  have ne: "request_pairs status elapsed r \<noteq> []" by (simp add: request_pairs_def)
  have c: "ctx_With_all L cx kvs = (with_all L cx kvs :: (unit, _) res)" for kvs
    using assms(2) by (rule ctx_With_all_eq)
  have "map_of (rev (request_pairs status elapsed r)) ''status'' = Some (FInt status)"
    by (simp add: request_pairs_def)
  then show ?thesis using assms(1) ne
    by (simp add: RequestTimer_Log_def initCommonLogFields_pairs c with_all_def ctx_log_def GetLogger_def)
qed

definition timed_sample :: timed_request where
  "timed_sample = \<lparr>tq_Header = [(''X-B3-Traceid'', [''t1''])], tq_RemoteAddr = ''10.0.0.1:80'', tq_URL = ''/pets'', tq_Method = ''GET''\<rparr>"

theorem request_log_line_witness:
  "\<exists>fields sev msg. RequestTimer_Log map_libs (plain_log_ctx (Fixed 3 Map.empty)) 503 17 timed_sample =
      (Ok (LogrusCall 3 fields sev msg) :: (unit, _) res) \<and> fields ''status'' = Some (FInt 503)"
proof -
  have k: "loggerKey (plain_log_ctx (Fixed 3 Map.empty)) = Some (Fixed 3 Map.empty)" by (simp add: plain_log_ctx_def)
  have l: "pkg_onto map_libs (pkg_With map_libs f k v) f = pkg_With map_libs f k v" for f k v
    by (auto simp: map_libs_def map_add_def fun_eq_iff split: option.splits)
  from request_log_line[OF k l, of 503 17 timed_sample] show ?thesis
    by (elim exE conjE, intro exI conjI) assumption+
qed

section \<open>The status endpoint\<close>

record BuildMetadata =
  bm_Name :: string
  bm_Version :: string
  bm_BuildID :: string
  bm_CommitSha :: string
  bm_BranchName :: string
  bm_TagName :: string

definition BuildMetadata_String :: "BuildMetadata \<Rightarrow> string" where
  "BuildMetadata_String m =
     bm_Name m @ '' version='' @ bm_Version m @ '' build='' @ bm_BuildID m @ '' commit='' @ bm_CommitSha m @
     '' branch='' @ bm_BranchName m @ '' tag='' @ bm_TagName m"

text \<open>A configuration is given as the JSON value it is encoded to; a service is its name and configuration.\<close>

record status_Service =
  ss_BuildMetadata :: "BuildMetadata option"
  ss_Config :: goval
  ss_Services :: "(string \<times> goval) list"

definition metadata_json :: "BuildMetadata \<Rightarrow> string option" where
  "metadata_json m = json_struct (map (\<lambda>(k, f). (k, json_encode (GStr (f m))))
     [(''name'', bm_Name), (''version'', bm_Version), (''build_id'', bm_BuildID),
      (''commit_sha'', bm_CommitSha), (''branch_name'', bm_BranchName), (''tag_name'', bm_TagName)])"

definition service_json :: "string \<times> goval \<Rightarrow> string option" where
  "service_json s = json_struct [(''name'', json_encode (GStr (fst s))), (''config'', json_encode (snd s))]"

text \<open>An array of structs; the members of \<^verbatim>\<open>ResponseConfig\<close> have no JSON tags and keep their Go names.\<close>

definition json_array :: "string option list \<Rightarrow> string option" where
  "json_array ts =
     (if list_all (\<lambda>t. t \<noteq> None) ts then Some (''['' @ join_with '','' (map the ts) @ '']'') else None)"

definition buildResponseConfig :: "status_Service \<Rightarrow> string option" where
  "buildResponseConfig s =
     json_struct [(''Core'', json_encode (ss_Config s)), (''Services'', json_array (map service_json (ss_Services s)))]"

text \<open>\<open>indent\<close> is the indentation of the encoder, applied to the compact text.\<close>

definition HandleGetStatus ::
  "(string \<Rightarrow> string) \<Rightarrow> status_Service \<Rightarrow> response_writer \<Rightarrow> (unit, response_writer) res" where
  "HandleGetStatus indent s w =
     and_then (deref (ss_BuildMetadata s)) (\<lambda>bm.
       case json_struct [(''build_metadata'', metadata_json bm), (''config'', buildResponseConfig s),
                         (''status'', json_encode (GStr ''online''))] of
         None \<Rightarrow> Panic ''json: unsupported type''
       | Some text \<Rightarrow>
           Ok (Write (w\<lparr>rw_header := header_set (rw_header w) ''Content-Type'' ''application/json;charset=UTF-8''\<rparr>)
                 (indent text @ [CHR 0x0A])))"

lemma json_struct_None: "json_struct ms = None \<longleftrightarrow> (\<exists>m \<in> set ms. snd m = None)"
  by (simp add: json_struct_def list_all_iff case_prod_beta)

lemma json_array_None: "json_array ts = None \<longleftrightarrow> None \<in> set ts"
  by (auto simp: json_array_def list_all_iff)

lemma json_encode_None: "json_encode v = None \<longleftrightarrow> \<not> json_safe v"
  using json_encode_defined(1)[of v] by blast

lemma service_json_None: "service_json s = None \<longleftrightarrow> \<not> json_safe (snd s)"
  by (simp add: service_json_def json_struct_None json_encode_None)

lemma metadata_json_Some: "metadata_json bm \<noteq> None"
  by (simp add: metadata_json_def json_struct_None)

text \<open>
  The status endpoint answers 200 with a JSON document, and panics exactly when the build metadata is
  missing or a configuration it shows, the library's or a service's, is not JSON.
\<close>

theorem status_endpoint_outcome:
  assumes "rw_code w = None"
  shows "(panics (HandleGetStatus indent s w) \<longleftrightarrow>
      ss_BuildMetadata s = None \<or> \<not> json_safe (ss_Config s) \<or> (\<exists>svc \<in> set (ss_Services s). \<not> json_safe (snd svc))) \<and>
    (\<forall>w'. HandleGetStatus indent s w = Ok w' \<longrightarrow> rw_code w' = Some 200 \<and>
      header_get (Some (rw_sent w')) ''Content-Type'' = ''application/json;charset=UTF-8'')"
proof -
  have n: "buildResponseConfig s = None \<longleftrightarrow> \<not> json_safe (ss_Config s) \<or> (\<exists>svc \<in> set (ss_Services s). \<not> json_safe (snd svc))"
    by (simp add: buildResponseConfig_def json_struct_None json_array_None json_encode_None image_iff
        eq_commute[of None] service_json_None)
  show ?thesis
  proof (cases "ss_BuildMetadata s")
    case (Some bm)
    let ?doc = "json_struct [(''build_metadata'', metadata_json bm), (''config'', buildResponseConfig s),
      (''status'', json_encode (GStr ''online''))]"
    have d: "?doc = None \<longleftrightarrow> buildResponseConfig s = None"
      by (simp only: json_struct_None) (simp add: metadata_json_Some)
    show ?thesis
    proof (cases ?doc)
      case None
      then show ?thesis using d n Some unfolding HandleGetStatus_def by simp
    next
      case (Some doc)
      with n d have "json_safe (ss_Config s) \<and> (\<forall>svc \<in> set (ss_Services s). json_safe (snd svc))" by simp
      with Some \<open>ss_BuildMetadata s = Some bm\<close> assms show ?thesis
        unfolding HandleGetStatus_def by (simp add: Write_def header_get_def header_values_def header_set_def)
    qed
  qed (simp add: HandleGetStatus_def)
qed

definition sample_status :: status_Service where
  "sample_status =
     \<lparr>ss_BuildMetadata = Some \<lparr>bm_Name = ''app'', bm_Version = ''1.0'', bm_BuildID = [], bm_CommitSha = [],
        bm_BranchName = [], bm_TagName = []\<rparr>,
      ss_Config = GObj [], ss_Services = [(''pets'', GObj [(''ContextTimeout'', GNum ''5'')])]\<rparr>"

theorem status_endpoint_outcome_witness:
  "\<not> panics (HandleGetStatus (\<lambda>t. t) sample_status new_writer) \<and>
   panics (HandleGetStatus (\<lambda>t. t) (sample_status\<lparr>ss_Services := [(''pets'', GOpaque 0)]\<rparr>) new_writer)"
  using status_endpoint_outcome[of new_writer "\<lambda>t. t" sample_status]
    status_endpoint_outcome[of new_writer "\<lambda>t. t" "sample_status\<lparr>ss_Services := [(''pets'', GOpaque 0)]\<rparr>"]
  by (simp add: new_writer_def sample_status_def)

section \<open>The TLS log filter\<close>

text \<open>\<open>re_Match\<close> is the compiled expression of the filter.\<close>

definition TLSLogFilter_Write ::
  "(string \<Rightarrow> bool) \<Rightarrow> ('f, 'z) Logger \<Rightarrow> string \<Rightarrow> nat \<times> ('f, 'z) log_call" where
  "TLSLogFilter_Write re_Match logger p =
     (length p, Logger_log logger (if re_Match p then SDebug else SInfo) p)"

end
