(* ===== verification/CoreMiddleware.thy ===== *)
theory CoreMiddleware
  imports Observability
begin

text \<open>
  The middleware that surrounds every request with its log lines and its checks
  (\<^verbatim>\<open>CoreRequestContextMiddleware\<close> of common/corerequestcontext.go) and the payload logger it shares with
  the logging round tripper (common/internal/requestlogger.go).

  \<open>'w\<close> is the type of all response writers, with the dispatch of their methods in a \<open>writer_ops\<close>.  The
  wrapping writer of the chi library is an argument (\<open>chi\<close>); what is relied on of it is \<open>proxies\<close>.
\<close>

section \<open>Bodies\<close>

text \<open>
  A body is a stream of bytes that may end in a read error and may be closed, or a buffer wrapped by
  \<^verbatim>\<open>io.NopCloser\<close>.
\<close>

datatype go_body = Stream string bool bool | NopBuffer string

fun ReadAll :: "go_body \<Rightarrow> string \<times> bool" where
  "ReadAll (Stream d failed closed) = (if closed then ([], True) else (d, failed))"
| "ReadAll (NopBuffer d) = (d, False)"

record core_request =
  cq_req :: timed_request
  cq_ProtoMajor :: int
  cq_Body :: "go_body option"

section \<open>The wrapping writer\<close>

text \<open>\<open>chi_teed\<close> is what the writer attached by \<^verbatim>\<open>Tee\<close> has received, if one is attached.\<close>

record 'w chi =
  chi_New :: "'w \<Rightarrow> int \<Rightarrow> 'w"
  chi_Tee :: "'w \<Rightarrow> 'w"
  chi_Unwrap :: "'w \<Rightarrow> 'w"
  chi_Status :: "'w \<Rightarrow> int"
  chi_Header :: "'w \<Rightarrow> header"
  chi_teed :: "'w \<Rightarrow> string option"

section \<open>The payload logger\<close>

record ('f, 'z) requestLogger =
  rl_ctx :: "('f, 'z) log_ctx"
  rl_reqHeader :: header
  rl_reqBody :: string
  rl_respHeader :: header
  rl_respBody :: string
  rl_flushed :: bool

datatype ('f, 'z) RequestLogger = nopLogger | PayloadLogger "('f, 'z) requestLogger"

definition logs_payload :: "'d sctx \<Rightarrow> bool" where
  "logs_payload sx = (case GetDefaultConfig sx of None \<Rightarrow> False | Some cfg \<Rightarrow> lc_LogPayload (lib_Log (Library cfg)))"

text \<open>The logger, the context its lines are written with, and the request with its body replaced.\<close>

definition NewRequestLogger ::
  "('f, 'z) log_libs \<Rightarrow> 'd sctx \<Rightarrow> ('f, 'z) log_ctx \<Rightarrow> core_request \<Rightarrow>
     (unit, ('f, 'z) RequestLogger \<times> ('f, 'z) log_ctx \<times> core_request) res" where
  "NewRequestLogger L sx cx req =
     (if logs_payload sx then
        and_then (InitFieldsFromRequest L cx (cq_req req)) (\<lambda>cx'.
          (let l = \<lparr>rl_ctx = cx', rl_reqHeader = tq_Header (cq_req req), rl_reqBody = [],
                    rl_respHeader = [], rl_respBody = [], rl_flushed = False\<rparr>
           in case cq_Body req of
                Some body \<Rightarrow>
                  if tq_Method (cq_req req) \<noteq> ''GET''
                  then (let (b, _) = ReadAll body
                        in Ok (PayloadLogger (l\<lparr>rl_reqBody := b\<rparr>), cx', req\<lparr>cq_Body := Some (NopBuffer b)\<rparr>))
                  else Ok (PayloadLogger l, cx', req)
              | None \<Rightarrow> Ok (PayloadLogger l, cx', req)))
      else Ok (nopLogger, cx, req))"

definition RequestLogger_ResponseWriter ::
  "'w chi \<Rightarrow> ('f, 'z) RequestLogger \<Rightarrow> int \<Rightarrow> 'w \<Rightarrow> 'w" where
  "RequestLogger_ResponseWriter C l protoMajor base =
     (case l of nopLogger \<Rightarrow> base | PayloadLogger _ \<Rightarrow> chi_Tee C (chi_New C base protoMajor))"

text \<open>How \<^verbatim>\<open>fmt\<close> prints a header map: keys in order.\<close>

definition show_header :: "header \<Rightarrow> string" where
  "show_header h = ''map['' @ join_with '' '' (map (\<lambda>(k, vs). k @ '':['' @ join_with '' '' vs @ '']'') (sort_keys h)) @ '']''"

definition payload_line :: "string \<Rightarrow> header \<Rightarrow> string \<Rightarrow> string" where
  "payload_line what h body =
     what @ '': header - '' @ show_header h @ [CHR 0x0A] @ ''body[len:'' @ show_int (int (length body)) @ '']: - '' @ body"

text \<open>
  \<open>rw\<close> is the state of the writer the logger handed out, if it did.  The tee of that writer feeds the
  buffer of the response body.
\<close>

definition requestLogger_FlushLog ::
  "('f, 'z) log_libs \<Rightarrow> 'w chi \<Rightarrow> 'w option \<Rightarrow> ('f, 'z) requestLogger \<Rightarrow>
     (unit, ('f, 'z) requestLogger \<times> ('f, 'z) log_call list) res" where
  "requestLogger_FlushLog L C rw r =
     (if rl_flushed r
      then and_then (ctx_log (rl_ctx r) SInfo ''Already flushed the request'') (\<lambda>c. Ok (r, [c]))
      else
        (let r1 = r\<lparr>rl_flushed := True,
                     rl_respHeader := (case rw of None \<Rightarrow> rl_respHeader r | Some w \<Rightarrow> chi_Header C w)\<rparr>;
             respBody = (case rw of None \<Rightarrow> rl_respBody r
                         | Some w \<Rightarrow> rl_respBody r @ (case chi_teed C w of None \<Rightarrow> [] | Some t \<Rightarrow> t))
         in and_then (ctx_With L (rl_ctx r) ''logger'' (FStr ''common/internal/requestlogger.go'')) (\<lambda>c1.
            and_then (ctx_With L c1 ''func'' (FStr ''FlushLog()'')) (\<lambda>c2.
            and_then (ctx_log c2 SDebug (payload_line ''Request'' (rl_reqHeader r1) (rl_reqBody r1))) (\<lambda>l1.
            and_then (ctx_log c2 SDebug (payload_line ''Response'' (rl_respHeader r1) respBody)) (\<lambda>l2.
            Ok (r1, [l1, l2])))))))"

definition RequestLogger_FlushLog ::
  "('f, 'z) log_libs \<Rightarrow> 'w chi \<Rightarrow> 'w option \<Rightarrow> ('f, 'z) RequestLogger \<Rightarrow> (unit, ('f, 'z) log_call list) res" where
  "RequestLogger_FlushLog L C rw l =
     (case l of
        nopLogger \<Rightarrow> Ok []
      | PayloadLogger r \<Rightarrow> and_then (requestLogger_FlushLog L C rw r) (\<lambda>(_, ls). Ok ls))"

text \<open>
  A response of a downstream call: its header, its content, and its body as the client gets it, with the
  monitor that watches the body.  Logging it reads and closes the body and replaces it by a buffer.
\<close>

type_synonym monitored = "monitor option \<times> body_ref"

definition requestLogger_LogResponse ::
  "('f, 'z) log_libs \<Rightarrow> 'w chi \<Rightarrow> ('f, 'z) requestLogger \<Rightarrow> (header \<times> string \<times> monitored) option \<Rightarrow>
     (unit, ('f, 'z) log_call list) res \<times> monitored option" where
  "requestLogger_LogResponse L C r resp =
     (case resp of
        None \<Rightarrow> (and_then (requestLogger_FlushLog L C None r) (\<lambda>(_, ls). Ok ls), None)
      | Some (h, content, mb) \<Rightarrow>
          (and_then (requestLogger_FlushLog L C None
               (r\<lparr>rl_respBody := rl_respBody r @ content, rl_respHeader := h\<rparr>)) (\<lambda>(_, ls). Ok ls),
           Some (log_response True content mb)))"

definition RequestLogger_LogResponse ::
  "('f, 'z) log_libs \<Rightarrow> 'w chi \<Rightarrow> ('f, 'z) RequestLogger \<Rightarrow> (header \<times> string \<times> monitored) option \<Rightarrow>
     (unit, ('f, 'z) log_call list) res \<times> monitored option" where
  "RequestLogger_LogResponse L C l resp =
     (case l of
        nopLogger \<Rightarrow> (Ok [], map_option (\<lambda>(h, content, mb). mb) resp)
      | PayloadLogger r \<Rightarrow> requestLogger_LogResponse L C r resp)"

section \<open>The middleware\<close>

text \<open>
  A handler is given the contexts, the request, the monitor of its context and a writer; it returns the
  monitor and the writer at its end, and its panic.
\<close>

type_synonym ('f, 'z, 'd, 'w) core_handler =
  "'d sctx \<Rightarrow> ('f, 'z) log_ctx \<Rightarrow> core_request \<Rightarrow> monitor \<Rightarrow> 'w \<Rightarrow> 'w \<times> monitor \<times> string option"

record ('f, 'z, 'w) core_result =
  cr_w :: 'w
  cr_monitor :: monitor
  cr_logs :: "('f, 'z) log_call list"
  cr_panic :: "string option"

text \<open>
  A deferred call writes log lines and may panic; it runs after the function has returned or panicked, and
  its panic replaces the one under way.
\<close>

fun run_deferred :: "('l list \<times> string option) list \<Rightarrow> 'l list \<times> string option \<Rightarrow> 'l list \<times> string option" where
  "run_deferred [] s = s"
| "run_deferred ((ls, p) # ds) (logs, q) =
     run_deferred ds (logs @ ls, case p of Some e \<Rightarrow> Some e | None \<Rightarrow> q)"

fun deferred_log :: "(unit, 'l list) res \<Rightarrow> 'l list \<times> string option" where
  "deferred_log (Ok ls) = (ls, None)"
| "deferred_log (Panic p) = ([], Some p)"
| "deferred_log (Err _) = ([], None)"

text \<open>The check logs the error before it panics with it.\<close>

definition deferred_check ::
  "(string \<Rightarrow> string) \<Rightarrow> ('f, 'z) log_ctx \<Rightarrow> monitor option \<Rightarrow> ('f, 'z) log_call list \<times> string option" where
  "deferred_check quote cx m =
     (case CheckForUnclosedResponses quote m of
        Panic err \<Rightarrow>
          (case (ctx_log cx (SError err) ''unclosed response'' :: (unit, _) res) of
             Ok c \<Rightarrow> ([c], Some err)
           | Panic p \<Rightarrow> ([], Some p)
           | Err _ \<Rightarrow> ([], Some err))
      | _ \<Rightarrow> ([], None))"

definition AddResponseBodyMonitorToContext :: monitor where
  "AddResponseBodyMonitorToContext = []"

definition traceIDLogField :: string where
  "traceIDLogField = ''traceid''"

definition CoreRequestContextMiddleware ::
  "('f, 'z) log_libs \<Rightarrow> 'w chi \<Rightarrow> (string \<Rightarrow> string) \<Rightarrow> string \<Rightarrow> int \<Rightarrow> ('f, 'z, 'd, 'w) core_handler \<Rightarrow>
     'd sctx \<Rightarrow> ('f, 'z) log_ctx \<Rightarrow> 'w \<Rightarrow> core_request \<Rightarrow> ('f, 'z, 'w) core_result" where
  "CoreRequestContextMiddleware L C quote fresh elapsed next sx cx w r =
     (case (ctx_With L cx traceIDLogField (FStr (GetTraceIDFromContext fresh sx)) :: (unit, _) res) of
        Ok cx1 \<Rightarrow>
          (let mon = AddResponseBodyMonitorToContext
           in case NewRequestLogger L sx cx1 r of
                Ok (reqLogger, entry, r1) \<Rightarrow>
                  (let w1 = RequestLogger_ResponseWriter C reqLogger (cq_ProtoMajor r) w;
                       w2 = chi_New C w1 (cq_ProtoMajor r1);
                       (w2', mon', p) = next sx cx1 r1 mon w2;
                       w1' = chi_Unwrap C w2';
                       w' = (case reqLogger of nopLogger \<Rightarrow> w1' | PayloadLogger _ \<Rightarrow> chi_Unwrap C w1');
                       (logs, q) = run_deferred
                         [deferred_log (and_then (RequestTimer_Log L entry (chi_Status C w2') elapsed (cq_req r1)) (\<lambda>c. Ok [c])),
                          deferred_log (RequestLogger_FlushLog L C (Some w1') reqLogger),
                          deferred_check quote cx1 (Some mon')] ([], p)
                   in \<lparr>cr_w = w', cr_monitor = mon', cr_logs = logs, cr_panic = q\<rparr>)
              | Panic p \<Rightarrow>
                  (let (logs, q) = run_deferred [deferred_check quote cx1 (Some mon)] ([], Some p)
                   in \<lparr>cr_w = w, cr_monitor = mon, cr_logs = logs, cr_panic = q\<rparr>)
              | Err _ \<Rightarrow> \<lparr>cr_w = w, cr_monitor = mon, cr_logs = [], cr_panic = None\<rparr>)
      | Panic p \<Rightarrow> \<lparr>cr_w = w, cr_monitor = [], cr_logs = [], cr_panic = Some p\<rparr>
      | Err _ \<Rightarrow> \<lparr>cr_w = w, cr_monitor = [], cr_logs = [], cr_panic = None\<rparr>)"

section \<open>The logging round tripper\<close>

text \<open>
  The answer of the base transport is an error, or a response with its status, its header and its content.
  The context the lines are logged with is the one the round tripper was made with.
\<close>

record ('f, 'z, 'x) trip_result =
  tr_result :: "('x, body_ref) res"
  tr_monitor :: "monitor option"
  tr_logs :: "('f, 'z) log_call list"

definition AddResponseToMonitor :: "monitor option \<Rightarrow> string \<Rightarrow> monitored" where
  "AddResponseToMonitor mon url =
     (case mon of None \<Rightarrow> (None, Original) | Some m \<Rightarrow> (let (m', b) = addResponse m url in (Some m', b)))"

definition logged_RoundTrip ::
  "('f, 'z) log_libs \<Rightarrow> 'w chi \<Rightarrow> 'd sctx \<Rightarrow> ('f, 'z) log_ctx \<Rightarrow> int \<Rightarrow> (core_request \<Rightarrow> 'x + (int \<times> header \<times> string)) \<Rightarrow>
     core_request \<Rightarrow> monitor option \<Rightarrow> ('f, 'z, 'x) trip_result" where
  "logged_RoundTrip L C sx cx elapsed base req mon =
     (case NewRequestLogger L sx cx req of
        Ok (reqLogger, _, req1) \<Rightarrow>
          (case base req1 of
             Inl e \<Rightarrow>
               (let (ls, p) = deferred_log (fst (RequestLogger_LogResponse L C reqLogger None))
                in \<lparr>tr_result = (case p of Some q \<Rightarrow> Panic q | None \<Rightarrow> Err e), tr_monitor = mon, tr_logs = ls\<rparr>)
           | Inr (status, h, content) \<Rightarrow>
               (let mb = AddResponseToMonitor mon (tq_URL (cq_req req1));
                    (info, q) = deferred_log (and_then (initCommonLogFields L cx status elapsed (cq_req req1)) (\<lambda>cx'.
                      and_then (ctx_log cx' SInfo ''Backend request completed'') (\<lambda>c. Ok [c])));
                    (flush, mb') = RequestLogger_LogResponse L C reqLogger (Some (h, content, mb));
                    (logs, p) = run_deferred [deferred_log flush] (info, q);
                    (mon', b') = (case mb' of Some v \<Rightarrow> v | None \<Rightarrow> mb)
                in \<lparr>tr_result = (case p of Some r \<Rightarrow> Panic r | None \<Rightarrow> Ok b'), tr_monitor = mon', tr_logs = logs\<rparr>))
      | Panic p \<Rightarrow> \<lparr>tr_result = Panic p, tr_monitor = mon, tr_logs = []\<rparr>
      | Err _ \<Rightarrow> \<lparr>tr_result = Panic [], tr_monitor = mon, tr_logs = []\<rparr>)"

text \<open>No logging call returns an error, so that the \<open>Err\<close> branch above is not reached.\<close>

text \<open>The round tripper a client is built with adds the name of the downstream to the lines.\<close>

definition tempRoundtripper_RoundTrip ::
  "('f, 'z) log_libs \<Rightarrow> 'w chi \<Rightarrow> 'd sctx \<Rightarrow> ('f, 'z) log_ctx \<Rightarrow> int \<Rightarrow> string \<Rightarrow> (core_request \<Rightarrow> 'x + (int \<times> header \<times> string)) \<Rightarrow>
     core_request \<Rightarrow> monitor option \<Rightarrow> ('f, 'z, 'x) trip_result" where
  "tempRoundtripper_RoundTrip L C sx cx elapsed name base req mon =
     (case (ctx_With L cx ''Downstream'' (FStr name) :: (unit, _) res) of
        Ok cx' \<Rightarrow> logged_RoundTrip L C sx cx' elapsed base req mon
      | Panic p \<Rightarrow> \<lparr>tr_result = Panic p, tr_monitor = mon, tr_logs = []\<rparr>
      | Err _ \<Rightarrow> \<lparr>tr_result = Panic [], tr_monitor = mon, tr_logs = []\<rparr>)"

section \<open>Lines that carry the trace id\<close>

fun call_line :: "('f, 'z) log_call \<Rightarrow> severity \<times> string" where
  "call_line (PkgCall f s m) = (s, m)"
| "call_line (ZeroCall z s m) = (s, m)"
| "call_line (LogrusCall a fs s m) = (s, m)"

text \<open>A context with a logger which, when it is a logrus logger, has the trace id among its fields.\<close>

definition traced :: "string \<Rightarrow> ('f, 'z) log_ctx \<Rightarrow> bool" where
  "traced tid cx \<longleftrightarrow> loggerKey cx \<noteq> None \<and>
     (\<forall>a fs. loggerKey cx = Some (Fixed a fs) \<longrightarrow> fs traceIDLogField = Some (FStr tid))"

fun call_traced :: "string \<Rightarrow> ('f, 'z) log_call \<Rightarrow> bool" where
  "call_traced tid (LogrusCall a fs s m) = (fs traceIDLogField = Some (FStr tid))"
| "call_traced tid c = True"

lemma ctx_With_traces:
  "loggerKey cx \<noteq> None \<Longrightarrow> \<exists>cx'. ctx_With L cx traceIDLogField (FStr tid) = (Ok cx' :: (unit, _) res) \<and> traced tid cx'"
  by (cases "the (loggerKey cx)") (auto simp: ctx_With_pkg ctx_With_zero ctx_With_fixed traced_def)

lemma ctx_With_keeps_trace:
  "traced tid cx \<Longrightarrow> k \<noteq> traceIDLogField \<Longrightarrow> \<exists>cx'. ctx_With L cx k v = (Ok cx' :: (unit, _) res) \<and> traced tid cx'"
  by (cases "the (loggerKey cx)") (auto simp: ctx_With_pkg ctx_With_zero ctx_With_fixed traced_def)

lemma ctx_With_all_keeps_trace:
  "traced tid cx \<Longrightarrow> traceIDLogField \<notin> fst ` set kvs \<Longrightarrow> \<exists>cx'. ctx_With_all L cx kvs = (Ok cx' :: (unit, _) res) \<and> traced tid cx'"
proof (induction kvs arbitrary: cx)
  case (Cons kv kvs)
  obtain k v where kv: "kv = (k, v)" by (cases kv)
  with Cons.prems ctx_With_keeps_trace[of tid cx k L v] obtain cx' where
    "ctx_With L cx k v = (Ok cx' :: (unit, _) res)" "traced tid cx'" by auto
  with Cons.IH[of cx'] Cons.prems kv show ?case by simp
qed simp

lemma ctx_log_traced:
  "traced tid cx \<Longrightarrow> \<exists>c. ctx_log cx s m = (Ok c :: (unit, _) res) \<and> call_line c = (s, m) \<and> call_traced tid c"
  by (cases "the (loggerKey cx)") (auto simp: ctx_log_def GetLogger_def traced_def)

lemma request_pairs_no_trace: "traceIDLogField \<notin> fst ` set (request_pairs status elapsed r)"
  by (auto simp: request_pairs_def trace_pairs_def distributedTracingIDs_def traceIDLogField_def)

lemma InitFieldsFromRequest_pairs:
  "InitFieldsFromRequest L cx r = ctx_With_all L cx
     (trace_pairs (tq_Header r) @ [(''remote'', FStr (tq_RemoteAddr r)), (''request'', FStr (tq_URL r)),
        (''method'', FStr (tq_Method r))])"
  by (simp add: InitFieldsFromRequest_def distributedTracingFields_def tracing_fields_pairs trace_pairs_def
      ctx_With_all_append and_then_assoc)

lemma InitFields_traced: "traced tid cx \<Longrightarrow> \<exists>cx'. InitFieldsFromRequest L cx r = (Ok cx' :: (unit, _) res) \<and> traced tid cx'"
  unfolding InitFieldsFromRequest_pairs
  by (rule ctx_With_all_keeps_trace) (auto simp: trace_pairs_def distributedTracingIDs_def traceIDLogField_def)

text \<open>The severity and text of the line of a completed request.\<close>

definition completed_line :: "int \<Rightarrow> severity \<times> string" where
  "completed_line status =
     (if status < 400 then (SInfo, ''Request completed'')
      else (SError (''invalid status: '' @ show_int status), ''request completed with error status''))"

lemma RequestTimer_Log_traced:
  assumes "traced tid cx"
  shows "\<exists>c. RequestTimer_Log L cx status elapsed r = Ok c \<and> call_line c = completed_line status \<and> call_traced tid c"
proof -
  obtain cx' where "ctx_With_all L cx (request_pairs status elapsed r) = (Ok cx' :: (unit, _) res)" "traced tid cx'"
    using ctx_With_all_keeps_trace[OF assms request_pairs_no_trace] by blast
  then show ?thesis
    using ctx_log_traced[of tid cx' SInfo]
      ctx_log_traced[of tid cx' "SError (''invalid status: '' @ show_int status)"]
    by (simp add: RequestTimer_Log_def initCommonLogFields_pairs completed_line_def)
qed

text \<open>The header and the body of the response as the payload log shows them.\<close>

definition flush_header :: "'w chi \<Rightarrow> 'w option \<Rightarrow> ('f, 'z) requestLogger \<Rightarrow> header" where
  "flush_header C rw r = (case rw of None \<Rightarrow> rl_respHeader r | Some w \<Rightarrow> chi_Header C w)"

definition flush_body :: "'w chi \<Rightarrow> 'w option \<Rightarrow> ('f, 'z) requestLogger \<Rightarrow> string" where
  "flush_body C rw r =
     (case rw of None \<Rightarrow> rl_respBody r
      | Some w \<Rightarrow> rl_respBody r @ (case chi_teed C w of None \<Rightarrow> [] | Some t \<Rightarrow> t))"

lemma FlushLog_traced:
  assumes "traced tid (rl_ctx r)" "\<not> rl_flushed r"
  shows "\<exists>ls. requestLogger_FlushLog L C rw r =
      Ok (r\<lparr>rl_flushed := True, rl_respHeader := flush_header C rw r\<rparr>, ls) \<and>
    map call_line ls = [(SDebug, payload_line ''Request'' (rl_reqHeader r) (rl_reqBody r)),
      (SDebug, payload_line ''Response'' (flush_header C rw r) (flush_body C rw r))] \<and>
    list_all (call_traced tid) ls"
proof -
  obtain c1 where c1: "ctx_With L (rl_ctx r) ''logger'' (FStr ''common/internal/requestlogger.go'') = (Ok c1 :: (unit, _) res)"
      "traced tid c1"
    using ctx_With_keeps_trace[OF assms(1), of "''logger''" L] by (auto simp: traceIDLogField_def)
  obtain c2 where c2: "ctx_With L c1 ''func'' (FStr ''FlushLog()'') = (Ok c2 :: (unit, _) res)" "traced tid c2"
    using ctx_With_keeps_trace[OF c1(2), of "''func''" L] by (auto simp: traceIDLogField_def)
  obtain l1 where l1: "ctx_log c2 SDebug (payload_line ''Request'' (rl_reqHeader r) (rl_reqBody r)) = (Ok l1 :: (unit, _) res)"
      "call_line l1 = (SDebug, payload_line ''Request'' (rl_reqHeader r) (rl_reqBody r))" "call_traced tid l1"
    using ctx_log_traced[OF c2(2)] by blast
  let ?b = "payload_line ''Response'' (flush_header C rw r) (flush_body C rw r)"
  obtain l2 where l2: "ctx_log c2 SDebug ?b = (Ok l2 :: (unit, _) res)" "call_line l2 = (SDebug, ?b)" "call_traced tid l2"
    using ctx_log_traced[OF c2(2)] by blast
  from c1 c2 l1 l2 assms(2) show ?thesis
    by (simp add: requestLogger_FlushLog_def flush_header_def[symmetric] flush_body_def[symmetric] Let_def)
qed

lemma deferred_check_traced:
  assumes "traced tid cx"
  shows "\<exists>ls. deferred_check quote cx (Some m) =
      (ls, if list_ex (\<lambda>b. \<not> wb_closed b) m
           then Some (OpenResponseBodyErrors_Error quote (map wb_url (getResponsesWithOpenBodies m))) else None) \<and>
    map call_line ls = (if list_ex (\<lambda>b. \<not> wb_closed b) m
      then [(SError (OpenResponseBodyErrors_Error quote (map wb_url (getResponsesWithOpenBodies m))), ''unclosed response'')]
      else []) \<and> list_all (call_traced tid) ls"
proof -
  have e: "getResponsesWithOpenBodies m = [] \<longleftrightarrow> \<not> list_ex (\<lambda>b. \<not> wb_closed b) m"
    by (auto simp: getResponsesWithOpenBodies_def filter_empty_conv list_ex_iff)
  let ?e = "OpenResponseBodyErrors_Error quote (map wb_url (getResponsesWithOpenBodies m))"
  obtain c where "ctx_log cx (SError ?e) ''unclosed response'' = (Ok c :: (unit, _) res)"
      "call_line c = (SError ?e, ''unclosed response'')" "call_traced tid c"
    using ctx_log_traced[OF assms] by blast
  then show ?thesis using e by (auto simp: deferred_check_def CheckForUnclosedResponses_def Let_def)
qed

section \<open>What is relied on of the wrapping writer\<close>

text \<open>Actions that send no informational and no invalid status.\<close>

fun sendable :: "action \<Rightarrow> bool" where
  "sendable (CallWriteHeader c) = (c = 101 \<or> 200 \<le> c \<and> c \<le> 999)"
| "sendable a = True"

text \<open>The status a sequence of actions sends (zero for none) and the body it writes, up to its panic.\<close>

fun sent_status :: "action list \<Rightarrow> int" where
  "sent_status [] = 0"
| "sent_status (SetHeader k v # as) = sent_status as"
| "sent_status (CallWriteHeader c # as) = c"
| "sent_status (CallWrite b # as) = 200"
| "sent_status (DoPanic p # as) = 0"

fun sent_body :: "action list \<Rightarrow> string" where
  "sent_body [] = []"
| "sent_body (CallWrite b # as) = b @ sent_body as"
| "sent_body (DoPanic p # as) = []"
| "sent_body (a # as) = sent_body as"

text \<open>
  The documented behaviour of chi's writers, over the writers that accept what is sent (\<open>ok\<close>): a new one
  wraps its argument and has sent nothing; every action on a wrapper (\<open>wr\<close>) is passed on to the writer it
  wraps; \<^verbatim>\<open>Status\<close> is the first status sent, or zero; \<^verbatim>\<open>Tee\<close> attaches a writer that receives the body.
\<close>

definition proxies :: "'w writer_ops \<Rightarrow> 'w chi \<Rightarrow> ('w \<Rightarrow> bool) \<Rightarrow> ('w \<Rightarrow> bool) \<Rightarrow> bool" where
  "proxies R C ok wr \<longleftrightarrow>
     (\<forall>w n. ok w \<longrightarrow> ok (chi_New C w n) \<and> wr (chi_New C w n) \<and> chi_Unwrap C (chi_New C w n) = w \<and>
        chi_Status C (chi_New C w n) = 0 \<and> chi_teed C (chi_New C w n) = None) \<and>
     (\<forall>w. ok w \<and> wr w \<longrightarrow> ok (chi_Tee C w) \<and> wr (chi_Tee C w) \<and> chi_Unwrap C (chi_Tee C w) = chi_Unwrap C w \<and>
        chi_Status C (chi_Tee C w) = chi_Status C w \<and> chi_teed C (chi_Tee C w) = Some []) \<and>
     (\<forall>w. wr w \<longrightarrow> chi_Header C w = chi_Header C (chi_Unwrap C w)) \<and>
     (\<forall>w a. ok w \<and> sendable a \<and> (\<forall>p. a \<noteq> DoPanic p) \<longrightarrow>
        (\<exists>w'. perform R a w = Ok w' \<and> ok w' \<and>
           (wr w \<longrightarrow> wr w' \<and> perform R a (chi_Unwrap C w) = Ok (chi_Unwrap C w') \<and>
              chi_Status C w' = (if chi_Status C w \<noteq> 0 then chi_Status C w else sent_status [a]) \<and>
              chi_teed C w' = map_option (\<lambda>t. t @ sent_body [a]) (chi_teed C w))))"

lemma proxies_New:
  assumes "proxies R C ok wr" "ok w"
  shows "ok (chi_New C w n)" "wr (chi_New C w n)" "chi_Unwrap C (chi_New C w n) = w"
    "chi_Status C (chi_New C w n) = 0" "chi_teed C (chi_New C w n) = None"
  using assms unfolding proxies_def by blast+

lemma proxies_Tee:
  assumes "proxies R C ok wr" "ok w" "wr w"
  shows "ok (chi_Tee C w)" "wr (chi_Tee C w)" "chi_Unwrap C (chi_Tee C w) = chi_Unwrap C w"
    "chi_Status C (chi_Tee C w) = chi_Status C w" "chi_teed C (chi_Tee C w) = Some []"
  using assms unfolding proxies_def by blast+

lemma proxies_Header: "proxies R C ok wr \<Longrightarrow> wr w \<Longrightarrow> chi_Header C w = chi_Header C (chi_Unwrap C w)"
  unfolding proxies_def by blast

lemma proxies_step:
  assumes "proxies R C ok wr" "ok w" "sendable a" "\<And>p. a \<noteq> DoPanic p"
  obtains w' where "perform R a w = Ok w'" "ok w'"
    "wr w \<Longrightarrow> wr w' \<and> perform R a (chi_Unwrap C w) = Ok (chi_Unwrap C w') \<and>
       chi_Status C w' = (if chi_Status C w \<noteq> 0 then chi_Status C w else sent_status [a]) \<and>
       chi_teed C w' = map_option (\<lambda>t. t @ sent_body [a]) (chi_teed C w)"
  using assms unfolding proxies_def by blast

lemma proxies_simulation:
  assumes "proxies R C ok wr"
  shows "writer_simulation R R (chi_Unwrap C) (\<lambda>w. ok w \<and> wr w) sendable"
proof (rule writer_simulation.intro, elim conjE)
  fix w a assume "ok w" "wr w" "sendable a"
  then show "case perform R a w of
      Ok w' \<Rightarrow> perform R a (chi_Unwrap C w) = Ok (chi_Unwrap C w') \<and> ok w' \<and> wr w'
    | Err e \<Rightarrow> False | Panic p \<Rightarrow> perform R a (chi_Unwrap C w) = Panic p"
    by (cases a) (auto elim!: proxies_step[OF assms, of w a])
qed

lemmas proxies_serve = writer_simulation.sim_serve[OF proxies_simulation]

lemma sent_Cons:
  "\<forall>p. a \<noteq> DoPanic p \<Longrightarrow> sent_status (a # as) = (case a of SetHeader _ _ \<Rightarrow> sent_status as | _ \<Rightarrow> sent_status [a])"
  "\<forall>p. a \<noteq> DoPanic p \<Longrightarrow> sent_body (a # as) = sent_body [a] @ sent_body as"
  by (cases a; simp)+

lemma proxies_recorded:
  assumes "proxies R C ok wr"
  shows "ok w \<Longrightarrow> wr w \<Longrightarrow> list_all sendable as \<Longrightarrow>
    chi_Status C (fst (serve R as w)) = (if chi_Status C w \<noteq> 0 then chi_Status C w else sent_status as) \<and>
    chi_teed C (fst (serve R as w)) = map_option (\<lambda>t. t @ sent_body as) (chi_teed C w)"
proof (induction as arbitrary: w)
  case Nil
  then show ?case by (simp add: option.map_ident)
next
  case (Cons a as)
  show ?case
  proof (cases "\<exists>p. a = DoPanic p")
    case False
    then obtain w' where w': "perform R a w = Ok w'" "ok w'" "wr w'"
        "chi_Status C w' = (if chi_Status C w \<noteq> 0 then chi_Status C w else sent_status [a])"
        "chi_teed C w' = map_option (\<lambda>t. t @ sent_body [a]) (chi_teed C w)"
      using proxies_step[OF assms, of w a] Cons.prems by (auto simp del: sent_status.simps sent_body.simps)
    have z: "sent_status [a] = 0 \<Longrightarrow> \<exists>k v. a = SetHeader k v" using Cons.prems False by (cases a) auto
    from Cons.IH[OF w'(2,3)] Cons.prems w' False z show ?thesis
      by (cases a) (auto simp: sent_Cons option.map_comp comp_def split: if_splits)
  qed (auto simp: option.map_ident)
qed

section \<open>The middleware around a handler\<close>

text \<open>
  A handler that performs the actions \<open>as\<close>, which may depend on what it reads as the body of its request,
  and whose downstream calls change the monitor by \<open>mf\<close>.
\<close>

definition acting ::
  "'w writer_ops \<Rightarrow> ((string \<times> bool) option \<Rightarrow> action list) \<Rightarrow> (monitor \<Rightarrow> monitor) \<Rightarrow> ('f, 'z, 'd, 'w) core_handler" where
  "acting R as mf sx cx r m w =
     (let (w', p) = serve R (as (map_option ReadAll (cq_Body r))) w in (w', mf m, p))"

text \<open>What the handler reads as its body, and what the payload log shows of the request.\<close>

definition handler_body :: "'d sctx \<Rightarrow> core_request \<Rightarrow> (string \<times> bool) option" where
  "handler_body sx r =
     map_option (if logs_payload sx \<and> tq_Method (cq_req r) \<noteq> ''GET'' then (\<lambda>b. (fst (ReadAll b), False)) else ReadAll)
       (cq_Body r)"

definition logged_request_body :: "core_request \<Rightarrow> string" where
  "logged_request_body r =
     (case cq_Body r of
        Some b \<Rightarrow> if tq_Method (cq_req r) \<noteq> ''GET'' then fst (ReadAll b) else []
      | None \<Rightarrow> [])"

text \<open>The request as it is passed on.\<close>

definition forwarded :: "'d sctx \<Rightarrow> core_request \<Rightarrow> core_request" where
  "forwarded sx r =
     (if logs_payload sx \<and> tq_Method (cq_req r) \<noteq> ''GET''
      then r\<lparr>cq_Body := map_option (\<lambda>b. NopBuffer (fst (ReadAll b))) (cq_Body r)\<rparr> else r)"

lemma forwarded_body: "map_option ReadAll (cq_Body (forwarded sx r)) = handler_body sx r"
  by (cases "cq_Body r") (auto simp: forwarded_def handler_body_def)

lemma forwarded_req [simp]: "cq_req (forwarded sx r) = cq_req r"
  by (simp add: forwarded_def)

lemma NewRequestLogger_traced:
  assumes "traced tid cx"
  shows "\<exists>rl entry. NewRequestLogger L sx cx r = Ok (rl, entry, forwarded sx r) \<and> traced tid entry \<and>
    (if logs_payload sx
     then rl = PayloadLogger \<lparr>rl_ctx = entry, rl_reqHeader = tq_Header (cq_req r), rl_reqBody = logged_request_body r,
            rl_respHeader = [], rl_respBody = [], rl_flushed = False\<rparr>
     else rl = nopLogger)"
proof -
  obtain cx' where "InitFieldsFromRequest L cx (cq_req r) = (Ok cx' :: (unit, _) res)" "traced tid cx'"
    using InitFields_traced[OF assms] by blast
  then show ?thesis using assms
    by (cases "cq_Body r")
      (auto simp: NewRequestLogger_def forwarded_def logged_request_body_def Let_def case_prod_beta)
qed

text \<open>The lines of the payload log.\<close>

definition payload_lines :: "'w chi \<Rightarrow> bool \<Rightarrow> core_request \<Rightarrow> 'w \<Rightarrow> action list \<Rightarrow> (severity \<times> string) list" where
  "payload_lines C payload r w as =
     (if payload
      then [(SDebug, payload_line ''Request'' (tq_Header (cq_req r)) (logged_request_body r)),
            (SDebug, payload_line ''Response'' (chi_Header C w) (sent_body as))]
      else [])"

lemma deferred_flush:
  assumes "traced tid entry"
    and "if payload
     then rl = PayloadLogger \<lparr>rl_ctx = entry, rl_reqHeader = tq_Header (cq_req r), rl_reqBody = logged_request_body r,
            rl_respHeader = [], rl_respBody = [], rl_flushed = False\<rparr>
     else rl = nopLogger"
    and "payload \<Longrightarrow> chi_teed C w1 = Some (sent_body as)" "payload \<Longrightarrow> chi_Header C w1 = chi_Header C w"
  shows "\<exists>ls. deferred_log (RequestLogger_FlushLog L C (Some w1) rl) = (ls, None) \<and>
      map call_line ls = payload_lines C payload r w as \<and> list_all (call_traced tid) ls"
proof (cases payload)
  case True
  then obtain l where l: "rl = PayloadLogger l" "traced tid (rl_ctx l)" "\<not> rl_flushed l" "rl_respBody l = []"
      "rl_reqHeader l = tq_Header (cq_req r)" "rl_reqBody l = logged_request_body r"
    using assms(1,2) by simp
  from FlushLog_traced[OF l(2,3), of L C "Some w1"] True show ?thesis
    by (auto simp: RequestLogger_FlushLog_def l assms(3,4) payload_lines_def flush_header_def flush_body_def)
qed (use assms(2) in \<open>simp add: RequestLogger_FlushLog_def payload_lines_def\<close>)

text \<open>The two writers the middleware puts around the one it is given, and what they record.\<close>

lemma wrapped_twice:
  assumes pr: "proxies R C ok wr" and w: "ok w" and as: "list_all sendable as"
    and w1: "w1 = (if payload then chi_Tee C (chi_New C w n) else w)"
    and s: "serve R as (chi_New C w1 n') = (w2, p)"
  shows "chi_Status C w2 = sent_status as" "snd (serve R as w) = p"
    "fst (serve R as w) = (if payload then chi_Unwrap C (chi_Unwrap C w2) else chi_Unwrap C w2)"
    "payload \<Longrightarrow> chi_teed C (chi_Unwrap C w2) = Some (sent_body as)"
    "payload \<Longrightarrow> chi_Header C (chi_Unwrap C w2) = chi_Header C (fst (serve R as w))"
proof -
  note n = proxies_New[OF pr] and t = proxies_Tee[OF pr]
  have ok1: "ok w1" using w1 w n t by simp
  have u: "serve R as w1 = (chi_Unwrap C w2, p)" and "wr w2" "ok w2"
    using proxies_serve[OF pr, of "chi_New C w1 n'" as] n[OF ok1] as s by simp_all
  show "chi_Status C w2 = sent_status as"
    using proxies_recorded[OF pr n(1,2)[OF ok1, of n'] as] n(4)[OF ok1, of n'] s by simp
  have pay: "wr w1 \<and> chi_Unwrap C w1 = w \<and> chi_teed C w1 = Some []" if payload
    using that w1 w n t by simp
  have v: "serve R as w = (chi_Unwrap C (chi_Unwrap C w2), p) \<and> wr (chi_Unwrap C w2)" if payload
    using proxies_serve[OF pr, of w1 as] ok1 pay[OF that] as u by simp
  show "snd (serve R as w) = p"
      "fst (serve R as w) = (if payload then chi_Unwrap C (chi_Unwrap C w2) else chi_Unwrap C w2)"
    using v u w1 by (cases payload; simp)+
  show "chi_teed C (chi_Unwrap C w2) = Some (sent_body as)" if payload
    using proxies_recorded[OF pr ok1 _ as] pay[OF that] u by simp
  show "chi_Header C (chi_Unwrap C w2) = chi_Header C (fst (serve R as w))" if payload
    using proxies_Header[OF pr, of "chi_Unwrap C w2"] v[OF that] by simp
qed

lemma core_middleware_result:
  fixes L :: "('f, 'z) log_libs" and C :: "'w chi" and sx :: "'d sctx"
  assumes "proxies R C ok wr" and "ok w" and "loggerKey cx \<noteq> None" and "\<And>b. list_all sendable (as b)"
  shows "let res = CoreRequestContextMiddleware L C quote fresh elapsed (acting R as mf) sx cx w r;
      todo = as (handler_body sx r);
      open_bodies = getResponsesWithOpenBodies (mf []);
      err = OpenResponseBodyErrors_Error quote (map wb_url open_bodies)
    in (cr_w res, cr_panic res) = (fst (serve R todo w), if open_bodies = [] then snd (serve R todo w) else Some err) \<and>
       map call_line (cr_logs res) =
         [completed_line (sent_status todo)] @
         payload_lines C (logs_payload sx) r (fst (serve R todo w)) todo @
         (if open_bodies = [] then [] else [(SError err, ''unclosed response'')]) \<and>
       list_all (call_traced (GetTraceIDFromContext fresh sx)) (cr_logs res)"
proof -
  let ?tid = "GetTraceIDFromContext fresh sx" and ?todo = "as (handler_body sx r)"
  obtain cx1 where cx1: "ctx_With L cx traceIDLogField (FStr ?tid) = (Ok cx1 :: (unit, _) res)" "traced ?tid cx1"
    using ctx_With_traces[OF assms(3)] by blast
  define r1 where "r1 = forwarded sx r"
  have r1: "cq_req r1 = cq_req r" "map_option ReadAll (cq_Body r1) = handler_body sx r"
    by (simp_all add: r1_def forwarded_body)
  obtain rl entry where rl: "NewRequestLogger L sx cx1 r = Ok (rl, entry, r1)" "traced ?tid entry"
      "if logs_payload sx
       then rl = PayloadLogger \<lparr>rl_ctx = entry, rl_reqHeader = tq_Header (cq_req r), rl_reqBody = logged_request_body r,
              rl_respHeader = [], rl_respBody = [], rl_flushed = False\<rparr>
       else rl = nopLogger"
    using NewRequestLogger_traced[OF cx1(2), of L sx r] unfolding r1_def by blast
  define w1 where "w1 = RequestLogger_ResponseWriter C rl (cq_ProtoMajor r) w"
  have w1: "w1 = (if logs_payload sx then chi_Tee C (chi_New C w (cq_ProtoMajor r)) else w)"
    using rl(3) by (auto simp: w1_def RequestLogger_ResponseWriter_def)
  obtain w2 p where s: "serve R ?todo (chi_New C w1 (cq_ProtoMajor r1)) = (w2, p)" by fastforce
  note wt = wrapped_twice[OF assms(1,2,4) w1 s]
  obtain c where c: "RequestTimer_Log L entry (sent_status ?todo) elapsed (cq_req r) = Ok c"
      "call_line c = completed_line (sent_status ?todo)" "call_traced ?tid c"
    using RequestTimer_Log_traced[OF rl(2)] by blast
  let ?open = "list_ex (\<lambda>b. \<not> wb_closed b) (mf [])"
  have op: "getResponsesWithOpenBodies (mf []) = [] \<longleftrightarrow> \<not> ?open"
    by (auto simp: getResponsesWithOpenBodies_def filter_empty_conv list_ex_iff)
  obtain ds where ds: "deferred_check quote cx1 (Some (mf [])) =
        (ds, if ?open then Some (OpenResponseBodyErrors_Error quote (map wb_url (getResponsesWithOpenBodies (mf [])))) else None)"
      "map call_line ds = (if ?open
        then [(SError (OpenResponseBodyErrors_Error quote (map wb_url (getResponsesWithOpenBodies (mf [])))), ''unclosed response'')]
        else [])" "list_all (call_traced ?tid) ds"
    using deferred_check_traced[OF cx1(2)] by blast
  obtain fs where fs: "deferred_log (RequestLogger_FlushLog L C (Some (chi_Unwrap C w2)) rl) = (fs, None)"
      "map call_line fs = payload_lines C (logs_payload sx) r (fst (serve R ?todo w)) ?todo" "list_all (call_traced ?tid) fs"
    using deferred_flush[OF rl(2,3) wt(4,5)] by blast
  define res where "res = CoreRequestContextMiddleware L C quote fresh elapsed (acting R as mf) sx cx w r"
  have w': "(case rl of nopLogger \<Rightarrow> chi_Unwrap C w2 | PayloadLogger _ \<Rightarrow> chi_Unwrap C (chi_Unwrap C w2)) = fst (serve R ?todo w)"
    using wt(3) rl(3) by (auto split: if_splits)
  have "cr_w res = fst (serve R ?todo w)" "cr_logs res = c # fs @ ds"
      "cr_panic res = (if ?open then Some (OpenResponseBodyErrors_Error quote (map wb_url (getResponsesWithOpenBodies (mf [])))) else p)"
    by (simp_all add: res_def CoreRequestContextMiddleware_def cx1(1) rl(1) r1 acting_def w1_def[symmetric] s
        AddResponseBodyMonitorToContext_def wt(1) c(1) fs(1) ds(1) w' Let_def)
  then show ?thesis
    using c(2,3) fs(2,3) ds(2,3) op wt(2) by (simp add: res_def[symmetric] Let_def)
qed

section \<open>Properties\<close>


section \<open>A wrapping writer over the buffering writer\<close>

text \<open>
  Writers with chi's documented behaviour over the writer of the timeout middleware: a wrapper has the writer
  it wraps, the status it has sent (zero for none) and the text its tee has received.
\<close>

datatype rwriter = TW timeoutWriter | ChiW rwriter int "string option"

fun rw_SetHeader :: "rwriter \<Rightarrow> string \<Rightarrow> string \<Rightarrow> rwriter" where
  "rw_SetHeader (TW t) k v = TW (t\<lparr>tw_h := header_set (tw_h t) k v\<rparr>)"
| "rw_SetHeader (ChiW i c t) k v = ChiW (rw_SetHeader i k v) c t"

fun rw_WriteHeader :: "rwriter \<Rightarrow> int \<Rightarrow> (unit, rwriter) res" where
  "rw_WriteHeader (TW t) code = and_then (timeoutWriter_WriteHeader t code) (\<lambda>t'. Ok (TW t'))"
| "rw_WriteHeader (ChiW i c t) code =
     (if c = 0 then and_then (rw_WriteHeader i code) (\<lambda>i'. Ok (ChiW i' code t)) else Ok (ChiW i c t))"

fun rw_depth :: "rwriter \<Rightarrow> nat" where
  "rw_depth (TW t) = 0"
| "rw_depth (ChiW i c t) = Suc (rw_depth i)"

lemma rw_WriteHeader_depth: "rw_WriteHeader w code = Ok w' \<Longrightarrow> rw_depth w' = rw_depth w"
  by (induction w arbitrary: w') (auto simp: go_res split: if_splits)

lemma and_then_cong [fundef_cong]:
  "x = y \<Longrightarrow> (\<And>a. y = Ok a \<Longrightarrow> f a = g a) \<Longrightarrow> and_then x f = and_then y g"
  by (cases y) auto

function (sequential) rw_Write :: "rwriter \<Rightarrow> string \<Rightarrow> (unit, rwriter) res" where
  "rw_Write (TW t) p = Ok (TW (snd (timeoutWriter_Write t p)))"
| "rw_Write (ChiW i c t) p =
     and_then (if c = 0 then rw_WriteHeader i 200 else Ok i) (\<lambda>i1. and_then (rw_Write i1 p)
       (\<lambda>i'. Ok (ChiW i' (if c = 0 then 200 else c) (map_option (\<lambda>s. s @ p) t))))"
  by pat_completeness auto

termination
  by (relation "measure (\<lambda>(w, p). rw_depth w)") (auto simp: rw_WriteHeader_depth split: if_splits)

fun rw_Header :: "rwriter \<Rightarrow> header" where
  "rw_Header (TW t) = tw_h t"
| "rw_Header (ChiW i c t) = rw_Header i"

definition rw_ops :: "rwriter writer_ops" where
  "rw_ops = \<lparr>op_SetHeader = rw_SetHeader, op_WriteHeader = rw_WriteHeader, op_Write = rw_Write\<rparr>"

fun is_wrapper :: "rwriter \<Rightarrow> bool" where
  "is_wrapper (TW t) = False"
| "is_wrapper (ChiW i c t) = True"

definition ref_chi :: "rwriter chi" where
  "ref_chi =
     \<lparr>chi_New = (\<lambda>w n. ChiW w 0 None),
      chi_Tee = (\<lambda>w. case w of ChiW i c _ \<Rightarrow> ChiW i c (Some []) | TW t \<Rightarrow> TW t),
      chi_Unwrap = (\<lambda>w. case w of ChiW i _ _ \<Rightarrow> i | TW t \<Rightarrow> TW t),
      chi_Status = (\<lambda>w. case w of ChiW _ c _ \<Rightarrow> c | TW t \<Rightarrow> 0),
      chi_Header = rw_Header,
      chi_teed = (\<lambda>w. case w of ChiW _ _ s \<Rightarrow> s | TW t \<Rightarrow> None)\<rparr>"

fun rw_wrote :: "rwriter \<Rightarrow> bool" where
  "rw_wrote (TW t) = tw_wroteHeader t"
| "rw_wrote (ChiW i c t) = (c \<noteq> 0)"

text \<open>No wrapper has sent a status its own writer has not, and the time is not up.\<close>

fun rw_ok :: "rwriter \<Rightarrow> bool" where
  "rw_ok (TW t) = (\<not> tw_timedOut t)"
| "rw_ok (ChiW i c t) = (rw_ok i \<and> (c \<noteq> 0 \<longrightarrow> rw_wrote i))"

lemma rw_SetHeader_ok [simp]: "rw_ok (rw_SetHeader w k v) = rw_ok w" "rw_wrote (rw_SetHeader w k v) = rw_wrote w"
  by (induction w) auto

lemma rw_WriteHeader_ok:
  "rw_ok w \<Longrightarrow> sendable (CallWriteHeader c) \<Longrightarrow>
     \<exists>w'. rw_WriteHeader w c = Ok w' \<and> rw_ok w' \<and> rw_wrote w' \<and> (rw_wrote w \<longrightarrow> w' = w)"
proof (induction w)
  case (TW t)
  then show ?case by (auto simp: timeoutWriter_WriteHeader_def writeHeaderLocked_def checkWriteHeaderCode_def)
next
  case (ChiW i d t)
  then show ?case by (cases "d = 0") auto
qed

text \<open>Writing sends status 200 first when nothing was sent, so that sending it before changes nothing.\<close>

lemma rw_Write_after_header:
  "rw_ok w \<Longrightarrow> rw_WriteHeader w 200 = Ok w1 \<Longrightarrow> rw_Write w1 p = rw_Write w p"
proof (induction w arbitrary: w1)
  case (TW t)
  then show ?case
    by (auto simp: timeoutWriter_WriteHeader_def timeoutWriter_Write_def writeHeaderLocked_def
        checkWriteHeaderCode_def Let_def)
next
  case (ChiW i d t)
  then show ?case by (cases "d = 0") (auto simp: go_res)
qed

lemma rw_Write_ok: "rw_ok w \<Longrightarrow> \<exists>w'. rw_Write w p = Ok w' \<and> rw_ok w' \<and> rw_wrote w'"
proof (induction w)
  case (TW t)
  then show ?case
    by (auto simp: timeoutWriter_Write_def writeHeaderLocked_def checkWriteHeaderCode_def Let_def)
next
  case (ChiW i d t)
  then obtain i' where i': "rw_Write i p = Ok i'" "rw_ok i'" "rw_wrote i'" by auto
  show ?case
  proof (cases "d = 0")
    case True
    with ChiW.prems obtain i1 where "rw_WriteHeader i 200 = Ok i1" using rw_WriteHeader_ok[of i 200] by auto
    with True i' rw_Write_after_header[of i i1 p] ChiW.prems show ?thesis by simp
  qed (use i' in simp)
qed

lemma ref_proxies: "proxies rw_ops ref_chi rw_ok is_wrapper"
proof -
  have step: "\<exists>w'. perform rw_ops a w = Ok w' \<and> rw_ok w' \<and>
      (is_wrapper w \<longrightarrow> is_wrapper w' \<and> perform rw_ops a (chi_Unwrap ref_chi w) = Ok (chi_Unwrap ref_chi w') \<and>
         chi_Status ref_chi w' = (if chi_Status ref_chi w \<noteq> 0 then chi_Status ref_chi w else sent_status [a]) \<and>
         chi_teed ref_chi w' = map_option (\<lambda>t. t @ sent_body [a]) (chi_teed ref_chi w))"
    if asm: "rw_ok w" "sendable a" "\<forall>p. a \<noteq> DoPanic p" for w a
  proof (cases a)
    case (SetHeader k v)
    with that show ?thesis by (cases w) (auto simp: rw_ops_def ref_chi_def option.map_ident)
  next
    case (CallWriteHeader c)
    show ?thesis
    proof (cases w)
      case (TW t)
      with that CallWriteHeader rw_WriteHeader_ok[of w c] show ?thesis by (auto simp: rw_ops_def)
    next
      case (ChiW i d t)
      with that CallWriteHeader rw_WriteHeader_ok[of i c] show ?thesis
        by (cases "d = 0") (auto simp: rw_ops_def ref_chi_def option.map_ident)
    qed
  next
    case (CallWrite p)
    obtain w' where w': "rw_Write w p = Ok w'" "rw_ok w'" using rw_Write_ok[OF asm(1)] by blast
    show ?thesis
    proof (cases w)
      case (ChiW i d t)
      moreover obtain i1 where "rw_WriteHeader i 200 = Ok i1"
        using rw_WriteHeader_ok[of i 200] asm ChiW by auto
      ultimately show ?thesis
        using w' CallWrite asm(1) rw_Write_after_header[of i i1 p]
        by (cases "d = 0") (auto simp: rw_ops_def ref_chi_def go_res)
    qed (use w' CallWrite in \<open>simp add: rw_ops_def\<close>)
  qed (use that in auto)
  then show ?thesis
    unfolding proxies_def by (intro conjI allI impI) (auto simp: ref_chi_def split: rwriter.splits)
qed

definition idle_server :: CommonHTTPServerConfig where
  "idle_server = \<lparr>http_Common = \<lparr>HostName = [], Port = 0, ServerTLS = None\<rparr>, BasePath = [],
     ReadTimeout = 0, WriteTimeout = 0\<rparr>"

definition payload_ctx :: "bool \<Rightarrow> unit sctx" where
  "payload_ctx payload =
     PutDefaultConfig Background
       \<lparr>Library = \<lparr>lib_Log = \<lparr>lc_Format = ''text'', lc_Level = None, lc_ReportCaller = False, lc_LogPayload = payload\<rparr>,
          lib_Profiling = False, lib_Health = False, lib_Authentication = None, lib_IncomingHeaderForID = []\<rparr>,
        Admin = None,
        Upstream = \<lparr>up_ContextTimeout = 0, up_HTTP = idle_server,
          up_GRPC = \<lparr>HostName = [], Port = 0, ServerTLS = None, EnableReflection = False\<rparr>,
          up_Temporal = \<lparr>temporal_HostPort = [], temporal_Namespace = []\<rparr>\<rparr>,
        Downstream = (), DisableAllAuthorizationRules = None\<rparr>"

lemma payload_ctx_simps [simp]: "logs_payload (payload_ctx b) = b"
  by (simp add: payload_ctx_def logs_payload_def PutDefaultConfig_def GetDefaultConfig_def)

definition post_request :: core_request where
  "post_request =
     \<lparr>cq_req = \<lparr>tq_Header = [], tq_RemoteAddr = ''10.0.0.1:80'', tq_URL = ''/pets'', tq_Method = ''POST''\<rparr>,
      cq_ProtoMajor = 1, cq_Body = Some (Stream ''{}'' True False)\<rparr>"

text \<open>A handler that answers 201 and leaves a downstream body open, with payload logging.\<close>

definition leaky_result :: "(string \<rightharpoonup> fval, string \<rightharpoonup> fval, rwriter) core_result" where
  "leaky_result =
     CoreRequestContextMiddleware map_libs ref_chi (\<lambda>s. s) ''t'' 5
       (acting rw_ops (\<lambda>_. [CallWriteHeader 201, CallWrite ''done'']) (\<lambda>m. fst (addResponse m ''/down'')))
       (payload_ctx True) (plain_log_ctx (Fixed 3 Map.empty)) (TW new_tw) post_request"


text \<open>
  The payload logger does not change the bytes of a body, but it reads the body to its end and drops the error
  of reading it: a handler sees a truncated body as a complete one exactly when payloads are logged and the
  request is no GET.
\<close>

theorem payload_log_hides_read_errors:
  assumes "NewRequestLogger L sx cx r = Ok (rl, entry, r1)" and "cq_Body r = Some b"
  shows "\<exists>b1. cq_Body r1 = Some b1 \<and> fst (ReadAll b1) = fst (ReadAll b) \<and>
    (snd (ReadAll b1) \<longleftrightarrow> snd (ReadAll b) \<and> \<not> (logs_payload sx \<and> tq_Method (cq_req r) \<noteq> ''GET''))"
proof -
  have "r1 = forwarded sx r"
    using assms by (auto simp: NewRequestLogger_def forwarded_def go_res Let_def case_prod_beta split: if_splits)
  then show ?thesis using assms(2) by (auto simp: forwarded_def)
qed

theorem payload_log_hides_read_errors_witness:
  "\<exists>rl entry r1 b1. NewRequestLogger map_libs (payload_ctx True) (plain_log_ctx FromPkg) post_request = Ok (rl, entry, r1) \<and>
     cq_Body r1 = Some b1 \<and> ReadAll b1 = (''{}'', False)"
proof -
  have "traced [] (plain_log_ctx FromPkg)" by (simp add: traced_def plain_log_ctx_def)
  then obtain rl entry where e: "NewRequestLogger map_libs (payload_ctx True) (plain_log_ctx FromPkg) post_request =
      Ok (rl, entry, forwarded (payload_ctx True) post_request)"
    using NewRequestLogger_traced[of "[]" "plain_log_ctx FromPkg" map_libs "payload_ctx True" post_request] by blast
  from payload_log_hides_read_errors[OF e, of "Stream ''{}'' True False"] e show ?thesis
    by (auto simp: post_request_def prod_eq_iff)
qed

section \<open>The round tripper refines its abstract version\<close>

text \<open>The lines a round trip logs, from the answer of the transport.\<close>

definition trip_lines ::
  "bool \<Rightarrow> core_request \<Rightarrow> 'x + (int \<times> header \<times> string) \<Rightarrow> (severity \<times> string) list" where
  "trip_lines payload r ans =
     (case ans of Inl _ \<Rightarrow> [] | Inr _ \<Rightarrow> [(SInfo, ''Backend request completed'')]) @
     (if payload
      then [(SDebug, payload_line ''Request'' (tq_Header (cq_req r)) (logged_request_body r)),
            (SDebug, case ans of Inl _ \<Rightarrow> payload_line ''Response'' [] []
               | Inr (_, h, content) \<Rightarrow> payload_line ''Response'' h content)]
      else [])"

lemma LogResponse_traced:
  assumes "traced tid entry"
    and "if payload
     then rl = PayloadLogger \<lparr>rl_ctx = entry, rl_reqHeader = tq_Header (cq_req r), rl_reqBody = logged_request_body r,
            rl_respHeader = [], rl_respBody = [], rl_flushed = False\<rparr>
     else rl = nopLogger"
  shows "\<exists>ls. RequestLogger_LogResponse L C rl resp =
      (Ok ls, map_option (\<lambda>(h, content, mb). log_response payload content mb) resp) \<and>
    list_all (call_traced tid) ls \<and>
    map call_line ls = (if payload
      then [(SDebug, payload_line ''Request'' (tq_Header (cq_req r)) (logged_request_body r)),
            (SDebug, case resp of None \<Rightarrow> payload_line ''Response'' [] []
               | Some (h, content, _) \<Rightarrow> payload_line ''Response'' h content)]
      else [])"
proof (cases payload)
  case True
  then obtain l where l: "rl = PayloadLogger l" "traced tid (rl_ctx l)" "\<not> rl_flushed l" "rl_respBody l = []"
      "rl_respHeader l = []" "rl_reqHeader l = tq_Header (cq_req r)" "rl_reqBody l = logged_request_body r"
    using assms by simp
  define l1 where "l1 = (case resp of None \<Rightarrow> l | Some (h, content, _) \<Rightarrow>
    l\<lparr>rl_respBody := rl_respBody l @ content, rl_respHeader := h\<rparr>)"
  have "traced tid (rl_ctx l1)" "\<not> rl_flushed l1"
    using l by (auto simp: l1_def split: option.splits)
  from FlushLog_traced[OF this, of L C None] l True show ?thesis
    by (auto simp: RequestLogger_LogResponse_def requestLogger_LogResponse_def l1_def flush_header_def
        flush_body_def split: option.splits)
qed (use assms(2) in \<open>auto simp: RequestLogger_LogResponse_def log_response_def split: option.splits\<close>)

lemma backend_line_traced:
  assumes "traced tid cx"
  shows "\<exists>c. and_then (initCommonLogFields L cx status elapsed r) (\<lambda>cx'.
        and_then (ctx_log cx' SInfo ''Backend request completed'') (\<lambda>c. Ok [c])) = (Ok [c] :: (unit, _) res) \<and>
      call_line c = (SInfo, ''Backend request completed'') \<and> call_traced tid c"
proof -
  obtain cx' where c: "ctx_With_all L cx (request_pairs status elapsed r) = (Ok cx' :: (unit, _) res)" "traced tid cx'"
    using ctx_With_all_keeps_trace[OF assms request_pairs_no_trace] by blast
  obtain l where "ctx_log cx' SInfo ''Backend request completed'' = (Ok l :: (unit, _) res)"
      "call_line l = (SInfo, ''Backend request completed'')" "call_traced tid l"
    using ctx_log_traced[OF c(2)] by blast
  then show ?thesis using c by (simp add: initCommonLogFields_pairs)
qed

lemma logged_RoundTrip_refines:
  assumes "traced tid cx"
  shows "\<exists>ls. logged_RoundTrip L C sx cx elapsed base req mon =
     (case loggingRoundtripper_RoundTrip (logs_payload sx) (map_sum (\<lambda>e. e) (\<lambda>(_, _, content). content) (base (forwarded sx req)))
        (tq_URL (cq_req req)) mon of (res, mon') \<Rightarrow> \<lparr>tr_result = res, tr_monitor = mon', tr_logs = ls\<rparr>) \<and>
     map call_line ls = trip_lines (logs_payload sx) req (base (forwarded sx req)) \<and> list_all (call_traced tid) ls"
proof -
  obtain rl entry where rl: "NewRequestLogger L sx cx req = Ok (rl, entry, forwarded sx req)" "traced tid entry"
      "if logs_payload sx
       then rl = PayloadLogger \<lparr>rl_ctx = entry, rl_reqHeader = tq_Header (cq_req req), rl_reqBody = logged_request_body req,
              rl_respHeader = [], rl_respBody = [], rl_flushed = False\<rparr>
       else rl = nopLogger"
    using NewRequestLogger_traced[OF assms, of L sx req] by blast
  note lr = LogResponse_traced[OF rl(2,3), of L C]
  show ?thesis
  proof (cases "base (forwarded sx req)")
    case (Inl e)
    then show ?thesis using lr[of None] rl(1)
      by (auto simp: logged_RoundTrip_def loggingRoundtripper_RoundTrip_def trip_lines_def)
  next
    case (Inr ans)
    obtain status h content where ans: "ans = (status, h, content)" by (cases ans)
    let ?mb = "AddResponseToMonitor mon (tq_URL (cq_req req))"
    obtain ls where ls: "RequestLogger_LogResponse L C rl (Some (h, content, ?mb)) =
        (Ok ls, Some (log_response (logs_payload sx) content ?mb))" "list_all (call_traced tid) ls"
        "map call_line ls = (if logs_payload sx
          then [(SDebug, payload_line ''Request'' (tq_Header (cq_req req)) (logged_request_body req)),
                (SDebug, payload_line ''Response'' h content)] else [])"
      using lr[of "Some (h, content, ?mb)"] by auto
    obtain c where c: "and_then (initCommonLogFields L cx status elapsed (cq_req req)) (\<lambda>cx'.
        and_then (ctx_log cx' SInfo ''Backend request completed'') (\<lambda>c. Ok [c])) = (Ok [c] :: (unit, _) res)"
      "call_line c = (SInfo, ''Backend request completed'')" "call_traced tid c"
      using backend_line_traced[OF assms] by blast
    have "logged_RoundTrip L C sx cx elapsed base req mon =
      (case log_response (logs_payload sx) content ?mb of (mon', b') \<Rightarrow>
         \<lparr>tr_result = Ok b', tr_monitor = mon', tr_logs = c # ls\<rparr>)"
      by (simp add: logged_RoundTrip_def rl(1) Inr ans c(1) ls(1) Let_def split: prod.split)
    then show ?thesis using ls(2,3) c(2,3)
      by (auto simp: Inr ans loggingRoundtripper_RoundTrip_def trip_lines_def AddResponseToMonitor_def Let_def
          split: prod.split)
  qed
qed



end
