(* ===== verification/AuthRules.thy ===== *)
theory AuthRules
  imports JwtHttp
begin

text \<open>
  Package \<^verbatim>\<open>core/authrules\<close> and the resolution of hooks in \<^verbatim>\<open>core/callback.go\<close>: the rule that guards
  a REST endpoint or a gRPC method, built from a rule expression and an authenticator, and the
  choice between default and overriding gRPC options.

  A rule maps a context to the context the method runs in, or to an error; the state \<open>'s\<close> is that
  of the authenticator.  On an error the code also returns a context, which its callers ignore.
\<close>

section \<open>Claims-based rules (authrules/jwtclaimsrule.go)\<close>

type_synonym 'x claims_rule = "claims \<Rightarrow> ('x autherr, bool) res"

type_synonym ('d, 's, 'x) Rule = "'d sctx \<Rightarrow> 's \<Rightarrow> ('x autherr, 'd sctx) res \<times> 's"

type_synonym ('d, 's, 'x) authenticator = "'d sctx \<Rightarrow> string \<Rightarrow> 's \<Rightarrow> ('x autherr, claims) res \<times> 's"

fun eval_error :: "'x EvalError \<Rightarrow> 'x autherr" where
  "eval_error (ScopeError x) = LibErr None x"
| "eval_error (ExprError e) = ExprErr e"

definition MakeDefaultJWTClaimsBasedAuthorizationRule ::
  "(string \<Rightarrow> 'x + Expr) \<Rightarrow> string \<Rightarrow> ('x autherr, 'x claims_rule) res" where
  "MakeDefaultJWTClaimsBasedAuthorizationRule parseString expression =
     and_then (map_err ExprErr (CompileExpression parseString expression)) (\<lambda>rootExpr.
       Ok (\<lambda>claims. map_err eval_error
             (Expr_Evaluate rootExpr \<lparr>JWTHasScope = Some (MakeStandardJWTHasScope claims)\<rparr>)))"

definition authorize ::
  "'d sctx \<Rightarrow> string \<Rightarrow> 'x claims_rule \<Rightarrow> ('d, 's, 'x) authenticator \<Rightarrow> 's \<Rightarrow>
     ('x autherr, 'd sctx) res \<times> 's" where
  "authorize cx rawToken authRule authenticator s =
     (case authenticator cx rawToken s of
        (Err e, s') \<Rightarrow> (Err e, s')
      | (Panic p, s') \<Rightarrow> (Panic p, s')
      | (Ok claims, s') \<Rightarrow>
          (and_then (authRule claims) (\<lambda>isAuthorised.
             if \<not> isAuthorised then Err ErrClaimsValidationFailed
             else AddClaimsToContext cx claims), s'))"

definition MakeGRPCJWTAuthorizationRule ::
  "'x claims_rule \<Rightarrow> ('d, 's, 'x) authenticator \<Rightarrow> ('d, 's, 'x) Rule" where
  "MakeGRPCJWTAuthorizationRule authRule authenticator cx s =
     (case GetBearerFromIncomingContext cx of
        Ok rawToken \<Rightarrow> authorize cx rawToken authRule authenticator s
      | Err e \<Rightarrow> (Err e, s)
      | Panic p \<Rightarrow> (Panic p, s))"

definition getBearerTokenFromIncomingRESTContext :: "'d sctx \<Rightarrow> ('x autherr, string) res" where
  "getBearerTokenFromIncomingRESTContext cx =
     (let val = header_get (RequestHeaderFromContext cx) ''Authorization''
      in if length val > 8 \<and> ToLower (take 7 val) = ''bearer '' then Ok (drop 7 val)
         else Err (AuthError AuthErrCodeInvalidJWT
                (Some (ErrNew ''no Authorization header containing bearer token''))))"

definition MakeRESTJWTAuthorizationRule ::
  "'x claims_rule \<Rightarrow> ('d, 's, 'x) authenticator \<Rightarrow> ('d, 's, 'x) Rule" where
  "MakeRESTJWTAuthorizationRule authRule authenticator cx s =
     (case getBearerTokenFromIncomingRESTContext cx of
        Ok rawToken \<Rightarrow> authorize cx rawToken authRule authenticator s
      | Err e \<Rightarrow> (Err e, s)
      | Panic p \<Rightarrow> (Panic p, s))"

definition InsecureAlwaysGrantAccess :: "('d, 's, 'x) Rule" where
  "InsecureAlwaysGrantAccess cx s = (Ok cx, s)"

section \<open>Resolving hooks (core/callback.go)\<close>

fun cfg_error :: "'x cfgerr \<Rightarrow> 'x autherr" where
  "cfg_error (CfgErr m) = ErrNew m"
| "cfg_error Base64Err = ErrNew ''illegal base64 data''"
| "cfg_error (LibE x) = LibErr None x"

text \<open>
  The verifiers of the resolved authenticator are its state.  A rule is run in the surroundings of
  the call (\<open>env\<close>: clock and key-set endpoint); resolving one fetches the key sets once, in the
  surroundings \<open>E\<close>.
\<close>

type_synonym ('client, 'ks) verifiers = "string \<rightharpoonup> ('client, 'ks) RemoteJWKSIssuer"

definition std_authenticator ::
  "('tok, 'jc, 'k, 'ks, 'x) jose \<Rightarrow> ('client, 'x) env \<Rightarrow> ('d, ('client, 'ks) verifiers, 'x) authenticator"
where
  "std_authenticator J env cx raw vs =
     StdAuthenticator_Authenticate J (RemoteJWKSIssuer_Verify J env) (now_validate env) vs raw"

definition resolveAuthorizationRule ::
  "('tok, 'jc, 'k, 'ks, 'x) jose \<Rightarrow>
   (IssuerConfig \<Rightarrow> (('u, 'key, 'c) http_Client, 'x) env) \<Rightarrow> (string \<Rightarrow> 'x option) \<Rightarrow>
   ('key, 'c, 'x) tls_env \<Rightarrow> (string \<Rightarrow> 'u option) \<Rightarrow> (string \<Rightarrow> 'x + Expr) \<Rightarrow>
   'd sctx \<Rightarrow> (string \<Rightarrow> ('x autherr, 'x claims_rule) res) option \<Rightarrow> string \<Rightarrow> string \<Rightarrow>
   ('x claims_rule \<Rightarrow> ('d, (('u, 'key, 'c) http_Client, 'ks) verifiers, 'x) authenticator \<Rightarrow>
      ('d, (('u, 'key, 'c) http_Client, 'ks) verifiers, 'x) Rule) \<Rightarrow>
   ('x autherr,
     ((('u, 'key, 'c) http_Client, 'x) env \<Rightarrow>
        ('d, (('u, 'key, 'c) http_Client, 'ks) verifiers, 'x) Rule) \<times>
     (('u, 'key, 'c) http_Client, 'ks) verifiers) res" where
  "resolveAuthorizationRule J E url_Parse T proxy_Parse parseString cx override endpointName expression
     ruleFactory =
     and_then (deref (GetDefaultConfig cx)) (\<lambda>cfg.
       if DisableAllAuthorizationRules cfg = Some True
       then Ok (\<lambda>_. InsecureAlwaysGrantAccess, Map.empty)
       else
         and_then ((case override of
                      Some f \<Rightarrow> f | None \<Rightarrow> MakeDefaultJWTClaimsBasedAuthorizationRule parseString)
                   expression) (\<lambda>claimsRule.
         and_then (map_err cfg_error (DefaultHTTPClient T proxy_Parse None)) (\<lambda>httpClient.
           case lib_Authentication (Library cfg) of
             Some auth \<Rightarrow>
               (case JWTAuth auth of
                  Some jwt \<Rightarrow>
                    and_then (AuthFromConfig J E url_Parse (\<lambda>_. httpClient) (Some jwt)) (\<lambda>vs.
                      Ok (\<lambda>env. ruleFactory claimsRule (std_authenticator J env), vs))
                | None \<Rightarrow> Err (ErrNew (''method/endpoint '' @ endpointName @
                    '' requires a JWT-based authorization rule, but there is no config for library.authentication.jwtauth'')))
           | None \<Rightarrow> Err (ErrNew (''method/endpoint '' @ endpointName @
               '' requires a JWT-based authorization rule, but there is no config for library.authentication.jwtauth'')))))"

definition ResolveRESTAuthorizationRule where
  "ResolveRESTAuthorizationRule J E url_Parse T proxy_Parse parseString cx override endpointName expression =
     resolveAuthorizationRule J E url_Parse T proxy_Parse parseString cx override endpointName expression
       MakeRESTJWTAuthorizationRule"

definition ResolveGRPCAuthorizationRule where
  "ResolveGRPCAuthorizationRule J E url_Parse T proxy_Parse parseString cx override endpointName expression =
     resolveAuthorizationRule J E url_Parse T proxy_Parse parseString cx override endpointName expression
       MakeGRPCJWTAuthorizationRule"

text \<open>
  Both resolutions of gRPC options: overriding and additional options exclude each other, an
  override replaces the defaults, additions follow them.
\<close>

definition resolve_options ::
  "string \<Rightarrow> 'o list \<Rightarrow> ('x cfgerr, 'o list) res option \<Rightarrow> ('x cfgerr, 'o list) res \<Rightarrow>
     ('x cfgerr, 'o list) res" where
  "resolve_options what additional override defaults =
     (case override of
        Some ov \<Rightarrow> if length additional > 0
                   then Err (CfgErr (''Hooks.Additional'' @ what @ '' and Hooks.Override'' @ what @ '' cannot both be set''))
                   else ov
      | None \<Rightarrow> and_then defaults (\<lambda>opts. Ok (opts @ additional)))"

definition ResolveGrpcDialOptions ::
  "('key, 'c, 'x) tls_env \<Rightarrow> string \<Rightarrow> ('key, 'c) DialOption list \<Rightarrow>
     (string \<Rightarrow> CommonGRPCDownstreamData option \<Rightarrow> ('x cfgerr, ('key, 'c) DialOption list) res) option \<Rightarrow>
     CommonGRPCDownstreamData option \<Rightarrow> ('x cfgerr, ('key, 'c) DialOption list) res" where
  "ResolveGrpcDialOptions E serviceName additional override cfg =
     resolve_options ''GrpcDialOptions'' additional (map_option (\<lambda>f. f serviceName cfg) override)
       (DefaultGrpcDialOptions E cfg)"

definition ResolveGrpcServerOptions ::
  "(GRPCServerConfig option \<Rightarrow> ('x cfgerr, ('key, 'c) ServerOption list) res) \<Rightarrow>
     ('key, 'c) ServerOption list \<Rightarrow>
     (GRPCServerConfig option \<Rightarrow> ('x cfgerr, ('key, 'c) ServerOption list) res) option \<Rightarrow>
     GRPCServerConfig option \<Rightarrow> ('x cfgerr, ('key, 'c) ServerOption list) res" where
  "ResolveGrpcServerOptions defaults additional override cfg =
     resolve_options ''GrpcServerOptions'' additional (map_option (\<lambda>f. f cfg) override) (defaults cfg)"

section \<open>Rules grant access only to authorised claims\<close>

text \<open>
  The interface between a rule and the two services it relies on: an authenticator that accepts
  only vouched-for claims, and a claims rule that decides a predicate.
\<close>

locale authorization =
  fixes authenticator :: "('d, 's, 'x) authenticator"
    and authRule :: "'x claims_rule"
    and vouched :: "'s \<Rightarrow> string \<Rightarrow> claims \<Rightarrow> bool"
    and permits :: "claims \<Rightarrow> bool"
  assumes authentic: "fst (authenticator cx raw s) = Ok c \<longleftrightarrow> vouched s raw c"
    and decides: "authRule c = Ok (permits c)"
begin

lemma authorize_Ok:
  "fst (authorize cx raw authRule authenticator s) = Ok cx' \<longleftrightarrow>
     (\<exists>c. vouched s raw c \<and> permits c \<and> claims_safe c \<and> cx' = cx\<lparr>ctx_claims := Some c\<rparr>)"
proof -
  obtain r s' where rs: "authenticator cx raw s = (r, s')" by fastforce
  show ?thesis
  proof (cases r)
    case (Ok c)
    then have "vouched s raw c' \<longleftrightarrow> c' = c" for c'
      using rs authentic [of cx raw s c'] by auto
    with Ok rs show ?thesis by (auto simp: authorize_def decides Add_claims_cases)
  next
    case (Err e)
    then have "\<not> vouched s raw c" for c
      using rs authentic [of cx raw s c] by simp
    with Err rs show ?thesis by (simp add: authorize_def)
  next
    case (Panic p)
    then have "\<not> vouched s raw c" for c
      using rs authentic [of cx raw s c] by simp
    with Panic rs show ?thesis by (simp add: authorize_def)
  qed
qed

lemma rest_rule_Ok:
  "fst (MakeRESTJWTAuthorizationRule authRule authenticator cx s) = Ok cx' \<longleftrightarrow>
     (\<exists>raw c. getBearerTokenFromIncomingRESTContext cx = (Ok raw :: ('x autherr, string) res) \<and>
        vouched s raw c \<and> permits c \<and> claims_safe c \<and> cx' = cx\<lparr>ctx_claims := Some c\<rparr>)"
  by (cases "getBearerTokenFromIncomingRESTContext cx :: ('x autherr, string) res")
     (simp_all add: MakeRESTJWTAuthorizationRule_def authorize_Ok)

lemma grpc_rule_Ok:
  "fst (MakeGRPCJWTAuthorizationRule authRule authenticator cx s) = Ok cx' \<longleftrightarrow>
     (\<exists>raw c. GetBearerFromIncomingContext cx = (Ok raw :: ('x autherr, string) res) \<and>
        vouched s raw c \<and> permits c \<and> claims_safe c \<and> cx' = cx\<lparr>ctx_claims := Some c\<rparr>)"
  by (cases "GetBearerFromIncomingContext cx :: ('x autherr, string) res")
     (simp_all add: MakeGRPCJWTAuthorizationRule_def authorize_Ok)

end

text \<open>The standard authenticator over remote issuers, and a rule made from a compiled expression.\<close>

definition std_vouched ::
  "('tok, 'jc, 'k, 'ks, 'x) jose \<Rightarrow> ('client, 'x) env \<Rightarrow> ('client, 'ks) verifiers \<Rightarrow> string \<Rightarrow> claims \<Rightarrow> bool"
where
  "std_vouched J env vs raw c \<longleftrightarrow>
     (\<exists>tok insecure r. ParseSigned J raw = Inr tok \<and> UnsafeStdClaims J tok = Inr insecure \<and>
        ValidateWithLeeway J insecure (now_validate env) 1000000000 = None \<and>
        vs (StdIssuer J insecure) = Some r \<and> remote_vouches J env r tok c)"

definition formula_rule :: "Expr \<Rightarrow> 'x claims_rule" where
  "formula_rule e claims =
     map_err eval_error (Expr_Evaluate e \<lparr>JWTHasScope = Some (MakeStandardJWTHasScope claims)\<rparr>)"

definition formula_permits :: "Expr \<Rightarrow> claims \<Rightarrow> bool" where
  "formula_permits e claims =
     (case formula_of e of Some f \<Rightarrow> holds (\<lambda>t. t \<in> scope_tokens claims) f | None \<Rightarrow> False)"

lemma formula_rule_decides:
  assumes "formula_of e \<noteq> None"
  shows "(formula_rule e claims :: ('x autherr, bool) res) = Ok (formula_permits e claims)"
proof -
  from assms obtain f where f: "formula_of e = Some f" by blast
  show ?thesis
    unfolding formula_rule_def formula_permits_def f
    using std_scope.evaluates_to_holds [OF f, where 'a = 'x] by simp
qed

text \<open>Every tree with a meaning gives an instance; a sample tree stands for the others.\<close>

definition some_formula :: "Expr \<Rightarrow> Expr" where
  "some_formula e = (if formula_of e \<noteq> None then e else sample_expr)"

lemma some_formula_meaning: "formula_of (some_formula e) \<noteq> None"
  by (simp add: some_formula_def sample_expr_def op_formula_def)

interpretation std_rule: authorization "std_authenticator J env" "formula_rule (some_formula e)"
  "std_vouched J env" "formula_permits (some_formula e)" for J env e
  by unfold_locales
     (simp_all add: std_authenticator_def remote.authenticated_iff std_vouched_def
       formula_rule_decides some_formula_meaning)

lemma default_rule_formula:
  assumes "MakeDefaultJWTClaimsBasedAuthorizationRule parseString expression = Ok rule"
  obtains e where "parseString expression = Inr e" "formula_of e \<noteq> None" "rule = formula_rule (some_formula e)"
proof -
  from assms obtain e where "CompileExpression parseString expression = Ok e" and r: "rule = formula_rule e"
    by (auto simp: MakeDefaultJWTClaimsBasedAuthorizationRule_def go_res formula_rule_def [abs_def])
  then have "parseString expression = Inr e" "formula_of e \<noteq> None" by (auto simp: compile_Ok_iff)
  with r that show thesis by (simp add: some_formula_def)
qed

lemma resolved_rule:
  assumes "resolveAuthorizationRule J E url_Parse T proxy_Parse parseString cx override endpointName
      expression factory = Ok (rule, vs)"
    and "GetDefaultConfig cx = Some cfg" "DisableAllAuthorizationRules cfg \<noteq> Some True"
  obtains claimsRule jwt cl where
    "(case override of Some f \<Rightarrow> f | None \<Rightarrow> MakeDefaultJWTClaimsBasedAuthorizationRule parseString)
       expression = Ok claimsRule"
    "rule = (\<lambda>env. factory claimsRule (std_authenticator J env))"
    "AuthFromConfig J E url_Parse (\<lambda>_. cl) (Some jwt) = Ok vs"
    "(\<exists>auth. lib_Authentication (Library cfg) = Some auth \<and> JWTAuth auth = Some jwt)"
proof (cases "lib_Authentication (Library cfg)")
  case None
  with assms show thesis by (simp add: resolveAuthorizationRule_def go_res)
next
  case (Some auth)
  show thesis
  proof (cases "JWTAuth auth")
    case None
    with Some assms show thesis by (simp add: resolveAuthorizationRule_def go_res)
  next
    case (Some jwt)
    with \<open>lib_Authentication (Library cfg) = Some auth\<close> assms show thesis
      using that by (auto simp: resolveAuthorizationRule_def go_res)
  qed
qed

lemma resolve_options_exclusive:
  "length additional > 0 \<Longrightarrow> override \<noteq> None \<Longrightarrow> \<exists>m. resolve_options what additional override defaults = Err (CfgErr m)"
  by (auto simp: resolve_options_def)

section \<open>Properties\<close>


text \<open>A service with one issuer whose endpoint admits everyone but guests.\<close>

definition guest_expr :: Expr where
  "guest_expr = Expr (Some (OpExpr ''not''
     [Expr None (Some (Atom ''jwtHasScope'' [Literal (Some ''guest'')]))])) None"

definition no_server :: CommonHTTPServerConfig where
  "no_server = \<lparr>http_Common = \<lparr>HostName = [], Port = 0, ServerTLS = None\<rparr>, BasePath = [],
     ReadTimeout = 0, WriteTimeout = 0\<rparr>"

definition sample_config :: "unit DefaultConfig" where
  "sample_config =
     \<lparr>Library = \<lparr>lib_Log = \<lparr>lc_Format = ''text'', lc_Level = Some InfoLevel, lc_ReportCaller = False, lc_LogPayload = False\<rparr>,
        lib_Profiling = False, lib_Health = False,
        lib_Authentication = Some \<lparr>JWTAuth = Some toy_config\<rparr>, lib_IncomingHeaderForID = []\<rparr>,
      Admin = None,
      Upstream = \<lparr>up_ContextTimeout = 0, up_HTTP = no_server,
        up_GRPC = \<lparr>HostName = [], Port = 0, ServerTLS = None, EnableReflection = False\<rparr>,
        up_Temporal = \<lparr>temporal_HostPort = [], temporal_Namespace = []\<rparr>\<rparr>,
      Downstream = (), DisableAllAuthorizationRules = None\<rparr>"

definition sample_sctx :: "unit sctx" where
  "sample_sctx = (PutDefaultConfig Background sample_config)
     \<lparr>ctx_reqHeader := Some (Some [(''Authorization'', [''Bearer k1''])])\<rparr>"




end
