(* ===== verification/Downstreams.thy ===== *)
theory Downstreams
  imports AuthRules Bootstrap
begin

text \<open>
  The clients a service calls other services with, and temporal workers: building HTTP, gRPC and temporal
  clients (core/downstreambuilder.go), the temporal helpers (core/temporal.go, common/temporal.go) and
  \<^verbatim>\<open>NewTemporalWorker\<close> (core/serve.go).

  Dialling is an argument; \<open>'cl\<close> is the type of temporal clients, \<open>'w\<close> that of workers.
\<close>

section \<open>Hooks\<close>

text \<open>
  The transport of a client is the stack of round trippers around the configured one, outermost first.
\<close>

datatype tripper = LoggingTripper string | HookTripper string string

record 'base client =
  cl_wrappers :: "tripper list"
  cl_base :: 'base

record temporal_Options =
  HostPort :: string
  Namespace :: string
  Identity :: string

record ('d, 'key, 'c, 'x, 'base, 'cl, 'w, 'wo) AppHooks = "('d, 'key, 'c, 'x) Hooks" +
  AdditionalGrpcDialOptions :: "('key, 'c) DialOption list"
  OverrideGrpcDialOptions ::
    "(string \<Rightarrow> CommonGRPCDownstreamData option \<Rightarrow> ('x cfgerr, ('key, 'c) DialOption list) res) option"
  HTTPClientBuilder :: "(string \<Rightarrow> 'x + 'base \<times> string) option"
  DownstreamRoundTripper :: bool
  ExperimentalValidateTemporalClientOptions :: "(temporal_Options \<Rightarrow> 'x option \<times> temporal_Options) option"
  ExperimentalValidateTemporalWorkerOptions :: "('wo \<Rightarrow> 'x option \<times> 'wo) option"
  ExperimentalTemporalClientBuilder :: "(string \<Rightarrow> temporal_Options \<Rightarrow> 'x + 'cl) option"
  ExperimentalTemporalWorkerBuilder :: "('cl \<Rightarrow> string \<Rightarrow> 'wo \<Rightarrow> 'w) option"

section \<open>Downstream clients\<close>

definition BuildDownstreamHTTPClient ::
  "(CommonDownstreamData option \<Rightarrow> ('x cfgerr, 'base) res) \<Rightarrow> string \<Rightarrow>
     ('d, 'key, 'c, 'x, 'base, 'cl, 'w, 'wo) AppHooks option \<Rightarrow> CommonDownstreamData option \<Rightarrow>
     ('x cfgerr, 'base client \<times> string) res" where
  "BuildDownstreamHTTPClient default_client serviceName hooks cfg =
     and_then (case Option.bind hooks HTTPClientBuilder of
                 Some f \<Rightarrow> (case f serviceName of Inl x \<Rightarrow> Err (LibE x) | Inr r \<Rightarrow> Ok r)
               | None \<Rightarrow> and_then (default_client cfg) (\<lambda>c.
                   Ok (c, case cfg of Some d \<Rightarrow> ServiceURL d | None \<Rightarrow> [])))
       (\<lambda>(base, serviceURL).
         (let client = \<lparr>cl_wrappers = [LoggingTripper serviceName], cl_base = base\<rparr>
          in Ok (case hooks of
                   Some h \<Rightarrow> if DownstreamRoundTripper h
                             then client\<lparr>cl_wrappers := HookTripper serviceName serviceURL # cl_wrappers client\<rparr>
                             else client
                 | None \<Rightarrow> client, serviceURL)))"

definition BuildDownstreamGRPCClient ::
  "('key, 'c, 'x) tls_env \<Rightarrow> (string \<Rightarrow> ('key, 'c) DialOption list \<Rightarrow> 'x + 'conn) \<Rightarrow> string \<Rightarrow>
     ('d, 'key, 'c, 'x, 'base, 'cl, 'w, 'wo) AppHooks option \<Rightarrow> CommonGRPCDownstreamData option \<Rightarrow>
     ('x cfgerr, 'conn) res" where
  "BuildDownstreamGRPCClient E dial serviceName hooks cfg =
     and_then (deref hooks) (\<lambda>h.
     and_then (ResolveGrpcDialOptions E serviceName (AdditionalGrpcDialOptions h) (OverrideGrpcDialOptions h) cfg)
       (\<lambda>opts.
     and_then (deref cfg) (\<lambda>c.
       case dial (ServiceAddress c) opts of Inl x \<Rightarrow> Err (LibE x) | Inr conn \<Rightarrow> Ok conn)))"

text \<open>A hook that validates options may also change them through the pointer it gets.\<close>

definition run_validator :: "('o \<Rightarrow> 'x option \<times> 'o) option \<Rightarrow> 'o \<Rightarrow> ('x booterr, 'o) res" where
  "run_validator f opts =
     (case f of
        None \<Rightarrow> Ok opts
      | Some v \<Rightarrow> (case v opts of (Some x, _) \<Rightarrow> Err (CallbackErr x) | (None, opts') \<Rightarrow> Ok opts'))"

definition make_temporal_client ::
  "(temporal_Options \<Rightarrow> 'x + 'cl) \<Rightarrow> ('d, 'key, 'c, 'x, 'base, 'cl, 'w, 'wo) AppHooks \<Rightarrow> string \<Rightarrow>
     temporal_Options \<Rightarrow> ('x booterr, 'cl) res" where
  "make_temporal_client dial h name opts =
     and_then (run_validator (ExperimentalValidateTemporalClientOptions h) opts) (\<lambda>opts'.
       callback (case ExperimentalTemporalClientBuilder h of Some f \<Rightarrow> f name opts' | None \<Rightarrow> dial opts'))"

record CommonTemporalDownstreamData =
  td_HostPort :: string
  td_Identity :: string
  td_Namespace :: string

definition BuildDownstreamTemporalClient ::
  "(temporal_Options \<Rightarrow> 'x + 'cl) \<Rightarrow> string \<Rightarrow>
     ('d, 'key, 'c, 'x, 'base, 'cl, 'w, 'wo) AppHooks option \<Rightarrow> CommonTemporalDownstreamData option \<Rightarrow>
     ('x booterr, 'cl) res" where
  "BuildDownstreamTemporalClient dial serviceName hooks cfg =
     and_then (deref cfg) (\<lambda>c.
     and_then (deref hooks) (\<lambda>h.
       make_temporal_client dial h serviceName
         \<lparr>HostPort = td_HostPort c, Namespace = td_Namespace c, Identity = td_Identity c\<rparr>))"

text \<open>The map of clients a context carries, if any; \<^verbatim>\<open>strconv.Quote\<close> is the argument \<open>quote\<close>.\<close>

definition TemporalClientFrom ::
  "(string \<Rightarrow> string) \<Rightarrow> (string \<rightharpoonup> 'cl) option \<Rightarrow> string \<Rightarrow> (string, 'cl) res" where
  "TemporalClientFrom quote clients taskqueue =
     (case clients of
        None \<Rightarrow> Err ''no temporal client exists in this handler''
      | Some m \<Rightarrow> (case m taskqueue of
                     None \<Rightarrow> Err (''no temporal client for TaskQueue '' @ quote taskqueue @ '' exists in this handler'')
                   | Some c \<Rightarrow> Ok c))"

definition GetOptionFromClientIntf :: "'o \<Rightarrow> 'o list \<Rightarrow> ('e, 'o) res" where
  "GetOptionFromClientIntf none_given options =
     (if length options = 1 then Ok (hd options)
      else if length options = 0 then Ok none_given
      else Panic ''more than one option is defined'')"

text \<open>The task queue of the options is overwritten with the one of the application.\<close>

record 'rest start_options =
  so_TaskQueue :: string
  so_rest :: 'rest

definition ExecuteWorkflow ::
  "('rest start_options \<Rightarrow> string \<Rightarrow> 'x + 'run) \<Rightarrow> 'rest start_options \<Rightarrow> string \<Rightarrow> string \<Rightarrow> ('x, 'run) res" where
  "ExecuteWorkflow execute option tq name =
     (case execute (option\<lparr>so_TaskQueue := tq\<rparr>) name of Inl x \<Rightarrow> Err x | Inr w \<Rightarrow> Ok w)"

text \<open>An activity gets a start-to-close timeout of five seconds unless it has one.\<close>

record activity_ctx =
  ac_TaskQueue :: string
  StartToCloseTimeout :: int

definition ExecuteActivity_ctx :: "activity_ctx \<Rightarrow> string \<Rightarrow> activity_ctx" where
  "ExecuteActivity_ctx cx tq =
     (let cx' = cx\<lparr>ac_TaskQueue := tq\<rparr>
      in if StartToCloseTimeout cx' = 0 then cx'\<lparr>StartToCloseTimeout := 5 * 1000000000\<rparr> else cx')"

section \<open>Temporal workers\<close>

record ('d, 'app, 'svc, 'key, 'c, 'x, 'base, 'cl, 'w, 'wo, 'ds, 'spec) temporal_env =
  te_Args :: "string list"
  te_ToStringE :: "goval \<Rightarrow> string option"
  te_open_config :: "cfg_source \<Rightarrow> string option \<Rightarrow> (('d, 'app) custom_config, 'x) configReaderImpl"
  te_createService :: "'d bctx \<Rightarrow> 'app \<Rightarrow> 'x + 'svc \<times> ('d, 'key, 'c, 'x, 'base, 'cl, 'w, 'wo) AppHooks option"
  te_struct_check :: "'d DefaultConfig \<Rightarrow> 'x option"
  te_Dial :: "temporal_Options \<Rightarrow> 'x + 'cl"
  buildDownstreamsClients :: "'d bctx \<Rightarrow> ('d, 'key, 'c, 'x, 'base, 'cl, 'w, 'wo) AppHooks \<Rightarrow> 'x + 'ds"
  worker_options :: "'d bctx \<Rightarrow> 'wo"
  worker_New :: "'cl \<Rightarrow> string \<Rightarrow> 'wo \<Rightarrow> 'w"
  buildServiceHandler :: "'cl \<Rightarrow> 'w \<Rightarrow> 'svc \<Rightarrow> 'ds \<Rightarrow> 'spec"

definition NewTemporalWorker ::
  "('d, 'app, 'svc, 'key, 'c, 'x, 'base, 'cl, 'w, 'wo, 'ds, 'spec) temporal_env \<Rightarrow> 'd bctx \<Rightarrow> string \<Rightarrow> 'd \<Rightarrow>
     ('x booterr, 'spec) res" where
  "NewTemporalWorker T cx0 taskQueueName downstreamConfig =
     (let (cx1, externalLogger) = getExternalLogger cx0;
          cx2 = (if externalLogger = None then PutLogger cx1 (BootstrapLogger, None) else cx1)
      in and_then (createDefaultConfig (te_ToStringE T) (te_open_config T) (te_Args T) (b_yaml cx0) downstreamConfig)
           (\<lambda>(conf0, appConfig).
         and_then (callback (te_createService T (with_config cx2 conf0) appConfig)) (\<lambda>(serviceIntf, hooks).
         and_then (validateConfig (te_struct_check T) (map_option Hooks.truncate hooks) conf0) (\<lambda>conf.
           (let cx = with_config cx2 conf;
                clientOptions = \<lparr>HostPort = temporal_HostPort (up_Temporal (Upstream conf)),
                  Namespace = temporal_Namespace (up_Temporal (Upstream conf)), Identity = []\<rparr>
            in and_then (deref hooks) (\<lambda>h.
               and_then (make_temporal_client (te_Dial T) h taskQueueName clientOptions) (\<lambda>temporalClient.
               and_then (callback (buildDownstreamsClients T cx h)) (\<lambda>downstreamClients.
               and_then (run_validator (ExperimentalValidateTemporalWorkerOptions h) (worker_options T cx)) (\<lambda>workerOptions.
                 (let buildWorker = (case ExperimentalTemporalWorkerBuilder h of Some f \<Rightarrow> f | None \<Rightarrow> worker_New T)
                  in Ok (buildServiceHandler T temporalClient (buildWorker temporalClient taskQueueName workerOptions)
                           serviceIntf downstreamClients)))))))))))"


section \<open>What the builders guarantee\<close>

text \<open>The wrappers a hook may put around the logging round tripper.\<close>

definition hook_wrappers ::
  "string \<Rightarrow> string \<Rightarrow> ('d, 'key, 'c, 'x, 'base, 'cl, 'w, 'wo) AppHooks option \<Rightarrow> tripper list" where
  "hook_wrappers serviceName url hooks =
     (case hooks of Some h \<Rightarrow> if DownstreamRoundTripper h then [HookTripper serviceName url] else [] | None \<Rightarrow> [])"

lemma BuildDownstreamHTTPClient_wraps:
  "BuildDownstreamHTTPClient mk nm hooks cfg = Ok (cl, url) \<Longrightarrow>
     cl_wrappers cl = hook_wrappers nm url hooks @ [LoggingTripper nm]"
  by (auto simp: BuildDownstreamHTTPClient_def go_res hook_wrappers_def Let_def
      split: option.splits sum.splits if_splits prod.splits)

lemma BuildDownstreamHTTPClient_source:
  "BuildDownstreamHTTPClient mk nm hooks cfg = Ok (cl, url) \<Longrightarrow>
     (case Option.bind hooks HTTPClientBuilder of
        Some f \<Rightarrow> f nm = Inr (cl_base cl, url)
      | None \<Rightarrow> mk cfg = Ok (cl_base cl) \<and> url = (case cfg of Some d \<Rightarrow> ServiceURL d | None \<Rightarrow> []))"
  by (auto simp: BuildDownstreamHTTPClient_def go_res Let_def
      split: option.splits sum.splits if_splits prod.splits)

text \<open>
  Every HTTP client built for a downstream logs its calls under the name of the service, next to the
  transport and inside what a hook wraps around it; its base client and URL are those of the hook that
  builds clients when there is one, and of the configuration otherwise.
\<close>

theorem downstream_client_is_logged:
  assumes "BuildDownstreamHTTPClient mk nm hooks cfg = Ok (cl, url)"
  shows "cl_wrappers cl = hook_wrappers nm url hooks @ [LoggingTripper nm] \<and>
    (case Option.bind hooks HTTPClientBuilder of
       Some f \<Rightarrow> f nm = Inr (cl_base cl, url)
     | None \<Rightarrow> mk cfg = Ok (cl_base cl) \<and> url = (case cfg of Some d \<Rightarrow> ServiceURL d | None \<Rightarrow> []))"
  using BuildDownstreamHTTPClient_wraps[OF assms] BuildDownstreamHTTPClient_source[OF assms] by blast

definition sample_hooks :: "(unit, unit, unit, string, string, string, string, nat) AppHooks" where
  "sample_hooks =
     \<lparr>StoppableServerBuilder = None, StoppableGrpcServerBuilder = None, ShouldSetGrpcGlobalLogger = None,
      HealthCheck = False, hk_Logger = None, hk_ValidateConfig = None,
      AdditionalGrpcDialOptions = [], OverrideGrpcDialOptions = None,
      HTTPClientBuilder = Some (\<lambda>_. Inr (''base'', ''http://localhost'')), DownstreamRoundTripper = True,
      ExperimentalValidateTemporalClientOptions = None,
      ExperimentalValidateTemporalWorkerOptions = Some (\<lambda>n. (None, n + 1)),
      ExperimentalTemporalClientBuilder = Some (\<lambda>name opts. Inr name),
      ExperimentalTemporalWorkerBuilder = None\<rparr>"

theorem downstream_client_is_logged_witness:
  "\<exists>cl. BuildDownstreamHTTPClient (\<lambda>_. Err (CfgErr [])) ''pets'' (Some sample_hooks) None = Ok (cl, ''http://localhost'') \<and>
     cl_wrappers cl = [HookTripper ''pets'' ''http://localhost'', LoggingTripper ''pets''] \<and> cl_base cl = ''base''"
proof -
  obtain cl where b: "BuildDownstreamHTTPClient (\<lambda>_. Err (CfgErr [])) ''pets'' (Some sample_hooks) None = Ok (cl, ''http://localhost'')"
    by (simp add: BuildDownstreamHTTPClient_def sample_hooks_def Let_def)
  from downstream_client_is_logged[OF b] b show ?thesis
    by (auto simp: hook_wrappers_def sample_hooks_def)
qed

text \<open>The context \<^verbatim>\<open>createService\<close> gets, and what a worker is built from once the configuration is valid.\<close>

definition worker_ctx :: "'d bctx \<Rightarrow> 'd bctx" where
  "worker_ctx cx =
     (let (cx1, ext) = getExternalLogger cx in if ext = None then PutLogger cx1 (BootstrapLogger, None) else cx1)"

lemma NewTemporalWorker_validated:
  assumes "createDefaultConfig (te_ToStringE T) (te_open_config T) (te_Args T) (b_yaml cx) ds = Ok (conf0, app)"
    and "te_createService T (with_config (worker_ctx cx) conf0) app = Inr (svc, hooks)"
    and "validateConfig (te_struct_check T) (map_option Hooks.truncate hooks) conf0 = Ok conf"
  shows "NewTemporalWorker T cx tq ds =
    (case hooks of
       None \<Rightarrow> Panic nil_deref
     | Some h \<Rightarrow> and_then (make_temporal_client (te_Dial T) h tq
           \<lparr>HostPort = temporal_HostPort (up_Temporal (Upstream conf)),
            Namespace = temporal_Namespace (up_Temporal (Upstream conf)), Identity = []\<rparr>) (\<lambda>cl.
         and_then (callback (buildDownstreamsClients T (with_config (worker_ctx cx) conf) h)) (\<lambda>dc.
         and_then (run_validator (ExperimentalValidateTemporalWorkerOptions h)
             (worker_options T (with_config (worker_ctx cx) conf))) (\<lambda>wo.
           Ok (buildServiceHandler T cl
             ((case ExperimentalTemporalWorkerBuilder h of Some f \<Rightarrow> f | None \<Rightarrow> worker_New T) cl tq wo) svc dc)))))"
  using assms by (cases hooks) (simp_all add: NewTemporalWorker_def worker_ctx_def case_prod_beta Let_def)

lemma make_temporal_client_hooked:
  "ExperimentalTemporalClientBuilder h = Some f \<Longrightarrow>
     make_temporal_client dial h nm opts = make_temporal_client dial' h nm opts"
  by (simp add: make_temporal_client_def)

lemma make_temporal_client_rejected:
  "\<lbrakk>ExperimentalValidateTemporalClientOptions h = Some v; v opts = (Some x, opts')\<rbrakk> \<Longrightarrow>
     make_temporal_client dial h nm opts = Err (CallbackErr x)"
  by (simp add: make_temporal_client_def run_validator_def)

text \<open>
  A worker whose configuration is valid: without hooks, which \<^verbatim>\<open>NewServer\<close> tolerates, construction panics;
  the temporal service is not dialled when a hook builds the client; and a hook that rejects the client
  options ends construction with its error, whatever the other steps would do.
\<close>

theorem temporal_worker_outcome:
  assumes "createDefaultConfig (te_ToStringE T) (te_open_config T) (te_Args T) (b_yaml cx) ds = Ok (conf0, app)"
    and "te_createService T (with_config (worker_ctx cx) conf0) app = Inr (svc, hooks)"
    and "validateConfig (te_struct_check T) (map_option Hooks.truncate hooks) conf0 = Ok conf"
  shows "(hooks = None \<longrightarrow> NewTemporalWorker T cx tq ds = Panic nil_deref) \<and>
    (\<forall>h f dial. hooks = Some h \<and> ExperimentalTemporalClientBuilder h = Some f \<longrightarrow>
      NewTemporalWorker (T\<lparr>te_Dial := dial\<rparr>) cx tq ds = NewTemporalWorker T cx tq ds) \<and>
    (\<forall>h v x opts'. hooks = Some h \<and> ExperimentalValidateTemporalClientOptions h = Some v \<and>
        v \<lparr>HostPort = temporal_HostPort (up_Temporal (Upstream conf)),
           Namespace = temporal_Namespace (up_Temporal (Upstream conf)), Identity = []\<rparr> = (Some x, opts') \<longrightarrow>
      NewTemporalWorker T cx tq ds = Err (CallbackErr x))"
proof (intro conjI allI impI)
  fix h f dial
  assume h: "hooks = Some h \<and> ExperimentalTemporalClientBuilder h = Some f"
  show "NewTemporalWorker (T\<lparr>te_Dial := dial\<rparr>) cx tq ds = NewTemporalWorker T cx tq ds"
    using assms h make_temporal_client_hooked[of h f dial tq _ "te_Dial T"]
    by (simp add: NewTemporalWorker_validated cong: option.case_cong)
qed (use assms in \<open>simp_all add: NewTemporalWorker_validated make_temporal_client_rejected\<close>)

definition sample_temporal :: "(unit, unit, string, unit, unit, string, string, string, string, nat, nat, string) temporal_env" where
  "sample_temporal =
     \<lparr>te_Args = os_Args sample_boot, te_ToStringE = ToStringE sample_boot, te_open_config = open_config sample_boot,
      te_createService = (\<lambda>_ _. Inr (''svc'', Some sample_hooks)), te_struct_check = (\<lambda>_. None),
      te_Dial = (\<lambda>_. Inl ''dialled''), buildDownstreamsClients = (\<lambda>_ _. Inr 0), worker_options = (\<lambda>_. 0),
      worker_New = (\<lambda>cl tq n. cl @ tq), buildServiceHandler = (\<lambda>cl w svc ds. w @ svc)\<rparr>"

theorem temporal_worker_outcome_witness:
  "NewTemporalWorker (sample_temporal\<lparr>te_Dial := \<lambda>_. Inr []\<rparr>) sample_bctx ''tq'' () = Ok ''tqtqsvc'' \<and>
   NewTemporalWorker (sample_temporal\<lparr>te_createService := \<lambda>_ _. Inr (''svc'', None)\<rparr>) sample_bctx ''tq'' () = Panic nil_deref"
proof (intro conjI)
  define conf where "conf = default_config_of () sample_custom"
  have c: "createDefaultConfig (ToStringE sample_boot) (open_config sample_boot) (os_Args sample_boot) None () = Ok (conf, ())"
    by (simp add: createDefaultConfig_def sample_load conf_def sample_custom_def)
  note env = sample_temporal_def sample_bctx_def
  have c1: "createDefaultConfig (te_ToStringE sample_temporal) (te_open_config sample_temporal) (te_Args sample_temporal)
      (b_yaml sample_bctx) () = Ok (conf, ())" using c by (simp add: env)
  have s1: "te_createService sample_temporal (with_config (worker_ctx sample_bctx) conf) () = Inr (''svc'', Some sample_hooks)"
    by (simp add: env)
  have v1: "validateConfig (te_struct_check sample_temporal) (map_option Hooks.truncate (Some sample_hooks)) conf = Ok conf"
    by (simp add: validateConfig_def env sample_hooks_def Hooks.truncate_def)
  have "NewTemporalWorker sample_temporal sample_bctx ''tq'' () = Ok ''tqtqsvc''"
    unfolding NewTemporalWorker_validated[OF c1 s1 v1]
    by (simp add: make_temporal_client_def run_validator_def sample_hooks_def sample_temporal_def)
  then show "NewTemporalWorker (sample_temporal\<lparr>te_Dial := \<lambda>_. Inr []\<rparr>) sample_bctx ''tq'' () = Ok ''tqtqsvc''"
    using temporal_worker_outcome[OF c1 s1 v1] by (simp add: sample_hooks_def)
  let ?T = "sample_temporal\<lparr>te_createService := \<lambda>_ _. Inr (''svc'', None)\<rparr>"
  have "createDefaultConfig (te_ToStringE ?T) (te_open_config ?T) (te_Args ?T) (b_yaml sample_bctx) () = Ok (conf, ())"
    "te_createService ?T (with_config (worker_ctx sample_bctx) conf) () = Inr (''svc'', None)"
    "validateConfig (te_struct_check ?T) (map_option Hooks.truncate None) conf = Ok conf"
    using c1 by (simp_all add: validateConfig_def sample_temporal_def)
  from temporal_worker_outcome[OF this] show "NewTemporalWorker ?T sample_bctx ''tq'' () = Panic nil_deref" by simp
qed

end
