(* ===== verification/ServerLifecycle.thy ===== *)
theory ServerLifecycle
  imports ServerSetup
begin

text \<open>
  The life of one service object (core/serve.go): calls of \<^verbatim>\<open>Start\<close>, \<^verbatim>\<open>Stop\<close> and
  \<^verbatim>\<open>GracefulStop\<close> from several goroutines, which share the mutex-protected field
  \<^verbatim>\<open>multiServer\<close>, and the prometheus registry that \<^verbatim>\<open>Start\<close> fills (metrics/prometheus.go).

  ServerSetup gives the servers of one \<^verbatim>\<open>Start\<close>; here every effect of the call on the service and on the
  registry is kept, on the failing paths too, and the publication of the composite server is a step of its own.
\<close>

section \<open>Registration of collectors\<close>

datatype collector =
  CounterVec string "(string \<times> string) list" "string list"
| SummaryVec string "(string \<times> string) list" "string list"
| ProcessCollector
| GoCollector

text \<open>
  \<open>M\<close> is \<^verbatim>\<open>Registry.MustRegister\<close>: the registry afterwards and the value it panics with, if it does.
\<close>

type_synonym 'reg must_register = "collector \<Rightarrow> 'reg \<Rightarrow> 'reg \<times> string option"

fun register_all :: "'reg must_register \<Rightarrow> collector list \<Rightarrow> 'reg \<Rightarrow> 'reg \<times> string option" where
  "register_all M [] reg = (reg, None)"
| "register_all M (c # cs) reg =
     (case M c reg of (reg', Some p) \<Rightarrow> (reg', Some p) | (reg', None) \<Rightarrow> register_all M cs reg')"

definition requests_total :: "string \<Rightarrow> collector" where
  "requests_total serviceName =
     CounterVec ''http_server_requests_total'' [(''service'', serviceName)] [''code'', ''method'', ''path'']"

definition request_duration :: "string \<Rightarrow> collector" where
  "request_duration serviceName =
     SummaryVec ''http_server_request_duration_seconds'' [(''service'', serviceName)] [''code'', ''method'', ''path'']"

definition NewHTTPServerMetricsMiddleware :: "'reg must_register \<Rightarrow> string \<Rightarrow> 'reg \<Rightarrow> 'reg \<times> string option" where
  "NewHTTPServerMetricsMiddleware M serviceName = register_all M [requests_total serviceName, request_duration serviceName]"

definition metrics_Handler :: "'reg must_register \<Rightarrow> 'reg \<Rightarrow> 'reg \<times> string option" where
  "metrics_Handler M = register_all M [ProcessCollector, GoCollector]"

text \<open>
  What the registry documents, with \<open>has\<close> for membership: a collector is registered once, registering it again
  panics, and a refused collector leaves the registry as it was.
\<close>

definition registers_once :: "('reg \<Rightarrow> collector \<Rightarrow> bool) \<Rightarrow> 'reg must_register \<Rightarrow> bool" where
  "registers_once has M \<longleftrightarrow>
     (\<forall>c reg. has reg c \<longrightarrow> snd (M c reg) \<noteq> None) \<and>
     (\<forall>c reg. if snd (M c reg) = None then has (fst (M c reg)) c else fst (M c reg) = reg) \<and>
     (\<forall>c d reg. has reg d \<longrightarrow> has (fst (M c reg)) d)"

section \<open>One call of Start\<close>

definition newMultiStoppableServer ::
  "('d, 'key, 'c, 'x) autogenServer \<Rightarrow> 'x server list \<Rightarrow> ('d, 'key, 'c, 'x) autogenServer" where
  "newMultiStoppableServer s servers = s\<lparr>multiServer := Some (MultiServer servers)\<rparr>"

text \<open>
  \<^verbatim>\<open>Start\<close> up to the publication: the registry and the service afterwards, and the servers.  The route of
  the metrics is wired last of what can fail in the admin listener.
\<close>

definition Start_servers ::
  "('key, 'c, 'x) server_env \<Rightarrow> ('d, 'key, 'c, 'x) autogenServer \<Rightarrow> middleware list \<Rightarrow> 'x server list \<Rightarrow>
     ('x cfgerr, 'x server list) res" where
  "Start_servers V s mWare admin =
     and_then (public_servers V (restManager s) mWare (as_hooks s)) (\<lambda>public.
     and_then (grpc_servers V (as_ctx s) (grpcServerManager s) (as_hooks s)) (\<lambda>grpc.
       if public = [] \<and> grpc = [] then Panic no_public_server else Ok (admin @ public @ grpc)))"

definition Start_listeners ::
  "'reg must_register \<Rightarrow> ('key, 'c, 'x) server_env \<Rightarrow> ('d, 'key, 'c, 'x) autogenServer \<Rightarrow> middlewareCollection \<Rightarrow>
     string list option \<Rightarrow> 'reg \<Rightarrow> 'reg \<times> ('x cfgerr, 'x server list) res" where
  "Start_listeners M V s mWare health reg =
     (case admin_servers V (restManager s) (prometheusRegistry s) health (mw_admin mWare) of
        Ok admin \<Rightarrow>
          (case (if prometheusRegistry s \<and> admin \<noteq> [] then metrics_Handler M reg else (reg, None)) of
             (reg', Some p) \<Rightarrow> (reg', Panic p)
           | (reg', None) \<Rightarrow> (reg', Start_servers V s (mw_public mWare) admin))
      | Err e \<Rightarrow> (reg, Err e)
      | Panic p \<Rightarrow> (reg, Panic p))"

definition Start_effect ::
  "'reg must_register \<Rightarrow> ('key, 'c, 'x) server_env \<Rightarrow> 'reg \<Rightarrow> ('d, 'key, 'c, 'x) autogenServer \<Rightarrow>
     'reg \<times> ('d, 'key, 'c, 'x) autogenServer \<times> ('x cfgerr, 'x server list) res" where
  "Start_effect M V reg s =
     (case (if prometheusRegistry s then NewHTTPServerMetricsMiddleware M (as_name s) reg else (reg, None)) of
        (reg', Some p) \<Rightarrow> (reg', s, Panic p)
      | (reg', None) \<Rightarrow>
          (case load_health V s of
             Ok (s', health) \<Rightarrow>
               (let (reg'', r) = Start_listeners M V s'
                      (prepareMiddleware (as_name s) (prometheusRegistry s) (context_timeout (restManager s))) health reg'
                in (reg'', s', r))
           | Err e \<Rightarrow> (reg', s, Err e)
           | Panic p \<Rightarrow> (reg', s, Panic p)))"

section \<open>Calls from several goroutines\<close>

datatype 'x start_call =
  Prepared "'x server list" | Published "'x server list" | InService "'x server list" | Refused "'x cfgerr + string"

text \<open>
  A call of \<^verbatim>\<open>Start\<close> prepares its servers, without a lock and here in one step, publishes them under the mutex,
  and then starts the servers it reads, without the lock, from the field.  Stopping holds the mutex.  \<open>lf_published\<close>
  records the published servers with the number of their call, and the first component of \<open>lf_stops\<close> the call whose
  servers a stop reached.
\<close>

record ('d, 'key, 'c, 'x, 'reg) lifecycle =
  lf_server :: "('d, 'key, 'c, 'x) autogenServer"
  lf_registry :: 'reg
  lf_calls :: "'x start_call list"
  lf_published :: "(nat \<times> 'x server list) list"
  lf_stops :: "(nat option \<times> bool \<times> 'x serr option) list"

definition current :: "('d, 'key, 'c, 'x, 'reg) lifecycle \<Rightarrow> nat option" where
  "current l = (if lf_published l = [] then None else Some (fst (last (lf_published l))))"

definition new_life :: "('d, 'key, 'c, 'x) autogenServer \<Rightarrow> 'reg \<Rightarrow> ('d, 'key, 'c, 'x, 'reg) lifecycle" where
  "new_life s reg = \<lparr>lf_server = s, lf_registry = reg, lf_calls = [], lf_published = [], lf_stops = []\<rparr>"

definition refusal :: "('x cfgerr, 'a) res \<Rightarrow> 'x cfgerr + string" where
  "refusal r = (case r of Err e \<Rightarrow> Inl e | Panic p \<Rightarrow> Inr p)"

inductive lstep ::
  "'reg must_register \<Rightarrow> ('key, 'c, 'x) server_env \<Rightarrow>
     ('d, 'key, 'c, 'x, 'reg) lifecycle \<Rightarrow> ('d, 'key, 'c, 'x, 'reg) lifecycle \<Rightarrow> bool"
  for M :: "'reg must_register" and V :: "('key, 'c, 'x) server_env" where
  prepare: "Start_effect M V (lf_registry l) (lf_server l) = (reg, s, Ok servers) \<Longrightarrow>
     lstep M V l (l\<lparr>lf_server := s, lf_registry := reg, lf_calls := lf_calls l @ [Prepared servers]\<rparr>)"
| refuse: "Start_effect M V (lf_registry l) (lf_server l) = (reg, s, r) \<Longrightarrow> (\<And>servers. r \<noteq> Ok servers) \<Longrightarrow>
     lstep M V l (l\<lparr>lf_server := s, lf_registry := reg, lf_calls := lf_calls l @ [Refused (refusal r)]\<rparr>)"
| publish: "i < length (lf_calls l) \<Longrightarrow> lf_calls l ! i = Prepared servers \<Longrightarrow>
     lstep M V l (l\<lparr>lf_server := newMultiStoppableServer (lf_server l) servers,
       lf_calls := (lf_calls l)[i := Published servers], lf_published := lf_published l @ [(i, servers)]\<rparr>)"
| serve: "i < length (lf_calls l) \<Longrightarrow> lf_calls l ! i = Published own \<Longrightarrow>
     multiServer (lf_server l) = Some (MultiServer servers) \<Longrightarrow>
     lstep M V l (l\<lparr>lf_calls := (lf_calls l)[i := InService servers]\<rparr>)"
| stop: "autogenServer_stops graceful (lf_server l) r \<Longrightarrow>
     lstep M V l (l\<lparr>lf_stops := lf_stops l @ [(current l, graceful, r)]\<rparr>)"

inductive lreach ::
  "'reg must_register \<Rightarrow> ('key, 'c, 'x) server_env \<Rightarrow>
     ('d, 'key, 'c, 'x, 'reg) lifecycle \<Rightarrow> ('d, 'key, 'c, 'x, 'reg) lifecycle \<Rightarrow> bool"
  for M :: "'reg must_register" and V :: "('key, 'c, 'x) server_env" where
  refl: "lreach M V l l"
| step: "lreach M V l l' \<Longrightarrow> lstep M V l' l'' \<Longrightarrow> lreach M V l l''"

inductive_cases lstepE: "lstep M V l l'"

lemma start_steps: "\<exists>l'. lstep M V l l' \<and> length (lf_calls l') = Suc (length (lf_calls l))"
proof -
  obtain reg s r where e: "Start_effect M V (lf_registry l) (lf_server l) = (reg, s, r)"
    by (cases "Start_effect M V (lf_registry l) (lf_server l)") auto
  show ?thesis
  proof (cases "\<exists>servers. r = Ok servers")
    case True
    then obtain servers where "r = Ok servers" ..
    from lstep.prepare[OF e[unfolded this]] show ?thesis by (intro exI conjI) (assumption, simp)
  next
    case False
    then have "lstep M V l (l\<lparr>lf_server := s, lf_registry := reg, lf_calls := lf_calls l @ [Refused (refusal r)]\<rparr>)"
      by (intro lstep.refuse[OF e]) blast
    then show ?thesis by (intro exI conjI) (assumption, simp)
  qed
qed

section \<open>What a call keeps\<close>

lemma load_health_fields:
  "load_health V s = Ok (s', health) \<Longrightarrow>
     multiServer s' = multiServer s \<and> as_name s' = as_name s \<and> prometheusRegistry s' = prometheusRegistry s"
  by (auto simp: load_health_def go_res split: if_splits sum.splits prod.splits)

lemma Start_effect_fields:
  assumes "Start_effect M V reg s = (reg', s', r)"
  shows "multiServer s' = multiServer s \<and> as_name s' = as_name s \<and> prometheusRegistry s' = prometheusRegistry s"
  using assms load_health_fields[of V s]
  by (auto simp: Start_effect_def Let_def case_prod_beta split: prod.splits option.splits res.splits)


section \<open>Refinement of the single start\<close>

text \<open>
  With a registry that refuses nothing, preparing and publishing in one go is the \<^verbatim>\<open>Start\<close> of ServerSetup.
\<close>

lemma register_all_accepts: "(\<And>c reg. snd (M c reg) = None) \<Longrightarrow> snd (register_all M cs reg) = None"
proof (induction cs arbitrary: reg)
  case (Cons c cs)
  from Cons.prems[of c reg] Cons.IH[OF Cons.prems] show ?case by (cases "M c reg") auto
qed simp

text \<open>
  A call of \<^verbatim>\<open>Start\<close> whose registrations are all accepted, followed by its publication, refines the start
  of a service as a function of its configuration: the same servers, the same error or the same panic.
\<close>

theorem start_effect_refines:
  assumes "\<And>c reg. snd (M c reg) = None"
  shows "autogenServer_Start V s =
    (case Start_effect M V reg s of
       (_, s', Ok servers) \<Rightarrow> Ok (newMultiStoppableServer s' servers)
     | (_, _, Err e) \<Rightarrow> Err e
     | (_, _, Panic p) \<Rightarrow> Panic p)"
proof -
  have n: "snd (if prometheusRegistry s then NewHTTPServerMetricsMiddleware M (as_name s) reg else (reg, None)) = None" for s reg
    using register_all_accepts[of M] assms by (simp add: NewHTTPServerMetricsMiddleware_def del: register_all.simps)
  have h: "snd (if b then metrics_Handler M reg else (reg, None)) = None" for b reg
    using register_all_accepts[of M] assms by (simp add: metrics_Handler_def del: register_all.simps)
  obtain reg' where r: "(if prometheusRegistry s then NewHTTPServerMetricsMiddleware M (as_name s) reg else (reg, None)) = (reg', None)"
    using n[of s reg] by (metis prod.collapse)
  have l: "snd (Start_listeners M V s' mWare health g) =
      and_then (admin_servers V (restManager s') (prometheusRegistry s') health (mw_admin mWare))
        (Start_servers V s' (mw_public mWare))" for s' mWare health g
    using h[of _ g] by (auto simp: Start_listeners_def split: res.splits prod.splits option.splits)
      (metis snd_conv option.distinct(1))+
  show ?thesis
  proof (cases "load_health V s")
    case (Ok q)
    obtain s1 health where q: "q = (s1, health)" by (cases q)
    note keeps = load_health_keeps[OF Ok[unfolded q]]
    let ?m = "prepareMiddleware (as_name s) (prometheusRegistry s) (context_timeout (restManager s))"
    obtain reg'' t where t: "Start_listeners M V s1 ?m health reg' = (reg'', t)" by (cases "Start_listeners M V s1 ?m health reg'")
    have e: "Start_effect M V reg s = (reg'', s1, t)" by (simp add: Start_effect_def r Ok q t)
    have u: "t = and_then (admin_servers V (restManager s1) (prometheusRegistry s1) health (mw_admin ?m))
        (Start_servers V s1 (mw_public ?m))" using l[of s1 ?m health reg'] t by simp
    have a: "autogenServer_Start V s = and_then t (\<lambda>servers. Ok (newMultiStoppableServer s1 servers))"
      unfolding u using keeps
      by (simp add: autogenServer_Start_def Ok q Let_def Start_servers_def newMultiStoppableServer_def and_then_assoc and_then_if cong: if_cong)
    show ?thesis unfolding a e by (cases t) simp_all
  qed (simp_all add: autogenServer_Start_def Start_effect_def r)
qed

section \<open>Only the first start gets past its registration\<close>

definition blocked :: "'reg must_register \<Rightarrow> string \<Rightarrow> 'reg \<Rightarrow> bool" where
  "blocked M name reg \<longleftrightarrow> snd (M (requests_total name) reg) \<noteq> None"

lemma register_all_mono: "registers_once has M \<Longrightarrow> has reg d \<Longrightarrow> has (fst (register_all M cs reg)) d"
proof (induction cs arbitrary: reg)
  case (Cons c cs)
  then have "has (fst (M c reg)) d" by (simp add: registers_once_def)
  with Cons show ?case by (auto split: prod.splits option.splits)
qed simp

lemma register_refused: "registers_once has M \<Longrightarrow> snd (M c reg) \<noteq> None \<Longrightarrow> fst (M c reg) = reg"
  unfolding registers_once_def by metis

lemma registered: "registers_once has M \<Longrightarrow> snd (M c reg) = None \<Longrightarrow> has (fst (M c reg)) c"
  unfolding registers_once_def by metis

lemma has_blocked: "registers_once has M \<Longrightarrow> has reg (requests_total name) \<Longrightarrow> blocked M name reg"
  by (simp add: registers_once_def blocked_def)

lemma blocked_start:
  assumes "registers_once has M" and "prometheusRegistry s" and "blocked M (as_name s) reg"
  shows "\<exists>p. Start_effect M V reg s = (reg, s, Panic p)"
proof -
  obtain p where "snd (M (requests_total (as_name s)) reg) = Some p" using assms(3) by (auto simp: blocked_def)
  moreover have "fst (M (requests_total (as_name s)) reg) = reg"
    using assms(1,3) by (auto simp: blocked_def intro: register_refused)
  ultimately have "M (requests_total (as_name s)) reg = (reg, Some p)" by (metis prod.collapse)
  with assms(2) show ?thesis by (simp add: Start_effect_def NewHTTPServerMetricsMiddleware_def)
qed

lemma listeners_mono:
  "registers_once has M \<Longrightarrow> has reg d \<Longrightarrow> has (fst (Start_listeners M V s mWare health reg)) d"
  using register_all_mono[of has M reg d "[ProcessCollector, GoCollector]"]
  by (auto simp: Start_listeners_def metrics_Handler_def split: res.splits prod.splits option.splits if_splits)

lemma start_blocks:
  assumes once: "registers_once has M" and prom: "prometheusRegistry s" and "Start_effect M V reg s = (reg', s', r)"
  shows "blocked M (as_name s) reg'"
proof (cases "blocked M (as_name s) reg")
  case True
  with blocked_start[OF once prom] assms(3) show ?thesis by (metis prod.inject)
next
  case False
  let ?c = "requests_total (as_name s)" let ?d = "request_duration (as_name s)"
  have c: "snd (M ?c reg) = None" using False by (simp add: blocked_def)
  have "has (fst (M ?c reg)) ?c" using registered[OF once c] .
  then have d: "has (fst (M ?d (fst (M ?c reg)))) ?c" using once by (simp add: registers_once_def)
  have "NewHTTPServerMetricsMiddleware M (as_name s) reg = M ?d (fst (M ?c reg))"
    using c by (auto simp: NewHTTPServerMetricsMiddleware_def split: prod.splits option.splits)
  with assms(3) prom d have "has reg' ?c"
    by (auto simp: Start_effect_def Let_def case_prod_beta split: prod.splits option.splits res.splits
        intro: listeners_mono[OF once])
  then show ?thesis by (rule has_blocked[OF once])
qed

definition started_once :: "'reg must_register \<Rightarrow> ('d, 'key, 'c, 'x, 'reg) lifecycle \<Rightarrow> bool" where
  "started_once M l \<longleftrightarrow> prometheusRegistry (lf_server l) \<and>
     (lf_calls l \<noteq> [] \<longrightarrow> blocked M (as_name (lf_server l)) (lf_registry l)) \<and>
     (\<forall>i < length (lf_calls l). 0 < i \<longrightarrow> (\<exists>p. lf_calls l ! i = Refused (Inr p)))"

lemma started_once_step:
  assumes once: "registers_once has M" and "lstep M V l l'" and inv: "started_once M l"
  shows "started_once M l'"
  using assms(2)
proof cases
  case (prepare reg s servers)
  have prom: "prometheusRegistry (lf_server l)" using inv by (simp add: started_once_def)
  have "lf_calls l = []"
    using blocked_start[OF once prom, of "lf_registry l" V] inv prepare(2) by (auto simp: started_once_def)
  with prepare start_blocks[OF once prom prepare(2)] Start_effect_fields[OF prepare(2)] prom show ?thesis
    by (simp add: started_once_def)
next
  case (refuse reg s r)
  have prom: "prometheusRegistry (lf_server l)" using inv by (simp add: started_once_def)
  have "lf_calls l = [] \<or> (\<exists>p. r = Panic p)"
    using blocked_start[OF once prom, of "lf_registry l" V] inv refuse(2) by (auto simp: started_once_def)
  with refuse(1) start_blocks[OF once prom refuse(2)] Start_effect_fields[OF refuse(2)] inv show ?thesis
    by (auto simp: started_once_def nth_append refusal_def)
next
  case (publish i servers)
  then have "i = 0" using inv by (cases i) (auto simp: started_once_def)
  with publish inv show ?thesis by (auto simp: started_once_def newMultiStoppableServer_def)
next
  case (serve i own servers)
  then have "i = 0" using inv by (cases i) (auto simp: started_once_def)
  with serve inv show ?thesis by (auto simp: started_once_def)
next
  case (stop graceful r)
  with inv show ?thesis by (simp add: started_once_def)
qed

lemma started_once_reach:
  assumes "registers_once has M" and "prometheusRegistry s" and "lreach M V (new_life s reg) l"
  shows "started_once M l"
  using assms(3)
proof (induction "new_life s reg" l rule: lreach.induct)
  case refl
  then show ?case using assms(2) by (simp add: started_once_def new_life_def)
qed (blast intro: started_once_step[OF assms(1)])

text \<open>
  A service with an admin server, and hence with a prometheus registry, starts at most once: every call of
  \<^verbatim>\<open>Start\<close> after the first panics while it registers its metrics, even when the first returned an error.
\<close>

theorem one_start_with_metrics:
  assumes "registers_once has M" and "prometheusRegistry s" and "lreach M V (new_life s reg) l"
    and "0 < i" and "i < length (lf_calls l)"
  shows "\<exists>p. lf_calls l ! i = Refused (Inr p)"
  using started_once_reach[OF assms(1-3)] assms(4,5) by (simp add: started_once_def)

section \<open>What a stop reaches\<close>

definition stop_ok :: "(nat \<times> 'x server list) list \<Rightarrow> nat option \<times> bool \<times> 'x serr option \<Rightarrow> bool" where
  "stop_ok published e =
     (case e of
        (None, graceful, r) \<Rightarrow> r = None
      | (Some i, graceful, r) \<Rightarrow>
          (\<exists>servers. (i, servers) \<in> set published \<and> reports (owed graceful (MultiServer servers)) r))"

lemma stop_ok_mono: "stop_ok published e \<Longrightarrow> set published \<subseteq> set published' \<Longrightarrow> stop_ok published' e"
  by (auto simp: stop_ok_def split: prod.splits option.splits)

fun went_live :: "'x start_call \<Rightarrow> bool" where
  "went_live (Prepared _) = False"
| "went_live (Published _) = True"
| "went_live (InService _) = True"
| "went_live (Refused _) = False"

definition linv :: "('d, 'key, 'c, 'x, 'reg) lifecycle \<Rightarrow> bool" where
  "linv l \<longleftrightarrow>
     distinct (map fst (lf_published l)) \<and>
     (\<forall>i \<in> fst ` set (lf_published l). i < length (lf_calls l) \<and> went_live (lf_calls l ! i)) \<and>
     multiServer (lf_server l) = (if lf_published l = [] then None else Some (MultiServer (snd (last (lf_published l))))) \<and>
     (\<forall>i servers. i < length (lf_calls l) \<longrightarrow> lf_calls l ! i = InService servers \<longrightarrow> servers \<in> snd ` set (lf_published l)) \<and>
     (\<forall>e \<in> set (lf_stops l). stop_ok (lf_published l) e)"

inductive_simps stops_unstarted: "stops graceful (AutogenServer name None) r"
inductive_simps stops_started: "stops graceful (AutogenServer name (Some s)) r"

lemma linv_more_calls:
  assumes "linv l" and "multiServer s = multiServer (lf_server l)" and "\<And>servers. c \<noteq> InService servers"
  shows "linv (l\<lparr>lf_server := s, lf_registry := reg, lf_calls := lf_calls l @ [c]\<rparr>)"
  using assms by (auto simp: linv_def nth_append less_Suc_eq)

lemma linv_step:
  assumes "lstep M V l l'" and inv: "linv l"
  shows "linv l'"
  using assms(1)
proof cases
  case (prepare reg s servers)
  then show ?thesis using linv_more_calls[OF inv] Start_effect_fields[OF prepare(2)] by simp
next
  case (refuse reg s r)
  then show ?thesis using linv_more_calls[OF inv] Start_effect_fields[OF refuse(2)] by simp
next
  case (publish i servers)
  have "i \<notin> fst ` set (lf_published l)" using inv publish(3) by (auto simp: linv_def)
  moreover have "stop_ok (lf_published l @ [(i, servers)]) e" if "e \<in> set (lf_stops l)" for e
    using stop_ok_mono[of "lf_published l" e] inv that by (simp add: linv_def subset_insertI)
  ultimately show ?thesis using inv publish
    by (auto simp: linv_def newMultiStoppableServer_def nth_list_update)
next
  case (serve i own servers)
  have "servers \<in> snd ` set (lf_published l)" using inv serve(4) by (auto simp: linv_def split: if_splits)
  then show ?thesis using inv serve by (auto simp: linv_def nth_list_update)
next
  case (stop graceful r)
  have "stop_ok (lf_published l) (current l, graceful, r)"
  proof (cases "lf_published l = []")
    case True
    then show ?thesis using inv stop(2) by (simp add: linv_def stop_ok_def current_def autogenServer_stops_def stops_unstarted)
  next
    case False
    obtain i ss where p: "last (lf_published l) = (i, ss)" by (cases "last (lf_published l)")
    have "(i, ss) \<in> set (lf_published l)" using last_in_set[OF False] p by simp
    moreover have "stops graceful (MultiServer ss) r"
      using inv stop(2) False p by (simp add: linv_def autogenServer_stops_def stops_started)
    ultimately show ?thesis using stops_reports False p unfolding stop_ok_def current_def by fastforce
  qed
  with inv stop(1) show ?thesis by (auto simp: linv_def)
qed

lemma linv_reach: "lreach M V l l' \<Longrightarrow> linv l \<Longrightarrow> linv l'"
  by (induction rule: lreach.induct) (auto intro: linv_step)

lemma linv_new: "multiServer s = None \<Longrightarrow> linv (new_life s reg)"
  by (simp add: linv_def new_life_def)

definition stopped :: "('d, 'key, 'c, 'x, 'reg) lifecycle \<Rightarrow> nat \<Rightarrow> bool" where
  "stopped l i \<longleftrightarrow> Some i \<in> fst ` set (lf_stops l)"

lemma stopped_published: "linv l \<Longrightarrow> stopped l i \<Longrightarrow> i \<in> fst ` set (lf_published l)"
proof -
  assume inv: "linv l" and "stopped l i"
  then obtain g r where "(Some i, g, r) \<in> set (lf_stops l)" by (force simp: stopped_def)
  then have "stop_ok (lf_published l) (Some i, g, r)" using inv by (simp add: linv_def)
  then show ?thesis by (force simp: stop_ok_def)
qed

lemma published_live: "linv l \<Longrightarrow> i \<in> fst ` set (lf_published l) \<Longrightarrow> i < length (lf_calls l) \<and> went_live (lf_calls l ! i)"
  unfolding linv_def by blast

text \<open>
  C14.  A stop that finds no published server returns nil and reaches nothing; any other reaches the servers of the last
  published call of \<^verbatim>\<open>Start\<close> and returns exactly their errors.  A call that is still preparing has not been
  stopped, and whatever stops were made before, it publishes its servers and starts them: a \<^verbatim>\<open>Stop\<close> during the
  preparation returns nil and the service starts nevertheless.
\<close>

theorem early_stop_is_lost:
  assumes "multiServer s = None" and "lreach M V (new_life s reg) l"
  shows "(\<forall>e \<in> set (lf_stops l). stop_ok (lf_published l) e) \<and>
    (\<forall>i servers. i < length (lf_calls l) \<longrightarrow> lf_calls l ! i = Prepared servers \<longrightarrow>
      \<not> stopped l i \<and>
      (\<exists>l' l''. lstep M V l l' \<and> lstep M V l' l'' \<and> lf_calls l'' ! i = InService servers \<and>
         current l'' = Some i \<and> lf_stops l'' = lf_stops l \<and> \<not> stopped l'' i))"
proof (intro conjI allI impI)
  have inv: "linv l" using linv_reach[OF assms(2) linv_new[OF assms(1)]] .
  then show "\<forall>e \<in> set (lf_stops l). stop_ok (lf_published l) e" by (simp add: linv_def)
  fix i servers
  assume i: "i < length (lf_calls l)" "lf_calls l ! i = Prepared servers"
  show ns: "\<not> stopped l i" using published_live[OF inv stopped_published[OF inv]] i(2) by fastforce
  let ?l' = "l\<lparr>lf_server := newMultiStoppableServer (lf_server l) servers,
    lf_calls := (lf_calls l)[i := Published servers], lf_published := lf_published l @ [(i, servers)]\<rparr>"
  have 1: "lstep M V l ?l'" by (rule lstep.publish[OF i])
  have 2: "lstep M V ?l' (?l'\<lparr>lf_calls := (lf_calls ?l')[i := InService servers]\<rparr>)"
    by (rule lstep.serve) (simp_all add: i newMultiStoppableServer_def)
  show "\<exists>l' l''. lstep M V l l' \<and> lstep M V l' l'' \<and> lf_calls l'' ! i = InService servers \<and>
         current l'' = Some i \<and> lf_stops l'' = lf_stops l \<and> \<not> stopped l'' i"
    by (rule exI, rule exI, rule conjI, rule 1, rule conjI, rule 2) (use ns i(1) in \<open>simp add: current_def stopped_def\<close>)
qed

lemma in_service_keeps:
  assumes "lreach M V l l'" and "i < length (lf_calls l)" and "lf_calls l ! i = InService servers"
    and "current l \<noteq> Some i" and "\<not> stopped l i"
  shows "i < length (lf_calls l') \<and> lf_calls l' ! i = InService servers \<and> current l' \<noteq> Some i \<and> \<not> stopped l' i"
  using assms
proof (induction rule: lreach.induct)
  case (step l l' l'')
  then have IH: "i < length (lf_calls l')" "lf_calls l' ! i = InService servers" "current l' \<noteq> Some i" "\<not> stopped l' i" by auto
  from step.hyps(2) show ?case
    using IH by cases (auto simp: nth_append nth_list_update current_def stopped_def)
qed simp

text \<open>
  Without a registry a second \<^verbatim>\<open>Start\<close> is not refused.  Once its servers are published, those that the first call
  serves can no longer be stopped through the service: whatever is called from then on, no stop reaches them.
\<close>

theorem superseded_servers_are_never_stopped:
  assumes "lreach M V l l'" and "i < length (lf_calls l)" and "lf_calls l ! i = InService servers"
    and "current l \<noteq> Some i" and "\<not> stopped l i"
  shows "\<not> stopped l' i \<and> lf_calls l' ! i = InService servers"
  using in_service_keeps[OF assms] by blast

section \<open>A service that is stopped too early and started twice\<close>

definition list_registry :: "collector list must_register" where
  "list_registry c reg = (if c \<in> set reg then (reg, Some ''duplicate metrics collector registration attempted'') else (c # reg, None))"

lemma list_registry_once: "registers_once (\<lambda>reg c. c \<in> set reg) list_registry"
  by (auto simp: registers_once_def list_registry_def)

abbreviation sample_life :: "bool \<Rightarrow> (unit, unit, string, string, collector list) lifecycle" where
  "sample_life prom \<equiv> new_life ((sample_server False)\<lparr>prometheusRegistry := prom\<rparr>) []"

lemma sample_prepares:
  "(\<exists>reg' ss. Start_effect list_registry sample_server_env [] ((sample_server False)\<lparr>prometheusRegistry := prom\<rparr>) =
     (reg', (sample_server False)\<lparr>prometheusRegistry := prom\<rparr>, Ok ss))"
  by (cases prom)
    (simp_all add: Start_effect_def Start_listeners_def Start_servers_def NewHTTPServerMetricsMiddleware_def metrics_Handler_def
      requests_total_def request_duration_def list_registry_def load_health_def wants_health_def admin_servers_def
      public_servers_def grpc_servers_def configureAdminServerListener_def configurePublicServerListener_def MakeTLSConfig_def
      Let_def deref_def sample_server_defs)

lemma sample_first_call:
  "\<exists>l ss. lreach list_registry sample_server_env (sample_life prom) l \<and> lf_calls l = [Prepared ss] \<and>
     lf_server l = (sample_server False)\<lparr>prometheusRegistry := prom\<rparr> \<and> lf_stops l = [] \<and> lf_published l = []"
proof -
  obtain reg' ss where "Start_effect list_registry sample_server_env [] ((sample_server False)\<lparr>prometheusRegistry := prom\<rparr>) =
     (reg', (sample_server False)\<lparr>prometheusRegistry := prom\<rparr>, Ok ss)" using sample_prepares by blast
  from lreach.step[OF lreach.refl lstep.prepare[of list_registry sample_server_env "sample_life prom", simplified new_life_def, simplified, OF this]]
  show ?thesis by (intro exI, intro conjI, fastforce simp: new_life_def) simp_all
qed

theorem one_start_with_metrics_witness:
  "\<exists>l p. lreach list_registry sample_server_env (sample_life True) l \<and> length (lf_calls l) = 2 \<and> lf_calls l ! 1 = Refused (Inr p)"
proof -
  obtain l ss where l: "lreach list_registry sample_server_env (sample_life True) l" "lf_calls l = [Prepared ss]"
    using sample_first_call by blast
  obtain l' where l': "lstep list_registry sample_server_env l l'" "length (lf_calls l') = 2"
    using start_steps[of list_registry sample_server_env l] l(2) by auto
  have r: "lreach list_registry sample_server_env (sample_life True) l'" using lreach.step[OF l(1) l'(1)] .
  from one_start_with_metrics[OF list_registry_once _ r, of 1] l'(2) r show ?thesis by (auto simp: sample_server_def)
qed

theorem early_stop_is_lost_witness:
  "\<exists>l i. lreach list_registry sample_server_env (sample_life True) l \<and> lf_stops l = [(None, False, None)] \<and>
     current l = Some i \<and> \<not> stopped l i"
proof -
  obtain l ss where l: "lreach list_registry sample_server_env (sample_life True) l" "lf_calls l = [Prepared ss]"
    "lf_server l = (sample_server False)\<lparr>prometheusRegistry := True\<rparr>" "lf_stops l = []" "lf_published l = []"
    using sample_first_call by blast
  have "autogenServer_stops False (lf_server l) None"
    by (simp add: l(3) sample_server_def autogenServer_stops_def stops_unstarted)
  from lstep.stop[OF this] l(4,5)
  have st: "lstep list_registry sample_server_env l (l\<lparr>lf_stops := [(None, False, None)]\<rparr>)" by (simp add: current_def)
  have r: "lreach list_registry sample_server_env (sample_life True) (l\<lparr>lf_stops := [(None, False, None)]\<rparr>)"
    using lreach.step[OF l(1) st] .
  have "multiServer ((sample_server False)\<lparr>prometheusRegistry := True\<rparr>) = None" by (simp add: sample_server_def)
  from conjunct2[OF early_stop_is_lost[OF this r], rule_format, of 0 ss] l(2)
  obtain l' l'' where l': "lstep list_registry sample_server_env (l\<lparr>lf_stops := [(None, False, None)]\<rparr>) l'"
    "lstep list_registry sample_server_env l' l''" "current l'' = Some 0" "\<not> stopped l'' 0" "lf_stops l'' = [(None, False, None)]" by auto
  with lreach.step[OF lreach.step[OF r l'(1)] l'(2)] show ?thesis by blast
qed

lemma sample_prepares_again:
  "\<exists>ss. Start_effect list_registry sample_server_env reg ((sample_server False)\<lparr>multiServer := ms\<rparr>) =
     (reg, (sample_server False)\<lparr>multiServer := ms\<rparr>, Ok ss)"
  by (simp add: Start_effect_def Start_listeners_def Start_servers_def load_health_def wants_health_def admin_servers_def
      public_servers_def grpc_servers_def configureAdminServerListener_def configurePublicServerListener_def MakeTLSConfig_def
      Let_def deref_def sample_server_defs)

theorem superseded_servers_are_never_stopped_witness:
  "\<exists>l ss. lreach list_registry sample_server_env (new_life (sample_server False) []) l \<and>
     current l = Some 1 \<and> lf_calls l ! 0 = InService ss \<and>
     (\<nexists>l'. lreach list_registry sample_server_env l l' \<and> stopped l' 0)"
proof -
  let ?R = "lreach list_registry sample_server_env (new_life (sample_server False) [])"
  let ?S = "lstep list_registry sample_server_env"
  let ?s = "\<lambda>ms. (sample_server False)\<lparr>multiServer := ms\<rparr>"
  obtain ss1 where e1: "Start_effect list_registry sample_server_env [] (?s None) = ([], ?s None, Ok ss1)"
    using sample_prepares_again by blast
  let ?m1 = "Some (MultiServer ss1)"
  obtain ss2 where e2: "Start_effect list_registry sample_server_env [] (?s ?m1) = ([], ?s ?m1, Ok ss2)"
    using sample_prepares_again by blast
  let ?m2 = "Some (MultiServer ss2)"
  have s0: "sample_server False = ?s None" by (simp add: sample_server_def)
  let ?l = "\<lambda>ms cs ps. \<lparr>lf_server = ?s ms, lf_registry = [], lf_calls = cs, lf_published = ps, lf_stops = []\<rparr>"
  have a0: "?R (?l None [] [])" using lreach.refl[of list_registry sample_server_env "?l None [] []"] by (simp add: new_life_def s0[symmetric])
  have a1: "?S (?l None [] []) (?l None [Prepared ss1] [])"
    using lstep.prepare[of list_registry sample_server_env "?l None [] []"] e1 by simp
  have a2: "?S (?l None [Prepared ss1] []) (?l ?m1 [Published ss1] [(0, ss1)])"
    using lstep.publish[of 0 "?l None [Prepared ss1] []" ss1 list_registry sample_server_env] by (simp add: newMultiStoppableServer_def)
  have a3: "?S (?l ?m1 [Published ss1] [(0, ss1)]) (?l ?m1 [InService ss1] [(0, ss1)])"
    using lstep.serve[of 0 "?l ?m1 [Published ss1] [(0, ss1)]" ss1 ss1 list_registry sample_server_env] by simp
  have a4: "?S (?l ?m1 [InService ss1] [(0, ss1)]) (?l ?m1 [InService ss1, Prepared ss2] [(0, ss1)])"
    using lstep.prepare[of list_registry sample_server_env "?l ?m1 [InService ss1] [(0, ss1)]"] e2 by simp
  have a5: "?S (?l ?m1 [InService ss1, Prepared ss2] [(0, ss1)]) (?l ?m2 [InService ss1, Published ss2] [(0, ss1), (1, ss2)])"
    using lstep.publish[of 1 "?l ?m1 [InService ss1, Prepared ss2] [(0, ss1)]" ss2 list_registry sample_server_env]
    by (simp add: newMultiStoppableServer_def)
  have r: "?R (?l ?m2 [InService ss1, Published ss2] [(0, ss1), (1, ss2)])"
    by (rule lreach.step[OF lreach.step[OF lreach.step[OF lreach.step[OF lreach.step[OF a0 a1] a2] a3] a4] a5])
  have "\<not> stopped l' 0" if "lreach list_registry sample_server_env (?l ?m2 [InService ss1, Published ss2] [(0, ss1), (1, ss2)]) l'" for l'
    using superseded_servers_are_never_stopped[OF that, of 0 ss1] by (simp add: current_def stopped_def)
  with r show ?thesis by (intro exI conjI) (assumption, auto simp: current_def)
qed

theorem start_effect_refines_witness:
  "\<exists>reg s' servers. Start_effect (\<lambda>c reg. (c # reg, None)) sample_server_env [] (sample_server False) = (reg, s', Ok servers) \<and>
     autogenServer_Start sample_server_env (sample_server False) = Ok (newMultiStoppableServer s' servers)"
proof -
  let ?M = "\<lambda>c reg. (c # reg, None :: string option)"
  have r: "autogenServer_Start sample_server_env (sample_server False) =
    (case Start_effect ?M sample_server_env [] (sample_server False) of
       (_, s', Ok servers) \<Rightarrow> Ok (newMultiStoppableServer s' servers) | (_, _, Err e) \<Rightarrow> Err e | (_, _, Panic p) \<Rightarrow> Panic p)"
    by (rule start_effect_refines) simp
  obtain reg s' t where e: "Start_effect ?M sample_server_env [] (sample_server False) = (reg, s', t)"
    by (cases "Start_effect ?M sample_server_env [] (sample_server False)") auto
  from sample_server_starts r e show ?thesis by (cases t) auto
qed

end
