(* ===== verification/RuntimeGlue.thy ===== *)
theory RuntimeGlue
  imports CoreMiddleware Downstreams ServerLifecycle
begin

text \<open>
  The small parts that connect the components: the package logger of jwtauth (jwtauth/logger.go), the manager that
  generated code hands to the server (core/http\_shim.go), the deprecated logging functions of package common, the context
  of a service under test (core/serve.go), and the constructors of loggers (log/logging.go).
\<close>

section \<open>The package logger of jwtauth\<close>

text \<open>
  \<open>FuncLogger\<close> has two functions that may be nil; a user's logger is identified by a name.  A message goes to the
  standard log, to one of the functions, or to the user's logger.
\<close>

datatype message = Println "string list" | Printf string "string list"

datatype 'fn jwt_Logger = defaultLogger | FuncLogger "'fn option" "'fn option" | UserLogger string

datatype 'fn delivered = ToStdLog message | ToFunc 'fn message | ToUser string message

fun jwt_Debug :: "'fn jwt_Logger \<Rightarrow> string list \<Rightarrow> ('e, 'fn delivered) res" where
  "jwt_Debug defaultLogger args = Ok (ToStdLog (Println args))"
| "jwt_Debug (FuncLogger debug debugf) args = and_then (deref debug) (\<lambda>f. Ok (ToFunc f (Println args)))"
| "jwt_Debug (UserLogger n) args = Ok (ToUser n (Println args))"

fun jwt_Debugf :: "'fn jwt_Logger \<Rightarrow> string \<Rightarrow> string list \<Rightarrow> ('e, 'fn delivered) res" where
  "jwt_Debugf defaultLogger fmt args = Ok (ToStdLog (Printf fmt args))"
| "jwt_Debugf (FuncLogger debug debugf) fmt args = and_then (deref debugf) (\<lambda>f. Ok (ToFunc f (Printf fmt args)))"
| "jwt_Debugf (UserLogger n) fmt args = Ok (ToUser n (Printf fmt args))"

text \<open>The package variable; \<open>None\<close> is a nil logger.\<close>

type_synonym 'fn pkg_var = "'fn jwt_Logger option"

definition initial_pkgLogger :: "'fn pkg_var" where
  "initial_pkgLogger = Some defaultLogger"

definition SetLogger :: "'fn jwt_Logger option \<Rightarrow> 'fn pkg_var \<Rightarrow> 'fn pkg_var" where
  "SetLogger l v = l"

definition SetLogFuncs :: "'fn option \<Rightarrow> 'fn option \<Rightarrow> 'fn pkg_var \<Rightarrow> 'fn pkg_var" where
  "SetLogFuncs debug debugf v = Some (FuncLogger debug debugf)"

definition XXX_GetLogger :: "'fn pkg_var \<Rightarrow> 'fn jwt_Logger option" where
  "XXX_GetLogger v = v"

datatype 'fn log_setting = CallSetLogger "'fn jwt_Logger option" | CallSetLogFuncs "'fn option" "'fn option"

fun apply_setting :: "'fn log_setting \<Rightarrow> 'fn pkg_var \<Rightarrow> 'fn pkg_var" where
  "apply_setting (CallSetLogger l) = SetLogger l"
| "apply_setting (CallSetLogFuncs debug debugf) = SetLogFuncs debug debugf"

definition log_debug :: "'fn log_setting list \<Rightarrow> string list \<Rightarrow> ('e, 'fn delivered) res" where
  "log_debug settings args =
     and_then (deref (XXX_GetLogger (fold apply_setting settings initial_pkgLogger))) (\<lambda>l. jwt_Debug l args)"

text \<open>
  Messages of the authenticators go to the logger set last, to the standard log when none was set; logging panics
  exactly when that logger is nil or was built from a nil function.
\<close>

theorem package_logger:
  "(settings = [] \<longrightarrow> log_debug settings args = Ok (ToStdLog (Println args))) \<and>
   (panics (log_debug settings args) \<longleftrightarrow>
      (\<exists>before debugf. settings = before @ [CallSetLogger None] \<or> settings = before @ [CallSetLogFuncs None debugf] \<or>
         settings = before @ [CallSetLogger (Some (FuncLogger None debugf))]))"
proof (cases settings rule: rev_cases)
  case Nil
  then show ?thesis by (simp add: log_debug_def XXX_GetLogger_def initial_pkgLogger_def deref_def)
next
  case (snoc before c)
  have var: "fold apply_setting settings initial_pkgLogger = apply_setting c undefined"
    by (cases c) (simp_all add: snoc SetLogger_def SetLogFuncs_def)
  show ?thesis
  proof (cases c)
    case (CallSetLogger l)
    have "panics (log_debug settings args) \<longleftrightarrow> l = None \<or> (\<exists>debugf. l = Some (FuncLogger None debugf))"
    proof (cases l)
      case (Some lg)
      then show ?thesis
        by (cases lg) (auto simp: log_debug_def var CallSetLogger SetLogger_def XXX_GetLogger_def deref_def split: option.splits)
    qed (simp add: log_debug_def var CallSetLogger SetLogger_def XXX_GetLogger_def deref_def)
    then show ?thesis by (auto simp: snoc CallSetLogger)
  next
    case (CallSetLogFuncs debug debugf)
    have "panics (log_debug settings args) \<longleftrightarrow> debug = None"
      by (cases debug) (simp_all add: log_debug_def var CallSetLogFuncs SetLogFuncs_def XXX_GetLogger_def deref_def)
    then show ?thesis by (auto simp: snoc CallSetLogFuncs)
  qed
qed


section \<open>The manager of generated code\<close>

record HTTPManagerShim =
  sh_libraryConfig :: "LibraryConfig option"
  sh_adminServerConfig :: "CommonHTTPServerConfig option"
  sh_publicServerConfig :: "UpstreamConfig option"
  sh_enabledHandlers :: "HandlerInitialiser list"
  sh_addAdminHTTPMiddleware :: "(router \<Rightarrow> router) option"

definition NewHTTPManagerShim ::
  "LibraryConfig option \<Rightarrow> CommonHTTPServerConfig option \<Rightarrow> UpstreamConfig option \<Rightarrow> HandlerInitialiser list \<Rightarrow>
     (router \<Rightarrow> router) option \<Rightarrow> HTTPManagerShim" where
  "NewHTTPManagerShim lib admin public handlers add =
     \<lparr>sh_libraryConfig = lib, sh_adminServerConfig = admin, sh_publicServerConfig = public,
      sh_enabledHandlers = handlers, sh_addAdminHTTPMiddleware = add\<rparr>"

text \<open>The methods of the shim are the methods of the interface the server set-up reads.\<close>

definition shim_Manager :: "HTTPManagerShim \<Rightarrow> Manager" where
  "shim_Manager m =
     \<lparr>EnabledHandlers = sh_enabledHandlers m, mgr_LibraryConfig = sh_libraryConfig m,
      AdminServerConfig = sh_adminServerConfig m, PublicServerConfig = sh_publicServerConfig m,
      AddAdminHTTPMiddleware = sh_addAdminHTTPMiddleware m\<rparr>"

text \<open>
  A service whose generated code builds its manager with the shim and that has no gRPC manager or listener hook starts the
  servers whose configuration the shim was given, and only those; with neither health nor a public configuration it
  panics.
\<close>

theorem shim_decides_servers:
  assumes "restManager s = Some (shim_Manager (NewHTTPManagerShim lib admin public handlers add))"
    and "grpcServerManager s = None" and "as_hooks s = None"
  shows "(autogenServer_Start V s = Ok s' \<longrightarrow> public \<noteq> None \<and>
      (\<exists>ss. multiServer s' = Some (MultiServer ss) \<and>
         map GetName ss = (if admin \<noteq> None then [''REST Admin Server''] else []) @ [''REST Public Server'']))"
proof (intro impI)
  assume s': "autogenServer_Start V s = Ok s'"
  obtain s1 health adm pub grp where h: "load_health V s = Ok (s1, health)"
    and parts: "admin_servers V (restManager s) (prometheusRegistry s1) health
      (mw_admin (prepareMiddleware (as_name s) (prometheusRegistry s) (context_timeout (restManager s)))) = Ok adm"
      "public_servers V (restManager s)
      (mw_public (prepareMiddleware (as_name s) (prometheusRegistry s) (context_timeout (restManager s))))
      (as_hooks s1) = Ok pub"
      "grpc_servers V (as_ctx s1) (grpcServerManager s1) (as_hooks s1) = Ok grp"
    and some: "pub \<noteq> [] \<or> grp \<noteq> []"
    and s1: "s' = s1\<lparr>multiServer := Some (MultiServer (adm @ pub @ grp))\<rparr>"
    using s' by (rule Start_Ok)
  have none: "grpcServerManager s1 = None" "as_hooks s1 = None"
    using h assms(2,3) by (auto simp: load_health_def deref_def go_res split: if_splits sum.splits prod.splits)
  have "grp = []" using parts(3) none by (simp add: grpc_servers_def)
  moreover have "map GetName adm = (if admin \<noteq> None then [''REST Admin Server''] else [])"
    using admin_part(1)[OF parts(1)] assms(1) by (simp add: shim_Manager_def NewHTTPManagerShim_def)
  moreover have "map GetName pub = (if public \<noteq> None then [''REST Public Server''] else [])"
    using public_part(1)[OF parts(2)] none assms(1) by (simp add: shim_Manager_def NewHTTPManagerShim_def)
  ultimately show "public \<noteq> None \<and> (\<exists>ss. multiServer s' = Some (MultiServer ss) \<and>
         map GetName ss = (if admin \<noteq> None then [''REST Admin Server''] else []) @ [''REST Public Server''])"
    using some s1 by (auto split: if_splits)
qed

section \<open>Functions of package common that forward to package log\<close>

definition GetLogEntryFromContext :: "('f, 'z) log_ctx \<Rightarrow> nat option" where
  "GetLogEntryFromContext cx = GetLogrusLogEntryFromContext cx"

definition GetLoggerFromContext :: "('f, 'z) log_ctx \<Rightarrow> nat option" where
  "GetLoggerFromContext cx = GetLogrusLoggerFromContext cx"

definition LoggerToContext :: "('f, 'z) log_ctx \<Rightarrow> nat \<Rightarrow> nat option \<Rightarrow> ('f, 'z) log_ctx" where
  "LoggerToContext cx logger entry = LogrusLoggerToContext cx logger entry"

text \<open>
  What an application reads back of a legacy logrus logger: the functions of common give the logger and entry put last;
  a logrus logger put with \<^verbatim>\<open>log.PutLogger\<close> replaces the logger of the pair and keeps its entry.
\<close>

theorem legacy_logger_read_back:
  "GetLoggerFromContext (LoggerToContext cx a e) = Some a \<and> GetLogEntryFromContext (LoggerToContext cx a e) = e \<and>
   GetLoggerFromContext (ctx_PutLogger L (LoggerToContext cx a e) (NewLogrusLogger b)) = Some b \<and>
   GetLogEntryFromContext (ctx_PutLogger L (LoggerToContext cx a e) (NewLogrusLogger b)) = e \<and>
   GetLogger (ctx_PutLogger L cx (NewLogrusLogger b)) = Some (NewLogrusLogger b)"
  by (simp add: GetLoggerFromContext_def GetLogEntryFromContext_def LoggerToContext_def LogrusLoggerToContext_def
      GetLogrusLogEntryFromContext_def GetLogrusLoggerFromContext_def ctx_PutLogger_def NewLogrusLogger_def GetLogger_def Let_def)

section \<open>Contexts and types of a service\<close>

definition serve_WithConfigFile :: "'d bctx \<Rightarrow> string \<Rightarrow> 'd bctx" where
  "serve_WithConfigFile cx yamlConfigData = cx\<lparr>b_yaml := Some yamlConfigData\<rparr>"

definition GetAppConfigType :: "fn_type \<Rightarrow> ('e, gotype) res" where
  "GetAppConfigType cs = (if length (fn_In cs) \<le> 1 then Panic ''reflect: Func index out of bounds'' else Ok (fn_In cs ! 1))"

definition ErrDisplayHelp_Error :: "nat \<Rightarrow> string" where
  "ErrDisplayHelp_Error e = ''Display help''"

definition WithTemporalClientMap :: "(string \<rightharpoonup> 'cl) option \<Rightarrow> (string \<rightharpoonup> 'cl) \<Rightarrow> (string \<rightharpoonup> 'cl) option" where
  "WithTemporalClientMap old m = Some m"

text \<open>
  With configuration data in the context the command line is not looked at; the type check of the callback makes the
  configuration type of the application available; and a temporal client is found exactly under its task queue.
\<close>

theorem service_context:
  "config_source args (b_yaml (serve_WithConfigFile cx d)) = (Ok (MemFile d) :: ('x booterr, cfg_source) res) \<and>
   (MustTypeCheckCreateService cs intf = (Ok () :: (unit, unit) res) \<longrightarrow> (\<exists>t. GetAppConfigType cs = (Ok t :: (unit, _) res) \<and> fn_In cs = [TContext, t])) \<and>
   (TemporalClientFrom q (WithTemporalClientMap old m) taskqueue = Ok c \<longleftrightarrow> m taskqueue = Some c)"
proof (intro conjI impI)
  show "config_source args (b_yaml (serve_WithConfigFile cx d)) = (Ok (MemFile d) :: ('x booterr, cfg_source) res)"
    by (simp add: config_source_def serve_WithConfigFile_def)
  show "TemporalClientFrom q (WithTemporalClientMap old m) taskqueue = Ok c \<longleftrightarrow> m taskqueue = Some c"
    by (auto simp: TemporalClientFrom_def WithTemporalClientMap_def split: option.splits)
  assume "MustTypeCheckCreateService cs intf = (Ok () :: (unit, unit) res)"
  then have "length (fn_In cs) = 2" "fn_In cs ! 0 = TContext"
    by (auto simp: MustTypeCheckCreateService_def split: if_splits)
  then obtain t where "fn_In cs = [TContext, t]" by (auto simp: length_Suc_conv numeral_2_eq_2)
  then show "\<exists>t. GetAppConfigType cs = (Ok t :: (unit, _) res) \<and> fn_In cs = [TContext, t]"
    by (simp add: GetAppConfigType_def)
qed

end
