(* ===== verification/ServiceHooks.thy ===== *)
theory ServiceHooks
  imports GrpcServing RuntimeGlue
begin

text \<open>
  The whole hooks structure of a service (core/callback.go) and what is resolved from it: the options of gRPC clients and
  servers, the authorization rules, and the callback of the generated REST handlers (common/defaultcallback.go).
\<close>

section \<open>The structure\<close>

text \<open>The fields beyond those the set-up of servers, the bootstrap and the clients read.\<close>

record ('d, 'key, 'c, 'x, 'base, 'cl, 'w, 'wo) ServiceHooks = "('d, 'key, 'c, 'x, 'base, 'cl, 'w, 'wo) AppHooks" +
  hk_MapError :: "('d DefaultConfig ctx \<Rightarrow> 'x cerr \<Rightarrow> HTTPError option) option"
  hk_WriteError :: "('d DefaultConfig ctx \<Rightarrow> response_writer \<Rightarrow> HTTPError \<Rightarrow> (unit, response_writer) res) option"
  AdditionalGrpcServerOptions :: "('key, 'c) ServerOption list"
  OverrideGrpcServerOptions :: "(GRPCServerConfig option \<Rightarrow> ('x cfgerr, ('key, 'c) ServerOption list) res) option"
  OverrideMakeJWTClaimsBasedAuthorizationRule :: "(string \<Rightarrow> ('x autherr, 'x claims_rule) res) option"
  hk_AddHTTPMiddleware :: "('d DefaultConfig ctx \<Rightarrow> router \<Rightarrow> router) option"
  hk_AddAdminHTTPMiddleware :: "('d DefaultConfig ctx \<Rightarrow> router \<Rightarrow> router) option"

text \<open>A health check given as a function is called as it is.\<close>

definition HealthCheckFunc_Check :: "(string \<Rightarrow> 'x + HealthCheckStatus) \<Rightarrow> string \<Rightarrow> 'x + HealthCheckStatus" where
  "HealthCheckFunc_Check h service = h service"

section \<open>Resolution from a pointer to the hooks\<close>

definition hooks_dial_options ::
  "('key, 'c, 'x) tls_env \<Rightarrow> string \<Rightarrow> ('d, 'key, 'c, 'x, 'base, 'cl, 'w, 'wo) ServiceHooks option \<Rightarrow>
     CommonGRPCDownstreamData option \<Rightarrow> ('x cfgerr, ('key, 'c) DialOption list) res" where
  "hooks_dial_options E serviceName hooks cfg =
     and_then (deref hooks) (\<lambda>h.
       ResolveGrpcDialOptions E serviceName (AdditionalGrpcDialOptions h) (OverrideGrpcDialOptions h) cfg)"

definition hooks_server_options ::
  "('key, 'c, 'x) tls_env \<Rightarrow> ('d, 'key, 'c, 'x, 'base, 'cl, 'w, 'wo) ServiceHooks option \<Rightarrow>
     GRPCServerConfig option \<Rightarrow> ('x cfgerr, ('key, 'c) ServerOption list) res" where
  "hooks_server_options E hooks cfg =
     and_then (deref hooks) (\<lambda>h.
       ResolveGrpcServerOptions (DefaultGrpcServerOptions E) (AdditionalGrpcServerOptions h) (OverrideGrpcServerOptions h) cfg)"

text \<open>The callback that generated code builds from the hooks, and how its handlers report an error.\<close>

definition hooks_callback ::
  "('d, 'key, 'c, 'x, 'base, 'cl, 'w, 'wo) ServiceHooks \<Rightarrow> string \<Rightarrow> 'up \<Rightarrow> int \<Rightarrow> ('x, 'd DefaultConfig, 'up, router) Callback" where
  "hooks_callback h basePath upstream timeout =
     NewCallbackV3 basePath upstream timeout (hk_MapError h) (hk_WriteError h) (hk_AddHTTPMiddleware h)"

definition callback_error ::
  "('x \<Rightarrow> Kind option) \<Rightarrow> ('x, 'cfg) err_writer \<Rightarrow> ('x, 'cfg, 'up, 'router) Callback \<Rightarrow> 'cfg ctx \<Rightarrow> response_writer \<Rightarrow>
     Kind \<Rightarrow> string \<Rightarrow> 'x cerr option \<Rightarrow> (unit, response_writer) res" where
  "callback_error kinder writer g cx w kind message cause =
     HandleError kinder writer cx w kind message cause (Some (Callback_MapError g)) (Some (Callback_WriteError g))"

section \<open>Properties\<close>

lemma resolved_server_options:
  assumes "hooks_server_options E (Some h) cfg = Ok opts"
  shows "case OverrideGrpcServerOptions h of
      Some f \<Rightarrow> AdditionalGrpcServerOptions h = [] \<and> f cfg = Ok opts
    | None \<Rightarrow> (\<exists>defaults. DefaultGrpcServerOptions E cfg = Ok defaults \<and> opts = defaults @ AdditionalGrpcServerOptions h)"
  using assms
  by (auto simp: hooks_server_options_def ResolveGrpcServerOptions_def resolve_options_def go_res deref_def split: option.splits if_splits)

text \<open>
  Additional server options keep the interceptors that put the logger of the service into the context of a call, and
  their own interceptors run inside of these.  Options that override the defaults replace these too: with overriding options
  that have no interceptor, a handler is called with the context of the library, in which logging panics.  Setting both
  is an error, and nil hooks panic.
\<close>

theorem server_options_and_logger:
  assumes "chains_in_order chain" and "GetLogger cx = None"
  shows "(OverrideGrpcServerOptions h = None \<and> hooks_server_options E (Some h) cfg = Ok opts \<longrightarrow>
      unary_interceptors opts = [LoggerInterceptor, TraceidLogInterceptor] @ unary_interceptors (AdditionalGrpcServerOptions h)) \<and>
    (OverrideGrpcServerOptions h = Some f \<and> hooks_server_options E (Some h) cfg = Ok opts \<and> unary_interceptors opts = [] \<longrightarrow>
      unary_call chain L scx user opts (\<lambda>c q. and_then (ctx_log c sev msg) (\<lambda>_. k c q)) cx req = Panic nil_deref) \<and>
    (OverrideGrpcServerOptions h = Some f \<and> AdditionalGrpcServerOptions h \<noteq> [] \<longrightarrow>
      (\<exists>m. hooks_server_options E (Some h) cfg = Err (CfgErr m))) \<and>
    panics (hooks_server_options E (None :: ('d, 'key, 'c, 'x, 'base, 'cl, 'w, 'wo) ServiceHooks option) cfg)"
proof -
  have "unary_interceptors opts = [LoggerInterceptor, TraceidLogInterceptor] @ unary_interceptors (AdditionalGrpcServerOptions h)"
    if "OverrideGrpcServerOptions h = None" "hooks_server_options E (Some h) cfg = Ok opts"
    using resolved_server_options[OF that(2)] that(1) by (auto simp: default_interceptors)
  moreover have "unary_call chain L scx user opts (\<lambda>c q. and_then (ctx_log c sev msg) (\<lambda>_. k c q)) cx req = Panic nil_deref"
    if "unary_interceptors opts = []"
    using that assms by (simp add: unary_call_def chains_in_order_def ctx_log_def)
  moreover have "\<exists>m. hooks_server_options E (Some h) cfg = Err (CfgErr m)"
    if "OverrideGrpcServerOptions h = Some f" "AdditionalGrpcServerOptions h \<noteq> []"
    using that by (simp add: hooks_server_options_def ResolveGrpcServerOptions_def resolve_options_def deref_def)
  moreover have "panics (hooks_server_options E (None :: ('d, 'key, 'c, 'x, 'base, 'cl, 'w, 'wo) ServiceHooks option) cfg)"
    by (simp add: hooks_server_options_def deref_def)
  ultimately show ?thesis by blast
qed

lemma HandleError_cong:
  assumes "\<And>e. resolveErrorAsHTTPError kinder cx m e = resolveErrorAsHTTPError kinder cx m' e"
    and "\<And>w h. (case wr of None \<Rightarrow> HTTPError_WriteError h w | Some f \<Rightarrow> f cx w h) =
      (case wr' of None \<Rightarrow> HTTPError_WriteError h w | Some f \<Rightarrow> f cx w h)"
  shows "HandleError kinder writer cx w kind message cause m wr = HandleError kinder writer cx w kind message cause m' wr'"
  unfolding HandleError_def assms(1) assms(2) ..

text \<open>
  A handler of a service whose hooks map and write no errors answers them exactly as the error handling does by default;
  a hook that maps an error decides the response, unless the error writes itself.
\<close>

theorem unset_error_hooks_are_defaults:
  "(hk_MapError h = None \<and> hk_WriteError h = None \<longrightarrow>
      callback_error kinder writer (hooks_callback h basePath upstream timeout) cx w kind message cause =
      HandleError kinder writer cx w kind message cause None None) \<and>
   (hk_MapError h = Some f \<and> hk_WriteError h = None \<longrightarrow>
      callback_error kinder writer (hooks_callback h basePath upstream timeout) cx w kind message cause =
      HandleError kinder writer cx w kind message cause (Some f) None)"
proof -
  have w: "Callback_WriteError (hooks_callback h basePath upstream timeout) = (\<lambda>cx w e. HTTPError_WriteError e w)"
    if "hk_WriteError h = None"
    using that by (intro ext) (simp add: hooks_callback_def NewCallbackV3_def Callback_WriteError_def)
  have m: "resolveErrorAsHTTPError kinder cx (Some (Callback_MapError (hooks_callback h basePath upstream timeout))) e =
      resolveErrorAsHTTPError kinder cx (hk_MapError h) e" for e
    by (cases "hk_MapError h")
      (simp_all add: hooks_callback_def NewCallbackV3_def Callback_MapError_def resolveErrorAsHTTPError_def)
  have "callback_error kinder writer (hooks_callback h basePath upstream timeout) cx w kind message cause =
      HandleError kinder writer cx w kind message cause (hk_MapError h) None" if "hk_WriteError h = None"
    unfolding callback_error_def by (rule HandleError_cong) (use that in \<open>simp_all add: m w\<close>)
  then show ?thesis by auto
qed

definition quiet_hooks :: "(unit, unit, unit, string, string, string, string, nat) ServiceHooks" where
  "quiet_hooks = AppHooks.extend sample_hooks
     \<lparr>hk_MapError = None, hk_WriteError = None, AdditionalGrpcServerOptions = [],
      OverrideGrpcServerOptions = Some (\<lambda>_. Ok []), OverrideMakeJWTClaimsBasedAuthorizationRule = None,
      hk_AddHTTPMiddleware = None, hk_AddAdminHTTPMiddleware = None\<rparr>"

lemma quiet_fields: "OverrideGrpcServerOptions quiet_hooks = Some (\<lambda>_. Ok [])" "AdditionalGrpcServerOptions quiet_hooks = []"
  by (simp_all add: quiet_hooks_def AppHooks.defs)

theorem server_options_and_logger_witness:
  "(\<forall>E. hooks_server_options E (Some quiet_hooks) None = Ok []) \<and>
   unary_call fold_chain map_libs (plain_log_ctx (Fixed 3 Map.empty)) (\<lambda>_ c r g. g c r) ([] :: (unit, unit) ServerOption list)
     (\<lambda>c q. and_then (ctx_log c SInfo ''hi'') (\<lambda>_. Ok q)) bare_log_ctx () = (Panic nil_deref :: (unit, unit) res)"
proof -
  have o: "hooks_server_options E (Some quiet_hooks) None = Ok []" for E
    by (simp add: hooks_server_options_def ResolveGrpcServerOptions_def resolve_options_def deref_def quiet_fields)
  have n: "GetLogger bare_log_ctx = None" by (simp add: bare_log_ctx_def GetLogger_def)
  have "unary_call fold_chain map_libs (plain_log_ctx (Fixed 3 Map.empty)) (\<lambda>_ c r g. g c r) ([] :: (unit, unit) ServerOption list)
     (\<lambda>c q. and_then (ctx_log c SInfo ''hi'') (\<lambda>_. Ok q)) bare_log_ctx () = (Panic nil_deref :: (unit, unit) res)"
    by (rule mp[OF conjunct1[OF conjunct2[OF server_options_and_logger[OF fold_chain_in_order n,
        where h = quiet_hooks and f = "\<lambda>_. Ok []" and cfg = None]]]]) (simp add: o quiet_fields)
  with o show ?thesis by blast
qed

end
