(* ===== verification/AsyncChannels.thy ===== *)
theory AsyncChannels
  imports TimeoutHandler "HOL-Library.Multiset"
begin

text \<open>
  The parts of common/async.go and common/timeout.go around the core of TimeoutHandler: the channels handed out by
  \<^verbatim>\<open>Future.GetChan\<close>, the constructors of the timeout middleware with the time a request gets, and the log
  line about a second status with the search for its caller.
\<close>

section \<open>Channels of a future\<close>

text \<open>
  Each call of \<^verbatim>\<open>GetChan\<close> makes a channel of capacity one and a goroutine that calls \<^verbatim>\<open>Get\<close> and sends what
  it returns; \<open>gc_chans\<close> lists what was sent on each channel.  Calls of \<^verbatim>\<open>Get\<close> by others go on.
\<close>

record ('o, 'e) chan_sys =
  gc_async :: "('o, 'e) async_sys"
  gc_chans :: "('o, 'e) AsyncResult option list"

definition GetChan :: "('o, 'e) chan_sys \<Rightarrow> ('o, 'e) chan_sys \<times> nat" where
  "GetChan g = (g\<lparr>gc_chans := gc_chans g @ [None]\<rparr>, length (gc_chans g))"

definition get_returns :: "('o, 'e) async_sys \<Rightarrow> ('o, 'e) AsyncResult \<Rightarrow> ('o, 'e) async_sys \<Rightarrow> bool" where
  "get_returns s r s' \<longleftrightarrow> astep s s' \<and> as_got s' = as_got s @ [r]"

inductive gstep :: "('o, 'e) chan_sys \<Rightarrow> ('o, 'e) chan_sys \<Rightarrow> bool" where
  other: "astep (gc_async g) s \<Longrightarrow> gstep g (g\<lparr>gc_async := s\<rparr>)"
| get_chan: "GetChan g = (g', i) \<Longrightarrow> gstep g g'"
| receive: "i < length (gc_chans g) \<Longrightarrow> gc_chans g ! i = None \<Longrightarrow> get_returns (gc_async g) r s \<Longrightarrow>
     gstep g (g\<lparr>gc_async := s, gc_chans := (gc_chans g)[i := Some r]\<rparr>)"

inductive greach :: "('o, 'e) chan_sys \<Rightarrow> bool" where
  greach_start: "greach \<lparr>gc_async = Async, gc_chans = []\<rparr>"
| greach_step: "greach g \<Longrightarrow> gstep g g' \<Longrightarrow> greach g'"

fun received :: "('o, 'e) AsyncResult option list \<Rightarrow> ('o, 'e) AsyncResult multiset" where
  "received [] = {#}"
| "received (None # cs) = received cs"
| "received (Some r # cs) = add_mset r (received cs)"

lemma received_append [simp]: "received (cs @ ds) = received cs + received ds"
  by (induction cs rule: received.induct) simp_all

lemma received_update: "i < length cs \<Longrightarrow> cs ! i = None \<Longrightarrow> received (cs[i := Some r]) = add_mset r (received cs)"
proof (induction cs arbitrary: i)
  case (Cons c cs)
  then show ?case by (cases i; cases c) auto
qed simp

lemma astep_got: "astep s s' \<Longrightarrow> \<exists>rs. as_got s' = as_got s @ rs"
  by (cases rule: astep.cases) auto

definition ginv :: "('o, 'e) chan_sys \<Rightarrow> bool" where
  "ginv g \<longleftrightarrow> ainv (gc_async g) \<and> received (gc_chans g) \<subseteq># mset (as_got (gc_async g))"

lemma ginv_step: "gstep g g' \<Longrightarrow> ginv g \<Longrightarrow> ginv g'"
proof (induction rule: gstep.induct)
  case (other g s)
  then show ?case
    using ainv_step[of "gc_async g" s] astep_got[of "gc_async g" s]
    by (auto simp: ginv_def intro: subset_mset.order_trans)
next
  case (get_chan g g' i)
  then show ?case by (auto simp: ginv_def GetChan_def)
next
  case (receive i g r s)
  then show ?case
    using ainv_step[of "gc_async g" s] by (simp add: ginv_def get_returns_def received_update)
qed

lemma greach_inv: "greach g \<Longrightarrow> ginv g"
proof (induction rule: greach.induct)
  case greach_start
  then show ?case using areach_inv[OF areach_start] by (simp add: ginv_def)
qed (rule ginv_step)

lemma at_most_one: "ainv s \<Longrightarrow> length (filter (\<lambda>r. \<not> is_ctx_result r) (as_got s)) \<le> 1"
  by (auto simp: ainv_def append_eq_Cons_conv split: option.splits)

lemma in_singleton_append: "xs @ ys = [x] \<Longrightarrow> r \<in> set xs \<Longrightarrow> r = x"
  by (cases xs) auto

lemma got_source:
  assumes "ainv s" and "r \<in> set (as_got s)"
  shows "(\<exists>f. as_finished s = Some f \<and> r = async_result f) \<or> (\<exists>c. as_ctx s = Some c \<and> r = (None, Some (CtxErr c)))"
proof (cases "is_ctx_result r")
  case True
  with assms show ?thesis by (auto simp: ainv_def is_ctx_result_def)
next
  case False
  then have "r \<in> set (filter (\<lambda>r. \<not> is_ctx_result r) (as_got s))" using assms(2) by simp
  with assms(1) show ?thesis unfolding ainv_def
    by (cases "as_finished s") (auto simp del: set_filter dest: in_singleton_append)
qed

lemma in_received: "i < length cs \<Longrightarrow> cs ! i = Some r \<Longrightarrow> r \<in># received cs"
proof (induction cs arbitrary: i)
  case (Cons c cs)
  then show ?case by (cases i; cases c) auto
qed simp



section \<open>The timeout middleware\<close>

text \<open>
  \<open>th_testContext\<close> is the deadline of a context set by a test.  Without it the context of a request ends at the
  earlier of its own deadline and the time limit, counted from the start of the request.
\<close>

record 'h timeout_handler =
  th_handler :: 'h
  th_timeoutHandler :: 'h
  th_dt :: int
  th_testContext :: "int option option"

definition TimeoutHandler :: "'h \<Rightarrow> int \<Rightarrow> 'h \<Rightarrow> 'h timeout_handler" where
  "TimeoutHandler h dt timeout = \<lparr>th_handler = h, th_timeoutHandler = timeout, th_dt = dt, th_testContext = None\<rparr>"

definition Timeout :: "int \<Rightarrow> 'h \<Rightarrow> 'h \<Rightarrow> 'h timeout_handler" where
  "Timeout timeout handler = (\<lambda>nxt. TimeoutHandler nxt timeout handler)"

definition WithTimeout :: "int option \<Rightarrow> int \<Rightarrow> int \<Rightarrow> int option" where
  "WithTimeout parent now dt = Some (case parent of Some d \<Rightarrow> min d (now + dt) | None \<Rightarrow> now + dt)"

definition request_deadline :: "'h timeout_handler \<Rightarrow> int option \<Rightarrow> int \<Rightarrow> int option" where
  "request_deadline h parent now =
     (case th_testContext h of Some deadline \<Rightarrow> deadline | None \<Rightarrow> WithTimeout parent now (th_dt h))"

text \<open>\<open>pusher\<close> is the \<^verbatim>\<open>Push\<close> of the writer below, when it has one.\<close>

definition ErrNotSupported :: string where
  "ErrNotSupported = ''feature not supported''"

definition timeoutWriter_Push :: "(string \<Rightarrow> 'o \<Rightarrow> string option) option \<Rightarrow> string \<Rightarrow> 'o \<Rightarrow> string option" where
  "timeoutWriter_Push pusher target opts =
     (case pusher of Some push \<Rightarrow> push target opts | None \<Rightarrow> Some ErrNotSupported)"

section \<open>The caller of a second WriteHeader\<close>

record frame =
  fr_Function :: string
  fr_File :: string
  fr_Line :: int

definition zero_frame :: frame where
  "zero_frame = \<lparr>fr_Function = [], fr_File = [], fr_Line = 0\<rparr>"

text \<open>
  The loop over \<^verbatim>\<open>frames.Next\<close>, which gives the next frame and whether more follow.  The variable in the loop
  hides the one the function returns after it, so that one is still the zero frame.
\<close>

fun search_frames :: "frame list \<Rightarrow> frame" where
  "search_frames [] = zero_frame"
| "search_frames (fr # frames) =
     (if \<not> prefix ''net/http.'' (fr_Function fr) then fr
      else if frames = [] then zero_frame
      else search_frames frames)"

text \<open>\<open>callers skip n\<close> are the frames of \<^verbatim>\<open>runtime.Callers\<close>, which skips \<open>skip\<close> of them and fills at most \<open>n\<close>.\<close>

definition relevantCaller :: "(nat \<Rightarrow> nat \<Rightarrow> frame list) \<Rightarrow> frame" where
  "relevantCaller callers = search_frames (callers 1 16)"

definition superfluous_line :: "(string \<Rightarrow> string) \<Rightarrow> frame \<Rightarrow> string" where
  "superfluous_line base caller = ''http: superfluous response.WriteHeader call from '' @ fr_Function caller @ '' ('' @
     base (fr_File caller) @ '':'' @ show_int (fr_Line caller) @ '')''"

text \<open>The writer with its log lines; \<open>has_req\<close> says whether the writer was given the request.\<close>

definition writeHeaderLocked_logged ::
  "(nat \<Rightarrow> nat \<Rightarrow> frame list) \<Rightarrow> (string \<Rightarrow> string) \<Rightarrow> bool \<Rightarrow> timeoutWriter \<Rightarrow> int \<Rightarrow> (unit, timeoutWriter \<times> string list) res" where
  "writeHeaderLocked_logged callers base has_req tw code =
     and_then (checkWriteHeaderCode code) (\<lambda>_.
       Ok (if tw_timedOut tw then (tw, [])
           else if tw_wroteHeader tw then (tw, if has_req then [superfluous_line base (relevantCaller callers)] else [])
           else (tw\<lparr>tw_wroteHeader := True, tw_code := code\<rparr>, [])))"

lemma logged_refines:
  "map_res (\<lambda>e. e) fst (writeHeaderLocked_logged callers base has_req tw code) = writeHeaderLocked tw code"
  by (cases "checkWriteHeaderCode code") (simp_all add: writeHeaderLocked_logged_def writeHeaderLocked_def)

lemma search_frames_find:
  "search_frames frames = (case find (\<lambda>fr. \<not> prefix ''net/http.'' (fr_Function fr)) frames of Some fr \<Rightarrow> fr | None \<Rightarrow> zero_frame)"
  by (induction frames rule: search_frames.induct) auto

definition own_name :: string where
  "own_name = ''github.com/anz-bank/sysl-go/common.relevantCaller''"

text \<open>
  The search for the first function outside of \<^verbatim>\<open>net/http\<close> starts at the frame of the search itself, since
  \<^verbatim>\<open>runtime.Callers(1, _)\<close> begins with its caller; that frame is outside of \<^verbatim>\<open>net/http\<close>, so the line about
  a superfluous status names the search and never the handler at fault.  Apart from the line the writer behaves as the
  one without it.
\<close>

theorem second_status_names_itself:
  assumes "callers 1 16 = self # rest" and "fr_Function self = own_name"
  shows "relevantCaller callers = self \<and>
    map_res (\<lambda>e. e) fst (writeHeaderLocked_logged callers base has_req tw code) = writeHeaderLocked tw code \<and>
    (tw_wroteHeader tw \<and> \<not> tw_timedOut tw \<and> 100 \<le> code \<and> code \<le> 999 \<longrightarrow>
       writeHeaderLocked_logged callers base True tw code = Ok (tw, [superfluous_line base self]))"
proof -
  have "relevantCaller callers = self" using assms by (simp add: relevantCaller_def own_name_def)
  then show ?thesis unfolding logged_refines by (simp add: writeHeaderLocked_logged_def checkWriteHeaderCode_def)
qed

definition handler_frame :: frame where
  "handler_frame = \<lparr>fr_Function = ''main.handler'', fr_File = ''main.go'', fr_Line = 7\<rparr>"

definition search_frame :: frame where
  "search_frame = \<lparr>fr_Function = own_name, fr_File = ''timeout.go'', fr_Line = 23\<rparr>"

theorem second_status_names_itself_witness:
  "relevantCaller (\<lambda>_ _. [search_frame, handler_frame]) = search_frame \<and>
   writeHeaderLocked_logged (\<lambda>_ _. [search_frame, handler_frame]) (\<lambda>f. f) True (new_tw\<lparr>tw_wroteHeader := True\<rparr>) 200 =
     Ok (new_tw\<lparr>tw_wroteHeader := True\<rparr>, [superfluous_line (\<lambda>f. f) search_frame])"
  using second_status_names_itself[of "\<lambda>_ _. [search_frame, handler_frame]" search_frame "[handler_frame]" "\<lambda>f. f" True
      "new_tw\<lparr>tw_wroteHeader := True\<rparr>" 200]
  by (simp add: search_frame_def new_tw_def)


end
