(* ===== verification/RequestPipeline.thy ===== *)
theory RequestPipeline
  imports CoreMiddleware ServerSetup
begin

text \<open>
  A request on its way through the middleware of a service (core/middleware.go): recovery, timeout, trace id
  (common/traceability.go), request context and metrics, in this order, around the handler.

  The two outer middlewares wait for the goroutine that runs the inner ones; the inner ones act on the buffering
  writer of the timeout middleware through the writers they wrap around it.  The metrics middleware is
  described by the actions its writer passes on, the request context by the theorem of CoreMiddleware, and the
  goroutine by the actions of both.
\<close>

section \<open>The order of the middleware\<close>

fun is_metrics :: "middleware \<Rightarrow> bool" where
  "is_metrics (MetricsMW name) = True"
| "is_metrics m = False"

definition listener_middleware :: "bool \<Rightarrow> middlewareCollection \<Rightarrow> middleware list" where
  "listener_middleware public mw = (if public then mw_public mw else mw_admin mw)"

lemma middleware_order:
  "listener_middleware public (prepareMiddleware name prom t) =
     [RecovererMW, TimeoutMW t] @ (if public then [TraceabilityMW] else []) @ [CoreRequestContextMW] @
     (if prom then [MetricsMW name] else [])"
  by (simp add: listener_middleware_def prepareMiddleware_def addToBoth_def)

lemma listener_has:
  "TraceabilityMW \<in> set (listener_middleware public (prepareMiddleware name prom t)) \<longleftrightarrow> public"
  "list_ex is_metrics (listener_middleware public (prepareMiddleware name prom t)) \<longleftrightarrow> prom"
  by (simp_all add: middleware_order)

section \<open>What the metrics writer passes on\<close>

text \<open>The actions on the wrapped writer; \<open>wrote\<close> is whether a status has been passed on.\<close>

fun status_actions :: "bool \<Rightarrow> action list \<Rightarrow> action list" where
  "status_actions wrote [] = []"
| "status_actions wrote (SetHeader k v # as) = SetHeader k v # status_actions wrote as"
| "status_actions wrote (CallWriteHeader c # as) = (if wrote then [] else [CallWriteHeader c]) @ status_actions True as"
| "status_actions wrote (CallWrite b # as) = (if wrote then [] else [CallWriteHeader 200]) @ CallWrite b # status_actions True as"
| "status_actions wrote (DoPanic p # as) = DoPanic p # status_actions wrote as"

lemma status_actions_sendable: "list_all sendable as \<Longrightarrow> list_all sendable (status_actions wrote as)"
  by (induction wrote as rule: status_actions.induct) auto

lemma status_actions_status: "sent_status (status_actions False as) = sent_status as"
proof (induction as)
  case (Cons a as)
  then show ?case by (cases a) simp_all
qed simp

lemma status_actions_body: "sent_body (status_actions wrote as) = sent_body as"
  by (induction wrote as rule: status_actions.induct) simp_all

lemma status_actions_panic: "DoPanic p \<in> set (status_actions wrote as) \<longleftrightarrow> DoPanic p \<in> set as"
  by (induction wrote as rule: status_actions.induct) auto

text \<open>
  Writers that accept everything a handler may send.  On such a writer a run panics exactly when the handler does,
  and the metrics middleware passes on the actions above and counts the status that was sent.
\<close>

locale accepting_writer =
  fixes W :: "'w writer_ops" and ok :: "'w \<Rightarrow> bool"
  assumes accepts: "ok w \<Longrightarrow> sendable a \<Longrightarrow> (\<And>p. a \<noteq> DoPanic p) \<Longrightarrow> \<exists>w'. perform W a w = Ok w' \<and> ok w'"
begin

lemma accepted:
  assumes "ok w" "sendable a" "\<And>p. a \<noteq> DoPanic p"
  obtains w' where "perform W a w = Ok w'" "ok w'"
  using accepts[OF assms] by blast

lemma status_serve:
  "ok (sw_inner sw) \<Longrightarrow> list_all sendable as \<Longrightarrow> sw_wroteHeader sw = wrote \<Longrightarrow>
    Observability.serve W (status_actions wrote as) (sw_inner sw) = map_prod sw_inner id (Observability.serve (status_ops W) as sw) \<and>
    sw_code (fst (Observability.serve (status_ops W) as sw)) = (if wrote \<or> sent_status as = 0 then sw_code sw else sent_status as)"
proof (induction as arbitrary: sw wrote)
  case (Cons a as)
  show ?case
  proof (cases a)
    case (SetHeader k v)
    obtain i where "op_SetHeader W (sw_inner sw) k v = i" "ok i"
      using accepted[OF Cons.prems(1), of a] Cons.prems SetHeader by auto
    with Cons.IH[of "sw\<lparr>sw_inner := i\<rparr>" wrote] Cons.prems SetHeader show ?thesis by (simp add: status_ops_def)
  next
    case (CallWriteHeader c)
    obtain i where "op_WriteHeader W (sw_inner sw) c = Ok i" "ok i"
      using accepted[OF Cons.prems(1), of a] Cons.prems CallWriteHeader by auto
    with Cons.IH[of "sw\<lparr>sw_code := c, sw_wroteHeader := True, sw_inner := i\<rparr>" True] Cons.IH[of sw True]
      Cons.prems CallWriteHeader show ?thesis
      by (auto simp: status_ops_def StatusResponseWriter_WriteHeader_def)
  next
    case (CallWrite b)
    obtain i where i: "op_WriteHeader W (sw_inner sw) 200 = Ok i" "ok i"
      using accepted[OF Cons.prems(1), of "CallWriteHeader 200"] by auto
    obtain j where j: "op_Write W i b = Ok j" "ok j" using accepted[OF i(2), of "CallWrite b"] by auto
    obtain k where k: "op_Write W (sw_inner sw) b = Ok k" "ok k"
      using accepted[OF Cons.prems(1), of "CallWrite b"] by auto
    from Cons.IH[of "sw\<lparr>sw_code := 200, sw_wroteHeader := True, sw_inner := j\<rparr>" True]
      Cons.IH[of "sw\<lparr>sw_inner := k\<rparr>" True] i j k Cons.prems CallWrite show ?thesis
      by (auto simp: status_ops_def StatusResponseWriter_Write_def StatusResponseWriter_WriteHeader_def)
  qed simp
qed simp

lemma serve_no_panic:
  "ok w \<Longrightarrow> list_all sendable as \<Longrightarrow> snd (Observability.serve W as w) = None \<longleftrightarrow> (\<forall>p. DoPanic p \<notin> set as)"
proof (induction as arbitrary: w)
  case (Cons a as)
  then show ?case
  proof (cases "\<exists>p. a = DoPanic p")
    case False
    then obtain w' where "perform W a w = Ok w'" "ok w'"
      using accepted[OF Cons.prems(1), of a] Cons.prems by auto
    with Cons False show ?thesis by auto
  qed auto
qed simp

lemma MonitorMetrics_passes_on:
  assumes "ok w" "list_all sendable as"
  shows "MonitorMetrics W pattern m as meth path d w =
    ((if \<forall>p. DoPanic p \<notin> set as
      then updateMetrics m (sent_status as) meth (case pattern of Some s \<Rightarrow> s | None \<Rightarrow> path) d else m),
     Observability.serve W (status_actions False as) w)"
proof -
  obtain ww p where s: "Observability.serve (status_ops W) as (NewStatusResponseWriter w) = (ww, p)" by fastforce
  have i: "sw_inner (NewStatusResponseWriter w) = w" "sw_code (NewStatusResponseWriter w) = 0"
    "sw_wroteHeader (NewStatusResponseWriter w) = False" by (simp_all add: NewStatusResponseWriter_def)
  have v: "Observability.serve W (status_actions False as) w = (sw_inner ww, p)" "sw_code ww = sent_status as"
    using status_serve[of "NewStatusResponseWriter w" as False] assms s i by auto
  have "p = None \<longleftrightarrow> (\<forall>q. DoPanic q \<notin> set as)"
    using serve_no_panic[OF assms(1) status_actions_sendable[OF assms(2)], of False] v status_actions_panic by auto
  with v show ?thesis by (auto simp: MonitorMetrics_def s StatusResponseWriter_Status_def split: option.splits)
qed

lemma serve_until_panic:
  "ok w \<Longrightarrow> list_all sendable as \<Longrightarrow>
    Observability.serve W (takeWhile (\<lambda>a. \<forall>p. a \<noteq> DoPanic p) as @ [DoPanic e]) w = (fst (Observability.serve W as w), Some e)"
proof (induction as arbitrary: w)
  case (Cons a as)
  show ?case
  proof (cases "\<exists>p. a = DoPanic p")
    case False
    then obtain w' where "perform W a w = Ok w'" "ok w'"
      using accepted[OF Cons.prems(1), of a] Cons.prems by auto
    with Cons False show ?thesis by auto
  qed auto
qed simp

end

lemma proxies_accept: "proxies R C ok wr \<Longrightarrow> accepting_writer R ok"
  unfolding proxies_def by (intro accepting_writer.intro) blast

interpretation net_writer: accepting_writer base_ops "\<lambda>_. True"
proof
  fix w a
  assume "sendable a" "\<And>p. a \<noteq> DoPanic p"
  then show "\<exists>w'. perform base_ops a w = Ok w' \<and> True"
    by (cases a) (auto simp: base_ops_def WriteHeader_def)
qed

interpretation buffered_writer: accepting_writer rw_ops rw_ok
  by (rule proxies_accept[OF ref_proxies])

text \<open>The actions inside the request-context middleware, with and without metrics.\<close>

definition passed_on :: "bool \<Rightarrow> action list \<Rightarrow> action list" where
  "passed_on prom as = (if prom then status_actions False as else as)"

lemma passed_on_simps [simp]:
  "sent_status (passed_on prom as) = sent_status as" "sent_body (passed_on prom as) = sent_body as"
  "DoPanic p \<in> set (passed_on prom as) \<longleftrightarrow> DoPanic p \<in> set as"
  by (simp_all add: passed_on_def status_actions_status status_actions_body status_actions_panic)

lemma passed_on_sendable: "list_all sendable as \<Longrightarrow> list_all sendable (passed_on prom as)"
  by (simp add: passed_on_def status_actions_sendable)

section \<open>The trace id of a request\<close>

text \<open>
  The context behind the trace id middleware and the line it logs when the incoming header has no valid id;
  \<open>fresh\<close> is the result of \<^verbatim>\<open>uuid.New\<close>.
\<close>

definition no_request_id :: string where
  "no_request_id = ''Incoming request with invalid or missing RequestID header, filled traceid with new UUID instead''"

definition trace_request ::
  "('f, 'z) log_libs \<Rightarrow> (string \<Rightarrow> string option) \<Rightarrow> string \<Rightarrow> 'd sctx \<Rightarrow> ('f, 'z) log_ctx \<Rightarrow> core_request \<Rightarrow>
     (unit, ('f, 'z) log_call list \<times> 'd sctx) res" where
  "trace_request L uuid_Parse fresh sx cx r =
     (case uuid_Parse (header_get (Some (tq_Header (cq_req r))) (getIncomingHeaderForID sx)) of
        None \<Rightarrow>
          and_then (InitFieldsFromRequest L cx (cq_req r)) (\<lambda>cx'.
          and_then (ctx_log cx' SInfo no_request_id) (\<lambda>c. Ok ([c], AddTraceIDToContext sx fresh False)))
      | Some val \<Rightarrow> Ok ([], AddTraceIDToContext sx val True))"

lemma ctx_With_all_logs:
  "loggerKey cx \<noteq> None \<Longrightarrow> \<exists>cx'. ctx_With_all L cx kvs = (Ok cx' :: (unit, _) res) \<and> loggerKey cx' \<noteq> None"
proof (induction kvs arbitrary: cx)
  case (Cons kv kvs)
  obtain k v where kv: "kv = (k, v)" by (cases kv)
  have "\<exists>cx1. ctx_With L cx k v = (Ok cx1 :: (unit, _) res) \<and> loggerKey cx1 \<noteq> None"
    using Cons.prems by (cases "the (loggerKey cx)") (auto simp: ctx_With_pkg ctx_With_zero ctx_With_fixed)
  with Cons.IH kv show ?case by auto
qed simp

lemma trace_request_result:
  assumes "loggerKey cx \<noteq> None"
  shows "\<exists>ls. trace_request L uuid_Parse fresh sx cx r = Ok (ls,
      case uuid_Parse (header_get (Some (tq_Header (cq_req r))) (getIncomingHeaderForID sx)) of
        None \<Rightarrow> AddTraceIDToContext sx fresh False | Some val \<Rightarrow> AddTraceIDToContext sx val True) \<and>
    map call_line ls = (if uuid_Parse (header_get (Some (tq_Header (cq_req r))) (getIncomingHeaderForID sx)) = None
      then [(SInfo, no_request_id)] else [])"
proof -
  obtain cx' where cx': "InitFieldsFromRequest L cx (cq_req r) = (Ok cx' :: (unit, _) res)" "loggerKey cx' \<noteq> None"
    using ctx_With_all_logs[OF assms] unfolding InitFieldsFromRequest_pairs by blast
  then obtain c where "ctx_log cx' SInfo no_request_id = (Ok c :: (unit, _) res)" "call_line c = (SInfo, no_request_id)"
    by (cases "the (loggerKey cx')") (auto simp: ctx_log_def GetLogger_def)
  with cx' show ?thesis by (auto simp: trace_request_def split: option.splits)
qed

text \<open>The handler behind it gets the same context as from the middleware of RequestContext.\<close>

lemma trace_request_refines:
  assumes "trace_request L uuid_Parse fresh (req_ctx q) cx r = Ok (ls, sx')" and "tq_Header (cq_req r) = req_Header q"
  shows "TraceabilityMiddleware uuid_Parse fresh nxt w q = nxt w (q\<lparr>req_ctx := sx'\<rparr>)"
  using assms by (auto simp: trace_request_def TraceabilityMiddleware_def go_res split: option.splits)

lemma trace_keeps [simp]:
  "logs_payload (AddTraceIDToContext sx i b) = logs_payload sx"
  "handler_body (AddTraceIDToContext sx i b) r = handler_body sx r"
  by (simp_all add: logs_payload_def handler_body_def AddTraceIDToContext_def GetDefaultConfig_def)

section \<open>Inside the timeout\<close>

text \<open>
  What the middlewares use of their libraries, and what the clocks and \<^verbatim>\<open>uuid.New\<close> return for one request;
  \<open>pl_pattern\<close> is the route pattern of \<^verbatim>\<open>GetChiPathPattern\<close>.
\<close>

record ('f, 'z, 'w) pipeline =
  pl_libs :: "('f, 'z) log_libs"
  pl_chi :: "'w chi"
  pl_ops :: "'w writer_ops"
  pl_quote :: "string \<Rightarrow> string"
  pl_uuid_Parse :: "string \<Rightarrow> string option"
  pl_uuid_New :: string
  pl_elapsed :: int
  pl_pattern :: string
  pl_duration :: int

text \<open>
  The handler of the request-context middleware: the metrics middleware around the handler, when there is a
  registry.
\<close>

definition measured ::
  "('f, 'z, 'w) pipeline \<Rightarrow> bool \<Rightarrow> metrics_Middleware \<Rightarrow> ((string \<times> bool) option \<Rightarrow> action list) \<Rightarrow> (monitor \<Rightarrow> monitor) \<Rightarrow>
     ('f, 'z, 'd, 'w) core_handler" where
  "measured P prom M as mf sx cx r m w =
     (if \<not> prom then acting (pl_ops P) as mf sx cx r m w
      else let (_, w', p) = MonitorMetrics (pl_ops P) (Some (pl_pattern P)) M (as (map_option ReadAll (cq_Body r)))
            (tq_Method (cq_req r)) (tq_URL (cq_req r)) (pl_duration P) w
      in (w', mf m, p))"

text \<open>The writer the request-context middleware gives to its handler.\<close>

definition core_writer :: "'w chi \<Rightarrow> 'd sctx \<Rightarrow> core_request \<Rightarrow> 'w \<Rightarrow> 'w" where
  "core_writer C sx r w =
     chi_New C (if logs_payload sx then chi_Tee C (chi_New C w (cq_ProtoMajor r)) else w) (cq_ProtoMajor r)"

text \<open>
  The request inside the goroutine of the timeout middleware: its result with all log lines, and the metrics
  afterwards.
\<close>

definition inner_request ::
  "('f, 'z, 'w) pipeline \<Rightarrow> middleware list \<Rightarrow> metrics_Middleware \<Rightarrow> ((string \<times> bool) option \<Rightarrow> action list) \<Rightarrow> (monitor \<Rightarrow> monitor) \<Rightarrow>
     'd sctx \<Rightarrow> ('f, 'z) log_ctx \<Rightarrow> 'w \<Rightarrow> core_request \<Rightarrow> ('f, 'z, 'w) core_result \<times> metrics_Middleware" where
  "inner_request P mws M as mf sx cx w r =
     (case (if TraceabilityMW \<in> set mws then trace_request (pl_libs P) (pl_uuid_Parse P) (pl_uuid_New P) sx cx r
            else Ok ([], sx)) of
        Ok (ls, sx') \<Rightarrow>
          (let res = CoreRequestContextMiddleware (pl_libs P) (pl_chi P) (pl_quote P) (pl_uuid_New P) (pl_elapsed P)
                 (measured P (list_ex is_metrics mws) M as mf) sx' cx w r
           in (res\<lparr>cr_logs := ls @ cr_logs res\<rparr>,
               if list_ex is_metrics mws
               then fst (MonitorMetrics (pl_ops P) (Some (pl_pattern P)) M (as (handler_body sx' r)) (tq_Method (cq_req r))
                      (tq_URL (cq_req r)) (pl_duration P) (core_writer (pl_chi P) sx' r w))
               else M))
      | Panic p \<Rightarrow> (\<lparr>cr_w = w, cr_monitor = [], cr_logs = [], cr_panic = Some p\<rparr>, M)
      | Err _ \<Rightarrow> (\<lparr>cr_w = w, cr_monitor = [], cr_logs = [], cr_panic = None\<rparr>, M))"

text \<open>The request-context middleware depends on its handler only at this writer and this request.\<close>

lemma core_hands_over:
  assumes "loggerKey cx \<noteq> None"
    and "\<And>cx1. nxt sx cx1 (forwarded sx r) [] (core_writer C sx r w) = nxt' sx cx1 (forwarded sx r) [] (core_writer C sx r w)"
  shows "CoreRequestContextMiddleware L C quote fresh elapsed nxt sx cx w r =
    CoreRequestContextMiddleware L C quote fresh elapsed nxt' sx cx w r"
proof -
  let ?tid = "GetTraceIDFromContext fresh sx"
  obtain cx1 where cx1: "ctx_With L cx traceIDLogField (FStr ?tid) = (Ok cx1 :: (unit, _) res)" "traced ?tid cx1"
    using ctx_With_traces[OF assms(1)] by blast
  obtain rl entry where rl: "NewRequestLogger L sx cx1 r = Ok (rl, entry, forwarded sx r)"
      "RequestLogger_ResponseWriter C rl (cq_ProtoMajor r) w = (if logs_payload sx then chi_Tee C (chi_New C w (cq_ProtoMajor r)) else w)"
    using NewRequestLogger_traced[OF cx1(2), of L sx r] by (auto simp: RequestLogger_ResponseWriter_def split: if_splits)
  have "cq_ProtoMajor (forwarded sx r) = cq_ProtoMajor r" by (simp add: forwarded_def)
  then show ?thesis
    using assms(2)[of cx1]
    by (simp add: CoreRequestContextMiddleware_def cx1(1) rl core_writer_def AddResponseBodyMonitorToContext_def Let_def)
qed

lemma core_writer_ok: "proxies R C ok wr \<Longrightarrow> ok w \<Longrightarrow> ok (core_writer C sx r w)"
  using proxies_New[of R C ok wr] proxies_Tee[of R C ok wr] by (simp add: core_writer_def)

lemma measured_acts:
  assumes "proxies (pl_ops P) (pl_chi P) ok wr" and "ok w" and "\<And>b. list_all sendable (as b)"
  shows "measured P prom M as mf sx cx r m w = acting (pl_ops P) (\<lambda>b. passed_on prom (as b)) mf sx cx r m w"
  using accepting_writer.MonitorMetrics_passes_on[OF proxies_accept[OF assms(1)] assms(2,3)]
  by (simp add: measured_def acting_def passed_on_def Let_def case_prod_beta)

section \<open>Around the timeout\<close>

lemma timeoutHandler_fresh:
  assumes "rw_code w = None" and "\<And>e. writer (ctx_error e) = None"
  shows "timeoutHandler kinder writer ctx_error w cx =
    Ok (w\<lparr>rw_header := error_header w, rw_code := Some 500, rw_sent := error_header w,
          rw_body := rw_body w @
            error_body \<lparr>HTTPCode = 500, Code = [], Description = timeout_text, extraFields = None\<rparr>\<rparr>)"
  using assms(2) WriteError_fresh[OF assms(1)]
  by (cases "ctx_Err cx")
    (simp_all add: timeoutHandler_def HandleError_def error_writer_def resolveErrorAsHTTPError_def)

lemma timed_out_response:
  assumes "timeoutHandler kinder writer ctx_error w cx = Ok v" and "rw_code w = None"
    and "\<And>e. writer (ctx_error e) = None"
  shows "rw_code v = Some 500 \<and> rw_body v = rw_body w @
    error_body \<lparr>HTTPCode = 500, Code = [], Description = timeout_text, extraFields = None\<rparr>"
  using assms(1) timeoutHandler_fresh[of w writer ctx_error kinder cx] assms(2,3) by force

text \<open>How the timeout middleware hands over to the recovering middleware around it.\<close>

definition timeout_result :: "tsys \<Rightarrow> response_writer \<times> string option" where
  "timeout_result s = (ts_w s, case ts_out s of Repanicked p \<Rightarrow> Some p | _ \<Rightarrow> None)"

lemma deliver_sends: "deliver w tw = Ok w' \<Longrightarrow> rw_code w' \<noteq> None"
  by (auto simp: deliver_def go_res Let_def Write_def)

text \<open>
  The line about a panic, written in the goroutine before it hands the panic over; \<open>sprintf\<close> formats the stack, which is
  used as a format.  Without a logger the deferred function panics itself, in a goroutine where nothing recovers.
\<close>

definition logf :: "(string \<Rightarrow> string) \<Rightarrow> ('f, 'z) log_ctx \<Rightarrow> string \<Rightarrow> (unit, ('f, 'z) log_call) res" where
  "logf sprintf cx format = ctx_log cx (SError (sprintf format)) ''timeout error''"

lemma logf_panics: "panics (logf sprintf cx format) \<longleftrightarrow> loggerKey cx = None"
proof (cases "loggerKey cx")
  case (Some l)
  then show ?thesis by (cases l) (simp_all add: logf_def ctx_log_def GetLogger_def)
qed (simp add: logf_def ctx_log_def GetLogger_def)

section \<open>The goroutine of a request\<close>

text \<open>
  The actions of the goroutine on the writer of the timeout middleware: those of the handler as the metrics
  writer passes them on; a body left open makes the deferred check panic after them.
\<close>

definition open_error :: "('f, 'z, 'w) pipeline \<Rightarrow> (monitor \<Rightarrow> monitor) \<Rightarrow> string" where
  "open_error P mf = OpenResponseBodyErrors_Error (pl_quote P) (map wb_url (getResponsesWithOpenBodies (mf [])))"

definition goroutine_actions :: "('f, 'z, 'w) pipeline \<Rightarrow> bool \<Rightarrow> (monitor \<Rightarrow> monitor) \<Rightarrow> action list \<Rightarrow> action list" where
  "goroutine_actions P prom mf as =
     (let acts = passed_on prom as
      in if getResponsesWithOpenBodies (mf []) = [] then acts
         else takeWhile (\<lambda>a. \<forall>p. a \<noteq> DoPanic p) acts @ [DoPanic (open_error P mf)])"

text \<open>A run of the goroutine that ends has no panic in it, and one that panics does so on every writer over the buffer.\<close>

lemma run_no_panic: "run as t = Ok t' \<Longrightarrow> DoPanic p \<notin> set as"
proof (induction as arbitrary: t)
  case (Cons a as)
  then obtain u where "act a t = Ok u" "run as u = Ok t'" by (auto simp: go_res)
  with Cons.IH[of u] show ?case by auto
qed simp

lemma run_serve:
  assumes "\<And>a t. perform R a (emb t) = (case act a t of Ok t' \<Rightarrow> Ok (emb t') | Err e \<Rightarrow> Err e | Panic p \<Rightarrow> Panic p)"
  shows "run as t = Panic p \<Longrightarrow> snd (Observability.serve R as (emb t)) = Some p"
proof (induction as arbitrary: t)
  case (Cons a as)
  then show ?case by (cases "act a t") (auto simp: assms act_no_err)
qed simp

text \<open>What the buffering writer holds when a handler has run to its end.\<close>

lemma run_sent:
  "run as t = Ok t' \<Longrightarrow> list_all sendable as \<Longrightarrow> \<not> tw_timedOut t \<Longrightarrow>
     (tw_wroteHeader t' \<longleftrightarrow> tw_wroteHeader t \<or> sent_status as \<noteq> 0) \<and>
     tw_code t' = (if tw_wroteHeader t \<or> sent_status as = 0 then tw_code t else sent_status as) \<and>
     tw_wbuf t' = tw_wbuf t @ sent_body as"
proof (induction as arbitrary: t)
  case (Cons a as)
  then obtain u where u: "act a t = Ok u" "run as u = Ok t'" by (auto simp: go_res)
  with Cons.IH[OF u(2)] Cons.prems act_timedOut[OF u(1)] show ?case
    by (cases a) (auto simp: timeoutWriter_WriteHeader_def timeoutWriter_Write_def writeHeaderLocked_def
        checkWriteHeaderCode_def Let_def split: if_splits)
qed simp

lemma delivered_response:
  assumes "run as new_tw = Ok tw" and "list_all sendable as" and "deliver w tw = Ok w'" and "rw_code w = None"
  shows "rw_code w' = Some (if sent_status as = 0 then 200 else sent_status as)" "rw_body w' = rw_body w @ sent_body as"
proof -
  have "sent_status as = 0 \<or> sent_status as = 101 \<or> 200 \<le> sent_status as"
    using assms(2) by (induction as rule: sent_status.induct) auto
  then show "rw_code w' = Some (if sent_status as = 0 then 200 else sent_status as)" "rw_body w' = rw_body w @ sent_body as"
    using run_sent[OF assms(1,2)] assms(3,4)
    by (auto simp: new_tw_def deliver_def WriteHeader_def Write_def Let_def split: if_splits)
qed

text \<open>The lines of a request, in their order.\<close>

definition request_lines ::
  "('f, 'z, 'w) pipeline \<Rightarrow> bool \<Rightarrow> (monitor \<Rightarrow> monitor) \<Rightarrow> action list \<Rightarrow> 'd sctx \<Rightarrow> core_request \<Rightarrow> 'w \<Rightarrow> (severity \<times> string) list" where
  "request_lines P public mf as sx r w =
     (if public \<and> pl_uuid_Parse P (header_get (Some (tq_Header (cq_req r))) (getIncomingHeaderForID sx)) = None
      then [(SInfo, no_request_id)] else []) @
     [completed_line (sent_status as)] @
     payload_lines (pl_chi P) (logs_payload sx) r w as @
     (if getResponsesWithOpenBodies (mf []) = [] then [] else [(SError (open_error P mf), ''unclosed response'')])"

text \<open>The part before the request-context middleware: the lines it logs and the context it hands on.\<close>

lemma traced_part:
  assumes "loggerKey cx \<noteq> None" and "sid = pl_uuid_Parse P (header_get (Some (tq_Header (cq_req r))) (getIncomingHeaderForID sx))"
  shows "\<exists>ls sx'.
    (if public then trace_request (pl_libs P) (pl_uuid_Parse P) (pl_uuid_New P) sx cx r else Ok ([], sx)) = Ok (ls, sx') \<and>
    handler_body sx' r = handler_body sx r \<and> logs_payload sx' = logs_payload sx \<and>
    map call_line ls = (if public \<and> sid = None then [(SInfo, no_request_id)] else []) \<and>
    (\<forall>v. public \<and> sid = Some v \<longrightarrow> GetTraceIDFromContext fresh sx' = v)"
proof (cases public)
  case True
  obtain ls where "trace_request (pl_libs P) (pl_uuid_Parse P) (pl_uuid_New P) sx cx r = Ok (ls,
      case sid of None \<Rightarrow> AddTraceIDToContext sx (pl_uuid_New P) False | Some val \<Rightarrow> AddTraceIDToContext sx val True)"
    "map call_line ls = (if sid = None then [(SInfo, no_request_id)] else [])"
    using trace_request_result[OF assms(1), of "pl_libs P" "pl_uuid_Parse P" "pl_uuid_New P" sx r] assms(2) by auto
  moreover have "GetTraceIDFromContext fresh (AddTraceIDToContext sx v True) = v" for v
    by (simp add: GetTraceIDFromContext_def TryGetTraceIDFromContext_def AddTraceIDToContext_def)
  ultimately show ?thesis using True by (cases sid) simp_all
qed simp

lemma inner_request_result:
  assumes pr: "proxies (pl_ops P) (pl_chi P) ok wr" and ok: "ok w" and lk: "loggerKey cx \<noteq> None"
    and snd: "\<And>b. list_all sendable (as b)"
    and i: "inner_request P (listener_middleware public (prepareMiddleware nm prom t)) M as mf sx cx w r = (res, M')"
    and todo: "todo = as (handler_body sx r)"
  shows "Observability.serve (pl_ops P) (goroutine_actions P prom mf todo) w = (cr_w res, cr_panic res)"
    "M' = (if prom \<and> (\<forall>p. DoPanic p \<notin> set todo)
           then updateMetrics M (sent_status todo) (tq_Method (cq_req r)) (pl_pattern P) (pl_duration P) else M)"
    "map call_line (cr_logs res) = request_lines P public mf todo sx r (cr_w res)"
    "public \<Longrightarrow> pl_uuid_Parse P (header_get (Some (tq_Header (cq_req r))) (getIncomingHeaderForID sx)) = Some v \<Longrightarrow>
       list_all (call_traced v) (cr_logs res)"
proof -
  let ?acts = "\<lambda>b. passed_on prom (as b)" and ?open = "getResponsesWithOpenBodies (mf [])"
  define sid where "sid = pl_uuid_Parse P (header_get (Some (tq_Header (cq_req r))) (getIncomingHeaderForID sx))"
  have "\<exists>ls sx'.
      (if public then trace_request (pl_libs P) (pl_uuid_Parse P) (pl_uuid_New P) sx cx r else Ok ([], sx)) = Ok (ls, sx') \<and>
      handler_body sx' r = handler_body sx r \<and> logs_payload sx' = logs_payload sx \<and>
      map call_line ls = (if public \<and> sid = None then [(SInfo, no_request_id)] else []) \<and>
      (\<forall>v. public \<and> sid = Some v \<longrightarrow> GetTraceIDFromContext (pl_uuid_New P) sx' = v)"
    by (rule traced_part[OF lk sid_def])
  then obtain ls sx' where t: "(if public then trace_request (pl_libs P) (pl_uuid_Parse P) (pl_uuid_New P) sx cx r else Ok ([], sx)) = Ok (ls, sx')"
      "map call_line ls = (if public \<and> sid = None then [(SInfo, no_request_id)] else [])"
      "\<And>v. public \<Longrightarrow> sid = Some v \<Longrightarrow> GetTraceIDFromContext (pl_uuid_New P) sx' = v"
    and sx': "handler_body sx' r = handler_body sx r" "logs_payload sx' = logs_payload sx"
    by blast
  define core where "core = CoreRequestContextMiddleware (pl_libs P) (pl_chi P) (pl_quote P) (pl_uuid_New P) (pl_elapsed P)
    (acting (pl_ops P) ?acts mf) sx' cx w r"
  have c: "CoreRequestContextMiddleware (pl_libs P) (pl_chi P) (pl_quote P) (pl_uuid_New P) (pl_elapsed P)
      (measured P prom M as mf) sx' cx w r = core"
    unfolding core_def by (rule core_hands_over[OF lk], rule measured_acts[OF pr core_writer_ok[OF pr ok]], rule snd)
  have r: "res = core\<lparr>cr_logs := ls @ cr_logs core\<rparr>" and
    m: "M' = (if prom then fst (MonitorMetrics (pl_ops P) (Some (pl_pattern P)) M todo (tq_Method (cq_req r)) (tq_URL (cq_req r))
      (pl_duration P) (core_writer (pl_chi P) sx' r w)) else M)"
    using i t(1) c by (simp_all add: inner_request_def listener_has sx' todo Let_def cong: if_cong)
  have sa: "list_all sendable (?acts b)" for b by (rule passed_on_sendable[OF snd])
  note core = core_middleware_result[OF pr ok lk, where as = ?acts, OF sa, where L = "pl_libs P" and quote = "pl_quote P"
      and fresh = "pl_uuid_New P" and elapsed = "pl_elapsed P" and mf = mf and sx = sx' and r = r, folded core_def,
      unfolded sx' todo[symmetric] Let_def]
  show "M' = (if prom \<and> (\<forall>p. DoPanic p \<notin> set todo)
      then updateMetrics M (sent_status todo) (tq_Method (cq_req r)) (pl_pattern P) (pl_duration P) else M)"
    unfolding m accepting_writer.MonitorMetrics_passes_on[OF proxies_accept[OF pr] core_writer_ok[OF pr ok] snd[of "handler_body sx r"], folded todo]
    by simp
  show "Observability.serve (pl_ops P) (goroutine_actions P prom mf todo) w = (cr_w res, cr_panic res)"
    using core accepting_writer.serve_until_panic[OF proxies_accept[OF pr] ok passed_on_sendable[OF snd[of "handler_body sx r"], folded todo]]
    by (auto simp: goroutine_actions_def r open_error_def Let_def)
  show "map call_line (cr_logs res) = request_lines P public mf todo sx r (cr_w res)"
    using core t(2) by (simp add: r request_lines_def payload_lines_def open_error_def sid_def)
  show "list_all (call_traced v) (cr_logs res)"
    if "public" "pl_uuid_Parse P (header_get (Some (tq_Header (cq_req r))) (getIncomingHeaderForID sx)) = Some v"
    using core t(2) t(3)[of v] that by (simp add: r sid_def)
qed

text \<open>The response of a decided request.\<close>

lemma request_answer:
  fixes emb :: "timeoutWriter \<Rightarrow> 'w"
  assumes "proxies (pl_ops P) (pl_chi P) ok wr" and "ok (emb new_tw)" and "loggerKey cx \<noteq> None"
    and "\<And>b. list_all sendable (as b)"
    and "\<And>a t. perform (pl_ops P) a (emb t) = (case act a t of Ok t' \<Rightarrow> Ok (emb t') | Err e \<Rightarrow> Err e | Panic p \<Rightarrow> Panic p)"
    and "inner_request P (listener_middleware public (prepareMiddleware nm prom t)) M as mf sx cx (emb new_tw) r = (res, M')"
    and "todo = as (handler_body sx r)"
    and "treach (\<lambda>w. timeoutHandler kinder writer ctx_error w tcx) (goroutine_actions P prom mf todo) w s"
    and "ts_out s \<noteq> Waiting" and "rw_code w = None" and "\<And>e. writer (ctx_error e) = None"
  shows "(\<exists>w'. Recoverer (\<lambda>_. timeout_result s) w = (w', None) \<and>
      (case ts_out s of
         Delivered \<Rightarrow> getResponsesWithOpenBodies (mf []) = [] \<and> (\<forall>p. DoPanic p \<notin> set todo) \<and>
           rw_code w' = Some (if sent_status todo = 0 then 200 else sent_status todo) \<and> rw_body w' = rw_body w @ sent_body todo
       | TimedOut \<Rightarrow> rw_code w' = Some 500 \<and> rw_body w' = rw_body w @
           error_body \<lparr>HTTPCode = 500, Code = [], Description = timeout_text, extraFields = None\<rparr>
       | Repanicked p \<Rightarrow> cr_panic res = Some p \<and> rw_code w' = Some 500 \<and> rw_body w' = rw_body w @ internal_error_text @ [CHR 0x0A]
       | Waiting \<Rightarrow> False))"
proof -
  note inner = inner_request_result(1)[OF assms(1-4,6,7)]
  let ?g = "goroutine_actions P prom mf todo"
  have inv: "tinv (\<lambda>w. timeoutHandler kinder writer ctx_error w tcx) ?g w s" by (rule treach_inv[OF assms(8)])
  show ?thesis
  proof (cases "ts_out s")
    case Delivered
    then obtain tw where tw: "run ?g new_tw = Ok tw" "deliver w tw = Ok (ts_w s)" using inv by (auto simp: tinv_def)
    have np: "\<forall>p. DoPanic p \<notin> set ?g" using run_no_panic[OF tw(1)] by blast
    then have o: "getResponsesWithOpenBodies (mf []) = []" by (auto simp: goroutine_actions_def Let_def split: if_splits)
    then have g: "?g = passed_on prom todo" by (simp add: goroutine_actions_def)
    have "list_all sendable (passed_on prom todo)" using assms(4,7) by (simp add: passed_on_sendable)
    with np Delivered o delivered_response[OF tw(1)[unfolded g] _ tw(2) assms(10)] show ?thesis
      by (simp add: Recoverer_def timeout_result_def g)
  next
    case TimedOut
    then have "timeoutHandler kinder writer ctx_error w tcx = Ok (ts_w s)" using inv by (simp add: tinv_def)
    with TimedOut timed_out_response[of kinder writer ctx_error w tcx "ts_w s"] assms(10,11) show ?thesis
      by (simp add: Recoverer_def timeout_result_def)
  next
    case (Repanicked p)
    then have p: "run ?g new_tw = Panic p" "ts_w s = w" using inv by (auto simp: tinv_def)
    have "cr_panic res = Some p" using run_serve[OF assms(5) p(1)] inner by simp
    with Repanicked p(2) http_Error_500[of w internal_error_text] assms(10) show ?thesis
      by (auto simp: Recoverer_def timeout_result_def)
  qed (use assms(9) in simp)
qed


text \<open>A handler left alone can always be run to a decision.\<close>

lemma decision_reachable:
  "treach h as w s \<Longrightarrow> ts_g s = Running bs \<Longrightarrow> ts_out s = Waiting \<Longrightarrow> \<exists>s'. treach h as w s' \<and> ts_out s' \<notin> {Waiting, TimedOut}"
proof (induction bs arbitrary: s)
  case Nil
  let ?s1 = "s\<lparr>ts_g := Done\<rparr>"
  have r: "treach h as w ?s1" using treach.step[OF Nil.prems(1) tstep.close_done] Nil.prems(2) by blast
  obtain w' where "deliver (ts_w ?s1) (ts_tw ?s1) = Ok w'"
    using deliver_total treach_inv[OF Nil.prems(1)] by (fastforce simp: tinv_def)
  then have "tstep h ?s1 (?s1\<lparr>ts_out := Delivered, ts_w := w'\<rparr>)" using Nil.prems by (intro tstep.select_done) simp_all
  with r have "treach h as w (?s1\<lparr>ts_out := Delivered, ts_w := w'\<rparr>)" by (rule treach.step)
  then show ?case by (intro exI) auto
next
  case (Cons b bs)
  show ?case
  proof (cases "act b (ts_tw s)")
    case (Ok t)
    with Cons.IH[of "s\<lparr>ts_g := Running bs, ts_tw := t\<rparr>"] Cons.prems tstep.act_ok[of s b bs t h] show ?thesis
      by (auto intro: treach.step)
  next
    case (Panic q)
    let ?s1 = "s\<lparr>ts_g := Panicked q\<rparr>"
    have "treach h as w ?s1" using treach.step[OF Cons.prems(1) tstep.act_panic] Cons.prems Panic by blast
    moreover have "tstep h ?s1 (?s1\<lparr>ts_out := Repanicked q\<rparr>)" using Cons.prems by (intro tstep.select_panic) simp_all
    ultimately have "treach h as w (?s1\<lparr>ts_out := Repanicked q\<rparr>)" by (rule treach.step)
    then show ?thesis by (intro exI) auto
  qed (simp add: act_no_err)
qed

lemma decided: "\<exists>s. treach h as w s \<and> ts_out s \<notin> {Waiting, TimedOut}"
  by (rule decision_reachable[OF treach.start]) (simp_all add: tstart_def)

lemma timeout_reachable:
  assumes "h w = Ok w'"
  shows "\<exists>s. treach h as w s \<and> ts_out s = TimedOut"
proof -
  let ?s = "(tstart as w)\<lparr>ts_deadline := True\<rparr>"
  have "treach h as w ?s" by (rule treach.step[OF treach.start tstep.deadline])
  moreover have "tstep h ?s (?s\<lparr>ts_out := TimedOut, ts_w := w', ts_tw := (ts_tw ?s)\<lparr>tw_timedOut := True\<rparr>\<rparr>)"
    using assms by (intro tstep.select_timeout) (simp_all add: tstart_def)
  ultimately show ?thesis by (intro exI) (rule conjI, erule treach.step, assumption, simp)
qed

definition sample_pipeline :: "(string \<rightharpoonup> fval, string \<rightharpoonup> fval, rwriter) pipeline" where
  "sample_pipeline =
     \<lparr>pl_libs = map_libs, pl_chi = ref_chi, pl_ops = rw_ops, pl_quote = (\<lambda>s. s), pl_uuid_Parse = (\<lambda>_. None),
      pl_uuid_New = ''t'', pl_elapsed = 5, pl_pattern = ''/pets'', pl_duration = 3\<rparr>"

lemma sample_proxies: "proxies (pl_ops sample_pipeline) (pl_chi sample_pipeline) rw_ok is_wrapper"
  using ref_proxies by (simp add: sample_pipeline_def)

lemma sample_buffers:
  "perform (pl_ops sample_pipeline) a (TW t) = (case act a t of Ok t' \<Rightarrow> Ok (TW t') | Err e \<Rightarrow> Err e | Panic p \<Rightarrow> Panic p)"
  by (cases a) (auto simp: sample_pipeline_def rw_ops_def split: res.splits)


end
