(* ===== verification/AdminRequests.thy ===== *)
theory AdminRequests
  imports RequestPipeline
begin

text \<open>
  The meta-service endpoints of the admin listener (core/http.go): the status service with the metadata of the build
  (core/build_metadata.go) and its route (status/status.go), and the health server (health/health.go).  A request for
  the status of a service goes through the middleware of the admin listener.
\<close>

section \<open>Build metadata\<close>

text \<open>The arguments are the values the linker has given to the variables of the package.\<close>

definition buildMetadata :: "string \<Rightarrow> string \<Rightarrow> string \<Rightarrow> string \<Rightarrow> string \<Rightarrow> string \<Rightarrow> BuildMetadata" where
  "buildMetadata Name Version BuildID CommitSha BranchName TagName =
     \<lparr>bm_Name = Name, bm_Version = Version, bm_BuildID = BuildID, bm_CommitSha = CommitSha,
      bm_BranchName = BranchName, bm_TagName = TagName\<rparr>"

section \<open>The health server\<close>

text \<open>\<open>new_lib\<close> and \<open>register_lib\<close> are \<^verbatim>\<open>NewServer\<close> and \<^verbatim>\<open>GRPC.RegisterWith\<close> of pkg/health.\<close>

record 'h health_Server =
  embedded :: 'h

definition health_NewServer :: "('x + 'h) \<Rightarrow> 'x + 'h health_Server" where
  "health_NewServer new_lib = (case new_lib of Inl err \<Rightarrow> Inl err | Inr s \<Rightarrow> Inr \<lparr>embedded = s\<rparr>)"

definition health_RegisterServer :: "('h \<Rightarrow> 'g \<Rightarrow> 'g) \<Rightarrow> 'h health_Server \<Rightarrow> 'g \<Rightarrow> 'g" where
  "health_RegisterServer register_lib s server = register_lib (embedded s) server"

lemma health_server_refines:
  "health_NewServer new_lib = Inr s \<Longrightarrow> new_lib = Inr (embedded s) \<and> health_RegisterServer f s server = f (embedded s) server"
  by (auto simp: health_NewServer_def health_RegisterServer_def split: sum.splits)

section \<open>The status service\<close>

text \<open>
  The service of the admin listener, from the metadata of the build and the configurations of the library and of the
  enabled handlers, as the JSON values they are encoded to; and its route.
\<close>

definition statusService :: "BuildMetadata \<Rightarrow> goval \<Rightarrow> (string \<times> goval) list \<Rightarrow> status_Service" where
  "statusService bm libraryConfig enabledHandlers =
     \<lparr>ss_BuildMetadata = Some bm, ss_Config = libraryConfig, ss_Services = enabledHandlers\<rparr>"

definition status_WireRoutes ::
  "(string \<Rightarrow> string) \<Rightarrow> status_Service \<Rightarrow> (string \<times> string) \<rightharpoonup> (response_writer \<Rightarrow> (unit, response_writer) res)" where
  "status_WireRoutes indent s = [(''GET'', ''/'') \<mapsto> HandleGetStatus indent s]"

text \<open>The document it sends, if its parts can be encoded.\<close>

definition status_document :: "BuildMetadata \<Rightarrow> status_Service \<Rightarrow> string option" where
  "status_document bm s =
     json_struct [(''build_metadata'', metadata_json bm), (''config'', buildResponseConfig s), (''status'', json_encode (GStr ''online''))]"

lemma status_document_None:
  "status_document bm s = None \<longleftrightarrow>
     \<not> json_safe (ss_Config s) \<or> (\<exists>svc \<in> set (ss_Services s). \<not> json_safe (snd svc))"
proof -
  have "buildResponseConfig s = None \<longleftrightarrow> \<not> json_safe (ss_Config s) \<or> (\<exists>svc \<in> set (ss_Services s). \<not> json_safe (snd svc))"
    by (simp add: buildResponseConfig_def json_struct_None json_array_None json_encode_None image_iff
        eq_commute[of None] service_json_None)
  then show ?thesis unfolding status_document_def by (simp only: json_struct_None) (simp add: metadata_json_Some)
qed

text \<open>The handler by its actions on a writer.\<close>

definition status_handler :: "(string \<Rightarrow> string) \<Rightarrow> BuildMetadata \<Rightarrow> status_Service \<Rightarrow> action list" where
  "status_handler indent bm s =
     (case status_document bm s of
        None \<Rightarrow> [DoPanic ''json: unsupported type'']
      | Some t \<Rightarrow> [SetHeader ''Content-Type'' ''application/json;charset=UTF-8'', CallWrite (indent t @ [CHR 0x0A])])"

lemma status_handler_acts:
  assumes "ss_BuildMetadata s = Some bm" and "status_WireRoutes indent s (''GET'', ''/'') = Some h"
  shows "Observability.serve base_ops (status_handler indent bm s) w =
    (case h w of Ok w' \<Rightarrow> (w', None) | Panic p \<Rightarrow> (w, Some p) | Err e \<Rightarrow> (w, None))"
  using assms by (auto simp: status_WireRoutes_def HandleGetStatus_def status_handler_def status_document_def base_ops_def
      split: option.splits)



end
