(* ===== verification/WorkerLife.thy ===== *)
theory WorkerLife
  imports Downstreams
begin

text \<open>
  Temporal workers after their construction: the server around the generated service (core/temporal_serve.go), its
  starts and stops by several goroutines, and the temporal client a worker is constructed with
  (\<^verbatim>\<open>NewTemporalWorker\<close>, core/serve.go).

  The generated service is seen through the calls made to it; \<^verbatim>\<open>Run\<close> returns when the temporal library lets it.
\<close>

section \<open>The server of a worker\<close>

datatype spec_call = CallRegister | CallRun | CallStop | CallClose

record 'spec TemporalServer =
  Spec :: 'spec

definition TemporalServer_GetSpec :: "'spec TemporalServer \<Rightarrow> 'spec" where
  "TemporalServer_GetSpec t = Spec t"

text \<open>The calls of the two methods in their order; \<^verbatim>\<open>Start\<close> returns what \<^verbatim>\<open>Run\<close> returns, a stop always nil.\<close>

definition TemporalServer_Start :: "spec_call list" where
  "TemporalServer_Start = [CallRegister, CallRun]"

definition TemporalServer_Stop :: "spec_call list" where
  "TemporalServer_Stop = [CallStop, CallClose]"

definition TemporalServer_GracefulStop :: "spec_call list" where
  "TemporalServer_GracefulStop = TemporalServer_Stop"

text \<open>
  The methods of one server run by any number of goroutines: each has made the calls \<open>g_made\<close> and has the calls
  \<open>g_left\<close> before it; \<open>wl_calls\<close> are the calls to the service in their order, with the goroutine.
\<close>

record worker_goroutine =
  g_stops :: bool
  g_made :: "spec_call list"
  g_left :: "spec_call list"

record worker_life =
  wl_goroutines :: "worker_goroutine list"
  wl_calls :: "(nat \<times> spec_call) list"

definition new_worker_life :: worker_life where
  "new_worker_life = \<lparr>wl_goroutines = [], wl_calls = []\<rparr>"

inductive wstep :: "worker_life \<Rightarrow> worker_life \<Rightarrow> bool" where
  begin_start: "wstep l (l\<lparr>wl_goroutines := wl_goroutines l @ [\<lparr>g_stops = False, g_made = [], g_left = TemporalServer_Start\<rparr>]\<rparr>)"
| begin_stop: "meth \<in> {TemporalServer_Stop, TemporalServer_GracefulStop} \<Longrightarrow>
    wstep l (l\<lparr>wl_goroutines := wl_goroutines l @ [\<lparr>g_stops = True, g_made = [], g_left = meth\<rparr>]\<rparr>)"
| call: "i < length (wl_goroutines l) \<Longrightarrow> wl_goroutines l ! i = g \<Longrightarrow> g_left g = c # cs \<Longrightarrow>
    wstep l (l\<lparr>wl_goroutines := (wl_goroutines l)[i := g\<lparr>g_made := g_made g @ [c], g_left := cs\<rparr>],
               wl_calls := wl_calls l @ [(i, c)]\<rparr>)"

inductive wreach :: "worker_life \<Rightarrow> bool" where
  start: "wreach new_worker_life"
| step: "wreach l \<Longrightarrow> wstep l l' \<Longrightarrow> wreach l'"

inductive_cases wstepE: "wstep l l'"

section \<open>Order of the calls\<close>

definition calls_of :: "nat \<Rightarrow> (nat \<times> spec_call) list \<Rightarrow> spec_call list" where
  "calls_of i cs = map snd (filter (\<lambda>c. fst c = i) cs)"

lemma calls_of_append [simp]: "calls_of i (cs @ [(j, c)]) = calls_of i cs @ (if i = j then [c] else [])"
  by (simp add: calls_of_def)

definition winv :: "worker_life \<Rightarrow> bool" where
  "winv l \<longleftrightarrow>
     (\<forall>i < length (wl_goroutines l).
        (let g = wl_goroutines l ! i
         in calls_of i (wl_calls l) = g_made g \<and>
            g_made g @ g_left g = (if g_stops g then TemporalServer_Stop else TemporalServer_Start))) \<and>
     (\<forall>i. length (wl_goroutines l) \<le> i \<longrightarrow> calls_of i (wl_calls l) = [])"

lemma winv_step:
  assumes "winv l" and "wstep l l'"
  shows "winv l'"
  using assms(2,1)
  by (elim wstepE) (auto simp: winv_def nth_append nth_list_update Let_def TemporalServer_GracefulStop_def)

lemma winv_reach: "wreach l \<Longrightarrow> winv l"
proof (induction rule: wreach.induct)
  case start
  then show ?case by (simp add: winv_def new_worker_life_def calls_of_def)
next
  case (step l l')
  then show ?case by (blast intro: winv_step)
qed

lemma calls_of_split: "calls_of i (xs @ (i, c) # ys) = calls_of i xs @ c # calls_of i ys"
  by (simp add: calls_of_def)

lemma in_calls_of: "c \<in> set (calls_of i cs) \<longleftrightarrow> (i, c) \<in> set cs"
  by (force simp: calls_of_def)

lemma call_prefix:
  assumes "wreach l" and "wl_calls l = xs @ (i, c) # ys"
  shows "\<exists>left. (calls_of i xs @ c # calls_of i ys) @ left \<in> {TemporalServer_Stop, TemporalServer_Start}"
proof -
  have "calls_of i (wl_calls l) = calls_of i xs @ c # calls_of i ys" using assms(2) calls_of_split by simp
  moreover from this have "i < length (wl_goroutines l)"
    using winv_reach[OF assms(1)] by (cases "i < length (wl_goroutines l)") (auto simp: winv_def)
  then have "calls_of i (wl_calls l) @ g_left (wl_goroutines l ! i) \<in> {TemporalServer_Stop, TemporalServer_Start}"
    using winv_reach[OF assms(1)] by (auto simp: winv_def Let_def)
  ultimately show ?thesis by auto
qed

text \<open>A start that no stop keeps from running: the methods have no state of their own.\<close>

lemma start_runs:
  assumes "wreach l"
  shows "\<exists>l'. wreach l' \<and> wl_calls l' = wl_calls l @ [(length (wl_goroutines l), CallRegister), (length (wl_goroutines l), CallRun)]"
proof -
  let ?n = "length (wl_goroutines l)"
  let ?g = "\<lparr>g_stops = False, g_made = [], g_left = TemporalServer_Start\<rparr>"
  let ?l1 = "l\<lparr>wl_goroutines := wl_goroutines l @ [?g]\<rparr>"
  let ?g2 = "?g\<lparr>g_made := [CallRegister], g_left := [CallRun]\<rparr>"
  let ?l2 = "?l1\<lparr>wl_goroutines := (wl_goroutines ?l1)[?n := ?g2], wl_calls := wl_calls l @ [(?n, CallRegister)]\<rparr>"
  have 1: "wreach ?l1" using wreach.step[OF assms wstep.begin_start] .
  have "wstep ?l1 ?l2"
    using wstep.call[of ?n ?l1 ?g CallRegister "[CallRun]"] by (simp add: TemporalServer_Start_def)
  with 1 have 2: "wreach ?l2" by (rule wreach.step)
  have "wstep ?l2 (?l2\<lparr>wl_goroutines := (wl_goroutines ?l2)[?n := ?g2\<lparr>g_made := [CallRegister, CallRun], g_left := []\<rparr>],
      wl_calls := wl_calls ?l2 @ [(?n, CallRun)]\<rparr>)"
    using wstep.call[of ?n ?l2 ?g2 CallRun "[]"] by simp
  from wreach.step[OF 2 this] show ?thesis by (intro exI conjI) (assumption, simp)
qed

text \<open>
  In every interleaving of starts and stops of a worker, a goroutine closes the client only after it has itself
  stopped the worker, and runs the worker only after it has registered the handlers; a stop that has returned has
  done both.  Nothing is remembered of a stop: also after the client has been closed a start registers and runs.
\<close>

theorem worker_calls_in_order:
  assumes "wreach l"
  shows "(\<forall>xs i ys. wl_calls l = xs @ (i, CallClose) # ys \<longrightarrow> (i, CallStop) \<in> set xs) \<and>
    (\<forall>xs i ys. wl_calls l = xs @ (i, CallRun) # ys \<longrightarrow> (i, CallRegister) \<in> set xs) \<and>
    (\<forall>i < length (wl_goroutines l). g_stops (wl_goroutines l ! i) \<and> g_left (wl_goroutines l ! i) = [] \<longrightarrow>
       (i, CallStop) \<in> set (wl_calls l) \<and> (i, CallClose) \<in> set (wl_calls l)) \<and>
    (\<exists>l'. wreach l' \<and> wl_calls l' = wl_calls l @ [(length (wl_goroutines l), CallRegister), (length (wl_goroutines l), CallRun)])"
proof (intro conjI allI impI start_runs[OF assms])
  fix xs i ys assume "wl_calls l = xs @ (i, CallClose) # ys"
  from call_prefix[OF assms this] show "(i, CallStop) \<in> set xs"
    by (auto simp: TemporalServer_Stop_def TemporalServer_Start_def append_eq_Cons_conv Cons_eq_append_conv in_calls_of[symmetric])
next
  fix xs i ys assume "wl_calls l = xs @ (i, CallRun) # ys"
  from call_prefix[OF assms this] show "(i, CallRegister) \<in> set xs"
    by (auto simp: TemporalServer_Stop_def TemporalServer_Start_def append_eq_Cons_conv Cons_eq_append_conv in_calls_of[symmetric])
next
  fix i assume "i < length (wl_goroutines l)" "g_stops (wl_goroutines l ! i) \<and> g_left (wl_goroutines l ! i) = []"
  then have "calls_of i (wl_calls l) = TemporalServer_Stop"
    using winv_reach[OF assms] by (auto simp: winv_def Let_def)
  then show "(i, CallStop) \<in> set (wl_calls l)" "(i, CallClose) \<in> set (wl_calls l)"
    by (simp_all add: in_calls_of[symmetric] TemporalServer_Stop_def)
qed

definition stopped_worker :: worker_life where
  "stopped_worker = \<lparr>wl_goroutines = [\<lparr>g_stops = True, g_made = TemporalServer_Stop, g_left = []\<rparr>],
     wl_calls = [(0, CallStop), (0, CallClose)]\<rparr>"

lemma stopped_worker_reachable: "wreach stopped_worker"
proof -
  let ?g = "\<lparr>g_stops = True, g_made = [], g_left = TemporalServer_Stop\<rparr>"
  let ?l1 = "new_worker_life\<lparr>wl_goroutines := [?g]\<rparr>"
  let ?g2 = "?g\<lparr>g_made := [CallStop], g_left := [CallClose]\<rparr>"
  let ?l2 = "\<lparr>wl_goroutines = [?g2], wl_calls = [(0, CallStop)]\<rparr>"
  have "wstep new_worker_life ?l1" using wstep.begin_stop[of TemporalServer_Stop new_worker_life] by (simp add: new_worker_life_def)
  moreover have "wstep ?l1 ?l2"
    using wstep.call[of 0 ?l1 ?g CallStop "[CallClose]"] by (simp add: TemporalServer_Stop_def new_worker_life_def)
  moreover have "wstep ?l2 stopped_worker"
    using wstep.call[of 0 ?l2 ?g2 CallClose "[]"] by (simp add: TemporalServer_Stop_def stopped_worker_def)
  ultimately show ?thesis by (blast intro: wreach.start wreach.step)
qed

text \<open>A worker that has been stopped is started.\<close>

theorem worker_calls_in_order_witness:
  "\<exists>l'. wreach l' \<and> wl_calls l' = [(0, CallStop), (0, CallClose), (1, CallRegister), (1, CallRun)]"
  using worker_calls_in_order[OF stopped_worker_reachable] by (simp add: stopped_worker_def)

section \<open>The client of a worker\<close>

text \<open>\<^verbatim>\<open>NewTemporalWorker\<close> with the clients it has opened, also on the paths that end in an error.\<close>

definition worker_client ::
  "('d, 'app, 'svc, 'key, 'c, 'x, 'base, 'cl, 'w, 'wo, 'ds, 'spec) temporal_env \<Rightarrow> 'd bctx \<Rightarrow> string \<Rightarrow> 'd \<Rightarrow>
     ('x booterr, 'd bctx \<times> ('d, 'key, 'c, 'x, 'base, 'cl, 'w, 'wo) AppHooks \<times> 'svc \<times> 'cl) res" where
  "worker_client T cx0 taskQueueName downstreamConfig =
     (let (cx1, externalLogger) = getExternalLogger cx0;
          cx2 = (if externalLogger = None then PutLogger cx1 (BootstrapLogger, None) else cx1)
      in and_then (createDefaultConfig (te_ToStringE T) (te_open_config T) (te_Args T) (b_yaml cx0) downstreamConfig)
           (\<lambda>(conf0, appConfig).
         and_then (callback (te_createService T (with_config cx2 conf0) appConfig)) (\<lambda>(serviceIntf, hooks).
         and_then (validateConfig (te_struct_check T) (map_option Hooks.truncate hooks) conf0) (\<lambda>conf.
         and_then (deref hooks) (\<lambda>h.
         and_then (make_temporal_client (te_Dial T) h taskQueueName
             \<lparr>HostPort = temporal_HostPort (up_Temporal (Upstream conf)),
              Namespace = temporal_Namespace (up_Temporal (Upstream conf)), Identity = []\<rparr>) (\<lambda>temporalClient.
           Ok (with_config cx2 conf, h, serviceIntf, temporalClient)))))))"

definition worker_of ::
  "('d, 'app, 'svc, 'key, 'c, 'x, 'base, 'cl, 'w, 'wo, 'ds, 'spec) temporal_env \<Rightarrow> string \<Rightarrow>
     'd bctx \<Rightarrow> ('d, 'key, 'c, 'x, 'base, 'cl, 'w, 'wo) AppHooks \<Rightarrow> 'svc \<Rightarrow> 'cl \<Rightarrow> ('x booterr, 'spec TemporalServer) res" where
  "worker_of T taskQueueName cx h serviceIntf temporalClient =
     and_then (callback (buildDownstreamsClients T cx h)) (\<lambda>downstreamClients.
     and_then (run_validator (ExperimentalValidateTemporalWorkerOptions h) (worker_options T cx)) (\<lambda>workerOptions.
       (let buildWorker = (case ExperimentalTemporalWorkerBuilder h of Some f \<Rightarrow> f | None \<Rightarrow> worker_New T)
        in Ok \<lparr>Spec = buildServiceHandler T temporalClient
             (buildWorker temporalClient taskQueueName workerOptions) serviceIntf downstreamClients\<rparr>)))"

definition NewTemporalWorker_clients ::
  "('d, 'app, 'svc, 'key, 'c, 'x, 'base, 'cl, 'w, 'wo, 'ds, 'spec) temporal_env \<Rightarrow> 'd bctx \<Rightarrow> string \<Rightarrow> 'd \<Rightarrow>
     'cl list \<times> ('x booterr, 'spec TemporalServer) res" where
  "NewTemporalWorker_clients T cx taskQueueName downstreamConfig =
     (case worker_client T cx taskQueueName downstreamConfig of
        Ok (cx', h, serviceIntf, temporalClient) \<Rightarrow>
          ([temporalClient], worker_of T taskQueueName cx' h serviceIntf temporalClient)
      | Err e \<Rightarrow> ([], Err e)
      | Panic p \<Rightarrow> ([], Panic p))"

lemma worker_steps:
  "and_then (worker_client T cx tq ds) (\<lambda>(cx', h, svc, cl). worker_of T tq cx' h svc cl) =
     and_then (NewTemporalWorker T cx tq ds) (\<lambda>spec. Ok \<lparr>Spec = spec\<rparr>)"
  by (simp add: worker_client_def worker_of_def NewTemporalWorker_def and_then_assoc Let_def case_prod_beta)



end
