(* ===== verification/SmallParts.thy ===== *)
theory SmallParts
  imports GoHttp
begin

text \<open>
  Smaller parts: reading a YAML file into a validated structure (common/files.go), regular expressions with a
  second engine to fall back on (common/regex.go), the mock response writer (restlib/mock.go), and the mocked
  workflows and clients of the temporal tester (testutil/temporal_tester: mock_client.go, mock_worker.go,
  tester.go).

  The file system, the YAML decoder, both regular expression engines and the workflow test environment are
  arguments.
\<close>

section \<open>Configuration files\<close>

definition FindConfigFilename :: "(string \<Rightarrow> string \<Rightarrow> string) \<Rightarrow> (string \<Rightarrow> bool) \<Rightarrow> string \<Rightarrow> string \<Rightarrow> string" where
  "FindConfigFilename filepath_Join stat_ok cfgDir pre =
     (case filter stat_ok (map (\<lambda>ext. filepath_Join cfgDir (pre @ ext)) [''.json'', ''.yaml'']) of
        [] \<Rightarrow> [] | filename # _ \<Rightarrow> filename)"

datatype 'x fileerr = IoErr 'x | FileErr string

definition loadAndValidateFromYAML ::
  "('x \<Rightarrow> string) \<Rightarrow> (string \<Rightarrow> 'x + 'out) \<Rightarrow> ('out \<Rightarrow> 'x option) \<Rightarrow> string \<Rightarrow> (string, 'out) res" where
  "loadAndValidateFromYAML text_of UnmarshalStrict validate b =
     (case UnmarshalStrict b of
        Inl x \<Rightarrow> Err (''failed to parse: '' @ text_of x)
      | Inr out \<Rightarrow> (case validate out of Some x \<Rightarrow> Err (''failed to validate: '' @ text_of x) | None \<Rightarrow> Ok out))"

definition LoadAndValidateFromYAMLFileName ::
  "('x \<Rightarrow> string) \<Rightarrow> (string \<Rightarrow> 'x + string) \<Rightarrow> (string \<Rightarrow> 'x + 'out) \<Rightarrow> ('out \<Rightarrow> 'x option) \<Rightarrow> string \<Rightarrow>
     ('x fileerr, 'out) res" where
  "LoadAndValidateFromYAMLFileName text_of ReadFile UnmarshalStrict validate filename =
     (case ReadFile filename of
        Inl x \<Rightarrow> Err (IoErr x)
      | Inr cfgBytes \<Rightarrow>
          map_err (\<lambda>e. FileErr (''error encountered with YAML file '' @ filename @ '': '' @ e))
            (loadAndValidateFromYAML text_of UnmarshalStrict validate cfgBytes))"

section \<open>Regular expressions\<close>

text \<open>
  \<open>std\<close> compiles with the standard library; \<open>re2\<close> with the second engine, whose match may time out
  (\<open>None\<close>).
\<close>

datatype ('r, 's) RegexWithFallBack = StdLib 'r | Fallback 's

definition RegexWithFallbackMustCompile ::
  "(string \<Rightarrow> 'r option) \<Rightarrow> (string \<Rightarrow> 's option) \<Rightarrow> string \<Rightarrow> (unit, ('r, 's) RegexWithFallBack) res" where
  "RegexWithFallbackMustCompile std re2 str =
     (case std str of
        Some r \<Rightarrow> Ok (StdLib r)
      | None \<Rightarrow> (case re2 str of Some s \<Rightarrow> Ok (Fallback s) | None \<Rightarrow> Panic (''regexp2: Compile('' @ str @ '')'')))"

fun RegexWithFallBack_MatchString ::
  "('r \<Rightarrow> string \<Rightarrow> bool) \<Rightarrow> ('s \<Rightarrow> string \<Rightarrow> bool option) \<Rightarrow> ('r, 's) RegexWithFallBack \<Rightarrow> string \<Rightarrow> (unit, bool) res" where
  "RegexWithFallBack_MatchString std_match re2_match (StdLib r) s = Ok (std_match r s)"
| "RegexWithFallBack_MatchString std_match re2_match (Fallback p) s =
     (case re2_match p s of Some b \<Rightarrow> Ok b | None \<Rightarrow> Panic ''regexWithFallBack: match timeout'')"

text \<open>
  A compiled expression never panics for a pattern the standard library understands, and then agrees with it;
  compilation panics exactly on patterns neither engine understands.
\<close>

theorem regex_fallback:
  "(panics (RegexWithFallbackMustCompile std re2 str) \<longleftrightarrow> std str = None \<and> re2 str = None) \<and>
   (std str = Some r \<longrightarrow> RegexWithFallbackMustCompile std re2 str = Ok (StdLib r) \<and>
      RegexWithFallBack_MatchString std_match re2_match (StdLib r) s = Ok (std_match r s))"
  by (auto simp: RegexWithFallbackMustCompile_def split: option.splits)

theorem regex_fallback_witness:
  "RegexWithFallbackMustCompile (\<lambda>p. if p = ''a'' then Some p else None) (\<lambda>_. None :: unit option) ''a'' = Ok (StdLib ''a'')"
  using regex_fallback[of "\<lambda>p. if p = ''a'' then Some p else None" "\<lambda>_. None :: unit option" "''a''" "''a''"
      "\<lambda>r s. r = s" "\<lambda>_ _. None" "[]"] by simp

section \<open>The mock response writer\<close>

record mock_writer =
  LastBody :: string
  LastStatus :: int
  mw_header :: "header option"
  mw_err :: "string option"

definition mock_ResponseWriter :: mock_writer where
  "mock_ResponseWriter = \<lparr>LastBody = [], LastStatus = 0, mw_header = None, mw_err = None\<rparr>"

definition mock_Header :: "mock_writer \<Rightarrow> header \<times> mock_writer" where
  "mock_Header m = (case mw_header m of Some h \<Rightarrow> (h, m) | None \<Rightarrow> ([], m\<lparr>mw_header := Some []\<rparr>))"

definition mock_WriteHeader :: "mock_writer \<Rightarrow> int \<Rightarrow> mock_writer" where
  "mock_WriteHeader m status = m\<lparr>LastStatus := status\<rparr>"

definition mock_Write :: "mock_writer \<Rightarrow> string \<Rightarrow> (nat \<times> string option) \<times> mock_writer" where
  "mock_Write m b = ((length b, mw_err m), m\<lparr>LastBody := b\<rparr>)"

section \<open>Mocked workflows\<close>

text \<open>
  \<open>'v\<close> is the type of arguments, \<open>'r\<close> that of responses.  \<open>requests = None\<close> is the nil slice: what
  \<^verbatim>\<open>ExpectRequest()\<close> without arguments stores.
\<close>

record ('v, 'r, 'o) MockBase =
  mb_requests :: "'v list option"
  mb_opt :: "'o option"
  mb_mocked :: bool
  mb_expecting :: bool
  mockResp :: 'r
  mockErr :: "string option"

definition ExpectRequest :: "'v list \<Rightarrow> ('v, 'r, 'o) MockBase \<Rightarrow> ('v, 'r, 'o) MockBase" where
  "ExpectRequest req m = m\<lparr>mb_requests := (if req = [] then None else Some req), mb_expecting := True\<rparr>"

definition ExpectOptions :: "'o \<Rightarrow> ('v, 'r, 'o) MockBase \<Rightarrow> ('v, 'r, 'o) MockBase" where
  "ExpectOptions opt m = m\<lparr>mb_opt := Some opt, mb_expecting := True\<rparr>"

definition MockResponse :: "'r \<Rightarrow> string option \<Rightarrow> ('v, 'r, 'o) MockBase \<Rightarrow> ('v, 'r, 'o) MockBase" where
  "MockResponse resp err m = m\<lparr>mockResp := resp, mockErr := err, mb_mocked := True\<rparr>"

definition MockErrorOnlyResponse :: "string option \<Rightarrow> ('v, 'r, 'o) MockBase \<Rightarrow> ('v, 'r, 'o) MockBase" where
  "MockErrorOnlyResponse err m = m\<lparr>mockErr := err, mb_mocked := True\<rparr>"

datatype check = Passed | FailNow | CheckPanic string

definition CheckExpectations :: "('v, 'r, 'o) MockBase \<Rightarrow> 'v list \<Rightarrow> check" where
  "CheckExpectations m actual =
     (case mb_requests m of
        None \<Rightarrow> Passed
      | Some req \<Rightarrow>
          if \<not> mb_expecting m then Passed
          else if length actual \<noteq> length req then CheckPanic ''actual and expected requests are of different length''
          else if list_all (\<lambda>(e, a). e = a) (zip req actual) then Passed else FailNow)"

definition mockWithResponse :: "('v, 'r, 'o) MockBase \<Rightarrow> 'v list \<Rightarrow> (check, 'r \<times> string option) res" where
  "mockWithResponse m a = (case CheckExpectations m a of Passed \<Rightarrow> Ok (mockResp m, mockErr m) | c \<Rightarrow> Err c)"

lemma zip_all_eq: "length xs = length ys \<Longrightarrow> list_all (\<lambda>(e, a). e = a) (zip xs ys) \<longleftrightarrow> xs = ys"
  by (induction xs ys rule: list_induct2) auto

text \<open>
  A mocked workflow with expected arguments answers exactly on those arguments, with the response it was
  given; but expecting no arguments, or only options, checks nothing.
\<close>

theorem mock_answers_expected:
  "(req \<noteq> [] \<longrightarrow> (mockWithResponse (ExpectRequest req (MockResponse r e m)) a = Ok (r, e) \<longleftrightarrow> a = req)) \<and>
   mockWithResponse (ExpectRequest [] (MockResponse r e m)) a = Ok (r, e) \<and>
   (mb_requests m = None \<longrightarrow> mockWithResponse (ExpectOptions opt (MockResponse r e m)) a = Ok (r, e))"
  by (auto simp: mockWithResponse_def CheckExpectations_def ExpectRequest_def ExpectOptions_def MockResponse_def
      zip_all_eq split: check.splits if_splits)

definition blank_mock :: "(nat, string, unit) MockBase" where
  "blank_mock = \<lparr>mb_requests = None, mb_opt = None, mb_mocked = False, mb_expecting = False, mockResp = [], mockErr = None\<rparr>"

theorem mock_answers_expected_witness:
  "mockWithResponse (ExpectRequest [1] (MockResponse ''r'' None blank_mock)) [2] \<noteq> Ok (''r'', None)"
  using mock_answers_expected[of "[1]" "''r''" None blank_mock "[2]"] by simp

section \<open>Mock clients and workers\<close>

text \<open>
  The environments a client builder knows, by name: of mocks with the same name the last one stays.  An
  environment is its registered workflows.
\<close>

definition MockClientsBuilder ::
  "(string \<Rightarrow> string) \<Rightarrow> (string \<times> 'wf list) list \<Rightarrow> string \<Rightarrow> (unit, 'wf list) res" where
  "MockClientsBuilder quote mocks s =
     (let envs = fold (\<lambda>(name, wfs) m. m(name \<mapsto> wfs)) mocks Map.empty
      in case envs s of
           None \<Rightarrow> Panic (''mock environment for '' @ quote s @ '' does not exist'')
         | Some env \<Rightarrow> Ok env)"

datatype 'env temporal_client = MockClient 'env | OtherClient

definition MockWorkerBuilder ::
  "('wo \<Rightarrow> 'env \<Rightarrow> 'env) \<Rightarrow> 'env temporal_client \<Rightarrow> 'wo \<Rightarrow> (unit, 'env temporal_client) res" where
  "MockWorkerBuilder SetWorkerOptions cl options =
     (case cl of
        MockClient env \<Rightarrow> Ok (MockClient (SetWorkerOptions options env))
      | OtherClient \<Rightarrow> Panic ''MockWorker needs MockClient'')"

text \<open>\<open>fresh\<close> is a new UUID; a workflow without an id gets it, so that its result can be found.\<close>

definition MockClient_ExecuteWorkflow ::
  "(string \<Rightarrow> 'env \<Rightarrow> 'env) \<Rightarrow> ('wf \<Rightarrow> 'v list \<Rightarrow> 'env \<Rightarrow> 'env) \<Rightarrow> string \<Rightarrow> 'env \<Rightarrow> string \<Rightarrow> 'wf \<Rightarrow> 'v list \<Rightarrow>
     'env \<times> string" where
  "MockClient_ExecuteWorkflow SetStartOptions execute fresh env workflowID w args =
     (let wid = (if workflowID = [] then fresh else workflowID)
      in (execute w args (SetStartOptions wid env), wid))"

end
