(* ===== verification/TemporalDoubles.thy ===== *)
theory TemporalDoubles
  imports SmallParts Downstreams
begin

text \<open>
  The test doubles of temporal clients, runs and workers (testutil/temporal_tester) and the typed results of runs,
  futures and test activities (core/temporal.go).

  The test environment of the temporal SDK is an argument (\<open>env_lib\<close>).  Environments are mutable objects in a
  store; a client, and every run it hands out, holds the address of one.  A setter of the SDK returns its receiver.
\<close>

section \<open>Typed results\<close>

text \<open>
  The SDK decodes a result into a pointer: the error, if any, and what the pointed-to variable then holds; it holds its
  zero value before.
\<close>

type_synonym ('x, 't) decoded = "'t \<Rightarrow> 'x option \<times> 't"

definition Run_Get :: "'t \<Rightarrow> ('x, 't) decoded \<Rightarrow> 't \<times> 'x option" where
  "Run_Get zero get = (let (err, t) = get zero in (t, err))"

definition Run_GetWithOptions :: "'t \<Rightarrow> ('o \<Rightarrow> ('x, 't) decoded) \<Rightarrow> 'o \<Rightarrow> 't \<times> 'x option" where
  "Run_GetWithOptions zero get options = (let (err, t) = get options zero in (t, err))"

definition Future_Get :: "'t \<Rightarrow> ('x, 't) decoded \<Rightarrow> 't \<times> 'x option" where
  "Future_Get zero get = (let (err, t) = get zero in (t, err))"

definition TestFuture_Get :: "'t \<Rightarrow> ('x, 't) decoded \<Rightarrow> 't \<times> 'x option" where
  "TestFuture_Get zero get = (let (err, v) = get zero in (v, err))"

section \<open>Mocked workflows and activities\<close>

text \<open>The four builders differ in the type of the context only, and in whether the response is returned.\<close>

definition mockWithoutResponse :: "('v, 'r, 'o) MockBase \<Rightarrow> 'v list \<Rightarrow> (SmallParts.check, string option) res" where
  "mockWithoutResponse m a = (case CheckExpectations m a of Passed \<Rightarrow> Ok (mockErr m) | c \<Rightarrow> Err c)"

definition BuildMockWorkflow :: "('v, 'r, 'o) MockBase \<Rightarrow> 'wctx \<Rightarrow> 'v list \<Rightarrow> (SmallParts.check, 'r \<times> string option) res" where
  "BuildMockWorkflow m cx = mockWithResponse m"

definition BuildMockWorkflowWithoutReturn :: "('v, 'r, 'o) MockBase \<Rightarrow> 'wctx \<Rightarrow> 'v list \<Rightarrow> (SmallParts.check, string option) res" where
  "BuildMockWorkflowWithoutReturn m cx = mockWithoutResponse m"

definition BuildMockActivity :: "('v, 'r, 'o) MockBase \<Rightarrow> 'cx \<Rightarrow> 'v list \<Rightarrow> (SmallParts.check, 'r \<times> string option) res" where
  "BuildMockActivity m cx = mockWithResponse m"

definition BuildMockActivityWithoutReturn :: "('v, 'r, 'o) MockBase \<Rightarrow> 'cx \<Rightarrow> 'v list \<Rightarrow> (SmallParts.check, string option) res" where
  "BuildMockActivityWithoutReturn m cx = mockWithoutResponse m"

definition NewMockWorkflowBase :: "'r \<Rightarrow> ('v, 'r, 'o) MockBase" where
  "NewMockWorkflowBase zero =
     \<lparr>mb_requests = None, mb_opt = None, mb_mocked = False, mb_expecting = False, mockResp = zero, mockErr = None\<rparr>"

section \<open>The mock client\<close>

record ('env, 'wf, 'v, 'wo, 'x, 't) env_lib =
  te_New :: 'env
  te_RegisterWorkflow :: "'wf \<Rightarrow> 'env \<Rightarrow> 'env"
  te_RegisterWorkflowWithOptions :: "'wf \<Rightarrow> string \<Rightarrow> 'env \<Rightarrow> 'env"
  te_RegisterActivity :: "'wf \<Rightarrow> 'env \<Rightarrow> 'env"
  te_RegisterActivityWithOptions :: "'wf \<Rightarrow> string \<Rightarrow> 'env \<Rightarrow> 'env"
  te_SetWorkerOptions :: "'wo \<Rightarrow> 'env \<Rightarrow> 'env"
  te_SetStartWorkflowOptions :: "string \<Rightarrow> 'env \<Rightarrow> 'env"
  te_ExecuteWorkflow :: "'wf \<Rightarrow> 'v list \<Rightarrow> 'env \<Rightarrow> 'env"
  te_GetWorkflowResult :: "'env \<Rightarrow> ('x, 't) decoded"
  te_SignalWorkflowByID :: "string \<Rightarrow> string \<Rightarrow> 'v \<Rightarrow> 'env \<Rightarrow> 'x option \<times> 'env"
  te_CancelWorkflow :: "'env \<Rightarrow> 'env"
  te_QueryWorkflowByID :: "string \<Rightarrow> string \<Rightarrow> 'v list \<Rightarrow> 'env \<Rightarrow> ('x + 'v) \<times> 'env"

type_synonym 'env envs = "'env list"

record mock_client =
  mc_Env :: addr

record MockWorkflowRun =
  mr_Env :: addr
  mr_ID :: string

definition NewEnvWithWorkflows ::
  "('env, 'wf, 'v, 'wo, 'x, 't) env_lib \<Rightarrow> ('wf \<times> string) list \<Rightarrow> 'env envs \<Rightarrow> addr \<times> 'env envs" where
  "NewEnvWithWorkflows S wfs st =
     (length st, st @ [fold (\<lambda>(wf, opt). te_RegisterWorkflowWithOptions S wf opt) wfs (te_New S)])"

definition NewTemporalMockClient :: "addr \<Rightarrow> mock_client" where
  "NewTemporalMockClient env = \<lparr>mc_Env = env\<rparr>"

definition EmptyClientsBuilder ::
  "('env, 'wf, 'v, 'wo, 'x, 't) env_lib \<Rightarrow> 'env envs \<Rightarrow> mock_client \<times> 'env envs" where
  "EmptyClientsBuilder S st = (NewTemporalMockClient (length st), st @ [te_New S])"

definition MockWorkflowRun_GetID :: "MockWorkflowRun \<Rightarrow> string" where
  "MockWorkflowRun_GetID r = mr_ID r"

definition MockWorkflowRun_GetRunID :: "MockWorkflowRun \<Rightarrow> string" where
  "MockWorkflowRun_GetRunID r = []"

definition MockWorkflowRun_Get ::
  "('env, 'wf, 'v, 'wo, 'x, 't) env_lib \<Rightarrow> 'env envs \<Rightarrow> MockWorkflowRun \<Rightarrow> ('x, 't) decoded" where
  "MockWorkflowRun_Get S st r = te_GetWorkflowResult S (st ! mr_Env r)"

definition MockWorkflowRun_GetWithOptions ::
  "('env, 'wf, 'v, 'wo, 'x, 't) env_lib \<Rightarrow> 'env envs \<Rightarrow> MockWorkflowRun \<Rightarrow> 'o \<Rightarrow> ('x, 't) decoded" where
  "MockWorkflowRun_GetWithOptions S st r options = te_GetWorkflowResult S (st ! mr_Env r)"

text \<open>The methods of a temporal client, with the arguments the mock client looks at.\<close>

datatype ('wf, 'v) client_call =
  ExecuteWorkflowCall string 'wf "'v list"
| GetWorkflow string string
| SignalWorkflow string string string 'v
| SignalWithStartWorkflow string string 'v 'wf
| CancelWorkflow string string
| TerminateWorkflow string string string
| GetWorkflowHistory string string
| CompleteActivity | CompleteActivityByID | RecordActivityHeartbeat | RecordActivityHeartbeatByID
| ListClosedWorkflow | ListOpenWorkflow | ListWorkflow | ListArchivedWorkflow | ScanWorkflow | CountWorkflow
| GetSearchAttributes
| QueryWorkflow string string string "'v list"
| QueryWorkflowWithOptions | DescribeWorkflowExecution | DescribeTaskQueue | ResetWorkflowExecution
| UpdateWorkerBuildIdCompatibility | GetWorkerBuildIdCompatibility | GetWorkflowUpdateHandle | CheckHealth
| UpdateWorkflow | UpdateWorkflowWithOptions | WorkflowService | OperatorService | ScheduleClient | CloseClient
| GetWorkerTaskReachability

text \<open>What a method returns: a run, an error or none, a value or an error, or nil for every result.\<close>

datatype ('x, 'v) answer = ARun MockWorkflowRun | AErr "'x option" | AValue "'x + 'v" | ANil

fun MockClient_call ::
  "('env, 'wf, 'v, 'wo, 'x, 't) env_lib \<Rightarrow> string \<Rightarrow> mock_client \<Rightarrow> ('wf, 'v) client_call \<Rightarrow> 'env envs \<Rightarrow>
     ('x, 'v) answer \<times> 'env envs" where
  "MockClient_call S fresh m (ExecuteWorkflowCall ID w args) st =
     (let (env, wid) = MockClient_ExecuteWorkflow (te_SetStartWorkflowOptions S) (te_ExecuteWorkflow S) fresh
            (st ! mc_Env m) ID w args
      in (ARun \<lparr>mr_Env = mc_Env m, mr_ID = wid\<rparr>, st[mc_Env m := env]))"
| "MockClient_call S fresh m (GetWorkflow workflowID runID) st = (ANil, st)"
| "MockClient_call S fresh m (SignalWorkflow workflowID runID signalName arg) st =
     (let (err, env) = te_SignalWorkflowByID S workflowID signalName arg (st ! mc_Env m) in (AErr err, st[mc_Env m := env]))"
| "MockClient_call S fresh m (SignalWithStartWorkflow workflowID signalName signalArg w) st = (ANil, st)"
| "MockClient_call S fresh m (CancelWorkflow workflowID runID) st =
     (AErr None, st[mc_Env m := te_CancelWorkflow S (st ! mc_Env m)])"
| "MockClient_call S fresh m (TerminateWorkflow workflowID runID reason) st = (ANil, st)"
| "MockClient_call S fresh m (GetWorkflowHistory workflowID runID) st = (ANil, st)"
| "MockClient_call S fresh m CompleteActivity st = (ANil, st)"
| "MockClient_call S fresh m CompleteActivityByID st = (ANil, st)"
| "MockClient_call S fresh m RecordActivityHeartbeat st = (ANil, st)"
| "MockClient_call S fresh m RecordActivityHeartbeatByID st = (ANil, st)"
| "MockClient_call S fresh m ListClosedWorkflow st = (ANil, st)"
| "MockClient_call S fresh m ListOpenWorkflow st = (ANil, st)"
| "MockClient_call S fresh m ListWorkflow st = (ANil, st)"
| "MockClient_call S fresh m ListArchivedWorkflow st = (ANil, st)"
| "MockClient_call S fresh m ScanWorkflow st = (ANil, st)"
| "MockClient_call S fresh m CountWorkflow st = (ANil, st)"
| "MockClient_call S fresh m GetSearchAttributes st = (ANil, st)"
| "MockClient_call S fresh m (QueryWorkflow workflowID runID queryType args) st =
     (let (res, env) = te_QueryWorkflowByID S workflowID queryType args (st ! mc_Env m) in (AValue res, st[mc_Env m := env]))"
| "MockClient_call S fresh m QueryWorkflowWithOptions st = (ANil, st)"
| "MockClient_call S fresh m DescribeWorkflowExecution st = (ANil, st)"
| "MockClient_call S fresh m DescribeTaskQueue st = (ANil, st)"
| "MockClient_call S fresh m ResetWorkflowExecution st = (ANil, st)"
| "MockClient_call S fresh m UpdateWorkerBuildIdCompatibility st = (ANil, st)"
| "MockClient_call S fresh m GetWorkerBuildIdCompatibility st = (ANil, st)"
| "MockClient_call S fresh m GetWorkflowUpdateHandle st = (ANil, st)"
| "MockClient_call S fresh m CheckHealth st = (ANil, st)"
| "MockClient_call S fresh m UpdateWorkflow st = (ANil, st)"
| "MockClient_call S fresh m UpdateWorkflowWithOptions st = (ANil, st)"
| "MockClient_call S fresh m WorkflowService st = (ANil, st)"
| "MockClient_call S fresh m OperatorService st = (ANil, st)"
| "MockClient_call S fresh m ScheduleClient st = (ANil, st)"
| "MockClient_call S fresh m CloseClient st = (ANil, st)"
| "MockClient_call S fresh m GetWorkerTaskReachability st = (ANil, st)"

section \<open>The mock worker\<close>

text \<open>A worker registers everything in the environment of its client.\<close>

record mock_worker =
  mw_client :: mock_client

datatype 'wf worker_call =
  WorkerStart | WorkerRun | WorkerStop
| RegisterWorkflow 'wf | RegisterWorkflowWithOptions 'wf string | RegisterActivity 'wf | RegisterActivityWithOptions 'wf string

fun MockWorker_call ::
  "('env, 'wf, 'v, 'wo, 'x, 't) env_lib \<Rightarrow> mock_worker \<Rightarrow> 'wf worker_call \<Rightarrow> 'env envs \<Rightarrow> 'env envs" where
  "MockWorker_call S mw WorkerStart st = st"
| "MockWorker_call S mw WorkerRun st = st"
| "MockWorker_call S mw WorkerStop st = st"
| "MockWorker_call S mw (RegisterWorkflow w) st =
     (let a = mc_Env (mw_client mw) in st[a := te_RegisterWorkflow S w (st ! a)])"
| "MockWorker_call S mw (RegisterWorkflowWithOptions w opt) st =
     (let a = mc_Env (mw_client mw) in st[a := te_RegisterWorkflowWithOptions S w opt (st ! a)])"
| "MockWorker_call S mw (RegisterActivity w) st =
     (let a = mc_Env (mw_client mw) in st[a := te_RegisterActivity S w (st ! a)])"
| "MockWorker_call S mw (RegisterActivityWithOptions w opt) st =
     (let a = mc_Env (mw_client mw) in st[a := te_RegisterActivityWithOptions S w opt (st ! a)])"

section \<open>Properties\<close>

text \<open>Calls that reach the environment.\<close>

fun reaches_env :: "('wf, 'v) client_call \<Rightarrow> bool" where
  "reaches_env (ExecuteWorkflowCall ID w args) = True"
| "reaches_env (SignalWorkflow wid rid nm arg) = True"
| "reaches_env (CancelWorkflow wid rid) = True"
| "reaches_env (QueryWorkflow wid rid q args) = True"
| "reaches_env c = False"

lemma client_call_frame:
  "b \<noteq> mc_Env m \<Longrightarrow> snd (MockClient_call S fresh m c st) ! b = st ! b"
  "length (snd (MockClient_call S fresh m c st)) = length st"
  by (cases c; simp add: Let_def case_prod_beta)+

lemma client_call_nil:
  "\<not> reaches_env c \<Longrightarrow> MockClient_call S fresh m c st = (ANil, st)"
  by (cases c) simp_all

fun client_calls ::
  "('env, 'wf, 'v, 'wo, 'x, 't) env_lib \<Rightarrow> (mock_client \<times> ('wf, 'v) client_call \<times> string) list \<Rightarrow> 'env envs \<Rightarrow> 'env envs" where
  "client_calls S [] st = st"
| "client_calls S ((m, c, fresh) # cs) st = client_calls S cs (snd (MockClient_call S fresh m c st))"

text \<open>
  Whatever calls are made through mock clients, an environment changes only through the clients that were given it,
  and calls the mock does not implement answer nil without an error and change nothing.
\<close>

theorem mock_clients_are_separate:
  "(list_all (\<lambda>(m, c, _). mc_Env m \<noteq> b \<or> \<not> reaches_env c) calls \<longrightarrow> client_calls S calls st ! b = st ! b) \<and>
   length (client_calls S calls st) = length st"
proof (induction S calls st rule: client_calls.induct)
  case (2 S m c fresh cs st)
  have "snd (MockClient_call S fresh m c st) ! b = st ! b" if "mc_Env m \<noteq> b \<or> \<not> reaches_env c"
    using that client_call_frame(1)[of b m S fresh c st] client_call_nil[of c S fresh m st] by (cases "reaches_env c") auto
  then show ?case using 2 by (auto simp: client_call_frame(2))
qed simp

text \<open>
  All runs of one mock client read the result of its environment: after a second workflow was executed, the run of the
  first returns the result of the second, although it keeps the id of its own.
\<close>

theorem runs_share_result:
  assumes "MockClient_call S f1 m (ExecuteWorkflowCall id1 w1 args1) st = (ARun r1, st1)"
    and "MockClient_call S f2 m (ExecuteWorkflowCall id2 w2 args2) st1 = (ARun r2, st2)"
    and "mc_Env m < length st"
  shows "MockWorkflowRun_Get S st2 r1 = MockWorkflowRun_Get S st2 r2 \<and>
    MockWorkflowRun_Get S st2 r1 =
      te_GetWorkflowResult S (te_ExecuteWorkflow S w2 args2 (te_SetStartWorkflowOptions S (MockWorkflowRun_GetID r2) (st1 ! mc_Env m))) \<and>
    (id1 \<noteq> [] \<longrightarrow> MockWorkflowRun_GetID r1 = id1) \<and> (id2 \<noteq> [] \<longrightarrow> MockWorkflowRun_GetID r2 = id2)"
  using assms
  by (auto simp: MockWorkflowRun_Get_def MockWorkflowRun_GetID_def MockClient_ExecuteWorkflow_def Let_def case_prod_beta)

text \<open>An environment that keeps the name of the last workflow executed as its result.\<close>

definition last_env :: "(string, string, unit, unit, unit, string) env_lib" where
  "last_env =
     \<lparr>te_New = [], te_RegisterWorkflow = (\<lambda>_ e. e), te_RegisterWorkflowWithOptions = (\<lambda>_ _ e. e), te_RegisterActivity = (\<lambda>_ e. e),
      te_RegisterActivityWithOptions = (\<lambda>_ _ e. e), te_SetWorkerOptions = (\<lambda>_ e. e), te_SetStartWorkflowOptions = (\<lambda>_ e. e),
      te_ExecuteWorkflow = (\<lambda>w _ _. w), te_GetWorkflowResult = (\<lambda>e _. (None, e)),
      te_SignalWorkflowByID = (\<lambda>_ _ _ e. (None, e)), te_CancelWorkflow = (\<lambda>e. e), te_QueryWorkflowByID = (\<lambda>_ _ _ e. (Inr (), e))\<rparr>"

theorem runs_share_result_witness:
  "\<exists>r1 st1 r2 st2. MockClient_call last_env ''u'' \<lparr>mc_Env = 0\<rparr> (ExecuteWorkflowCall ''one'' ''first'' []) [[]] = (ARun r1, st1) \<and>
     MockClient_call last_env ''v'' \<lparr>mc_Env = 0\<rparr> (ExecuteWorkflowCall ''two'' ''second'' []) st1 = (ARun r2, st2) \<and>
     Run_Get [] (MockWorkflowRun_Get last_env st2 r1) = (''second'', None) \<and> MockWorkflowRun_GetID r1 = ''one''"
proof -
  obtain r1 st1 where 1: "MockClient_call last_env ''u'' \<lparr>mc_Env = 0\<rparr> (ExecuteWorkflowCall ''one'' ''first'' []) [[]] = (ARun r1, st1)"
    by (simp add: Let_def case_prod_beta)
  obtain r2 st2 where 2: "MockClient_call last_env ''v'' \<lparr>mc_Env = 0\<rparr> (ExecuteWorkflowCall ''two'' ''second'' []) st1 = (ARun r2, st2)"
    by (simp add: Let_def case_prod_beta)
  from runs_share_result[OF 1 2] have "MockWorkflowRun_Get last_env st2 r1 = (\<lambda>_. (None, ''second''))" "MockWorkflowRun_GetID r1 = ''one''"
    by (auto simp: last_env_def)
  with 1 2 show ?thesis by (intro exI conjI) (assumption, assumption, simp_all add: Run_Get_def)
qed

theorem mock_clients_are_separate_witness:
  "client_calls last_env [(\<lparr>mc_Env = 0\<rparr>, ExecuteWorkflowCall [] ''w'' [], ''u''), (\<lparr>mc_Env = 1\<rparr>, ListWorkflow, ''v'')] [[], ''kept''] ! 1 = ''kept''"
  using mock_clients_are_separate[of 1 "[(\<lparr>mc_Env = 0\<rparr>, ExecuteWorkflowCall [] ''w'' [], ''u''), (\<lparr>mc_Env = 1\<rparr>, ListWorkflow, ''v'')]"
      last_env "[[], ''kept'']"] by simp

end
