(* ===== verification/E2eTests.thy ===== *)
theory E2eTests
  imports Observability
begin

text \<open>
  The expectations of the end-to-end test harness (testutil/e2e): header checks (utils.go), the test
  functions an expected call consists of (tests.go), the queue of expected calls of an endpoint
  (rest_ordered_handlers.go) and a mocked downstream (rest_downstream.go).

  A Go map is an association list with distinct keys, iterated in list order.  The assertion library
  records a failure and goes on; \<^verbatim>\<open>t.Fatal\<close> records it and ends the goroutine, which releases the mutex but
  runs nothing else.  JSON comparison and the comparison of byte slices (which tells nil from empty) are
  arguments, as is the text of the source position of an expectation.
\<close>

section \<open>Header checks\<close>

definition makeHeader :: "(string \<times> string) list \<Rightarrow> header" where
  "makeHeader vals = fold (\<lambda>(k, v) head. header_add head k v) vals []"

definition equalFold :: "string \<Rightarrow> string list \<Rightarrow> string list \<Rightarrow> string" where
  "equalFold key actualVal expectedVal =
     (let actualStr = join_with '', '' actualVal; expectedStr = join_with '', '' expectedVal
      in if \<not> EqualFold expectedStr actualStr
         then key @ '': '' @ [CHR 0x27] @ actualStr @ [CHR 0x27] @ ''!='' @ [CHR 0x27] @ expectedStr @ [CHR 0x27] else [])"

definition shouldSkipTestingHeader :: "string list \<Rightarrow> string \<Rightarrow> bool" where
  "shouldSkipTestingHeader ignoreHeaders h = list_ex (\<lambda>v. EqualFold v h) ignoreHeaders"

fun check_actual ::
  "string list \<Rightarrow> header \<Rightarrow> header \<Rightarrow> string list \<times> string list \<Rightarrow> string list \<times> string list" where
  "check_actual ign expected [] (extra, mismatch) = (extra, mismatch)"
| "check_actual ign expected ((k, v) # hs) (extra, mismatch) =
     (if shouldSkipTestingHeader ign k then check_actual ign expected hs (extra, mismatch)
      else case map_of expected k of
        None \<Rightarrow> check_actual ign expected hs (extra @ [k], mismatch)
      | Some expectedVal \<Rightarrow>
          (let m = equalFold k v expectedVal
           in check_actual ign expected hs (extra, if m \<noteq> [] then mismatch @ [m] else mismatch)))"

definition missing_headers :: "string list \<Rightarrow> header \<Rightarrow> header \<Rightarrow> string list" where
  "missing_headers ign actual expected =
     filter (\<lambda>k. \<not> shouldSkipTestingHeader ign k \<and> map_of actual k = None) (map fst expected)"

definition iterateHeaders ::
  "string list \<Rightarrow> header \<Rightarrow> header \<Rightarrow> string list \<times> string list \<times> string list" where
  "iterateHeaders ign actual expected =
     (let (extra, mismatch) = check_actual ign expected actual ([], [])
      in (extra, missing_headers ign actual expected, mismatch))"

definition show_list :: "string list \<Rightarrow> string" where
  "show_list ss = ''['' @ join_with '' '' ss @ '']''"

definition verifyHeaders :: "string list \<Rightarrow> header \<Rightarrow> header \<Rightarrow> bool list \<Rightarrow> string option" where
  "verifyHeaders ign expected actual checkForExtra =
     (let (extra, missing, valMismatch) = iterateHeaders ign actual expected;
          quoted = (\<lambda>ss. [CHR 0x27] @ show_list ss @ [CHR 0x27, CHR 0x0A]);
          errorStr =
            (if checkForExtra \<noteq> [] \<and> hd checkForExtra \<and> extra \<noteq> []
             then ''the following header fields were not expected: '' @ quoted extra else []) @
            (if missing \<noteq> [] then ''the following header fields were expected but missing: '' @ quoted missing else []) @
            (if valMismatch \<noteq> []
             then ''the following header fields were received with incorrect values: '' @ quoted valMismatch else [])
      in if errorStr \<noteq> [] then Some (errorStr @ '' '') else None)"

definition expectHeadersExistImp :: "string list \<Rightarrow> header \<Rightarrow> string option" where
  "expectHeadersExistImp headers actual =
     (let missing = filter (\<lambda>h. map_of actual (CanonicalHeaderKey h) = None) headers
      in if length missing > 0 then Some (''Expected headers were missing: '' @ show_list missing) else None)"

definition expectHeadersDoNotExistImp :: "string list \<Rightarrow> header \<Rightarrow> string option" where
  "expectHeadersDoNotExistImp headers actual =
     (let extra = filter (\<lambda>h. map_of actual (CanonicalHeaderKey h) \<noteq> None) headers
      in if length extra > 0 then Some (''Headers were expected to be missing: '' @ show_list extra) else None)"

definition expectHeadersExistExactlyImp :: "string list \<Rightarrow> header \<Rightarrow> string option \<times> string option" where
  "expectHeadersExistExactlyImp headers actual =
     (let m = map CanonicalHeaderKey headers;
          missing = filter (\<lambda>h. map_of actual (CanonicalHeaderKey h) = None) headers;
          extra = filter (\<lambda>h. h \<notin> set m) (map fst actual)
      in (if length missing > 0 then Some (''Expected headers were missing: '' @ show_list missing) else None,
          if length extra > 0 then Some (''Extra headers were found: '' @ show_list extra) else None))"

section \<open>What the header checks accept\<close>

lemma check_actual_acc:
  "check_actual ign expected hs (ex, mm) =
     (ex @ map fst (filter (\<lambda>(k, v). \<not> shouldSkipTestingHeader ign k \<and> map_of expected k = None) hs),
      mm @ filter (\<lambda>m. m \<noteq> []) (map (\<lambda>(k, v). equalFold k v (the (map_of expected k)))
        (filter (\<lambda>(k, v). \<not> shouldSkipTestingHeader ign k \<and> map_of expected k \<noteq> None) hs)))"
proof (induction hs arbitrary: ex mm)
  case (Cons kv hs)
  obtain k v where kv: "kv = (k, v)" by (cases kv)
  show ?case by (cases "map_of expected k") (simp_all add: kv Cons.IH Let_def)
qed simp

lemma equalFold_Nil: "equalFold k v e = [] \<longleftrightarrow> EqualFold (join_with '', '' e) (join_with '', '' v)"
  by (simp add: equalFold_def Let_def)

lemma lookup_both:
  "(\<forall>k x. e k = Some x \<and> \<not> skip k \<longrightarrow> (\<exists>v. a k = Some v \<and> R x v)) \<longleftrightarrow>
     (\<forall>k. e k \<noteq> None \<and> \<not> skip k \<longrightarrow> a k \<noteq> None) \<and>
     (\<forall>k v x. a k = Some v \<and> e k = Some x \<and> \<not> skip k \<longrightarrow> R x v)" (is "?l = ?r")
proof
  show "?l \<Longrightarrow> ?r" by fastforce
  assume r: ?r
  show ?l
  proof (intro allI impI)
    fix k x assume "e k = Some x \<and> \<not> skip k"
    with r obtain v where "a k = Some v" by blast
    with r \<open>e k = Some x \<and> \<not> skip k\<close> show "\<exists>v. a k = Some v \<and> R x v" by blast
  qed
qed

text \<open>
  The header check accepts exactly: every header expected and not ignored is there, no header that is not
  ignored differs, ignoring case and the split into several values, from the expected value, and, when asked
  for, no other header is there.
\<close>

theorem verify_headers_iff:
  assumes "distinct (map fst actual)"
  shows "verifyHeaders ign expected actual checkForExtra = None \<longleftrightarrow>
    (\<forall>k e. map_of expected k = Some e \<and> \<not> shouldSkipTestingHeader ign k \<longrightarrow>
       (\<exists>v. map_of actual k = Some v \<and> EqualFold (join_with '', '' e) (join_with '', '' v))) \<and>
    (checkForExtra \<noteq> [] \<and> hd checkForExtra \<longrightarrow>
       (\<forall>k v. map_of actual k = Some v \<and> \<not> shouldSkipTestingHeader ign k \<longrightarrow> map_of expected k \<noteq> None))"
proof -
  let ?skip = "shouldSkipTestingHeader ign"
  let ?extra = "filter (\<lambda>(k, v). \<not> ?skip k \<and> map_of expected k = None) actual"
  let ?mm = "filter (\<lambda>m. m \<noteq> []) (map (\<lambda>(k, v). equalFold k v (the (map_of expected k)))
      (filter (\<lambda>(k, v). \<not> ?skip k \<and> map_of expected k \<noteq> None) actual))"
  have "verifyHeaders ign expected actual checkForExtra = None \<longleftrightarrow>
      (checkForExtra \<noteq> [] \<and> hd checkForExtra \<longrightarrow> ?extra = []) \<and> missing_headers ign actual expected = [] \<and> ?mm = []"
    unfolding verifyHeaders_def iterateHeaders_def check_actual_acc Let_def by auto
  moreover have "?extra = [] \<longleftrightarrow> (\<forall>k v. map_of actual k = Some v \<and> \<not> ?skip k \<longrightarrow> map_of expected k \<noteq> None)"
    using assms by (auto simp: filter_empty_conv map_of_eq_Some_iff)
  moreover have "missing_headers ign actual expected = [] \<longleftrightarrow>
      (\<forall>k. map_of expected k \<noteq> None \<and> \<not> ?skip k \<longrightarrow> map_of actual k \<noteq> None)"
    by (auto simp: missing_headers_def filter_empty_conv map_of_eq_None_iff)
  moreover have "?mm = [] \<longleftrightarrow> (\<forall>k v e. map_of actual k = Some v \<and> map_of expected k = Some e \<and> \<not> ?skip k \<longrightarrow>
      EqualFold (join_with '', '' e) (join_with '', '' v))"
    using assms by (fastforce simp: filter_empty_conv map_of_eq_Some_iff equalFold_Nil)
  ultimately show ?thesis unfolding lookup_both by (simp only: conj_ac)
qed


theorem verify_headers_iff_witness:
  "verifyHeaders [''Date''] (makeHeader [(''content-type'', ''Application/JSON'')])
     [(''Content-Type'', [''application/json'']), (''Date'', [''now''])] [True] = None"
proof -
  have d: "distinct (map fst [(''Content-Type'', [''application/json'']), (''Date'', [''now''])])" by simp
  have h: "makeHeader [(''content-type'', ''Application/JSON'')] = [(''Content-Type'', [''Application/JSON''])]"
    by code_simp
  have "EqualFold ''Application/JSON'' ''application/json''" "shouldSkipTestingHeader [''Date''] ''Date''" by code_simp+
  then show ?thesis unfolding h verify_headers_iff[OF d] by auto
qed

section \<open>Test functions\<close>

text \<open>
  The state a test function works on: the failures recorded so far, the response writer and the body of
  the request, which can be read once.  Reading a closed body is an error, which the reader turns into a
  panic.
\<close>

datatype body = NilBody | Body string | ClosedBody

record tstate =
  failures :: "string list"
  x_w :: response_writer
  x_body :: body

datatype tres = TOk tstate | TPanic string tstate

text \<open>The parts of a request that expectations read.\<close>

record test_request =
  tr_Header :: header
  tr_Query :: string
  tr_URLParam :: "string \<Rightarrow> string"

type_synonym Tests = "test_request \<Rightarrow> tstate \<Rightarrow> tres"

definition assert_that :: "bool \<Rightarrow> string \<Rightarrow> tstate \<Rightarrow> tstate" where
  "assert_that ok msg st = (if ok then st else st\<lparr>failures := failures st @ [msg]\<rparr>)"

definition NoError :: "string option \<Rightarrow> string \<Rightarrow> tstate \<Rightarrow> tstate" where
  "NoError err loc st = assert_that (err = None) loc st"

definition ExpectHeaders :: "string list \<Rightarrow> string \<Rightarrow> (string \<times> string) list \<Rightarrow> bool list \<Rightarrow> Tests" where
  "ExpectHeaders ign loc headers checkForExtra r st =
     TOk (NoError (verifyHeaders ign (makeHeader headers) (tr_Header r) checkForExtra) loc st)"

definition ExpectHeadersExist :: "string \<Rightarrow> string list \<Rightarrow> Tests" where
  "ExpectHeadersExist loc headers r st = TOk (NoError (expectHeadersExistImp headers (tr_Header r)) loc st)"

definition ExpectHeadersDoNotExist :: "string \<Rightarrow> string list \<Rightarrow> Tests" where
  "ExpectHeadersDoNotExist loc headers r st = TOk (NoError (expectHeadersDoNotExistImp headers (tr_Header r)) loc st)"

definition ExpectHeadersExistExactly :: "string \<Rightarrow> string list \<Rightarrow> Tests" where
  "ExpectHeadersExistExactly loc headers r st =
     (let (missingError, extraError) = expectHeadersExistExactlyImp headers (tr_Header r)
      in TOk (NoError extraError loc (NoError missingError loc st)))"

definition ExpectQueryParams :: "string \<Rightarrow> string \<Rightarrow> Tests" where
  "ExpectQueryParams loc expected r st = TOk (assert_that (expected = tr_Query r) loc st)"

definition ExpectURLParam :: "string \<Rightarrow> string \<Rightarrow> string \<Rightarrow> Tests" where
  "ExpectURLParam loc key expected r st = TOk (assert_that (expected = tr_URLParam r key) loc st)"

text \<open>\<open>parse\<close> is the integer reading of a parameter (\<^verbatim>\<open>restlib.GetURLParamForInt\<close>).\<close>

definition ExpectURLParamForInt :: "(string \<Rightarrow> int) \<Rightarrow> string \<Rightarrow> string \<Rightarrow> int \<Rightarrow> Tests" where
  "ExpectURLParamForInt parse loc key expected r st =
     TOk (assert_that (expected = parse (tr_URLParam r key)) loc st)"

fun GetResponseBodyAndClose :: "body \<Rightarrow> (unit, string option \<times> body) res" where
  "GetResponseBodyAndClose NilBody = Ok (None, NilBody)"
| "GetResponseBodyAndClose (Body s) = Ok (Some s, ClosedBody)"
| "GetResponseBodyAndClose ClosedBody = Panic ''http: invalid Read on closed Body''"

definition with_body :: "tstate \<Rightarrow> (string option \<Rightarrow> tstate \<Rightarrow> tstate) \<Rightarrow> tres" where
  "with_body st f =
     (case GetResponseBodyAndClose (x_body st) of
        Ok (b, b') \<Rightarrow> TOk (f b (st\<lparr>x_body := b'\<rparr>))
      | Panic p \<Rightarrow> TPanic p st
      | Err _ \<Rightarrow> TOk st)"

definition ExpectBody :: "(string option \<Rightarrow> string option \<Rightarrow> bool) \<Rightarrow> string \<Rightarrow> string option \<Rightarrow> Tests" where
  "ExpectBody bytes_eq loc expected r st = with_body st (\<lambda>b. assert_that (bytes_eq expected b) loc)"

definition ExpectJSONBody :: "(string \<Rightarrow> string \<Rightarrow> bool) \<Rightarrow> string \<Rightarrow> string option \<Rightarrow> Tests" where
  "ExpectJSONBody json_eq loc expected r st =
     with_body st (\<lambda>b. assert_that (json_eq (case expected of None \<Rightarrow> [] | Some s \<Rightarrow> s) (case b of None \<Rightarrow> [] | Some s \<Rightarrow> s)) loc)"

definition Response :: "int \<Rightarrow> (string \<times> string) list \<Rightarrow> string \<Rightarrow> Tests" where
  "Response code headers bdy r st =
     (let w = (x_w st)\<lparr>rw_header := fold (\<lambda>(k, v) h. header_set h k v) headers (rw_header (x_w st))\<rparr>
      in case WriteHeader w code of
           Ok w' \<Rightarrow> TOk (st\<lparr>x_w := Write w' bdy\<rparr>)
         | Panic p \<Rightarrow> TPanic p (st\<lparr>x_w := w\<rparr>)
         | Err _ \<Rightarrow> TOk st)"

section \<open>The queue of expected calls\<close>

text \<open>
  An expected call runs its test functions in order.  A panic of one of them is recovered and turned into
  \<^verbatim>\<open>t.Fatal\<close>: the failure is recorded and the goroutine of the request ends.
\<close>

fun run_tests :: "Tests list \<Rightarrow> test_request \<Rightarrow> tstate \<Rightarrow> tres" where
  "run_tests [] r st = TOk st"
| "run_tests (t # ts) r st = (case t r st of TOk st' \<Rightarrow> run_tests ts r st' | TPanic p st' \<Rightarrow> TPanic p st')"

definition close_body :: "tstate \<Rightarrow> tstate" where
  "close_body st = (case x_body st of NilBody \<Rightarrow> st | _ \<Rightarrow> st\<lparr>x_body := ClosedBody\<rparr>)"

text \<open>The handler \<^verbatim>\<open>Expect\<close> adds; the flag tells whether the goroutine goes on.\<close>

definition expected_call :: "Tests list \<Rightarrow> test_request \<Rightarrow> tstate \<Rightarrow> tstate \<times> bool" where
  "expected_call tests r st =
     (case run_tests tests r st of
        TOk st' \<Rightarrow> (close_body st', True)
      | TPanic p st' \<Rightarrow> ((close_body st')\<lparr>failures := failures st' @ [p]\<rparr>, False))"

definition failedTestStatusCode :: int where
  "failedTestStatusCode = 599"

definition unexpected_call :: "tstate \<Rightarrow> tstate" where
  "unexpected_call st =
     (let w = (case WriteHeader (x_w st) failedTestStatusCode of Ok w' \<Rightarrow> w' | _ \<Rightarrow> x_w st)
      in st\<lparr>x_w := Write w ''TEST FAILED''\<rparr>)"

type_synonym handler_queue = "Tests list list"

definition handlers_add :: "handler_queue \<Rightarrow> Tests list \<Rightarrow> handler_queue" where
  "handlers_add hs h = hs @ [h]"

definition handlers_ServeHTTP :: "handler_queue \<Rightarrow> test_request \<Rightarrow> tstate \<Rightarrow> handler_queue \<times> tstate" where
  "handlers_ServeHTTP hs r st =
     (case hs of
        [] \<Rightarrow> ([], unexpected_call st)
      | h # rest \<Rightarrow>
          (let (st', goes_on) = expected_call h r st in (if goes_on then rest else hs, st')))"

definition assertCompleted :: "string \<Rightarrow> string \<Rightarrow> handler_queue \<Rightarrow> string option" where
  "assertCompleted hostname methodAndPath hs =
     (if hs = [] then None
      else Some (''Endpoint '' @ [CHR 0x27] @ hostname @ '' -> '' @ methodAndPath @ [CHR 0x27] @ '' has '' @
        show_int (int (length hs)) @ '' un-hit expected calls''))"

text \<open>\<^verbatim>\<open>Expect\<close> requires a test; \<open>None\<close> is the end of the test by \<^verbatim>\<open>require\<close>.\<close>

definition Expect :: "handler_queue \<Rightarrow> Tests list \<Rightarrow> handler_queue option" where
  "Expect hs tests = (if tests = [] then None else Some (handlers_add hs tests))"

definition ExpectSimple ::
  "string list \<Rightarrow> string \<Rightarrow> (string option \<Rightarrow> string option \<Rightarrow> bool) \<Rightarrow> (string \<Rightarrow> string \<Rightarrow> bool) \<Rightarrow> handler_queue \<Rightarrow>
     (string \<times> string) list \<Rightarrow> string option \<Rightarrow> int \<Rightarrow> (string \<times> string) list \<Rightarrow> string \<Rightarrow> Tests list \<Rightarrow> handler_queue option" where
  "ExpectSimple ign loc bytes_eq json_eq hs expectedHeaders expectedBody returnCode returnHeaders returnBody extraTests =
     (let bodyTest =
        (case map_of expectedHeaders ''Content-Type'' of
           Some ct \<Rightarrow> if contains_str ct ''application/json'' \<and> (\<exists>s. expectedBody = Some s \<and> s \<noteq> [])
                     then ExpectJSONBody json_eq loc expectedBody else ExpectBody bytes_eq loc expectedBody
         | None \<Rightarrow> ExpectBody bytes_eq loc expectedBody)
      in Expect hs ([ExpectHeaders ign loc expectedHeaders [], bodyTest] @ extraTests @
           [Response returnCode returnHeaders returnBody]))"


section \<open>Calls are answered in the order they are expected\<close>

fun serve_calls :: "handler_queue \<Rightarrow> (test_request \<times> tstate) list \<Rightarrow> handler_queue \<times> tstate list" where
  "serve_calls hs [] = (hs, [])"
| "serve_calls hs ((r, st) # cs) =
     (let (hs', st') = handlers_ServeHTTP hs r st; (hs'', sts) = serve_calls hs' cs in (hs'', st' # sts))"

text \<open>The specification: the \<open>i\<close>-th call is answered by the \<open>i\<close>-th expectation, or refused when there is none.\<close>

definition answer :: "handler_queue \<Rightarrow> nat \<Rightarrow> test_request \<times> tstate \<Rightarrow> tstate" where
  "answer hs i c = (if i < length hs then fst (expected_call (hs ! i) (fst c) (snd c)) else unexpected_call (snd c))"

definition no_fatal :: "handler_queue \<Rightarrow> (test_request \<times> tstate) list \<Rightarrow> bool" where
  "no_fatal hs cs \<longleftrightarrow> (\<forall>i < min (length hs) (length cs). snd (expected_call (hs ! i) (fst (cs ! i)) (snd (cs ! i))))"

lemma ServeHTTP_Nil: "handlers_ServeHTTP [] r st = ([], unexpected_call st)"
  by (simp add: handlers_ServeHTTP_def)

lemma ServeHTTP_Cons:
  "handlers_ServeHTTP (h # hs) r st =
     (if snd (expected_call h r st) then hs else h # hs, fst (expected_call h r st))"
  by (simp add: handlers_ServeHTTP_def case_prod_beta)

lemma no_fatal_Cons:
  "no_fatal (h # hs) (c # cs) \<longleftrightarrow> snd (expected_call h (fst c) (snd c)) \<and> no_fatal hs cs"
  by (auto simp: no_fatal_def All_less_Suc2)

lemma serve_calls_eq:
  "no_fatal hs cs \<Longrightarrow> serve_calls hs cs = (drop (length cs) hs, map (\<lambda>i. answer hs i (cs ! i)) [0..<length cs])"
proof (induction cs arbitrary: hs)
  case (Cons c cs)
  obtain r st where c: "c = (r, st)" by (cases c)
  have up: "[0..<Suc (length cs)] = 0 # map Suc [0..<length cs]" by (simp add: upt_conv_Cons map_Suc_upt del: upt_Suc)
  show ?case
  proof (cases hs)
    case Nil
    then have "no_fatal [] cs" by (simp add: no_fatal_def)
    then show ?thesis using Cons.IH[of "[]"] Nil
      by (simp add: c ServeHTTP_Nil up answer_def del: upt_Suc)
  next
    case (Cons h hs')
    with Cons.prems have nf: "snd (expected_call h r st)" "no_fatal hs' cs" by (simp_all add: no_fatal_Cons c)
    then show ?thesis using Cons.IH[OF nf(2)] Cons
      by (simp add: c ServeHTTP_Cons up answer_def del: upt_Suc)
  qed
qed simp

lemma unexpected_status: "rw_code (x_w st) = None \<Longrightarrow> rw_code (x_w (unexpected_call st)) = Some 599"
  by (simp add: unexpected_call_def failedTestStatusCode_def WriteHeader_def Write_def Let_def)

text \<open>
  C33.  The calls an endpoint receives are answered by its expectations in the order they were added, each used
  once, as long as none of them is fatal; every call beyond is refused with status 599, and the check at the
  end reports exactly an endpoint that got fewer calls than expected.
\<close>

theorem expected_calls_in_order:
  assumes "no_fatal hs cs" and "serve_calls hs cs = (hs', sts)"
  shows "length sts = length cs \<and> (\<forall>i < length cs. sts ! i = answer hs i (cs ! i)) \<and>
    (\<forall>i < length cs. length hs \<le> i \<and> rw_code (x_w (snd (cs ! i))) = None \<longrightarrow> rw_code (x_w (sts ! i)) = Some 599) \<and>
    (assertCompleted host ep hs' = None \<longleftrightarrow> length hs \<le> length cs)"
  using assms serve_calls_eq[OF assms(1)] unexpected_status
  by (auto simp: answer_def assertCompleted_def)

definition plain_request :: test_request where
  "plain_request = \<lparr>tr_Header = [], tr_Query = [], tr_URLParam = (\<lambda>_. [])\<rparr>"

definition fresh_tstate :: tstate where
  "fresh_tstate = \<lparr>failures = [], x_w = new_writer, x_body = Body []\<rparr>"

lemma respond_only: "expected_call [Response 200 [] ''ok''] plain_request fresh_tstate =
    (fresh_tstate\<lparr>x_w := \<lparr>rw_header = [], rw_code = Some 200, rw_sent = [], rw_body = ''ok''\<rparr>, x_body := ClosedBody\<rparr>, True)"
  by (simp add: expected_call_def Response_def fresh_tstate_def WriteHeader_def Write_def new_writer_def close_body_def Let_def)

theorem expected_calls_in_order_witness:
  "\<exists>sts. serve_calls [[Response 200 [] ''ok'']] [(plain_request, fresh_tstate), (plain_request, fresh_tstate)] = ([], sts) \<and>
     map (\<lambda>s. rw_code (x_w s)) sts = [Some 200, Some 599]"
proof -
  let ?cs = "[(plain_request, fresh_tstate), (plain_request, fresh_tstate)]" and ?hs = "[[Response 200 [] ''ok'']]"
  have nf: "no_fatal ?hs ?cs" by (simp add: no_fatal_def respond_only)
  obtain hs' sts where s: "serve_calls ?hs ?cs = (hs', sts)" by fastforce
  have e: "hs' = []" using s serve_calls_eq[OF nf] by simp
  have f: "rw_code (x_w fresh_tstate) = None" by (simp add: fresh_tstate_def new_writer_def)
  note t = expected_calls_in_order[OF nf s, of "''h''" "''GET /''"]
  then have "length sts = 2" by simp
  then obtain a b where ab: "sts = [a, b]" by (auto simp: length_Suc_conv numeral_2_eq_2)
  from t ab f have "rw_code (x_w b) = Some 599" "a = answer ?hs 0 (plain_request, fresh_tstate)" by (auto simp: less_Suc_eq)
  with s e ab show ?thesis by (simp add: answer_def respond_only)
qed

section \<open>A mocked downstream\<close>

record restDownstream =
  d_hostname :: string
  d_handlers :: "(string \<times> handler_queue) list"

definition newBackEnd :: "string \<Rightarrow> restDownstream" where
  "newBackEnd hostname = \<lparr>d_hostname = hostname, d_handlers = []\<rparr>"

definition endpoint_key :: "string \<Rightarrow> string \<Rightarrow> string" where
  "endpoint_key method path = method @ '' '' @ path"

definition downstream_init :: "restDownstream \<Rightarrow> string \<Rightarrow> string \<Rightarrow> restDownstream" where
  "downstream_init d method path = d\<lparr>d_handlers := put_assoc (endpoint_key method path) [] (d_handlers d)\<rparr>"

definition downstream_close :: "restDownstream \<Rightarrow> string list" where
  "downstream_close d =
     concat (map (\<lambda>(ep, hs). case assertCompleted (d_hostname d) ep hs of None \<Rightarrow> [] | Some m \<Rightarrow> [m]) (d_handlers d))"

lemma downstream_close_Nil: "downstream_close d = [] \<longleftrightarrow> list_all (\<lambda>(ep, hs). hs = []) (d_handlers d)"
  by (auto simp: list_all_iff downstream_close_def assertCompleted_def split: if_splits)

text \<open>
  Closing a downstream reports exactly the endpoints with calls that were expected and not made; initialising
  an endpoint again forgets its pending calls, which are then not reported.
\<close>

theorem close_reports_unhit:
  "(downstream_close d = [] \<longleftrightarrow> list_all (\<lambda>(ep, hs). hs = []) (d_handlers d)) \<and>
   map_of (d_handlers (downstream_init d method path)) (endpoint_key method path) = Some []"
  by (simp add: downstream_close_Nil downstream_init_def)

end
