(* ===== verification/E2eTester.thy ===== *)
theory E2eTester
  imports E2eTests Downstreams
begin

text \<open>
  The end-to-end tester (testutil/e2e/e2e_tester.go): it stands in for the listeners and the downstream
  clients of a service under test, and the hooks that put it there
  (\<^verbatim>\<open>CreateServiceWithTestHooksPatched\<close> of testutil/e2e/utils.go and \<^verbatim>\<open>PatchedService\<close> of
  testutil/temporal_tester/hooks.go).

  The servers and clients of the testing libraries are represented by what the tester keeps of them: the URL
  of the REST server and the state of the gRPC server.
\<close>

section \<open>The tester\<close>

datatype grpc_state = Registered | ServingGrpc | StoppedGrpc

record Tester =
  restServer :: "string option"
  restCfgBasePath :: string
  restDownstreams :: "(string \<times> restDownstream) list"
  tester_grpc :: "grpc_state option"
  tester_failures :: "string list"

definition NewTester :: Tester where
  "NewTester = \<lparr>restServer = None, restCfgBasePath = [], restDownstreams = [], tester_grpc = None, tester_failures = []\<rparr>"

definition EndpointURL :: "Tester \<Rightarrow> string \<Rightarrow> (unit, string) res" where
  "EndpointURL b path = and_then (deref (restServer b)) (\<lambda>url. Ok (url @ path))"

definition HTTPClientGetter :: "Tester \<Rightarrow> string \<Rightarrow> Tester \<times> restDownstream" where
  "HTTPClientGetter b host =
     (case map_of (restDownstreams b) host of
        Some be \<Rightarrow> (b, be)
      | None \<Rightarrow> (b\<lparr>restDownstreams := put_assoc host (newBackEnd host) (restDownstreams b)\<rparr>, newBackEnd host))"

definition NewDownstream :: "Tester \<Rightarrow> string \<Rightarrow> string \<Rightarrow> string \<Rightarrow> (unit, Tester) res" where
  "NewDownstream b host method path =
     (case map_of (restDownstreams b) host of
        None \<Rightarrow> Panic (''downstream '' @ host @ '' not expected'')
      | Some be \<Rightarrow> Ok (b\<lparr>restDownstreams := put_assoc host (downstream_init be method path) (restDownstreams b)\<rparr>))"

definition Tester_Close :: "Tester \<Rightarrow> Tester" where
  "Tester_Close b =
     b\<lparr>tester_failures := tester_failures b @ concat (map (\<lambda>(host, be). downstream_close be) (restDownstreams b)),
       tester_grpc := map_option (\<lambda>_. StoppedGrpc) (tester_grpc b)\<rparr>"

text \<open>\<open>url\<close> is the address the test server gets.\<close>

definition Tester_prepareServerListener :: "Tester \<Rightarrow> string \<Rightarrow> string \<Rightarrow> Tester" where
  "Tester_prepareServerListener b url basePath = b\<lparr>restServer := Some url, restCfgBasePath := basePath\<rparr>"

definition Tester_prepareGrpcServerListener :: "Tester \<Rightarrow> Tester" where
  "Tester_prepareGrpcServerListener b = b\<lparr>tester_grpc := Some Registered\<rparr>"

definition Tester_Start :: "Tester \<Rightarrow> Tester" where
  "Tester_Start b = b\<lparr>tester_grpc := map_option (\<lambda>_. ServingGrpc) (tester_grpc b)\<rparr>"

definition Tester_GracefulStop :: "Tester \<Rightarrow> Tester" where
  "Tester_GracefulStop b = Tester_Close (b\<lparr>tester_grpc := None\<rparr>)"

definition Tester_Stop :: "Tester \<Rightarrow> Tester" where
  "Tester_Stop b = Tester_Close b"

section \<open>Calls to the service under test\<close>

record test_response =
  rp_StatusCode :: int
  rp_Header :: header
  rp_Body :: string

text \<open>A test function of a call returns the failures it records.\<close>

record TestCall2 =
  tc_Method :: string
  tc_URL :: string
  tc_Headers :: "(string \<times> string) list"
  tc_Body :: "string option"
  tc_ExpectedCode :: "int option"
  tc_ExpectedBody :: "string option"
  TestCodeFn :: "(int \<Rightarrow> string list) option"
  TestBodyFn :: "(string \<Rightarrow> string list) option"
  TestRespFns :: "(test_response \<Rightarrow> string list) list"

definition check_body2 ::
  "(string \<Rightarrow> string \<Rightarrow> bool) \<Rightarrow> header \<Rightarrow> string \<Rightarrow> string \<Rightarrow> (unit, string list) res" where
  "check_body2 json_eq hdr expected actual =
     and_then (case map_of hdr ''Content-Type'' of
                 Some [] \<Rightarrow> Panic index_out_of_range
               | Some (ct # _) \<Rightarrow> Ok (contains_str ct ''application/json'')
               | None \<Rightarrow> Ok False)
       (\<lambda>json. Ok (if (if json then json_eq expected actual else expected = actual) then [] else [''body'']))"

text \<open>
  A call builds a request for the test server and sends it; a failed \<^verbatim>\<open>require\<close> ends the test with that failure.
  \<open>new_request\<close> is the error of the standard library for a method and a URL, \<open>send\<close> the client of the test server.
\<close>

record test_request =
  rq_Method :: string
  rq_URL :: string
  rq_Header :: header
  rq_Body :: "string option"

type_synonym 'x test_client = "(string \<Rightarrow> string \<Rightarrow> 'x option) \<times> (test_request \<Rightarrow> 'x + test_response)"

definition send_call ::
  "'x test_client \<Rightarrow> Tester \<Rightarrow> string \<Rightarrow> string \<Rightarrow> (string \<times> string) list \<Rightarrow> string option \<Rightarrow>
     (unit, string + test_response) res" where
  "send_call client b method path headers body =
     and_then (EndpointURL b path) (\<lambda>url.
       Ok (case fst client method url of
             Some _ \<Rightarrow> Inl ''new request''
           | None \<Rightarrow>
               (case snd client \<lparr>rq_Method = method, rq_URL = url, rq_Header = makeHeader headers, rq_Body = body\<rparr> of
                  Inl _ \<Rightarrow> Inl ''do''
                | Inr resp \<Rightarrow> Inr resp)))"

text \<open>The checks of \<^verbatim>\<open>Do2\<close> on the response, and the whole call.\<close>

definition Do2_checks :: "(string \<Rightarrow> string \<Rightarrow> bool) \<Rightarrow> TestCall2 \<Rightarrow> test_response \<Rightarrow> (unit, string list) res" where
  "Do2_checks json_eq tc resp =
     (let codeFails = (case tc_ExpectedCode tc of Some c \<Rightarrow> if c = rp_StatusCode resp then [] else [''code''] | None \<Rightarrow> []);
          codeFnFails = (case TestCodeFn tc of Some f \<Rightarrow> f (rp_StatusCode resp) | None \<Rightarrow> [])
      in and_then (case tc_ExpectedBody tc of
                     Some e \<Rightarrow> check_body2 json_eq (rp_Header resp) e (rp_Body resp)
                   | None \<Rightarrow> Ok [])
           (\<lambda>bodyFails.
             Ok (codeFails @ codeFnFails @ bodyFails @
               (case TestBodyFn tc of Some f \<Rightarrow> f (rp_Body resp) | None \<Rightarrow> []) @
               concat (map (\<lambda>f. f resp) (TestRespFns tc)))))"

definition Do2 ::
  "(string \<Rightarrow> string \<Rightarrow> bool) \<Rightarrow> 'x test_client \<Rightarrow> Tester \<Rightarrow> TestCall2 \<Rightarrow> (unit, string list) res" where
  "Do2 json_eq client b tc =
     and_then (send_call client b (tc_Method tc) (tc_URL tc) (tc_Headers tc) (tc_Body tc)) (\<lambda>sent.
       case sent of Inl failed \<Rightarrow> Ok [failed] | Inr resp \<Rightarrow> Do2_checks json_eq tc resp)"

section \<open>Patching the hooks\<close>

text \<open>
  A patched \<^verbatim>\<open>ValidateConfig\<close> first calls the one of the test, for its effect on the configuration.  When
  the test has none, that call panics; it is the first use of the patched hooks, so the panic is attributed
  to the patching.
\<close>

definition override_dial_options where
  "override_dial_options over additional serviceName cfg = and_then (over serviceName cfg) (\<lambda>options. Ok (options @ additional))"

definition patch_hooks ::
  "('d, 'key, 'c, 'x, 'base, 'cl, 'w, 'wo) AppHooks \<Rightarrow> ('d, 'key, 'c, 'x, 'base, 'cl, 'w, 'wo) AppHooks \<Rightarrow>
     (unit, ('d, 'key, 'c, 'x, 'base, 'cl, 'w, 'wo) AppHooks) res" where
  "patch_hooks t h =
     (let h1 = h\<lparr>ExperimentalTemporalClientBuilder := ExperimentalTemporalClientBuilder t,
                 ExperimentalTemporalWorkerBuilder := ExperimentalTemporalWorkerBuilder t,
                 HTTPClientBuilder := HTTPClientBuilder t,
                 StoppableServerBuilder := StoppableServerBuilder t\<rparr>;
          h2 = (case OverrideGrpcDialOptions t of
                  None \<Rightarrow> h1
                | Some over \<Rightarrow>
                    if AdditionalGrpcDialOptions h1 = [] then h1\<lparr>OverrideGrpcDialOptions := Some over\<rparr>
                    else h1\<lparr>AdditionalGrpcDialOptions := [],
                            OverrideGrpcDialOptions := Some (override_dial_options over (AdditionalGrpcDialOptions h1))\<rparr>);
          h3 = h2\<lparr>StoppableGrpcServerBuilder := StoppableGrpcServerBuilder t,
                  ShouldSetGrpcGlobalLogger := (case ShouldSetGrpcGlobalLogger h of
                     None \<Rightarrow> ShouldSetGrpcGlobalLogger t | Some b \<Rightarrow> Some b)\<rparr>
      in case hk_ValidateConfig h of
           None \<Rightarrow> Ok (h3\<lparr>hk_ValidateConfig := hk_ValidateConfig t\<rparr>)
         | Some users \<Rightarrow>
             (case hk_ValidateConfig t of
                None \<Rightarrow> Panic nil_deref
              | Some tests \<Rightarrow> Ok (h3\<lparr>hk_ValidateConfig := Some (\<lambda>conf. users (snd (tests conf)))\<rparr>)))"

definition CreateServiceWithTestHooksPatched ::
  "('args \<Rightarrow> 'x + 'svc \<times> ('d, 'key, 'c, 'x, 'base, 'cl, 'w, 'wo) AppHooks option) \<Rightarrow>
     ('d, 'key, 'c, 'x, 'base, 'cl, 'w, 'wo) AppHooks \<Rightarrow> 'args \<Rightarrow>
     (unit, 'x + 'svc \<times> ('d, 'key, 'c, 'x, 'base, 'cl, 'w, 'wo) AppHooks option) res" where
  "CreateServiceWithTestHooksPatched createSvc testHooks args =
     (case createSvc args of
        Inl x \<Rightarrow> Ok (Inl x)
      | Inr (svc, None) \<Rightarrow> Ok (Inr (svc, Some testHooks))
      | Inr (svc, Some h) \<Rightarrow> and_then (patch_hooks testHooks h) (\<lambda>h'. Ok (Inr (svc, Some h'))))"

text \<open>
  The temporal variant; \<open>require.NoError\<close> ends the test on an error, and nil hooks are dereferenced.
  \<open>emptyClients\<close> and \<open>mockWorkers\<close> are the builders of mock clients and workers.
\<close>

definition PatchedService ::
  "('args \<Rightarrow> 'x + 'svc \<times> ('d, 'key, 'c, 'x, 'base, 'cl, 'w, 'wo) AppHooks option) \<Rightarrow>
     ('d, 'key, 'c, 'x, 'base, 'cl, 'w, 'wo) AppHooks \<Rightarrow>
     (string \<Rightarrow> temporal_Options \<Rightarrow> 'x + 'cl) \<Rightarrow> ('cl \<Rightarrow> string \<Rightarrow> 'wo \<Rightarrow> 'w) \<Rightarrow> bool \<Rightarrow> 'args \<Rightarrow>
     ('x, 'svc \<times> ('d, 'key, 'c, 'x, 'base, 'cl, 'w, 'wo) AppHooks) res" where
  "PatchedService createSvc t emptyClients mockWorkers withActualDownstreams args =
     (case createSvc args of
        Inl x \<Rightarrow> Err x
      | Inr (svc, hooks) \<Rightarrow>
          and_then (deref hooks) (\<lambda>h.
            (let h' = h\<lparr>ShouldSetGrpcGlobalLogger := ShouldSetGrpcGlobalLogger t,
                        HTTPClientBuilder := HTTPClientBuilder t,
                        StoppableServerBuilder := StoppableServerBuilder t,
                        StoppableGrpcServerBuilder := StoppableGrpcServerBuilder t,
                        hk_ValidateConfig := hk_ValidateConfig t\<rparr>
             in Ok (svc, if withActualDownstreams then h'
                         else h'\<lparr>ExperimentalTemporalClientBuilder := Some emptyClients,
                                 ExperimentalTemporalWorkerBuilder := Some mockWorkers\<rparr>))))"


section \<open>A patched service uses only what the tester provides\<close>

lemma patch_hooks_fields:
  assumes "patch_hooks t h = Ok h'"
  shows "HTTPClientBuilder h' = HTTPClientBuilder t \<and> StoppableServerBuilder h' = StoppableServerBuilder t \<and>
    StoppableGrpcServerBuilder h' = StoppableGrpcServerBuilder t \<and>
    ExperimentalTemporalClientBuilder h' = ExperimentalTemporalClientBuilder t \<and>
    ExperimentalTemporalWorkerBuilder h' = ExperimentalTemporalWorkerBuilder t \<and>
    DownstreamRoundTripper h' = DownstreamRoundTripper h"
  using assms by (auto simp: patch_hooks_def Let_def split: option.splits if_splits)

lemma patch_hooks_dial:
  assumes "patch_hooks t h = Ok h'" and "OverrideGrpcDialOptions t = Some over" and "over nm cfg = Ok opts"
  shows "ResolveGrpcDialOptions E nm (AdditionalGrpcDialOptions h') (OverrideGrpcDialOptions h') cfg =
    Ok (opts @ AdditionalGrpcDialOptions h)"
  using assms
  by (auto simp: patch_hooks_def Let_def ResolveGrpcDialOptions_def resolve_options_def override_dial_options_def
      split: option.splits if_splits)

lemma http_client_from_hook:
  "HTTPClientBuilder h = Some f \<Longrightarrow>
     BuildDownstreamHTTPClient mk nm (Some h) cfg = BuildDownstreamHTTPClient mk' nm (Some h) cfg'"
  by (simp add: BuildDownstreamHTTPClient_def)

lemma patched_cases:
  assumes "CreateServiceWithTestHooksPatched cs t args = Ok (Inr (svc, hooks))"
  obtains "hooks = Some t" and "cs args = Inr (svc, None)"
  | h h' where "hooks = Some h'" and "cs args = Inr (svc, Some h)" and "patch_hooks t h = Ok h'"
  using assms by (auto simp: CreateServiceWithTestHooksPatched_def go_res split: sum.splits option.splits)


section \<open>The tester reports every call that was not made\<close>

text \<open>
  An endpoint can be set up exactly for a host a client was built for; building a client again keeps the
  expectations of the host; and stopping the tester, gracefully or not, records a failure for every downstream
  with an expected call that was not made, and none when there is none.
\<close>

theorem tester_reports_unhit_calls:
  "(panics (NewDownstream b host m p) \<longleftrightarrow> map_of (restDownstreams b) host = None) \<and>
   \<not> panics (NewDownstream (fst (HTTPClientGetter b host)) host m p) \<and>
   HTTPClientGetter (fst (HTTPClientGetter b host)) host = HTTPClientGetter b host \<and>
   tester_failures (Tester_Stop b) = tester_failures (Tester_GracefulStop b) \<and>
   (tester_failures (Tester_Stop b) = tester_failures b \<longleftrightarrow>
      list_all (\<lambda>(h, d). list_all (\<lambda>(ep, hs). hs = []) (d_handlers d)) (restDownstreams b))"
proof -
  have "tester_failures (Tester_Stop b) = tester_failures b \<longleftrightarrow>
      list_all (\<lambda>(h, d). list_all (\<lambda>(ep, hs). hs = []) (d_handlers d)) (restDownstreams b)"
    by (simp add: Tester_Stop_def Tester_Close_def list_all_iff case_prod_beta downstream_close_Nil)
  then show ?thesis
    by (auto simp: NewDownstream_def HTTPClientGetter_def Tester_Stop_def Tester_GracefulStop_def Tester_Close_def
        split: option.splits)
qed

definition lonely_hooks :: "(unit, unit, unit, string, string, string, string, nat) AppHooks" where
  "lonely_hooks = sample_hooks\<lparr>StoppableServerBuilder := Some (\<lambda>_ _ _ name. TemporalServer None),
     OverrideGrpcDialOptions := Some (\<lambda>_ _. Ok [])\<rparr>"


end
