(* ===== verification/E2eCalls.thy ===== *)
theory E2eCalls
  imports E2eTester Observability
begin

text \<open>
  The remaining parts of the end-to-end harness: test calls with their default checks (\<^verbatim>\<open>Tester.Do\<close> of
  testutil/e2e/e2e_tester.go), the response tests of testutil/e2e/tests.go, and the configuration a tester is given.
\<close>

section \<open>Test calls\<close>

record TestCall =
  t1_Method :: string
  t1_URL :: string
  t1_Headers :: "(string \<times> string) list"
  t1_Body :: string
  t1_ExpectedCode :: int
  t1_ExpectedBody :: string
  t1_TestCodeFn :: "(int \<Rightarrow> int \<Rightarrow> string list) option"
  t1_TestBodyFn :: "(string \<Rightarrow> string \<Rightarrow> string list) option"

text \<open>
  The checks of \<^verbatim>\<open>Do\<close> on the response, as the list of the failures they record; \<open>json_eq\<close> is the comparison of
  the assertion library, which fails on text that is not JSON.
\<close>

definition Do_checks :: "(string \<Rightarrow> string \<Rightarrow> bool) \<Rightarrow> TestCall \<Rightarrow> test_response \<Rightarrow> string list" where
  "Do_checks json_eq tc resp =
     (case t1_TestCodeFn tc of
        Some f \<Rightarrow> f (t1_ExpectedCode tc) (rp_StatusCode resp)
      | None \<Rightarrow> if t1_ExpectedCode tc = rp_StatusCode resp then [] else [''code'']) @
     (case t1_TestBodyFn tc of
        Some f \<Rightarrow> f (t1_ExpectedBody tc) (rp_Body resp)
      | None \<Rightarrow> if json_eq (t1_ExpectedBody tc) (rp_Body resp) then [] else [''body''])"

definition Do ::
  "(string \<Rightarrow> string \<Rightarrow> bool) \<Rightarrow> 'x test_client \<Rightarrow> Tester \<Rightarrow> TestCall \<Rightarrow> (unit, string list) res" where
  "Do json_eq client b tc =
     and_then (send_call client b (t1_Method tc) (t1_URL tc) (t1_Headers tc) (Some (t1_Body tc))) (\<lambda>sent.
       Ok (case sent of Inl failed \<Rightarrow> [failed] | Inr resp \<Rightarrow> Do_checks json_eq tc resp))"

definition Tester_BuildID :: "BuildMetadata \<Rightarrow> string" where
  "Tester_BuildID bm = bm_Name bm @ ''/'' @ bm_Version bm"

section \<open>Response tests\<close>

type_synonym ResponseTest = "test_response \<Rightarrow> string list"

definition no_error :: "string \<Rightarrow> string option \<Rightarrow> string list" where
  "no_error loc err = (case err of None \<Rightarrow> [] | Some _ \<Rightarrow> [loc])"

definition ExpectResponseHeaders :: "string list \<Rightarrow> string \<Rightarrow> (string \<times> string) list \<Rightarrow> bool list \<Rightarrow> ResponseTest" where
  "ExpectResponseHeaders ign loc headers checkForExtra actual =
     no_error loc (verifyHeaders ign (makeHeader headers) (rp_Header actual) checkForExtra)"

definition ExpectResponseHeadersExist :: "string \<Rightarrow> string list \<Rightarrow> ResponseTest" where
  "ExpectResponseHeadersExist loc headers actual = no_error loc (expectHeadersExistImp headers (rp_Header actual))"

definition ExpectResponseHeadersDoNotExist :: "string \<Rightarrow> string list \<Rightarrow> ResponseTest" where
  "ExpectResponseHeadersDoNotExist loc headers actual = no_error loc (expectHeadersDoNotExistImp headers (rp_Header actual))"

definition ExpectResponseHeadersExistExactly :: "string \<Rightarrow> string list \<Rightarrow> ResponseTest" where
  "ExpectResponseHeadersExistExactly loc headers actual =
     (let (missingError, extraError) = expectHeadersExistExactlyImp headers (rp_Header actual)
      in no_error loc missingError @ no_error loc extraError)"

section \<open>The configuration of a tester\<close>

text \<open>
  A configuration value by reflection: nil, bytes, a string, a pointer, or a value of a named type.  The marshaller
  is given the value, or the value as the \<^verbatim>\<open>app\<close> section of a new one.
\<close>

datatype 'v cfg_value = CNil | CBytes string | CString string | CPtr "'v cfg_value option" | CValue string 'v

datatype 'v to_marshal = Whole "'v cfg_value" | AppSection "'v cfg_value"

fun pointee_type :: "'v cfg_value \<Rightarrow> ('e, string) res" where
  "pointee_type CNil = Panic ''reflect: call of reflect.Value.Type on zero Value''"
| "pointee_type (CBytes b) = Ok ''[]uint8''"
| "pointee_type (CString s) = Ok ''string''"
| "pointee_type (CPtr None) = Panic ''reflect: call of reflect.Value.Type on zero Value''"
| "pointee_type (CPtr (Some c)) = pointee_type c"
| "pointee_type (CValue ty v) = Ok ty"

definition ConfigToYamlData :: "('v to_marshal \<Rightarrow> 'x + string) \<Rightarrow> 'v cfg_value \<Rightarrow> string \<Rightarrow> ('x, string) res" where
  "ConfigToYamlData marshal cfg appCfgType =
     (case cfg of
        CBytes b \<Rightarrow> Ok b
      | CString s \<Rightarrow> Ok s
      | _ \<Rightarrow> and_then (pointee_type cfg) (\<lambda>ty.
          case marshal (if ty = appCfgType then AppSection cfg else Whole cfg) of Inl x \<Rightarrow> Err x | Inr text \<Rightarrow> Ok text))"

section \<open>Properties\<close>

lemma send_call_started:
  "restServer b = Some url \<Longrightarrow> send_call client b method path headers body =
     Ok (case fst client method (url @ path) of
           Some _ \<Rightarrow> Inl ''new request''
         | None \<Rightarrow>
             (case snd client \<lparr>rq_Method = method, rq_URL = url @ path, rq_Header = makeHeader headers, rq_Body = body\<rparr> of
                Inl _ \<Rightarrow> Inl ''do'' | Inr resp \<Rightarrow> Inr resp))"
  by (simp add: send_call_def EndpointURL_def deref_def)

text \<open>
  A call with the default checks passes exactly when the service is listening, the request is well-formed and is
  answered with the expected status and a body that the JSON comparison accepts.  The tester whose server was not
  started panics.
\<close>

theorem default_checks:
  assumes "t1_TestCodeFn tc = None" and "t1_TestBodyFn tc = None"
  shows "(Do json_eq client b tc = Ok [] \<longleftrightarrow>
      (\<exists>url resp. restServer b = Some url \<and> fst client (t1_Method tc) (url @ t1_URL tc) = None \<and>
         snd client \<lparr>rq_Method = t1_Method tc, rq_URL = url @ t1_URL tc, rq_Header = makeHeader (t1_Headers tc),
           rq_Body = Some (t1_Body tc)\<rparr> = Inr resp \<and>
         rp_StatusCode resp = t1_ExpectedCode tc \<and> json_eq (t1_ExpectedBody tc) (rp_Body resp))) \<and>
    (panics (Do json_eq client b tc) \<longleftrightarrow> restServer b = None)"
proof (cases "restServer b")
  case None
  then show ?thesis by (simp add: Do_def send_call_def EndpointURL_def deref_def)
next
  case (Some url)
  with assms show ?thesis
    by (auto simp: Do_def Do_checks_def send_call_started split: option.splits sum.splits)
qed

text \<open>
  The test for exactly a set of headers passes exactly when the names of the response are the expected ones, up to
  their canonical form.
\<close>

theorem exact_headers_iff:
  assumes "\<And>k. k \<in> fst ` set (rp_Header resp) \<Longrightarrow> CanonicalHeaderKey k = k"
  shows "ExpectResponseHeadersExistExactly loc headers resp = [] \<longleftrightarrow>
    fst ` set (rp_Header resp) = CanonicalHeaderKey ` set headers"
proof -
  have m: "map_of h k = None \<longleftrightarrow> k \<notin> fst ` set h" for h :: header and k by (rule map_of_eq_None_iff)
  have "ExpectResponseHeadersExistExactly loc headers resp = [] \<longleftrightarrow>
      (\<forall>h \<in> set headers. CanonicalHeaderKey h \<in> fst ` set (rp_Header resp)) \<and>
      (\<forall>k \<in> fst ` set (rp_Header resp). k \<in> CanonicalHeaderKey ` set headers)"
    by (auto simp: ExpectResponseHeadersExistExactly_def expectHeadersExistExactlyImp_def no_error_def Let_def
        filter_empty_conv m split: if_splits)
  then show ?thesis by blast
qed

text \<open>
  Text is the configuration itself; a value of the application's configuration type, behind any number of pointers,
  becomes its \<^verbatim>\<open>app\<close> section, and any other value the whole configuration.  A nil value or pointer panics.
\<close>

fun points_to :: "'v cfg_value \<Rightarrow> 'v cfg_value option" where
  "points_to (CPtr None) = None"
| "points_to (CPtr (Some c)) = points_to c"
| "points_to CNil = None"
| "points_to c = Some c"

lemma pointee: "pointee_type c = (case points_to c of
    None \<Rightarrow> Panic ''reflect: call of reflect.Value.Type on zero Value''
  | Some (CBytes _) \<Rightarrow> Ok ''[]uint8'' | Some (CString _) \<Rightarrow> Ok ''string'' | Some (CValue ty _) \<Rightarrow> Ok ty | Some _ \<Rightarrow> Panic [])"
  by (induction c rule: pointee_type.induct) simp_all

theorem tester_configuration:
  "ConfigToYamlData marshal (CBytes t) ty = Ok t \<and> ConfigToYamlData marshal (CString t) ty = Ok t \<and>
   (points_to c = None \<longrightarrow> panics (ConfigToYamlData marshal c ty)) \<and>
   (points_to c = Some (CValue ty' v) \<longrightarrow> ConfigToYamlData marshal c ty =
      (case marshal (if ty' = ty then AppSection c else Whole c) of Inl x \<Rightarrow> Err x | Inr text \<Rightarrow> Ok text))"
  by (cases c) (auto simp: ConfigToYamlData_def pointee)

definition plain_response :: test_response where
  "plain_response = \<lparr>rp_StatusCode = 200, rp_Header = [(''X-A'', [''1''])], rp_Body = ''hi''\<rparr>"

definition hello_call :: TestCall where
  "hello_call = \<lparr>t1_Method = ''GET'', t1_URL = ''/x'', t1_Headers = [], t1_Body = [], t1_ExpectedCode = 200,
     t1_ExpectedBody = ''hi'', t1_TestCodeFn = None, t1_TestBodyFn = None\<rparr>"

theorem default_checks_witness:
  "Do (\<lambda>_ _. False) (\<lambda>_ _. None :: unit option, \<lambda>_. Inr plain_response) (NewTester\<lparr>restServer := Some ''http://t''\<rparr>) hello_call \<noteq> Ok [] \<and>
   Do (=) (\<lambda>_ _. None :: unit option, \<lambda>_. Inr plain_response) (NewTester\<lparr>restServer := Some ''http://t''\<rparr>) hello_call = Ok []"
  using default_checks[of hello_call "\<lambda>_ _. False" "(\<lambda>_ _. None :: unit option, \<lambda>_. Inr plain_response)" "NewTester\<lparr>restServer := Some ''http://t''\<rparr>"]
    default_checks[of hello_call "(=)" "(\<lambda>_ _. None :: unit option, \<lambda>_. Inr plain_response)" "NewTester\<lparr>restServer := Some ''http://t''\<rparr>"]
  by (simp add: plain_response_def hello_call_def)

theorem exact_headers_iff_witness:
  "ExpectResponseHeadersExistExactly ''loc'' [''x-a''] plain_response = []"
proof -
  have k: "CanonicalHeaderKey ''X-A'' = ''X-A''" "CanonicalHeaderKey ''x-a'' = ''X-A''" by code_simp+
  then have "CanonicalHeaderKey n = n" if "n \<in> fst ` set (rp_Header plain_response)" for n
    using that by (simp add: plain_response_def)
  then have "ExpectResponseHeadersExistExactly ''loc'' [''x-a''] plain_response = [] \<longleftrightarrow>
      fst ` set (rp_Header plain_response) = CanonicalHeaderKey ` set [''x-a'']" by (rule exact_headers_iff)
  then show ?thesis by (simp add: plain_response_def k)
qed

theorem tester_configuration_witness:
  "ConfigToYamlData (\<lambda>m. Inr (case m of AppSection _ \<Rightarrow> ''app: 1'' | Whole _ \<Rightarrow> ''1'')) (CPtr (Some (CValue ''Cfg'' ()))) ''Cfg'' =
     (Ok ''app: 1'' :: (unit, _) res)"
proof -
  have "points_to (CPtr (Some (CValue ''Cfg'' ()))) = Some (CValue ''Cfg'' ())" by simp
  with tester_configuration[of "\<lambda>m. Inr (case m of AppSection _ \<Rightarrow> ''app: 1'' | Whole _ \<Rightarrow> ''1'') :: unit + _" "[]" "''Cfg''"
      "CPtr (Some (CValue ''Cfg'' ()))" "''Cfg''" "()"]
  show ?thesis by simp
qed

end
