(* ===== verification/UrlQuery.thy ===== *)
theory UrlQuery
  imports Convert
begin

text \<open>
  Query strings and form bodies (convert/query.go, restlib/urlencode.go, restlib/common.go): what the library
  sends by \<^verbatim>\<open>url.Values.Encode\<close> and what it reads by \<^verbatim>\<open>URL.Query\<close>, both of the standard library.
\<close>

section \<open>Escaping\<close>

text \<open>Letters, digits and four marks are kept; a space becomes a plus, every other byte its code in hexadecimal.\<close>

definition unreserved :: "char \<Rightarrow> bool" where
  "unreserved c =
     (let n = of_char c :: nat
      in 97 \<le> n \<and> n \<le> 122 \<or> 65 \<le> n \<and> n \<le> 90 \<or> 48 \<le> n \<and> n \<le> 57 \<or> n \<in> {45, 46, 95, 126})"

definition upper_hex :: "nat \<Rightarrow> char" where
  "upper_hex n = char_of (if n < 10 then 48 + n else 55 + n)"

definition unhex :: "char \<Rightarrow> nat option" where
  "unhex c =
     (let n = of_char c
      in if 48 \<le> n \<and> n \<le> 57 then Some (n - 48)
         else if 97 \<le> n \<and> n \<le> 102 then Some (n - 87)
         else if 65 \<le> n \<and> n \<le> 70 then Some (n - 55)
         else None)"

definition escape_byte :: "char \<Rightarrow> string" where
  "escape_byte c =
     (if unreserved c then [c]
      else if c = CHR '' '' then ''+''
      else [CHR ''%'', upper_hex (of_char c div 16), upper_hex (of_char c mod 16)])"

definition QueryEscape :: "string \<Rightarrow> string" where
  "QueryEscape s = concat (map escape_byte s)"

fun QueryUnescape :: "string \<Rightarrow> string option" where
  "QueryUnescape [] = Some []"
| "QueryUnescape (c # cs) =
     (if c = CHR ''%'' then
        (case cs of
           h # l # rest \<Rightarrow>
             (case (unhex h, unhex l) of
                (Some a, Some b) \<Rightarrow> map_option ((#) (char_of (16 * a + b))) (QueryUnescape rest)
              | _ \<Rightarrow> None)
         | _ \<Rightarrow> None)
      else map_option ((#) (if c = CHR ''+'' then CHR '' '' else c)) (QueryUnescape cs))"

lemma nibbles: "(of_char c :: nat) div 16 < 16" "(of_char c :: nat) mod 16 < 16"
proof -
  have "(of_char c :: nat) < 16 * 16" by (metis char_of_char mod_less_divisor of_char_of zero_less_numeral mult_numeral_1 numeral_times_numeral semiring_norm(12) semiring_norm(13))
  then show "(of_char c :: nat) div 16 < 16" by (rule less_mult_imp_div_less)
qed simp

lemma unhex_upper: "n < 16 \<Longrightarrow> unhex (upper_hex n) = Some n"
  by (auto simp: unhex_def upper_hex_def of_char_of Let_def)

lemma unescape_byte: "QueryUnescape (escape_byte c @ s) = map_option ((#) c) (QueryUnescape s)"
proof -
  have h: "unhex (upper_hex (of_char c div 16)) = Some (of_char c div 16)" "unhex (upper_hex (of_char c mod 16)) = Some (of_char c mod 16)"
    by (intro unhex_upper nibbles)+
  have u: "c \<noteq> CHR ''%'' \<and> c \<noteq> CHR ''+''" if "unreserved c" using that by (auto simp: unreserved_def Let_def)
  show ?thesis
    using h u by (cases "unreserved c") (auto simp: escape_byte_def)
qed

lemma unescape_escape: "QueryUnescape (QueryEscape s) = Some s"
  by (induction s) (simp_all add: QueryEscape_def unescape_byte)

text \<open>The separators do not occur in an escaped text.\<close>

lemma upper_hex_range: "n < 16 \<Longrightarrow> (of_char (upper_hex n) :: nat) \<in> {48..57} \<union> {65..70}"
  by (auto simp: upper_hex_def of_char_of)

lemma escaped_free:
  assumes "c \<in> set (QueryEscape s)"
  shows "c \<noteq> CHR ''&'' \<and> c \<noteq> CHR ''='' \<and> c \<noteq> CHR '';''"
proof -
  obtain d where d: "c \<in> set (escape_byte d)" using assms by (auto simp: QueryEscape_def)
  have "(of_char (upper_hex (of_char d div 16)) :: nat) \<in> {48..57} \<union> {65..70}"
      "(of_char (upper_hex (of_char d mod 16)) :: nat) \<in> {48..57} \<union> {65..70}"
    by (intro upper_hex_range nibbles)+
  with d show ?thesis by (auto simp: escape_byte_def unreserved_def Let_def split: if_splits)
qed

section \<open>Values\<close>

definition query_pairs :: "url_values \<Rightarrow> (string \<times> string) list" where
  "query_pairs vs = concat (map (\<lambda>(k, vv). map (\<lambda>v. (k, v)) vv) (sort_keys vs))"

text \<open>\<^verbatim>\<open>Values.Encode\<close>: keys in order, the values of a key in theirs.\<close>

definition Values_Encode :: "url_values \<Rightarrow> string" where
  "Values_Encode vs = join_with ''&'' (map (\<lambda>(k, v). QueryEscape k @ ''='' @ QueryEscape v) (query_pairs vs))"

text \<open>\<^verbatim>\<open>URL.Query\<close>: parts that are empty, contain a semicolon or are badly escaped are left out.\<close>

definition query_pair :: "string \<Rightarrow> (string \<times> string) option" where
  "query_pair part =
     (if part = [] \<or> CHR '';'' \<in> set part then None
      else (case (QueryUnescape (takeWhile (\<lambda>c. c \<noteq> CHR ''='') part),
                  QueryUnescape (drop 1 (dropWhile (\<lambda>c. c \<noteq> CHR ''='') part))) of
              (Some k, Some v) \<Rightarrow> Some (k, v)
            | _ \<Rightarrow> None))"

definition URL_Query :: "string \<Rightarrow> url_values" where
  "URL_Query q =
     fold (\<lambda>part m. case query_pair part of Some (k, v) \<Rightarrow> values_add m k v | None \<Rightarrow> m) (split_on CHR ''&'' q) []"

definition GetQueryParam :: "string \<Rightarrow> string \<Rightarrow> string" where
  "GetQueryParam rawQuery key = (case values_of (URL_Query rawQuery) key of [] \<Rightarrow> [] | v # _ \<Rightarrow> v)"

text \<open>\<open>query_Values\<close> is the library that turns a structure into values.\<close>

definition urlencode :: "('v \<Rightarrow> 'x + url_values) \<Rightarrow> 'v \<Rightarrow> 'x + string" where
  "urlencode query_Values v = (case query_Values v of Inl err \<Rightarrow> Inl err | Inr values \<Rightarrow> Inr (Values_Encode values))"

section \<open>Reading back what was sent\<close>

lemma query_pair_encoded: "query_pair (QueryEscape k @ ''='' @ QueryEscape v) = Some (k, v)"
proof -
  have e: "\<forall>c \<in> set (QueryEscape k). c \<noteq> CHR ''=''" using escaped_free by blast
  have t: "takeWhile (\<lambda>c. c \<noteq> CHR ''='') (QueryEscape k @ ''='' @ QueryEscape v) = QueryEscape k"
    "dropWhile (\<lambda>c. c \<noteq> CHR ''='') (QueryEscape k @ ''='' @ QueryEscape v) = ''='' @ QueryEscape v"
    using e by (simp_all add: takeWhile_append2 dropWhile_append2)
  have "CHR '';'' \<notin> set (QueryEscape k @ ''='' @ QueryEscape v)" using escaped_free by fastforce
  then show ?thesis unfolding query_pair_def t by (simp add: unescape_escape)
qed

lemma values_of_add: "values_of (values_add m k v) k' = values_of m k' @ (if k' = k then [v] else [])"
  by (simp add: values_of_def values_add_def)

lemma values_of_fold:
  "values_of (fold (\<lambda>(k, v) m. values_add m k v) ps m) k = values_of m k @ map snd (filter (\<lambda>p. fst p = k) ps)"
  by (induction ps arbitrary: m) (auto simp: values_of_add)

lemma URL_Query_Encode: "URL_Query (Values_Encode vs) = fold (\<lambda>(k, v) m. values_add m k v) (query_pairs vs) []"
proof (cases "query_pairs vs = []")
  case True
  then show ?thesis by (simp add: URL_Query_def Values_Encode_def query_pair_def)
next
  case False
  let ?parts = "map (\<lambda>(k, v). QueryEscape k @ ''='' @ QueryEscape v) (query_pairs vs)"
  have "split_on CHR ''&'' (Values_Encode vs) = ?parts"
    unfolding Values_Encode_def using False escaped_free by (intro split_join) fastforce+
  then show ?thesis
    by (simp add: URL_Query_def fold_map comp_def case_prod_beta query_pair_encoded[simplified] cong: fold_cong)
qed

lemma filtered_pairs:
  "distinct (map fst L) \<Longrightarrow>
     map snd (filter (\<lambda>p. fst p = k) (concat (map (\<lambda>(k, vv). map (\<lambda>v. (k, v)) vv) L))) = values_of L k"
proof (induction L)
  case (Cons x L)
  obtain k' vv where x: "x = (k', vv)" by (cases x)
  have "map_of L k' = None" using Cons.prems x by (simp add: map_of_eq_None_iff)
  then have "values_of L k' = []" by (simp add: values_of_def)
  with Cons x show ?case by (auto simp: values_of_def comp_def)
qed (simp add: values_of_def)

lemma values_round_trip:
  assumes "distinct (map fst vs)"
  shows "values_of (URL_Query (Values_Encode vs)) k = values_of vs k"
proof -
  have d: "distinct (map fst (sort_keys vs))"
  proof -
    have "mset (map fst (sort_keys vs)) = mset (map fst vs)" by (simp only: mset_map mset_sort_keys)
    then show ?thesis using assms mset_eq_imp_distinct_iff by blast
  qed
  then have "map_of (sort_keys vs) = map_of vs" using assms by (simp add: map_of_inject_set set_sort_keys)
  then have "values_of (sort_keys vs) k = values_of vs k" by (simp add: values_of_def)
  moreover have "values_of [] k = []" by (simp add: values_of_def)
  ultimately show ?thesis
    using filtered_pairs[OF d, of k] by (simp add: URL_Query_Encode values_of_fold query_pairs_def)
qed

text \<open>The texts a value adds.\<close>

fun query_texts :: "query_value \<Rightarrow> string list" where
  "query_texts QInvalid = []"
| "query_texts (QSlice vs) = vs"
| "query_texts (QScalar v) = [v]"
| "query_texts (QOther v) = [v]"

lemma EncodeQueryParam_adds:
  "values_of (EncodeQueryParam ps key v) k = values_of ps k @ (if k = key then query_texts v else [])"
proof (cases v)
  case (QSlice vs)
  have "values_of (fold (\<lambda>v ps. values_add ps key v) vs ps) k = values_of ps k @ (if k = key then vs else [])" for ps
    by (induction vs arbitrary: ps) (simp_all add: values_of_add)
  with QSlice show ?thesis by simp
qed (simp_all add: values_of_add)

lemma EncodeQueryParam_distinct: "distinct (map fst ps) \<Longrightarrow> distinct (map fst (EncodeQueryParam ps key v))"
proof (cases v)
  case (QSlice vs)
  have "distinct (map fst ps) \<Longrightarrow> distinct (map fst (fold (\<lambda>v ps. values_add ps key v) vs ps))" for ps
    by (induction vs arbitrary: ps) (simp_all add: values_add_def)
  with QSlice show "distinct (map fst ps) \<Longrightarrow> distinct (map fst (EncodeQueryParam ps key v))" by simp
qed (simp_all add: values_add_def)

text \<open>
  C16.  What a client encodes is what a server reads: after a query is sent by \<^verbatim>\<open>Encode\<close>, every parameter of the URL has the
  values it had before, those a value adds to a key follow the ones already there, in their order and whatever bytes
  they contain, and \<^verbatim>\<open>GetQueryParam\<close> gives the first.
\<close>

theorem query_round_trip:
  assumes "distinct (map fst params)"
  shows "values_of (URL_Query (Values_Encode (EncodeQueryParam params key v))) k =
      values_of params k @ (if k = key then query_texts v else []) \<and>
    GetQueryParam (Values_Encode (EncodeQueryParam params key v)) k =
      (case values_of params k @ (if k = key then query_texts v else []) of [] \<Rightarrow> [] | t # _ \<Rightarrow> t)"
  using values_round_trip[OF EncodeQueryParam_distinct[OF assms]]
  by (simp add: GetQueryParam_def EncodeQueryParam_adds)

theorem query_round_trip_witness:
  "values_of (URL_Query (Values_Encode (EncodeQueryParam [(''q'', [''a b''])] ''tag'' (QSlice [''x&y'', ''=;%''])))) ''tag'' =
     [''x&y'', ''=;%''] \<and>
   GetQueryParam (Values_Encode (EncodeQueryParam [(''q'', [''a b''])] ''tag'' (QSlice [''x&y'', ''=;%'']))) ''q'' = ''a b''"
  using query_round_trip[of "[(''q'', [''a b''])]" "''tag''" "QSlice [''x&y'', ''=;%'']" "''tag''"]
    query_round_trip[of "[(''q'', [''a b''])]" "''tag''" "QSlice [''x&y'', ''=;%'']" "''q''"]
  by (simp add: values_of_def)

text \<open>The values of a slice are joined by an ampersand.\<close>

lemma repeated_parameter: "Values_Encode (EncodeQueryParam [] ''duplicate'' (QSlice [''foo'', ''bar''])) = ''duplicate=foo&duplicate=bar''"
  by code_simp

end
