(* ===== verification/Restlib.thy ===== *)
theory Restlib
  imports RequestContext UrlQuery
begin

text \<open>
  The HTTP client library of the generated code (restlib/restlib.go, restlib/common.go,
  restlib/urlencode.go): marshalling a request body by content type, sending the request, decoding the
  response into the type the caller expects, recording the result in the context, and writing a
  response.

  The encoders, the transport and the decompressor are arguments, collected in the record \<open>rest_env\<close>.
\<close>

section \<open>Values\<close>

text \<open>
  A request body by its dynamic type: a \<^verbatim>\<open>string\<close>, a named string type, a byte slice, or any other
  value.
\<close>

datatype 'v body = BString string | BNamed string | BBytes string | BValue 'v

text \<open>
  What a response is decoded into: nothing, a pointer to a string or byte-slice type, a pointer to any
  other type, or (wrongly) a value that is not a pointer.
\<close>

datatype 'ty target = TNil | TPtrText | TPtr 'ty | TNoPtr

datatype ('ty, 'v) decoded = DNil | DZero "'ty target" | DText string | DXml string | DValue 'v

record ('ty, 'v) HTTPResult =
  HTTPResponse :: http_response
  hr_Body :: string
  hr_Response :: "('ty, 'v) decoded"

datatype ('ty, 'v, 'x) resterr =
  RestErr string | LibraryErr 'x | ResultErr "('ty, 'v) HTTPResult"

record ('ty, 'v, 'x) rest_env =
  as_string :: "'v \<Rightarrow> string option"
  query_Values :: "'v body \<Rightarrow> 'x + url_values"
  json_Marshal :: "'v body \<Rightarrow> 'x + string"
  json_Unmarshal :: "'ty \<Rightarrow> string \<Rightarrow> 'x + 'v"
  show_body :: "'v body \<Rightarrow> string"
  NewRequest :: "string \<Rightarrow> string \<Rightarrow> 'x option"
  Client_Do :: "string \<Rightarrow> string \<Rightarrow> string option \<Rightarrow> header option \<Rightarrow> 'x + http_response \<times> string"
  gunzip :: "string \<Rightarrow> 'x + string"
  ReadAll :: "string \<Rightarrow> 'x + string"

section \<open>Request and response bodies\<close>

definition makeHTTPResult :: "http_response \<Rightarrow> string \<Rightarrow> ('ty, 'v) decoded \<Rightarrow> ('ty, 'v) HTTPResult" where
  [simp]: "makeHTTPResult res body resp = \<lparr>HTTPResponse = res, hr_Body = body, hr_Response = resp\<rparr>"

definition unmarshal ::
  "('ty, 'v, 'x) rest_env \<Rightarrow> http_response \<Rightarrow> string \<Rightarrow> 'ty target \<Rightarrow>
     (('ty, 'v, 'x) resterr, ('ty, 'v) HTTPResult) res" where
  "unmarshal E resp body respStruct =
     (let make = makeHTTPResult resp body;
          contentType = header_get (Some (resp_Header resp)) ''Content-Type''
      in if respStruct = TNil \<or> body = []
         then (case respStruct of
                 TPtrText \<Rightarrow> Ok (make (DZero respStruct))
               | TPtr _ \<Rightarrow> Ok (make (DZero respStruct))
               | _ \<Rightarrow> Ok (make DNil))
         else case respStruct of
                TPtrText \<Rightarrow> Ok (make (DText body))
              | TPtr ty \<Rightarrow>
                  if contains_str contentType ''xml'' then Ok (make (DXml body))
                  else (case json_Unmarshal E ty body of
                          Inl x \<Rightarrow> Err (LibraryErr x)
                        | Inr v \<Rightarrow> Ok (make (DValue v)))
              | _ \<Rightarrow> Panic ''reflect: call of reflect.Value.Elem'')"

text \<open>\<^verbatim>\<open>reflect.Value.Convert\<close> to a string type panics on a value that does not convert.\<close>

fun convert_to_string :: "('ty, 'v, 'x) rest_env \<Rightarrow> 'v body \<Rightarrow> ('e, string) res" where
  "convert_to_string E (BString s) = Ok s"
| "convert_to_string E (BNamed s) = Ok s"
| "convert_to_string E (BBytes s) = Ok s"
| "convert_to_string E (BValue v) =
     (case as_string E v of Some s \<Rightarrow> Ok s | None \<Rightarrow> Panic ''reflect.Value.Convert'')"

definition lib_result :: "'x + 'a \<Rightarrow> (('ty, 'v, 'x) resterr, 'a) res" where
  "lib_result r = (case r of Inl x \<Rightarrow> Err (LibraryErr x) | Inr a \<Rightarrow> Ok a)"

definition marshalRequestBody ::
  "('ty, 'v, 'x) rest_env \<Rightarrow> string \<Rightarrow> 'v body \<Rightarrow> (('ty, 'v, 'x) resterr, string) res" where
  "marshalRequestBody E contentType v =
     (if contains_str contentType ''xml'' then
        and_then (convert_to_string E v) (\<lambda>strBody.
          if has_suffix strBody '' Value>''
          then Err (RestErr (''Incompatible type as xml body: '' @ strBody)) else Ok strBody)
      else if contains_str contentType ''application/x-www-form-urlencoded'' then lib_result (urlencode (query_Values E) v)
      else if contains_str contentType ''text/plain'' \<or> contains_str contentType ''text/html'' then
        (case v of BString s \<Rightarrow> Ok s | _ \<Rightarrow> Err (RestErr (''Invalid plain text value: '' @ show_body E v)))
      else if contains_str contentType ''application/octet-stream'' then
        (case v of BBytes s \<Rightarrow> Ok s | _ \<Rightarrow> Err (RestErr (''Invalid byte value: '' @ show_body E v)))
      else lib_result (json_Marshal E v))"

text \<open>A form sent as the body of a request is read back with the values of the structure it was made from.\<close>

lemma form_body_read_back:
  assumes "\<not> contains_str contentType ''xml''" and "contains_str contentType ''application/x-www-form-urlencoded''"
    and "query_Values E v = Inr vs" and "distinct (map fst vs)"
  shows "\<exists>form. marshalRequestBody E contentType v = Ok form \<and> (\<forall>k. values_of (URL_Query form) k = values_of vs k)"
  using assms values_round_trip by (simp add: marshalRequestBody_def urlencode_def lib_result_def)

section \<open>DoHTTPRequest\<close>

record ('ty, 'v) HTTPRequest =
  hq_Method :: string
  URLString :: string
  hq_Body :: "'v body option"
  Required :: "string list"
  Responses :: "int \<Rightarrow> 'ty target"
  ExtraHeaders :: "(string \<times> string list) list"

text \<open>\<^verbatim>\<open>Header.Add\<close> on the header of the request, which is nil when the context has none.\<close>

fun add_values :: "string \<Rightarrow> string list \<Rightarrow> header option \<Rightarrow> ('e, header option) res" where
  "add_values k [] h = Ok h"
| "add_values k (v # vs) None = Panic nil_map_write"
| "add_values k (v # vs) (Some h) = add_values k vs (Some (header_add h k v))"

fun add_extra :: "(string \<times> string list) list \<Rightarrow> header option \<Rightarrow> ('e, header option) res" where
  "add_extra [] h = Ok h"
| "add_extra ((k, vs) # kvs) h = and_then (add_values k vs h) (add_extra kvs)"

fun check_required :: "string list \<Rightarrow> header option \<Rightarrow> (('ty, 'v, 'x) resterr, unit) res" where
  "check_required [] h = Ok ()"
| "check_required (k # ks) h =
     (if header_get h k = [] then Err (RestErr (''Missing Required header: '' @ k)) else check_required ks h)"

text \<open>From the response to the result.  The body is closed by a deferred call, however this ends.\<close>

definition is_gzip :: "http_response \<Rightarrow> bool" where
  "is_gzip resp =
     (contains_str (ToLower (header_get (Some (resp_Header resp)) ''Content-Encoding'')) ''gzip'' \<and>
      resp_ContentLength resp \<noteq> 0)"

definition read_response ::
  "('ty, 'v, 'x) rest_env \<Rightarrow> (int \<Rightarrow> 'ty target) \<Rightarrow> http_response \<Rightarrow> string \<Rightarrow>
     (('ty, 'v, 'x) resterr, ('ty, 'v) HTTPResult) res" where
  "read_response E responses resp raw =
     and_then (if is_gzip resp then lib_result (gunzip E raw) else lib_result (ReadAll E raw)) (\<lambda>respBody.
     and_then (unmarshal E resp respBody (responses (resp_StatusCode resp))) (\<lambda>result.
       if resp_StatusCode resp \<ge> 200 \<and> resp_StatusCode resp < 300 then Ok result
       else Err (ResultErr result)))"

definition DoHTTPRequest ::
  "('ty, 'v, 'x) rest_env \<Rightarrow> 'cfg ctx \<Rightarrow> ('ty, 'v) HTTPRequest \<Rightarrow>
     (('ty, 'v, 'x) resterr, ('ty, 'v) HTTPResult) res" where
  "DoHTTPRequest E cx config =
     (let headers = RequestHeaderFromContext cx;
          contentType = header_get headers ''Content-Type''
      in and_then (case hq_Body config of
                     None \<Rightarrow> Ok None
                   | Some v \<Rightarrow> and_then (marshalRequestBody E contentType v) (\<lambda>s. Ok (Some s))) (\<lambda>reader.
         and_then (add_extra (ExtraHeaders config) headers) (\<lambda>headers'.
         and_then (check_required (Required config) headers') (\<lambda>_.
           case NewRequest E (hq_Method config) (URLString config) of
             Some x \<Rightarrow> Err (LibraryErr x)
           | None \<Rightarrow>
               and_then (lib_result (Client_Do E (hq_Method config) (URLString config) reader headers'))
                 (\<lambda>(resp, raw). read_response E (Responses config) resp raw)))))"

section \<open>Results in the context\<close>

definition toRestResult :: "('ty, 'v) HTTPResult \<Rightarrow> RestResult" where
  "toRestResult result =
     \<lparr>rr_StatusCode = resp_StatusCode (HTTPResponse result), rr_Headers = resp_Header (HTTPResponse result),
      rr_Body = hr_Body result\<rparr>"

definition SetRestResult :: "store \<Rightarrow> 'cfg ctx \<Rightarrow> RestResult \<Rightarrow> store" where
  "SetRestResult st cx result =
     (case ctx_restResult cx of None \<Rightarrow> st | Some a \<Rightarrow> st\<lparr>rest_objs := (rest_objs st)[a := result]\<rparr>)"

definition OnRestResultHTTPResult ::
  "store \<Rightarrow> 'cfg ctx \<Rightarrow> (('ty, 'v, 'x) resterr, ('ty, 'v) HTTPResult) res \<Rightarrow> store" where
  "OnRestResultHTTPResult st cx outcome =
     (case outcome of
        Ok result \<Rightarrow> SetRestResult st cx (toRestResult result)
      | Err (ResultErr res) \<Rightarrow> SetRestResult st cx (toRestResult res)
      | _ \<Rightarrow> st)"

section \<open>Writing a response\<close>

datatype 'v response_value =
  VNothing | VNilPtr | VStr string | VStrPtr string | VBytes string | VBytesPtr string | VAny 'v

fun is_nil_response :: "'v response_value \<Rightarrow> bool" where
  "is_nil_response VNothing = True"
| "is_nil_response VNilPtr = True"
| "is_nil_response _ = False"

text \<open>\<open>xml\<close> and \<open>json\<close> give the bytes an encoder writes for a value, up to the point where it fails.\<close>

definition response_bytes ::
  "('v response_value \<Rightarrow> string) \<Rightarrow> ('v response_value \<Rightarrow> string) \<Rightarrow> string \<Rightarrow> 'v response_value \<Rightarrow>
     (unit, string option) res" where
  "response_bytes xml json contentType resp =
     (if contains_str contentType ''xml'' then Ok (Some (xml resp))
      else if contains_str contentType ''image'' then
        (case resp of VBytesPtr b \<Rightarrow> Ok (Some b) | _ \<Rightarrow> Panic ''reflect: call of Bytes'')
      else if contains_str contentType ''text/plain'' \<or> contains_str contentType ''text/html'' then
        (case resp of VStrPtr s \<Rightarrow> Ok (Some s) | VStr s \<Rightarrow> Ok (Some s) | _ \<Rightarrow> Ok None)
      else if contains_str contentType ''octet-stream'' \<or> contains_str contentType ''pdf'' then
        (case resp of VBytesPtr b \<Rightarrow> Ok (Some b) | VBytes b \<Rightarrow> Ok (Some b) | _ \<Rightarrow> Ok None)
      else Ok (Some (json resp)))"

fun send_first ::
  "('v response_value \<Rightarrow> string) \<Rightarrow> ('v response_value \<Rightarrow> string) \<Rightarrow> response_writer \<Rightarrow>
     'v response_value list \<Rightarrow> (unit, response_writer) res" where
  "send_first xml json w [] = Ok w"
| "send_first xml json w (resp # responses) =
     (if is_nil_response resp then send_first xml json w responses
      else and_then (response_bytes xml json (header_get (Some (rw_header w)) ''Content-Type'') resp) (\<lambda>b.
             Ok (case b of None \<Rightarrow> w | Some s \<Rightarrow> Write w s)))"

definition SendHTTPResponse ::
  "('v response_value \<Rightarrow> string) \<Rightarrow> ('v response_value \<Rightarrow> string) \<Rightarrow> response_writer \<Rightarrow> int \<Rightarrow>
     'v response_value list \<Rightarrow> (unit, response_writer) res" where
  "SendHTTPResponse xml json w httpStatus responses =
     and_then (WriteHeader w httpStatus) (\<lambda>w'. send_first xml json w' responses)"

definition SetHeaders :: "response_writer \<Rightarrow> header \<Rightarrow> response_writer" where
  "SetHeaders w headerMap =
     w\<lparr>rw_header := fold (\<lambda>(k, vs) h. fold (\<lambda>v h. header_add h k v) vs h) headerMap (rw_header w)\<rparr>"

section \<open>Parameters of a request (restlib/common.go)\<close>

text \<open>\<open>param\<close> is the text of the URL or query parameter named by the key, empty when there is none.\<close>

definition GetURLParamForInt :: "string \<Rightarrow> int" where
  "GetURLParamForInt param = fst (ParseInt param)"

definition GetQueryParamForInt :: "string \<Rightarrow> (num_err, int) res" where
  "GetQueryParamForInt param =
     (case ParseInt param of (_, Some e) \<Rightarrow> Err e | (result, None) \<Rightarrow> Ok result)"

definition ParseBool :: "string \<Rightarrow> bool option" where
  "ParseBool s =
     (if s \<in> set [''1'', ''t'', ''T'', ''true'', ''TRUE'', ''True''] then Some True
      else if s \<in> set [''0'', ''f'', ''F'', ''false'', ''FALSE'', ''False''] then Some False
      else None)"

definition GetQueryParamForBool :: "string \<Rightarrow> (num_err, bool) res" where
  "GetQueryParamForBool param = (case ParseBool param of None \<Rightarrow> Err ErrSyntax | Some b \<Rightarrow> Ok b)"

text \<open>The time is parsed from the name of the parameter, not from its text.\<close>

definition GetQueryParamForTime ::
  "(string \<Rightarrow> string \<Rightarrow> 'x + 't) \<Rightarrow> (string \<Rightarrow> string) \<Rightarrow> string \<Rightarrow> ('x, 't) res" where
  "GetQueryParamForTime parse query key =
     (case parse_either parse key key of Inl e \<Rightarrow> Err e | Inr t \<Rightarrow> Ok t)"

definition GetHeaderParam :: "header \<Rightarrow> string \<Rightarrow> string" where
  "GetHeaderParam h key = header_get (Some h) key"

section \<open>Lemmas on requests\<close>

lemma add_values_some: "add_values k vs (Some h) = Ok (Some (fold (\<lambda>v h. header_add h k v) vs h))"
  by (induction vs arbitrary: h) auto

lemma add_extra_some:
  "add_extra kvs (Some h) = Ok (Some (fold (\<lambda>(k, vs) h. fold (\<lambda>v h. header_add h k v) vs h) kvs h))"
  by (induction kvs arbitrary: h) (auto simp: add_values_some)

lemma add_extra_nil: "add_extra kvs None = (if \<forall>(k, vs) \<in> set kvs. vs = [] then Ok None else Panic nil_map_write)"
proof (induction kvs)
  case (Cons kv kvs)
  then show ?case by (cases kv; cases "snd kv") auto
qed simp

lemma check_required_Ok: "check_required ks h = Ok () \<longleftrightarrow> (\<forall>k \<in> set ks. header_get h k \<noteq> [])"
  by (induction ks) auto

lemma lib_result_simps [simp]: "lib_result (Inr a) = Ok a" "lib_result (Inl x) = Err (LibraryErr x)"
  by (simp_all add: lib_result_def)

lemma lib_result_Ok [go_res]: "lib_result r = Ok a \<longleftrightarrow> r = Inr a"
  by (auto simp: lib_result_def split: sum.splits)

lemma lib_result_Err [go_res]: "lib_result r = Err e \<longleftrightarrow> (\<exists>x. r = Inl x \<and> e = LibraryErr x)"
  by (auto simp: lib_result_def split: sum.splits)

lemma unmarshal_Ok: "unmarshal E resp body target = Ok r \<Longrightarrow> HTTPResponse r = resp \<and> hr_Body r = body"
  by (auto simp: unmarshal_def Let_def split: target.splits if_splits sum.splits)

lemma unmarshal_no_result: "unmarshal E resp body target \<noteq> Err (ResultErr r)"
  by (auto simp: unmarshal_def Let_def split: target.splits if_splits sum.splits)

text \<open>The two ways a decoded response is handed to the caller.\<close>

definition gives :: "(('ty, 'v, 'x) resterr, ('ty, 'v) HTTPResult) res \<Rightarrow> ('ty, 'v) HTTPResult \<Rightarrow> bool" where
  "gives outcome r \<longleftrightarrow> outcome = Ok r \<or> outcome = Err (ResultErr r)"

lemma read_response_gives:
  assumes "gives (read_response E responses resp raw) r"
  shows "HTTPResponse r = resp \<and>
    (read_response E responses resp raw = Ok r \<longleftrightarrow> 200 \<le> resp_StatusCode resp \<and> resp_StatusCode resp < 300)"
  using assms
  by (auto simp: gives_def read_response_def go_res unmarshal_no_result dest: unmarshal_Ok split: if_splits)

lemma marshal_no_result: "marshalRequestBody E ct v \<noteq> Err (ResultErr r)"
  by (cases v) (auto simp: marshalRequestBody_def lib_result_def split: if_splits sum.splits option.splits)

lemma add_extra_no_err: "add_extra kvs h \<noteq> Err e"
  by (cases h) (simp_all add: add_extra_some add_extra_nil)

lemma check_required_no_result: "check_required ks h \<noteq> Err (ResultErr r)"
  by (induction ks) auto

lemma DoHTTPRequest_gives:
  fixes E :: "('ty, 'v, 'x) rest_env"
  assumes "gives (DoHTTPRequest E cx config) r"
  shows "\<exists>reader hdr resp raw.
    add_extra (ExtraHeaders config) (RequestHeaderFromContext cx) = (Ok hdr :: (('ty, 'v, 'x) resterr, _) res) \<and>
    check_required (Required config) hdr = (Ok () :: (('ty, 'v, 'x) resterr, _) res) \<and>
    Client_Do E (hq_Method config) (URLString config) reader hdr = Inr (resp, raw) \<and>
    DoHTTPRequest E cx config = read_response E (Responses config) resp raw"
proof -
  let ?reader = "case hq_Body config of
      None \<Rightarrow> Ok None
    | Some v \<Rightarrow> and_then (marshalRequestBody E (header_get (RequestHeaderFromContext cx) ''Content-Type'') v) (\<lambda>s. Ok (Some s))"
  have "?reader \<noteq> Err (ResultErr e)" for e
    by (auto simp: go_res marshal_no_result split: option.splits)
  then obtain reader hdr where "?reader = Ok reader"
    "add_extra (ExtraHeaders config) (RequestHeaderFromContext cx) = (Ok hdr :: (('ty, 'v, 'x) resterr, _) res)"
    "check_required (Required config) hdr = (Ok () :: (('ty, 'v, 'x) resterr, _) res)"
    "NewRequest E (hq_Method config) (URLString config) = None"
    using assms
    by (auto simp: gives_def DoHTTPRequest_def Let_def go_res add_extra_no_err check_required_no_result
        split: option.splits)
  then show ?thesis using assms
    by (cases "Client_Do E (hq_Method config) (URLString config) reader hdr")
      (auto simp: gives_def DoHTTPRequest_def Let_def)
qed

section \<open>Properties\<close>

text \<open>
  C32.  A request made with the request header \<open>h\<close> of the context: whenever a decoded response comes back, as
  a result or as an error, it is the response to a request whose header has, for every name, the values
  of \<open>h\<close> followed by the extra ones, with every required name present; it comes back as a result exactly
  when its status is a success; and in both cases a provisioned context then holds its status, header
  and body.
\<close>

theorem rest_request_outcome:
  assumes "gives (DoHTTPRequest E cx config) r" and "RequestHeaderFromContext cx = Some h"
    and "ctx_restResult cx = Some a" and "a < length (rest_objs st)"
  shows "(\<exists>reader hdr raw.
      Client_Do E (hq_Method config) (URLString config) reader (Some hdr) = Inr (HTTPResponse r, raw) \<and>
      (\<forall>k. header_values hdr k = header_values h k @
         concat (map snd (filter (\<lambda>(k', vs). CanonicalHeaderKey k' = CanonicalHeaderKey k) (ExtraHeaders config)))) \<and>
      (\<forall>k \<in> set (Required config). header_get (Some hdr) k \<noteq> [])) \<and>
    (DoHTTPRequest E cx config = Ok r \<longleftrightarrow>
       200 \<le> resp_StatusCode (HTTPResponse r) \<and> resp_StatusCode (HTTPResponse r) < 300) \<and>
    GetRestResult (OnRestResultHTTPResult st cx (DoHTTPRequest E cx config)) cx = Some (toRestResult r)"
proof (intro conjI)
  obtain reader hdr resp raw where
    d: "add_extra (ExtraHeaders config) (Some h) = (Ok hdr :: (('a, 'b, 'c) resterr, _) res)"
      "check_required (Required config) hdr = (Ok () :: (('a, 'b, 'c) resterr, _) res)"
      "Client_Do E (hq_Method config) (URLString config) reader hdr = Inr (resp, raw)"
      "DoHTTPRequest E cx config = read_response E (Responses config) resp raw"
    using DoHTTPRequest_gives[OF assms(1)] assms(2) by auto
  have r: "HTTPResponse r = resp"
    "DoHTTPRequest E cx config = Ok r \<longleftrightarrow> 200 \<le> resp_StatusCode resp \<and> resp_StatusCode resp < 300"
    using read_response_gives[of E "Responses config" resp raw r] assms(1) d(4) by auto
  obtain hd where hd: "hdr = Some hd"
    "hd = fold (\<lambda>(k, vs) h. fold (\<lambda>v h. header_add h k v) vs h) (ExtraHeaders config) h"
    using d(1) by (simp add: add_extra_some)
  then show "\<exists>reader hdr raw.
      Client_Do E (hq_Method config) (URLString config) reader (Some hdr) = Inr (HTTPResponse r, raw) \<and>
      (\<forall>k. header_values hdr k = header_values h k @
         concat (map snd (filter (\<lambda>(k', vs). CanonicalHeaderKey k' = CanonicalHeaderKey k) (ExtraHeaders config)))) \<and>
      (\<forall>k \<in> set (Required config). header_get (Some hdr) k \<noteq> [])"
    using d(2,3) r(1)
    by (intro exI[of _ reader] exI[of _ hd] exI[of _ raw] conjI) (simp_all add: check_required_Ok hdr.vals_add_all)
  show "DoHTTPRequest E cx config = Ok r \<longleftrightarrow>
       200 \<le> resp_StatusCode (HTTPResponse r) \<and> resp_StatusCode (HTTPResponse r) < 300" using r by simp
  show "GetRestResult (OnRestResultHTTPResult st cx (DoHTTPRequest E cx config)) cx = Some (toRestResult r)"
    using assms(1,3,4)
    by (auto simp: gives_def OnRestResultHTTPResult_def SetRestResult_def GetRestResult_def)
qed

definition echo_env :: "int \<Rightarrow> (unit, string, string) rest_env" where
  "echo_env status =
     \<lparr>as_string = (\<lambda>_. None), query_Values = (\<lambda>_. Inl ''no form''), json_Marshal = (\<lambda>_. Inr ''{}''),
      json_Unmarshal = (\<lambda>_ s. Inr s), show_body = (\<lambda>_. []), NewRequest = (\<lambda>_ _. None),
      Client_Do = (\<lambda>m u r h. Inr (\<lparr>resp_Method = m, resp_URL = u, resp_StatusCode = status, resp_Header = [],
        resp_ContentLength = 2\<rparr>, ''ok'')),
      gunzip = (\<lambda>_. Inl ''not gzip''), ReadAll = Inr\<rparr>"

definition sample_call :: "(unit, string) HTTPRequest" where
  "sample_call = \<lparr>hq_Method = ''GET'', URLString = ''http://host/'', hq_Body = None, Required = [''X-Id''],
     Responses = (\<lambda>_. TPtr ()), ExtraHeaders = [(''X-Id'', [''7''])]\<rparr>"

definition provisioned :: "unit ctx" where
  "provisioned = Background\<lparr>ctx_reqHeader := Some (Some []), ctx_restResult := Some 0\<rparr>"

definition one_result :: store where
  "one_result = \<lparr>resp_objs = [], rest_objs = [\<lparr>rr_StatusCode = 0, rr_Headers = [], rr_Body = []\<rparr>]\<rparr>"

definition echo_result :: "int \<Rightarrow> (unit, string) HTTPResult" where
  "echo_result status =
     \<lparr>HTTPResponse = \<lparr>resp_Method = ''GET'', resp_URL = ''http://host/'', resp_StatusCode = status, resp_Header = [],
        resp_ContentLength = 2\<rparr>, hr_Body = ''ok'', hr_Response = DValue ''ok''\<rparr>"

lemma sample_call_fails: "DoHTTPRequest (echo_env 404) provisioned sample_call = Err (ResultErr (echo_result 404))"
proof -
  have "CanonicalHeaderKey ''X-Id'' = ''X-Id''" by code_simp
  then show ?thesis
    by (simp add: DoHTTPRequest_def sample_call_def provisioned_def RequestHeaderFromContext_def Background_def
        echo_env_def read_response_def unmarshal_def is_gzip_def header_get_def header_values_def header_add_def
        echo_result_def ToLower_def)
qed

theorem rest_request_outcome_witness:
  "GetRestResult (OnRestResultHTTPResult one_result provisioned
     (DoHTTPRequest (echo_env 404) provisioned sample_call)) provisioned = Some (toRestResult (echo_result 404))"
  using rest_request_outcome[of "echo_env 404" provisioned sample_call "echo_result 404" "[]" 0 one_result]
    sample_call_fails
  by (simp add: gives_def provisioned_def RequestHeaderFromContext_def Background_def one_result_def)

text \<open>
  A request with extra headers panics when the context carries no request header, because the nil
  header map is written to.
\<close>

theorem extra_headers_need_request_header:
  assumes "RequestHeaderFromContext cx = None" and "hq_Body config = None"
    and "(k, v # vs) \<in> set (ExtraHeaders config)"
  shows "DoHTTPRequest E cx config = Panic nil_map_write"
proof -
  have "\<not> (\<forall>(k, vs) \<in> set (ExtraHeaders config). vs = [])" using assms(3) by auto
  with assms(1,2) show ?thesis
    unfolding DoHTTPRequest_def Let_def assms(1) add_extra_nil by (simp only: if_False) simp
qed

theorem extra_headers_need_request_header_witness:
  "DoHTTPRequest (echo_env 200) (Background :: unit ctx) sample_call = Panic nil_map_write"
  using extra_headers_need_request_header[of "Background :: unit ctx" sample_call "''X-Id''" "''7''" "[]" "echo_env 200"]
  by (simp add: RequestHeaderFromContext_def Background_def sample_call_def)

text \<open>
  An integer in a URL path is read without an error check: text that is no number reads as zero and a
  number beyond 64 bits as the nearest 64-bit number; the query parameter reader refuses both.
\<close>

theorem url_int_params:
  "(GetQueryParamForInt s = Ok v \<longleftrightarrow> Atoi s = Some v) \<and>
   (Atoi s = Some v \<longrightarrow> GetURLParamForInt s = v) \<and>
   (GetURLParamForInt (show_int i) = max (- (2 ^ 63)) (min (2 ^ 63 - 1) i)) \<and>
   - (2 ^ 63) \<le> GetURLParamForInt s \<and> GetURLParamForInt s < 2 ^ 63"
proof -
  have a: "GetQueryParamForInt s = Ok v \<longleftrightarrow> Atoi s = Some v" "Atoi s = Some v \<longrightarrow> GetURLParamForInt s = v"
    using ParseInt_Atoi[of s]
    by (auto simp: GetQueryParamForInt_def GetURLParamForInt_def split: prod.splits option.splits)
  have b: "GetURLParamForInt (show_int i) = max (- (2 ^ 63)) (min (2 ^ 63 - 1) i)"
  proof (cases "i < 0")
    case True
    then have "split_sign (show_int i) = (True, show_nat (nat (- i)))" by (simp add: split_sign_def show_int_def)
    then show ?thesis using True
      by (auto simp: GetURLParamForInt_def ParseInt_def show_nat_nonempty scan_digits show_nat_digits digits_show_nat)
  next
    case False
    then have "split_sign (show_int i) = (False, show_nat (nat i))" by (simp add: show_int_def show_nat_unsigned)
    then show ?thesis using False
      by (auto simp: GetURLParamForInt_def ParseInt_def show_nat_nonempty scan_digits show_nat_digits digits_show_nat)
  qed
  have c: "- (2 ^ 63) \<le> GetURLParamForInt s \<and> GetURLParamForInt s < 2 ^ 63"
    by (auto simp: GetURLParamForInt_def ParseInt_def Let_def split: prod.splits sum.splits num_err.splits)
  from a b c show ?thesis by blast
qed

theorem url_int_params_witness: "GetURLParamForInt (show_int (2 ^ 70)) = 2 ^ 63 - 1"
  using url_int_params[where i = "2 ^ 70"] by simp

end
