(* ===== verification/TestGlue.thy ===== *)
theory TestGlue
  imports TemporalDoubles E2eCalls Restlib
begin

text \<open>
  Smaller parts of the test support: the sample database (database/dbconnection.go), the mock reader of restlib/mock.go,
  the search for the line of an expectation and the forced timeout (testutil/e2e), and test activities
  (testutil/temporal\_tester/mock\_worker.go).
\<close>

section \<open>The sample database\<close>

definition sql_text :: "string \<Rightarrow> string" where
  "sql_text t = [CHR 0x27] @ t @ [CHR 0x27]"

definition insert_company :: "string \<Rightarrow> string \<Rightarrow> string \<Rightarrow> string" where
  "insert_company abn name country = ''insert into company(abnnumber,companyname,companycountry) values('' @
     sql_text abn @ '','' @ sql_text name @ '','' @ sql_text country @ '');''"

definition insert_department :: "string \<Rightarrow> string \<Rightarrow> string \<Rightarrow> string" where
  "insert_department deptid name loc = ''insert into department(deptid,deptname,deptloc,abn) values('' @
     deptid @ '','' @ sql_text name @ '','' @ sql_text loc @ '',1);''"

definition batch :: "string list" where
  "batch =
     [''CREATE TABLE company (abnnumber VARCHAR(50) PRIMARY KEY,companyname VARCHAR(50) ,companycountry VARCHAR(50));'',
      ''CREATE TABLE department (deptid INTEGER PRIMARY KEY,deptname VARCHAR(50) ,deptloc VARCHAR(50) ,abn VARCHAR(50));'',
      insert_company ''1'' ''ANZ'' ''AU'',
      insert_company ''2'' ''NAB'' ''AU'',
      insert_company ''3'' ''CBA'' ''AU'',
      insert_company ''4'' ''STG'' ''NZ'',
      insert_company ''5'' ''BOM'' ''NZ'',
      insert_department ''1'' ''FINANCE'' ''MELB'',
      insert_department ''2'' ''HR'' ''SYD'',
      insert_department ''3'' ''IT'' ''SYD'',
      insert_department ''4'' ''POSTAL'' ''MELB'',
      insert_department ''5'' ''FINANCE'' ''SYD'',
      insert_department ''6'' ''IT'' ''MELB'',
      insert_department ''7'' ''POSTAL'' ''MELB'',
      insert_department ''8'' ''TRAVEL'' ''SYD'']"

text \<open>
  \<open>exec db b\<close> is the error of \<^verbatim>\<open>db.Exec\<close>, if any, and the database afterwards.  The result keeps the
  database that was opened also when an error is returned.
\<close>

fun exec_all :: "('db \<Rightarrow> string \<Rightarrow> 'x option \<times> 'db) \<Rightarrow> string list \<Rightarrow> 'db \<Rightarrow> 'x option \<times> 'db" where
  "exec_all exec [] db = (None, db)"
| "exec_all exec (b # bs) db = (case exec db b of (Some x, db') \<Rightarrow> (Some x, db') | (None, db') \<Rightarrow> exec_all exec bs db')"

definition GetDBHandle ::
  "(string \<Rightarrow> string \<Rightarrow> 'x + 'db) \<Rightarrow> ('db \<Rightarrow> string \<Rightarrow> 'x option \<times> 'db) \<Rightarrow> ('x, 'db) res \<times> 'db option" where
  "GetDBHandle sql_Open exec =
     (case sql_Open ''sqlite3'' '':memory:'' of
        Inl x \<Rightarrow> (Err x, None)
      | Inr db \<Rightarrow>
          (case exec_all exec batch db of
             (Some x, db') \<Rightarrow> (Err x, Some db')
           | (None, db') \<Rightarrow> (Ok db', Some db')))"

definition creates :: "string \<Rightarrow> string \<Rightarrow> bool" where
  "creates table b \<longleftrightarrow> prefix (''CREATE TABLE '' @ table @ '' ('') b"

definition inserts :: "string \<Rightarrow> string \<Rightarrow> bool" where
  "inserts table b \<longleftrightarrow> prefix (''insert into '' @ table @ ''('') b"

text \<open>A database as the list of its tables with the number of their rows, refusing what is out of order.\<close>

definition insert_row :: "string \<Rightarrow> (string \<times> nat) list \<Rightarrow> string option \<times> (string \<times> nat) list" where
  "insert_row table db =
     (case map_of db table of
        None \<Rightarrow> (Some ''no such table'', db)
      | Some n \<Rightarrow> (None, map (\<lambda>(t, k). if t = table then (t, k + 1) else (t, k)) db))"

definition table_exec :: "(string \<times> nat) list \<Rightarrow> string \<Rightarrow> string option \<times> (string \<times> nat) list" where
  "table_exec db b =
     (if creates ''company'' b then (None, (''company'', 0) # db)
      else if creates ''department'' b then (None, (''department'', 0) # db)
      else if inserts ''company'' b then insert_row ''company'' db
      else if inserts ''department'' b then insert_row ''department'' db
      else (Some ''syntax error'', db))"

lemma sample_rows: "exec_all table_exec batch [] = (None, [(''department'', 8), (''company'', 5)])"
  by code_simp

lemma exec_all_Some:
  "exec_all exec bs db = (Some x, db') \<Longrightarrow>
     \<exists>ran b rest mid. bs = ran @ b # rest \<and> exec_all exec ran db = (None, mid) \<and> exec mid b = (Some x, db')"
proof (induction bs arbitrary: db)
  case (Cons b bs)
  show ?case
  proof (cases "exec db b")
    case (Pair e mid)
    show ?thesis
    proof (cases e)
      case None
      with Pair Cons.prems have "exec_all exec bs mid = (Some x, db')" by simp
      from Cons.IH[OF this] obtain ran b' rest m where
        "bs = ran @ b' # rest" "exec_all exec ran mid = (None, m)" "exec m b' = (Some x, db')" by blast
      with Pair None have "b # bs = (b # ran) @ b' # rest \<and> exec_all exec (b # ran) db = (None, m) \<and> exec m b' = (Some x, db')" by simp
      then show ?thesis by blast
    next
      case (Some y)
      with Pair Cons.prems have "b # bs = [] @ b # bs \<and> exec_all exec [] db = (None, db) \<and> exec db b = (Some x, db')" by simp
      then show ?thesis by blast
    qed
  qed
qed simp

text \<open>
  The handle is returned only after every statement of the batch ran in order; the first failing statement ends the
  batch and its error is returned, while the database, with what ran before, is left open and out of reach.  On a database
  that keeps tables and rows the whole batch runs and gives five companies and eight departments.
\<close>

theorem database_batch:
  "(GetDBHandle sql_Open exec = (Err x, Some db') \<longrightarrow>
      (\<exists>db ran b rest mid. sql_Open ''sqlite3'' '':memory:'' = Inr db \<and> batch = ran @ b # rest \<and>
         exec_all exec ran db = (None, mid) \<and> exec mid b = (Some x, db'))) \<and>
   (GetDBHandle sql_Open exec = (Ok db', Some db') \<longleftrightarrow>
      (\<exists>db. sql_Open ''sqlite3'' '':memory:'' = Inr db \<and> exec_all exec batch db = (None, db'))) \<and>
   GetDBHandle (\<lambda>_ _. Inr []) table_exec = (Ok [(''department'', 8), (''company'', 5)], Some [(''department'', 8), (''company'', 5)])"
proof -
  have "\<exists>db ran b rest mid. sql_Open ''sqlite3'' '':memory:'' = Inr db \<and> batch = ran @ b # rest \<and>
      exec_all exec ran db = (None, mid) \<and> exec mid b = (Some x, db')"
    if "GetDBHandle sql_Open exec = (Err x, Some db')"
  proof -
    from that obtain db where "sql_Open ''sqlite3'' '':memory:'' = Inr db" "exec_all exec batch db = (Some x, db')"
      by (auto simp: GetDBHandle_def split: sum.splits prod.splits option.splits)
    with exec_all_Some[OF this(2)] show ?thesis by blast
  qed
  moreover have "GetDBHandle sql_Open exec = (Ok db', Some db') \<longleftrightarrow>
      (\<exists>db. sql_Open ''sqlite3'' '':memory:'' = Inr db \<and> exec_all exec batch db = (None, db'))"
    by (auto simp: GetDBHandle_def split: sum.splits prod.splits option.splits)
  moreover have "GetDBHandle (\<lambda>_ _. Inr []) table_exec =
      (Ok [(''department'', 8), (''company'', 5)], Some [(''department'', 8), (''company'', 5)])"
    by (simp add: GetDBHandle_def sample_rows)
  ultimately show ?thesis by blast
qed

section \<open>The mock reader\<close>

record readCloser =
  rc_err :: "string option"

definition ReadCloser :: readCloser where
  "ReadCloser = \<lparr>rc_err = None\<rparr>"

definition readCloser_Err :: "string \<Rightarrow> readCloser \<Rightarrow> readCloser" where
  "readCloser_Err err r = r\<lparr>rc_err := Some err\<rparr>"

definition readCloser_Read :: "readCloser \<Rightarrow> nat \<times> string option" where
  "readCloser_Read r = (0, rc_err r)"

definition readCloser_Close :: "readCloser \<Rightarrow> string option" where
  "readCloser_Close r = rc_err r"

definition responseWriter_Err :: "string option \<Rightarrow> mock_writer \<Rightarrow> mock_writer" where
  "responseWriter_Err err m = m\<lparr>mw_err := err\<rparr>"

text \<open>
  The loop of \<^verbatim>\<open>io.ReadAll\<close>, which reads until it gets an error: \<open>None\<close> when it has not returned after the given
  number of reads, otherwise the number of bytes and the error it returns.
\<close>

fun read_all :: "nat \<Rightarrow> readCloser \<Rightarrow> nat \<Rightarrow> (nat \<times> string option) option" where
  "read_all 0 r got = None"
| "read_all (Suc fuel) r got =
     (case readCloser_Read r of
        (n, None) \<Rightarrow> read_all fuel r (got + n)
      | (n, Some e) \<Rightarrow> Some (got + n, if e = ''EOF'' then None else Some e))"

text \<open>
  The mock reader as it is constructed gives neither bytes nor an error, so reading all of it never returns.  With an
  error set, the first read returns it, and so does \<^verbatim>\<open>Close\<close>, which according to its documentation does nothing.
\<close>

theorem mock_reader_never_ends:
  "read_all fuel ReadCloser got = None \<and>
   read_all (Suc fuel) (readCloser_Err e r) got = Some (got, if e = ''EOF'' then None else Some e) \<and>
   readCloser_Close (readCloser_Err e r) = Some e \<and> snd (fst (mock_Write (responseWriter_Err err m) b)) = err"
proof -
  have "read_all fuel ReadCloser g = None" for g
    by (induction fuel arbitrary: g) (simp_all add: readCloser_Read_def ReadCloser_def)
  then show ?thesis
    by (simp add: readCloser_Read_def readCloser_Err_def readCloser_Close_def responseWriter_Err_def mock_Write_def)
qed

section \<open>The line of an expectation\<close>

text \<open>\<open>caller i\<close> is the file and line of \<^verbatim>\<open>runtime.Caller(i)\<close>, \<open>base\<close> is \<^verbatim>\<open>filepath.Base\<close>.\<close>

definition is_test_file :: "string \<Rightarrow> bool" where
  "is_test_file f \<longleftrightarrow> Sublist.suffix ''_test.go'' f"

fun test_line_from :: "(string \<Rightarrow> string) \<Rightarrow> (nat \<Rightarrow> (string \<times> int) option) \<Rightarrow> nat list \<Rightarrow> string" where
  "test_line_from base caller [] = []"
| "test_line_from base caller (i # ks) =
     (case caller i of
        None \<Rightarrow> []
      | Some (file, line) \<Rightarrow>
          if is_test_file (base file) then ''Expectation At:  '' @ base file @ '':'' @ show_int line
          else test_line_from base caller ks)"

definition GetTestLine :: "(string \<Rightarrow> string) \<Rightarrow> (nat \<Rightarrow> (string \<times> int) option) \<Rightarrow> string" where
  "GetTestLine base caller = test_line_from base caller [1..<10]"

lemma test_line_found:
  "a \<le> i \<Longrightarrow> i < b \<Longrightarrow> (\<And>k. a \<le> k \<Longrightarrow> k < i \<Longrightarrow> \<exists>f l. caller k = Some (f, l) \<and> \<not> is_test_file (base f)) \<Longrightarrow>
     caller i = Some (f, l) \<Longrightarrow> is_test_file (base f) \<Longrightarrow>
     test_line_from base caller [a..<b] = ''Expectation At:  '' @ base f @ '':'' @ show_int l"
proof (induction "i - a" arbitrary: a)
  case 0
  then show ?case by (simp add: upt_conv_Cons)
next
  case (Suc n)
  then have "a < i" by simp
  with Suc.prems(3)[of a] obtain g m where "caller a = Some (g, m)" "\<not> is_test_file (base g)" by auto
  moreover have "test_line_from base caller [Suc a..<b] = ''Expectation At:  '' @ base f @ '':'' @ show_int l"
    using Suc.hyps(2) Suc.prems \<open>a < i\<close> by (intro Suc.hyps(1)) auto
  ultimately show ?case using Suc.prems(1,2) by (simp add: upt_conv_Cons)
qed

text \<open>
  An expectation is reported at the innermost of the nine frames above it that is in a test file, and at no line when
  all nine are in other files: the caller of a deeper helper is not found.
\<close>

theorem expectation_line:
  "(1 \<le> i \<and> i < 10 \<and> (\<forall>k. 1 \<le> k \<and> k < i \<longrightarrow> (\<exists>f l. caller k = Some (f, l) \<and> \<not> is_test_file (base f))) \<and>
      caller i = Some (f, l) \<and> is_test_file (base f) \<longrightarrow>
      GetTestLine base caller = ''Expectation At:  '' @ base f @ '':'' @ show_int l) \<and>
   ((\<forall>k f l. 1 \<le> k \<and> k < 10 \<and> caller k = Some (f, l) \<longrightarrow> \<not> is_test_file (base f)) \<longrightarrow> GetTestLine base caller = [])"
proof -
  have none: "test_line_from base caller ks = []"
    if "\<forall>k f l. k \<in> set ks \<and> caller k = Some (f, l) \<longrightarrow> \<not> is_test_file (base f)" for ks
    using that by (induction ks) (auto split: option.splits)
  have "GetTestLine base caller = []"
    if "\<forall>k f l. 1 \<le> k \<and> k < 10 \<and> caller k = Some (f, l) \<longrightarrow> \<not> is_test_file (base f)"
    unfolding GetTestLine_def by (rule none) (use that in auto)
  moreover have "GetTestLine base caller = ''Expectation At:  '' @ base f @ '':'' @ show_int l"
    if "1 \<le> i" "i < 10" "\<forall>k. 1 \<le> k \<and> k < i \<longrightarrow> (\<exists>f l. caller k = Some (f, l) \<and> \<not> is_test_file (base f))"
      "caller i = Some (f, l)" "is_test_file (base f)"
    unfolding GetTestLine_def by (rule test_line_found[where i = i and caller = caller and base = base]) (use that in auto)
  ultimately show ?thesis by blast
qed

section \<open>Timeouts and activities\<close>

definition e2e_DownstreamTimeout :: int where
  "e2e_DownstreamTimeout = 400 * 1000000"

text \<open>How long a mocked downstream that forces a timeout waits, and what a client with a time limit then gets.\<close>

definition ForceDownstreamTimeout :: int where
  "ForceDownstreamTimeout = e2e_DownstreamTimeout + 100 * 1000000"

definition within_limit :: "int \<Rightarrow> int \<Rightarrow> 'r \<Rightarrow> 'r option" where
  "within_limit limit waited r = (if waited < limit then Some r else None)"

definition ExecuteTestActivity ::
  "('env \<Rightarrow> string \<Rightarrow> 'v list \<Rightarrow> ('x, 't) TemporalDoubles.decoded option \<times> 'x option) \<Rightarrow> 'env \<Rightarrow> string \<Rightarrow> 'v list \<Rightarrow>
     ('x, 't) TemporalDoubles.decoded option \<times> 'x option" where
  "ExecuteTestActivity execute env name params = (let (r, err) = execute env name params in (r, err))"

lemma forced_timeout_is_seen: "within_limit e2e_DownstreamTimeout ForceDownstreamTimeout r = None"
  by (simp add: within_limit_def e2e_DownstreamTimeout_def ForceDownstreamTimeout_def)

end
