(* ===== verification/Spec2Isabelle.thy ===== *)
theory Spec2Isabelle
  imports JwtIssuer ConfigDecoding ConfigBuilder ServiceHooks AsyncChannels AdminRequests WorkerLife TestGlue
begin

text \<open>
  \<^bold>\<open>Verification of the sysl-go runtime library.\<close>

  sysl-go generates services from specifications; the Go packages under src/ are the runtime every generated
  service links: it reads a configuration, builds servers and clients from it, authenticates and authorises
  requests, bounds them in time, maps errors to responses, and shuts down.  This development is a shallow
  embedding of that runtime.  A function with an error result is a HOL function into \<open>res\<close> (a value, an
  error, or a panic), mutable objects are records passed along or addresses into a store, and concurrency is
  a step relation over which invariants are proved by rule induction.  Code outside src/ (token library, TLS
  primitives, file system, viper, prometheus, temporal, gRPC) is an argument of the definitions that call it;
  what a theorem relies on of it is a named hypothesis.

  \<^bold>\<open>Theories, from the bottom up.\<close>

  \<^item> GoPrelude, GoJson, GoHttp: results, strings, durations, JSON encoding, header maps, response writers and
    request contexts, with the lemma collections the other theories use.
  \<^item> Authexpr (authexpr/): authorization expressions, their validation, evaluation and printing; a compiled
    expression is equivalent to the truth value of its formula.
  \<^item> JwtAuth (jwtauth/): authenticators, remote issuers and their key cache under concurrent refreshes.
    JwtHttp (jwtauth/jwthttp, jwtauth/jwtgrpc): the middlewares.  JwtIssuer (jwtauth/jwttest): the test issuer,
    whose tokens the authenticators accept.  AuthRules (core/authrules, core/callback.go): rules and their
    resolution from configuration and hooks.
  \<^item> CommonErrors (common/errors.go, error_handler.go and neighbours): error kinds, wrapping and responses.
  \<^item> SecretConfig, TlsConfig, ConfigReader, ServiceConfig (config/, validator/): secrets, TLS settings, strict
    reading of configurations, the validator, and the clients and options built from a configuration.
  \<^item> ConfigBuilder, ConfigDecoding (config/configreaderbuilder.go, configreaderimpl.go, core/serve.go): the builder over the
    viper library, shown to refine the strict reader, the decode hooks and the configuration type of a service.
  \<^item> RequestContext, CoreMiddleware (common/corerequestcontext.go, traceability.go, internal/): headers and trace ids
    carried by contexts, shared response objects, the monitor of unclosed bodies, the request-context middleware with the
    payload logger, and the logging round tripper.
    RequestPipeline (core/middleware.go): a request through all middlewares of a listener, from the actions of its handler to
    the response, the metrics and the log lines.  AdminRequests (core/http.go, status/, health/, core/build\_metadata.go):
    the meta-service endpoints behind them.
  \<^item> TimeoutHandler, AsyncChannels (common/timeout.go, async.go): the timeout middleware, futures and their channels, in
    every interleaving, and the log line about a second status.
  \<^item> StoppableServers, ServerSetup, Bootstrap (core/serve.go, http.go, grpc.go, middleware.go): servers that start
    and stop together, the servers of a service, and the way from the command line to a started service.
    ServerLifecycle (core/serve.go, metrics/prometheus.go): starts and stops of one service by several goroutines.
    GrpcServing (core/grpc.go): interceptors and the loggers of gRPC.  ServiceHooks (core/callback.go):
    the hooks of a service and what is resolved from them.  RuntimeGlue (core/http\_shim.go, jwtauth/logger.go and
    others): the parts that connect these.
    ConfigHelp: the schema printed for \<^verbatim>\<open>--help\<close>.  Downstreams (core/downstreambuilder.go, temporal.go): clients and
    temporal workers.  WorkerLife (core/temporal\_serve.go): starts and stops of a worker, and the client it opens.
  \<^item> Convert, UrlQuery, Restlib (convert/, jsontime/, restlib/): parameters and times as text, query strings and form
    bodies, and REST requests.
  \<^item> Logging (log/): loggers and the logger of a context.  Observability (metrics/, status/, core/recoverer.go,
    common/internal/timelogger.go): metrics, recovery, the status endpoint and request log lines.
  \<^item> E2eTests, E2eTester, E2eCalls (testutil/e2e), TemporalDoubles (testutil/temporal_tester, core/temporal.go),
    SmallParts (common/files.go, common/regex.go, restlib/mock.go), TestGlue (database/, restlib/mock.go): the test
    harness, the test doubles and smaller helpers.
  \<^item> This theory: properties of several components together.

  \<^bold>\<open>Interfaces.\<close>  The interfaces between components are locales, each interpreted on the definitions of the
  model: scope tests of expressions, header maps, token verifiers (the remote issuer and the test issuer),
  certificate loaders, shared response objects, authorization of a rule, stoppable servers (hard and graceful),
  writers that simulate the writer they wrap, writers that accept what a handler sends, and loggers that persist their
  fields.

  \<^bold>\<open>What is shown.\<close>  Access control: who is authenticated, with which keys, and that a handler behind the
  middleware or a rule runs only for admitted requests.  Configuration: what validation accepts, that a
  validated TLS configuration is built without panic, that secrets are not printed, that unknown keys are
  refused.  Requests: one response for every request in every interleaving, its status by error kind, and the
  headers and results carried by contexts; what the client, the metrics and the log see of a request through the whole
  middleware; and that query parameters and form bodies are read back as they were sent.  Servers: start and stop of any tree of servers with every error
  reported, the listeners a configuration gives, and what a stop reaches when it races with a start.  Observation: transparency of the metrics writer, fields of
  log lines.  Testing: calls are answered in the expected order and nothing reaches the network.  Several theorems
  show where the code departs from its documentation; they are listed as findings in the manifest.

  \<^bold>\<open>Bounds and fuel.\<close>  Only the description of configuration types recurses by fuel; \<open>help_terminates\<close> shows
  from which depth on the result is complete.  (The reads of a reader that never ends are counted by fuel too, to show
  that no number of them suffices.)  Every other function is total by structure or measure, and loops
  that wait are step relations.

  \<^bold>\<open>Not modelled.\<close>  The text of most log lines beyond their fields, which the theorems do not depend on; generated
  code and the code generator (arr.ai templates), which is another language; and the declarations of interfaces, keys
  of contexts and types that the model replaces by its own records, which have no behaviour.
\<close>

section \<open>Properties that span components\<close>

text \<open>
  What a client of a service sees when the time of a request is up (TimeoutHandler with the handler of
  ServerSetup, on the error responses of CommonErrors).
\<close>

text \<open>
  In every interleaving, the status a client sees from a request served behind the timeout middleware is
  the one of the handler run to its end, or 500 with the timeout message once the deadline has passed;
  nothing is sent before the decision, and nothing when the handler panics.
\<close>

theorem client_sees_one_status:
  assumes "treach (\<lambda>w. timeoutHandler kinder writer ctx_error w cx) as w s" and "rw_code w = None"
    and "\<And>e. writer (ctx_error e) = None"
  shows "case ts_out s of
      Waiting \<Rightarrow> rw_code (ts_w s) = None
    | Delivered \<Rightarrow> (\<exists>tw. run as new_tw = Ok tw \<and> deliver w tw = Ok (ts_w s))
    | TimedOut \<Rightarrow> ts_deadline s \<and> rw_code (ts_w s) = Some 500 \<and> rw_body (ts_w s) = rw_body w @
        error_body \<lparr>HTTPCode = 500, Code = [], Description = timeout_text, extraFields = None\<rparr>
    | Repanicked p \<Rightarrow> rw_code (ts_w s) = None \<and> run as new_tw = Panic p"
proof (cases "ts_out s")
  case TimedOut
  then have "timeoutHandler kinder writer ctx_error w cx = Ok (ts_w s)" "ts_deadline s"
    using treach_inv[OF assms(1)] by (simp_all add: tinv_def)
  with timed_out_response[of kinder writer ctx_error w cx "ts_w s"] TimedOut assms(2,3) show ?thesis by simp
qed (use treach_inv[OF assms(1)] assms(2) in \<open>auto simp: tinv_def\<close>)

definition late_state :: tsys where
  "late_state = (tstart [] new_writer)\<lparr>ts_deadline := True\<rparr>"

theorem client_sees_one_status_witness:
  "\<exists>s. treach (\<lambda>w. timeoutHandler (\<lambda>_ :: unit. None) (\<lambda>_. None) (\<lambda>_. ()) w late_ctx) [] new_writer s \<and>
     rw_code (ts_w s) = Some 500"
proof -
  let ?h = "\<lambda>w. timeoutHandler (\<lambda>_ :: unit. None) (\<lambda>_. None) (\<lambda>_. ()) w late_ctx"
  have fresh: "rw_code new_writer = None" by (simp add: new_writer_def)
  obtain w' where "?h new_writer = Ok w'" using timeoutHandler_fresh[OF fresh, of "\<lambda>_ :: unit. None" "\<lambda>_. ()" "\<lambda>_. None" late_ctx] by simp
  then have "tstep ?h late_state (late_state\<lparr>ts_out := TimedOut, ts_w := w',
      ts_tw := (ts_tw late_state)\<lparr>tw_timedOut := True\<rparr>\<rparr>)"
    by (intro tstep.select_timeout) (simp_all add: late_state_def tstart_def)
  moreover have "treach ?h [] new_writer late_state"
    unfolding late_state_def by (rule treach.step[OF treach.start tstep.deadline])
  ultimately have r: "treach ?h [] new_writer (late_state\<lparr>ts_out := TimedOut, ts_w := w',
      ts_tw := (ts_tw late_state)\<lparr>tw_timedOut := True\<rparr>\<rparr>)" by (rule treach.step[rotated])
  from client_sees_one_status[OF r fresh] r show ?thesis by (intro exI) auto
qed


section \<open>Every decided request is answered\<close>

text \<open>
  Behind the recovering and the timeout middleware, as \<^verbatim>\<open>prepareMiddleware\<close> nests them, every request whose
  outcome is decided is answered with a status and no panic leaves the server: the handler's response, the
  timeout response, or 500 for a handler that panicked.
\<close>

theorem recovered_requests_are_answered:
  assumes "treach (\<lambda>w. timeoutHandler kinder writer ctx_error w cx) as w s" and "rw_code w = None"
    and "\<And>e. writer (ctx_error e) = None" and "ts_out s \<noteq> Waiting"
  shows "\<exists>w'. Recoverer (\<lambda>_. timeout_result s) w = (w', None) \<and> rw_code w' \<noteq> None \<and>
    (\<forall>p. ts_out s = Repanicked p \<longrightarrow> rw_code w' = Some 500)"
proof (cases "ts_out s")
  case Delivered
  then obtain tw where "deliver w tw = Ok (ts_w s)"
    using treach_inv[OF assms(1)] by (auto simp: tinv_def)
  then show ?thesis using Delivered deliver_sends by (simp add: Recoverer_def timeout_result_def)
next
  case TimedOut
  then have "timeoutHandler kinder writer ctx_error w cx = Ok (ts_w s)"
    using treach_inv[OF assms(1)] by (simp add: tinv_def)
  then have "rw_code (ts_w s) = Some 500"
    using timed_out_response assms(2,3) by blast
  with TimedOut show ?thesis by (simp add: Recoverer_def timeout_result_def)
next
  case (Repanicked p)
  then have "rw_code (ts_w s) = None" using treach_inv[OF assms(1)] assms(2) by (auto simp: tinv_def)
  with Repanicked http_Error_500[of "ts_w s" internal_error_text] show ?thesis
    by (auto simp: Recoverer_def timeout_result_def)
qed (use assms(4) in simp)

text \<open>A handler that panics at once.\<close>

theorem recovered_requests_are_answered_witness:
  "\<exists>s w'. treach (\<lambda>w. timeoutHandler (\<lambda>_ :: unit. None) (\<lambda>_. None) (\<lambda>_. ()) w late_ctx) [DoPanic ''x''] new_writer s \<and>
     Recoverer (\<lambda>_. timeout_result s) new_writer = (w', None) \<and> rw_code w' = Some 500"
proof -
  let ?h = "\<lambda>w. timeoutHandler (\<lambda>_ :: unit. None) (\<lambda>_. None) (\<lambda>_. ()) w late_ctx"
  let ?s0 = "tstart [DoPanic ''x''] new_writer"
  let ?s1 = "?s0\<lparr>ts_g := Panicked ''x''\<rparr>"
  let ?s2 = "?s1\<lparr>ts_out := Repanicked ''x''\<rparr>"
  have "tstep ?h ?s0 ?s1" by (rule tstep.act_panic[where a = "DoPanic ''x''"]) (simp_all add: tstart_def)
  moreover have "tstep ?h ?s1 ?s2" by (rule tstep.select_panic) (simp_all add: tstart_def)
  ultimately have r: "treach ?h [DoPanic ''x''] new_writer ?s2"
    by (blast intro: treach.start treach.step)
  have fresh: "rw_code new_writer = None" by (simp add: new_writer_def)
  from recovered_requests_are_answered[OF r fresh] obtain w' where
    "Recoverer (\<lambda>_. timeout_result ?s2) new_writer = (w', None)" "rw_code w' = Some 500" by auto
  with r show ?thesis by blast
qed

section \<open>The life of a constructed service\<close>

lemma only_first:
  assumes "distinct (map fst xs)" and "\<And>i. i \<in> fst ` set xs \<Longrightarrow> i = 0"
  shows "xs = [] \<or> (\<exists>v. xs = [(0 :: nat, v)])"
proof (cases xs)
  case (Cons x ys)
  have "ys = []"
  proof (rule ccontr)
    assume "ys \<noteq> []"
    then obtain y zs where "ys = y # zs" by (cases ys) auto
    then have "fst x = 0" "fst y = 0" using assms(2) Cons by auto
    then show False using assms(1) Cons \<open>ys = y # zs\<close> by simp
  qed
  then show ?thesis using assms(2)[of "fst x"] Cons by (cases x) auto
qed simp

text \<open>
  C13.  A service constructed from a configuration with an admin section has one life, whatever goroutines start and stop
  it: every \<^verbatim>\<open>Start\<close> after the first panics, also when the first returned an error; the servers of the first are
  the only ones ever published; and a stop that returned either came before their publication, reached nothing and
  returned nil, or reached exactly them and returned exactly their errors.
\<close>

theorem constructed_service_life:
  fixes B :: "('d, 'app, 'svc, 'key, 'c, 'x) boot_env"
  assumes "NewServer B cx d = Ok (srv, cx')"
    and "LoadCustomConfig (ToStringE B) (open_config B) (os_Args B) (b_yaml cx) = Ok cc" and "cc_Admin cc \<noteq> None"
    and "registers_once has M" and "lreach M V (new_life srv reg) l"
  shows "(\<forall>i. 0 < i \<and> i < length (lf_calls l) \<longrightarrow> (\<exists>p. lf_calls l ! i = Refused (Inr p))) \<and>
    (lf_published l = [] \<or> (\<exists>servers. lf_published l = [(0, servers)])) \<and>
    (\<forall>servers. lf_calls l \<noteq> [] \<and> lf_calls l ! 0 = InService servers \<longrightarrow> lf_published l = [(0, servers)]) \<and>
    (\<forall>(k, graceful, r) \<in> set (lf_stops l).
       (k = None \<and> r = None) \<or>
       (\<exists>servers. k = Some 0 \<and> lf_published l = [(0, servers)] \<and> reports (owed graceful (MultiServer servers)) r))"
proof -
  obtain cc' where "LoadCustomConfig (ToStringE B) (open_config B) (os_Args B) (b_yaml cx) = Ok cc'"
    and p: "prometheusRegistry srv \<longleftrightarrow> cc_Admin cc' \<noteq> None" and m: "multiServer srv = None"
    using NewServer_Ok[OF assms(1)] by metis
  then have prom: "prometheusRegistry srv" using assms(2,3) by simp
  have calls: "\<exists>p. lf_calls l ! i = Refused (Inr p)" if "0 < i" "i < length (lf_calls l)" for i
    using started_once_reach[OF assms(4) prom assms(5)] that by (simp add: started_once_def)
  have inv: "linv l" by (rule linv_reach[OF assms(5) linv_new[OF m]])
  have zero: "i = 0" if "i \<in> fst ` set (lf_published l)" for i
    using published_live[OF inv that] calls[of i] by (cases i) auto
  have pub: "lf_published l = [] \<or> (\<exists>servers. lf_published l = [(0, servers)])"
    using inv zero by (intro only_first) (auto simp: linv_def)
  have served: "lf_published l = [(0, servers)]" if "lf_calls l \<noteq> []" "lf_calls l ! 0 = InService servers" for servers
    using inv that pub by (auto simp: linv_def)
  have "(k = None \<and> r = None) \<or>
      (\<exists>servers. k = Some 0 \<and> lf_published l = [(0, servers)] \<and> reports (owed g (MultiServer servers)) r)"
    if "(k, g, r) \<in> set (lf_stops l)" for k g r
  proof -
    have "stop_ok (lf_published l) (k, g, r)" using inv that by (simp add: linv_def)
    then show ?thesis using pub by (cases k) (auto simp: stop_ok_def)
  qed
  with calls pub served show ?thesis by fastforce
qed

definition admin_section :: AdminConfig where
  "admin_section = \<lparr>admin_ContextTimeout = 0, admin_HTTP = plain_http\<rparr>"

definition admin_boot :: "(unit, unit, unit, unit, string, string) boot_env" where
  "admin_boot = sample_boot\<lparr>open_config := (\<lambda>_ _. \<lparr>envVars = \<lparr>vp_Get = (\<lambda>_. None),
     vp_Unmarshal = Inr (sample_custom\<lparr>cc_Admin := Some admin_section\<rparr>, [''envprefix''])\<rparr>,
     strictMode = False, strictModeIgnoredKeys = []\<rparr>)\<rparr>"

lemma admin_load: "LoadCustomConfig (ToStringE admin_boot) (open_config admin_boot) (os_Args admin_boot) None =
  Ok (sample_custom\<lparr>cc_Admin := Some admin_section\<rparr>)"
proof -
  have "ToLower envPrefixConfigKey = ''envprefix''" by code_simp
  then show ?thesis
    by (simp add: LoadCustomConfig_def config_source_def admin_boot_def sample_boot_def configReader_Unmarshal_def
        strict_reader_def validateNoUnusedKeys_def)
qed

lemma admin_boots: "\<exists>r. NewServer admin_boot sample_bctx () = Ok r"
  using admin_load
  by (simp add: NewServer_def getExternalLogger_def sample_bctx_def MustTypeCheckCreateService_def
      validateConfig_def withLogLevel_def WithLevel_def PutLogger_def with_config_def deref_def choose_logger_def Let_def)
    (simp add: admin_boot_def sample_boot_def)

theorem constructed_service_life_witness:
  "\<exists>srv cx' l p. NewServer admin_boot sample_bctx () = Ok (srv, cx') \<and>
     lreach list_registry sample_server_env (new_life srv []) l \<and> length (lf_calls l) = 2 \<and> lf_calls l ! 1 = Refused (Inr p)"
proof -
  obtain srv cx' where n: "NewServer admin_boot sample_bctx () = Ok (srv, cx')" using admin_boots by auto
  obtain l1 where l1: "lstep list_registry sample_server_env (new_life srv []) l1" "length (lf_calls l1) = 1"
    using start_steps[of list_registry sample_server_env "new_life srv []"] by (auto simp: new_life_def)
  obtain l where l: "lstep list_registry sample_server_env l1 l" "length (lf_calls l) = 2"
    using start_steps[of list_registry sample_server_env l1] l1(2) by auto
  have r: "lreach list_registry sample_server_env (new_life srv []) l"
    by (rule lreach.step[OF lreach.step[OF lreach.refl l1(1)] l(1)])
  have load: "LoadCustomConfig (ToStringE admin_boot) (open_config admin_boot) (os_Args admin_boot) (b_yaml sample_bctx) =
    Ok (sample_custom\<lparr>cc_Admin := Some admin_section\<rparr>)" using admin_load by (simp add: sample_bctx_def)
  have "\<exists>p. lf_calls l ! 1 = Refused (Inr p)"
    using constructed_service_life[OF n load _ list_registry_once r] l(2) by simp
  with n r l(2) show ?thesis by blast
qed

end
